(* ===== verification/Cashbox_Prelude.thy ===== *)
theory Cashbox_Prelude
  imports Complex_Main "HOL-Library.Word"
begin

text \<open>
  The vocabulary the components share: JavaScript strings as lists of UTF-16 code units with
  the string operations the code calls, the effects a page can have (a toast, a route change,
  a timer), and the collections of facts the component proofs use.

  A string of the program is a list of 16-bit words, as in ECMAScript: \<open>length\<close> counts code
  units and \<open>charCodeAt\<close> reads one. \<open>lit\<close> turns an ASCII literal of the source into such a
  list. A value that may be \<open>null\<close> or \<open>undefined\<close> is an option.
\<close>

named_theorems js_defs "definitions of the string operations"
named_theorems page_defs "definitions of page handlers and their effects"

type_synonym jschar = "16 word"
type_synonym jsstr = "jschar list"

definition lit :: "string \<Rightarrow> jsstr" where
  "lit s = map of_char s"

lemma of_char_jschar: "(of_char c :: jschar) = word_of_nat (of_char c)"
  by (metis of_nat_of_char)

lemma unat_of_char_jschar [simp]: "unat (of_char c :: jschar) = of_char c"
proof -
  have "(of_char c :: nat) mod 256 < 256" by simp
  then have "(of_char c :: nat) < 256" by simp
  then have "(of_char c :: nat) < 65536" by linarith
  then show ?thesis
    by (simp add: of_char_jschar unat_of_nat)
qed

lemma inj_of_char_jschar: "inj (of_char :: char \<Rightarrow> jschar)"
proof (rule injI)
  fix c d :: char
  assume "(of_char c :: jschar) = of_char d"
  then have "unat (of_char c :: jschar) = unat (of_char d :: jschar)" by simp
  then show "c = d" by simp
qed

text \<open>Two literals are the same string exactly when they are the same text.\<close>

lemma lit_eq_iff [simp]: "lit s = lit t \<longleftrightarrow> s = t"
  by (simp add: lit_def inj_map_eq_map [OF inj_of_char_jschar])

lemma lit_Nil [simp]: "lit [] = []"
  by (simp add: lit_def)

lemma lit_eq_Nil_iff [simp]: "lit s = [] \<longleftrightarrow> s = []"
  by (simp add: lit_def)

lemma length_lit [simp]: "length (lit s) = length s"
  by (simp add: lit_def)

lemma lit_append: "lit (s @ t) = lit s @ lit t"
  by (simp add: lit_def)

section \<open>String operations of the language\<close>

text \<open>\<open>s.startsWith(p)\<close>\<close>

definition starts_with :: "jsstr \<Rightarrow> jsstr \<Rightarrow> bool" where
  "starts_with s p \<longleftrightarrow> take (length p) s = p"

text \<open>\<open>s.indexOf(p)\<close>: the least index at which \<open>p\<close> occurs, -1 if there is none.\<close>

fun index_from :: "nat \<Rightarrow> jsstr \<Rightarrow> jsstr \<Rightarrow> int" where
  "index_from i [] p = (if p = [] then int i else -1)"
| "index_from i (c # s) p =
     (if starts_with (c # s) p then int i else index_from (Suc i) s p)"

definition index_of :: "jsstr \<Rightarrow> jsstr \<Rightarrow> int" where
  "index_of s p = index_from 0 s p"

text \<open>\<open>s.substring(a, b)\<close>: both bounds are clamped to the string and swapped if needed.\<close>

definition substring :: "jsstr \<Rightarrow> int \<Rightarrow> int \<Rightarrow> jsstr" where
  "substring s a b =
     (let n = int (length s);
          a' = min (max a 0) n;
          b' = min (max b 0) n;
          lo = min a' b'; hi = max a' b'
      in take (nat (hi - lo)) (drop (nat lo) s))"

text \<open>\<open>s.substr(a, n)\<close> for a start \<open>a\<close> that is not negative: a negative length gives the
  empty string.\<close>

definition substr :: "jsstr \<Rightarrow> nat \<Rightarrow> int \<Rightarrow> jsstr" where
  "substr s a n = take (nat n) (drop a s)"

text \<open>\<open>s.trim()\<close> removes the white space and line terminators of ECMAScript at both ends.\<close>

definition js_space :: "jschar \<Rightarrow> bool" where
  "js_space c \<longleftrightarrow> c \<in> {9, 10, 11, 12, 13, 32, 160, 0x1680, 0x2028, 0x2029, 0x202F, 0x205F,
      0x3000, 0xFEFF} \<or> (0x2000 \<le> c \<and> c \<le> 0x200A)"

definition js_trim :: "jsstr \<Rightarrow> jsstr" where
  "js_trim s = rev (dropWhile js_space (rev (dropWhile js_space s)))"

text \<open>\<open>n.toString()\<close> for a number that is a natural number.\<close>

fun dec_nat :: "nat \<Rightarrow> jsstr" where
  "dec_nat n = (if n < 10 then [of_nat (48 + n)] else dec_nat (n div 10) @ [of_nat (48 + n mod 10)])"

declare dec_nat.simps [simp del]

lemma substring_prefix: "0 \<le> k \<Longrightarrow> substring s 0 k = take (nat k) s"
  by (auto simp: substring_def Let_def min_def max_def)

lemma substring_suffix:
  "0 \<le> k \<Longrightarrow> substring s k (int (length s)) = drop (nat k) s"
  by (auto simp: substring_def Let_def min_def max_def)

lemma starts_with_single: "starts_with (c # s) [d] \<longleftrightarrow> c = d"
  by (simp add: starts_with_def)

lemma index_from_absent: "d \<notin> set s \<Longrightarrow> index_from i s [d] = -1"
  by (induction s arbitrary: i) (auto simp: starts_with_single)

lemma index_from_present:
  "d \<notin> set s \<Longrightarrow> index_from i (s @ d # t) [d] = int (i + length s)"
  by (induction s arbitrary: i) (auto simp: starts_with_single)

text \<open>Splitting a record \<open>name;address\<close> at its first separator.\<close>

lemma index_of_sep: "d \<notin> set s \<Longrightarrow> index_of (s @ d # t) [d] = int (length s)"
  by (simp add: index_of_def index_from_present)

lemma index_from_char:
  "index_from i s [d] = (if d \<in> set s
     then int (i + length (takeWhile (\<lambda>c. c \<noteq> d) s)) else -1)"
  by (induction s arbitrary: i) (auto simp: starts_with_single)

text \<open>\<open>s.split(d)\<close> and \<open>ps.join(d)\<close> for a separator of one code unit.\<close>

fun split_at :: "jschar \<Rightarrow> jsstr \<Rightarrow> jsstr list" where
  "split_at d [] = [[]]"
| "split_at d (c # s) =
     (if c = d then [] # split_at d s
      else (case split_at d s of [] \<Rightarrow> [[c]] | p # ps \<Rightarrow> (c # p) # ps))"

fun join_with :: "jschar \<Rightarrow> jsstr list \<Rightarrow> jsstr" where
  "join_with d [] = []"
| "join_with d [p] = p"
| "join_with d (p # q # ps) = p @ d # join_with d (q # ps)"

lemma split_at_nonempty [simp]: "split_at d s \<noteq> []"
  by (induction s) (auto split: list.split)

lemma join_split [simp]: "join_with d (split_at d s) = s"
proof (induction s)
  case (Cons c s)
  then show ?case by (cases "split_at d s"; cases "tl (split_at d s)") auto
qed simp

lemma split_at_absent: "d \<notin> set s \<Longrightarrow> split_at d s = [s]"
  by (induction s) auto

lemma split_at_append: "d \<notin> set s \<Longrightarrow> split_at d (s @ d # t) = s # split_at d t"
  by (induction s) auto

lemma split_join:
  "ps \<noteq> [] \<Longrightarrow> \<forall>p \<in> set ps. d \<notin> set p \<Longrightarrow> split_at d (join_with d ps) = ps"
  by (induction d ps rule: join_with.induct) (auto simp: split_at_absent split_at_append)

lemma split_at_parts: "p \<in> set (split_at d s) \<Longrightarrow> d \<notin> set p"
  by (induction s arbitrary: p) (auto split: list.splits if_splits)

section \<open>Effects of a page\<close>

text \<open>
  A message is a key of the language tables (\<open>this.$t(key)\<close>), a literal text, or a key
  followed by a text. The effects are listed in the order the code causes them; \<open>After ms es\<close>
  is \<open>setTimeout\<close>.
\<close>

datatype msg = Tr string | Raw jsstr | TrCat string jsstr

datatype effect =
    ToastShow msg
  | ToastShowFor msg nat
  | ToastFail msg
  | ToastFailFor msg nat
  | Push string
  | ReplaceRoute string
  | RouterBack
  | SetTitle string
  | NativeSignMsg jsstr
  | NativeQrScanToJs
  | NativeSaveDappChainInfo
  | NativeEditOrLoadCA jsstr
  | NativeGoBack
  | After nat "effect list"

text \<open>The effects that reach the user at once or after their timers.\<close>

fun flatten_effects :: "effect list \<Rightarrow> effect list" where
  "flatten_effects [] = []"
| "flatten_effects (After n es # fs) = flatten_effects es @ flatten_effects fs"
| "flatten_effects (e # fs) = e # flatten_effects fs"

end
