(* ===== verification/Js_Utils.thy ===== *)
theory Js_Utils
  imports Cashbox_Prelude
begin

text \<open>
  The helper modules of the entry bundle \<open>app/assets/dist/js/app.c2d43b15.js\<close>: module \<open>ac6d\<close>
  (byte encoding, uuid, address check), module \<open>bb62\<close> (constants and the contract address)
  and module \<open>f9e9\<close> (the account the native side sets).
\<close>

unbundle bit_operations_syntax

section \<open>Module ac6d: the byte encoder\<close>

text \<open>
  The encoder walks over the code units \<open>charCodeAt(r)\<close> of its argument and pushes one to four
  bytes for each, choosing the branch by the size of the unit.
\<close>

definition encode_unit :: "nat \<Rightarrow> nat list" where
  "encode_unit n =
     (if 65536 \<le> n \<and> n \<le> 1114111 then
        [drop_bit 18 n AND 7 OR 240, drop_bit 12 n AND 63 OR 128,
         drop_bit 6 n AND 63 OR 128, 63 AND n OR 128]
      else if 2048 \<le> n \<and> n \<le> 65535 then
        [drop_bit 12 n AND 15 OR 224, drop_bit 6 n AND 63 OR 128, 63 AND n OR 128]
      else if 128 \<le> n \<and> n \<le> 2047 then
        [drop_bit 6 n AND 31 OR 192, 63 AND n OR 128]
      else [255 AND n])"

fun string_to_bytes :: "jsstr \<Rightarrow> nat list" where
  "string_to_bytes [] = []"
| "string_to_bytes (c # s) = encode_unit (unat c) @ string_to_bytes s"

subsection \<open>The bytes in arithmetic form\<close>

lemma and_63 [simp]: "(63 :: nat) AND n = n mod 64"
  using take_bit_eq_mask [of 6 n] by (simp add: take_bit_eq_mod mask_eq_exp_minus_1 and.commute)

lemma and_63' [simp]: "n AND (63 :: nat) = n mod 64"
  by (subst and.commute) simp

lemma and_31 [simp]: "n AND (31 :: nat) = n mod 32"
  using take_bit_eq_mask [of 5 n] by (simp add: take_bit_eq_mod mask_eq_exp_minus_1)

lemma and_15 [simp]: "n AND (15 :: nat) = n mod 16"
  using take_bit_eq_mask [of 4 n] by (simp add: take_bit_eq_mod mask_eq_exp_minus_1)

lemma and_255 [simp]: "(255 :: nat) AND n = n mod 256"
  using take_bit_eq_mask [of 8 n] by (simp add: take_bit_eq_mod mask_eq_exp_minus_1 and.commute)

lemma or_tag:
  fixes x :: nat
  assumes "x < 2 ^ k" and "take_bit k t = 0"
  shows "x OR t = x + t"
proof -
  have "x AND t = take_bit k x AND t"
    using assms(1) by (simp add: take_bit_nat_eq_self)
  also have "\<dots> = take_bit k (x AND t)"
    by (simp add: take_bit_eq_mask ac_simps)
  also have "\<dots> = x AND take_bit k t"
    by (simp add: take_bit_eq_mask ac_simps)
  finally have "x AND t = 0" using assms(2) by simp
  then show ?thesis by (simp add: disjunctive_add_eq_or)
qed

lemma or_128 [simp]: "x < 64 \<Longrightarrow> x OR (128 :: nat) = x + 128"
  by (rule or_tag [of _ 6]) (simp_all add: take_bit_eq_mod)

lemma or_192 [simp]: "x < 32 \<Longrightarrow> x OR (192 :: nat) = x + 192"
  by (rule or_tag [of _ 5]) (simp_all add: take_bit_eq_mod)

lemma or_224 [simp]: "x < 16 \<Longrightarrow> x OR (224 :: nat) = x + 224"
  by (rule or_tag [of _ 4]) (simp_all add: take_bit_eq_mod)

lemma encode_unit_arith:
  assumes "n < 65536"
  shows "encode_unit n =
     (if 2048 \<le> n then [n div 4096 + 224, n div 64 mod 64 + 128, n mod 64 + 128]
      else if 128 \<le> n then [n div 64 + 192, n mod 64 + 128] else [n])"
  using assms by (auto simp: encode_unit_def drop_bit_eq_div less_mult_imp_div_less)

lemma unat_jschar_less [simp]: "unat (c :: jschar) < 65536"
  using unsigned_less [of c] by simp

lemmas encode_char = encode_unit_arith [OF unat_jschar_less]

text \<open>A reader of such bytes: the leading byte tells how many follow.\<close>

fun decode_bytes :: "nat list \<Rightarrow> nat list" where
  "decode_bytes [] = []"
| "decode_bytes (b # bs) =
     (if b < 128 then b # decode_bytes bs
      else if b < 224 then
        (case bs of b1 # bs' \<Rightarrow> ((b - 192) * 64 + (b1 - 128)) # decode_bytes bs' | [] \<Rightarrow> [])
      else
        (case bs of b1 # b2 # bs' \<Rightarrow>
           ((b - 224) * 4096 + (b1 - 128) * 64 + (b2 - 128)) # decode_bytes bs'
         | _ \<Rightarrow> []))"

lemma decode_encode_unit:
  assumes "n < 65536"
  shows "decode_bytes (encode_unit n @ bs) = n # decode_bytes bs"
proof (cases "2048 \<le> n")
  case True
  have "n div 4096 = n div 64 div 64" by (simp add: div_mult2_eq)
  then have "n div 4096 * 4096 + n div 64 mod 64 * 64 + n mod 64 = n"
    using div_mult_mod_eq [of "n div 64" 64] div_mult_mod_eq [of n 64] by linarith
  then show ?thesis using True by (simp add: encode_unit_arith [OF assms])
next
  case False
  then have "n div 64 < 32" by (simp add: less_mult_imp_div_less)
  moreover have "n div 64 * 64 + n mod 64 = n" by (rule div_mult_mod_eq)
  ultimately show ?thesis using False by (auto simp: encode_unit_arith [OF assms] not_le)
qed

lemma decode_string_to_bytes: "decode_bytes (string_to_bytes s) = map unat s"
  by (induction s) (simp_all add: decode_encode_unit del: decode_bytes.simps(2))

lemma string_to_bytes_inj: "string_to_bytes s = string_to_bytes t \<Longrightarrow> s = t"
proof -
  assume "string_to_bytes s = string_to_bytes t"
  then have "map unat s = map unat t" by (metis decode_string_to_bytes)
  then show "s = t" by (metis inj_map_eq_map inj_on_def unsigned_word_eqI)
qed

lemma encode_char_bytes: "b \<in> set (encode_unit (unat (c :: jschar))) \<Longrightarrow> b < 256"
proof -
  have "unat c div 4096 < 16" and "unat c < 2048 \<Longrightarrow> unat c div 64 < 32"
    by (simp_all add: less_mult_imp_div_less)
  moreover have "unat c div 64 mod 64 < 64" and "unat c mod 64 < 64" by simp_all
  moreover assume "b \<in> set (encode_unit (unat c))"
  ultimately show "b < 256"
    by (simp add: encode_char split: if_splits) linarith+
qed

lemma length_encode_char:
  "1 \<le> length (encode_unit (unat (c :: jschar))) \<and> length (encode_unit (unat c)) \<le> 3"
  by (simp add: encode_char)

lemma length_string_to_bytes:
  "length s \<le> length (string_to_bytes s) \<and> length (string_to_bytes s) \<le> 3 * length s"
proof (induction s)
  case (Cons c s)
  then show ?case using length_encode_char [of c] by simp
qed simp

lemma string_to_bytes_append: "string_to_bytes (s @ t) = string_to_bytes s @ string_to_bytes t"
  by (induction s) simp_all

lemma string_to_bytes_ascii:
  "\<forall>c \<in> set s. unat c < 128 \<Longrightarrow> string_to_bytes s = map unat s"
  by (induction s) (simp_all add: encode_char)

section \<open>Module ac6d: the uuid generator\<close>

text \<open>
  \<open>e\<close> is the clock reading and \<open>r\<close> the draws of \<open>Math.random()\<close>, one for each letter of the
  template that is replaced. The numbers are exact here where the code has doubles.
  \<open>%\<close> keeps the sign of its left operand and \<open>|0\<close> cuts the fraction off.
\<close>

definition js_trunc :: "rat \<Rightarrow> int" where
  "js_trunc x = (if x < 0 then - \<lfloor>- x\<rfloor> else \<lfloor>x\<rfloor>)"

definition js_rem :: "rat \<Rightarrow> rat \<Rightarrow> rat" where
  "js_rem x m = x - m * of_int (js_trunc (x / m))"

definition hex_char :: "nat \<Rightarrow> jschar" where
  "hex_char d = (if d < 10 then of_nat (48 + d) else of_nat (87 + d))"

fun hex_nat :: "nat \<Rightarrow> jsstr" where
  "hex_nat n = (if n < 16 then [hex_char n] else hex_nat (n div 16) @ [hex_char (n mod 16)])"

declare hex_nat.simps [simp del]

text \<open>\<open>n.toString(16)\<close>\<close>

definition hex_int :: "int \<Rightarrow> jsstr" where
  "hex_int n = (if n < 0 then lit ''-'' @ hex_nat (nat (- n)) else hex_nat (nat n))"

definition uuid_template :: string where
  "uuid_template = ''xxxxxxxx-xxxx-4xxx-yxxx-xxxxxxxxxxxx''"

fun uuid_fill :: "string \<Rightarrow> rat \<Rightarrow> (nat \<Rightarrow> rat) \<Rightarrow> nat \<Rightarrow> jsstr" where
  "uuid_fill [] e r i = []"
| "uuid_fill (t # ts) e r i =
     (if t = CHR ''x'' \<or> t = CHR ''y'' then
        (let n = js_trunc (js_rem (e + 16 * r i) 16);
             e' = of_int \<lfloor>e / 16\<rfloor>
         in hex_int (if t = CHR ''x'' then n else 3 AND n OR 8) @ uuid_fill ts e' r (Suc i))
      else of_char t # uuid_fill ts e r i)"

definition uuid :: "rat \<Rightarrow> (nat \<Rightarrow> rat) \<Rightarrow> jsstr" where
  "uuid e r = uuid_fill uuid_template e r 0"

definition hex_chars :: "jschar set" where
  "hex_chars = hex_char ` {..<16}"

definition variant_chars :: "jschar set" where
  "variant_chars = hex_char ` {8..<12}"

definition fits_template :: "char \<Rightarrow> jschar \<Rightarrow> bool" where
  "fits_template t c =
     (if t = CHR ''x'' then c \<in> hex_chars
      else if t = CHR ''y'' then c \<in> variant_chars
      else c = of_char t)"

lemma js_rem_16_range:
  assumes "0 \<le> x"
  shows "0 \<le> js_trunc (js_rem x 16) \<and> js_trunc (js_rem x 16) < 16"
proof -
  have q: "js_rem x 16 = x - 16 * of_int \<lfloor>x / 16\<rfloor>"
    using assms by (simp add: js_rem_def js_trunc_def)
  have "of_int \<lfloor>x / 16\<rfloor> \<le> x / 16" and "x / 16 < of_int \<lfloor>x / 16\<rfloor> + 1"
    using floor_correct [of "x / 16"] by simp_all
  then have "0 \<le> js_rem x 16" and "js_rem x 16 < 16"
    unfolding q by linarith+
  then show ?thesis
    by (simp add: js_trunc_def floor_less_iff)
qed

lemma hex_int_digit: "0 \<le> n \<Longrightarrow> n < 16 \<Longrightarrow> hex_int n = [hex_char (nat n)]"
  by (simp add: hex_int_def hex_nat.simps nat_less_iff)

lemma variant_digit:
  fixes n :: int
  assumes "0 \<le> n" and "n < 16"
  shows "8 \<le> 3 AND n OR 8 \<and> 3 AND n OR 8 < 12"
proof -
  have "n \<in> {0, 1, 2, 3, 4, 5, 6, 7, 8, 9, 10, 11, 12, 13, 14, 15}"
    using assms by simp presburger
  then show ?thesis by auto
qed

lemma fits_hex: "0 \<le> n \<Longrightarrow> n < 16 \<Longrightarrow> fits_template (CHR ''x'') (hex_char (nat n))"
  by (simp add: fits_template_def hex_chars_def nat_less_iff)

lemma fits_variant: "8 \<le> n \<Longrightarrow> n < 12 \<Longrightarrow> fits_template (CHR ''y'') (hex_char (nat n))"
  by (simp add: fits_template_def variant_chars_def nat_less_iff)

lemma fits_other: "t \<noteq> CHR ''x'' \<Longrightarrow> t \<noteq> CHR ''y'' \<Longrightarrow> fits_template t (of_char t)"
  by (simp add: fits_template_def)

lemma uuid_fill_fits:
  assumes "0 \<le> e" and "\<forall>i. 0 \<le> r i"
  shows "list_all2 fits_template ts (uuid_fill ts e r i)"
  using assms(1)
proof (induction ts arbitrary: e i)
  case (Cons t ts)
  define n where "n = js_trunc (js_rem (e + 16 * r i) 16)"
  have "0 \<le> e + 16 * r i" using Cons.prems assms(2) by simp
  then have n: "0 \<le> n" "n < 16" using js_rem_16_range by (auto simp: n_def)
  then have y: "8 \<le> 3 AND n OR 8" "3 AND n OR 8 < 12" using variant_digit by auto
  have tail: "list_all2 fits_template ts (uuid_fill ts (of_int \<lfloor>e / 16\<rfloor>) r (Suc i))"
    using Cons.prems by (intro Cons.IH) simp
  have same: "list_all2 fits_template ts (uuid_fill ts e r i)"
    using Cons.prems by (rule Cons.IH)
  show ?case
    using n y tail same
    by (auto simp: hex_int_digit fits_hex fits_variant fits_other Let_def simp flip: n_def)
qed simp

section \<open>Module ac6d: the address check\<close>

definition is_address :: "jsstr option \<Rightarrow> bool" where
  "is_address e \<longleftrightarrow> (case e of None \<Rightarrow> False | Some s \<Rightarrow> s \<noteq> [] \<and> length s = 48)"

lemma is_address_Some [simp]: "is_address (Some s) \<longleftrightarrow> length s = 48"
  by (auto simp: is_address_def)

lemma is_address_None [simp]: "\<not> is_address None"
  by (simp add: is_address_def)

section \<open>Module bb62: constants and the contract address\<close>

definition MAX_ADMIN_COUNT :: nat where "MAX_ADMIN_COUNT = 3"
definition StandardAddressLength :: nat where "StandardAddressLength = 48"
definition KimId :: jsstr where "KimId = lit ''kimId''"
definition GiaId :: jsstr where "GiaId = lit ''gia''"
definition CertHash :: jsstr where "CertHash = lit ''certHash''"

datatype right_icon = ICON_SCAN | ICON_ARROW_DOWN

text \<open>\<open>QR_USEFUL_TIME\<close>: half an hour after now, in seconds, from a clock in milliseconds.\<close>

definition qr_useful_time :: "nat \<Rightarrow> nat" where
  "qr_useful_time ms = ms div 1000 + 1800"

section \<open>The page environment: contract address and account\<close>

text \<open>
  \<open>ContractAddress\<close> is the static field of module \<open>bb62\<close>, \<open>account\<close> the field \<open>address_\<close> of the
  singleton of module \<open>f9e9\<close>, which the native side fills through \<open>window.__cashbox_eee\<close>.
\<close>

record page_env =
  ContractAddress :: jsstr
  account :: jsstr

definition initial_env :: page_env where
  "initial_env = \<lparr>ContractAddress = [], account = []\<rparr>"

definition setContractAddress :: "jsstr \<Rightarrow> page_env \<Rightarrow> page_env" where
  "setContractAddress a env = env\<lparr>ContractAddress := a\<rparr>"

definition setAddress :: "jsstr \<Rightarrow> page_env \<Rightarrow> page_env" where
  "setAddress a env = env\<lparr>account := a\<rparr>"

end
