(* ===== verification/Json_Text.thy ===== *)
theory Json_Text
  imports Cashbox_Prelude
begin

text \<open>
  \<open>JSON.parse\<close> and \<open>Object.keys\<close> as the certificate list uses them. The parser follows the
  grammar of ECMA-404 on lists of code units and returns the value with the rest of the input;
  \<open>None\<close> is the \<open>SyntaxError\<close> the library throws. Numbers keep their text. The fuel of the
  recursive parsers bounds the nesting and the number of members, and the length of the input is
  always enough: every call consumes a character (\<open>parser_fuel_enough\<close>).
\<close>

datatype json =
    JNull
  | JBool bool
  | JNum jsstr
  | JStr jsstr
  | JArr "json list"
  | JObj "(jsstr \<times> json) list"

definition json_space :: "jschar \<Rightarrow> bool" where
  "json_space c \<longleftrightarrow> c \<in> {9, 10, 13, 32}"

definition skip_ws :: "jsstr \<Rightarrow> jsstr" where
  "skip_ws s = dropWhile json_space s"

section \<open>Strings\<close>

definition hex_val :: "jschar \<Rightarrow> jschar option" where
  "hex_val c =
     (if 48 \<le> c \<and> c \<le> 57 then Some (c - 48)
      else if 65 \<le> c \<and> c \<le> 70 then Some (c - 55)
      else if 97 \<le> c \<and> c \<le> 102 then Some (c - 87)
      else None)"

definition hex4 :: "jschar \<Rightarrow> jschar \<Rightarrow> jschar \<Rightarrow> jschar \<Rightarrow> jschar option" where
  "hex4 a b c d =
     (case (hex_val a, hex_val b, hex_val c, hex_val d) of
        (Some a', Some b', Some c', Some d') \<Rightarrow> Some (4096 * a' + 256 * b' + 16 * c' + d')
      | _ \<Rightarrow> None)"

definition unescape :: "jschar \<Rightarrow> jschar option" where
  "unescape e =
     (if e = 34 \<or> e = 92 \<or> e = 47 then Some e
      else if e = 98 then Some 8
      else if e = 102 then Some 12
      else if e = 110 then Some 10
      else if e = 114 then Some 13
      else if e = 116 then Some 9
      else None)"

definition cons_fst :: "'a \<Rightarrow> ('a list \<times> 'b) option \<Rightarrow> ('a list \<times> 'b) option" where
  "cons_fst x r = map_option (\<lambda>(xs, y). (x # xs, y)) r"

text \<open>The characters after the opening quote.\<close>

fun str_body :: "jsstr \<Rightarrow> (jsstr \<times> jsstr) option" where
  "str_body [] = None"
| "str_body (c # s) =
     (if c = 34 then Some ([], s)
      else if c = 92 then
        (case s of
           [] \<Rightarrow> None
         | e # s' \<Rightarrow>
             (if e = 117 then
                (case s' of
                   h1 # h2 # h3 # h4 # s'' \<Rightarrow>
                     (case hex4 h1 h2 h3 h4 of
                        None \<Rightarrow> None
                      | Some w \<Rightarrow> cons_fst w (str_body s''))
                 | _ \<Rightarrow> None)
              else
                (case unescape e of None \<Rightarrow> None | Some w \<Rightarrow> cons_fst w (str_body s'))))
      else if c < 32 then None
      else cons_fst c (str_body s))"

section \<open>Numbers\<close>

definition is_digit16 :: "jschar \<Rightarrow> bool" where
  "is_digit16 c \<longleftrightarrow> 48 \<le> c \<and> c \<le> 57"

definition num_int :: "jsstr \<Rightarrow> (jsstr \<times> jsstr) option" where
  "num_int s =
     (case s of
        [] \<Rightarrow> None
      | c # r \<Rightarrow>
          (if c = 48 then Some ([c], r)
           else if is_digit16 c then Some (takeWhile is_digit16 s, dropWhile is_digit16 s)
           else None))"

definition num_frac :: "jsstr \<Rightarrow> (jsstr \<times> jsstr) option" where
  "num_frac s =
     (case s of
        [] \<Rightarrow> Some ([], [])
      | c # r \<Rightarrow>
          (if c = 46 then
             (if takeWhile is_digit16 r = [] then None
              else Some (c # takeWhile is_digit16 r, dropWhile is_digit16 r))
           else Some ([], s)))"

definition num_exp :: "jsstr \<Rightarrow> (jsstr \<times> jsstr) option" where
  "num_exp s =
     (case s of
        [] \<Rightarrow> Some ([], [])
      | c # r \<Rightarrow>
          (if c = 69 \<or> c = 101 then
             (let sg = (case r of [] \<Rightarrow> [] | d # _ \<Rightarrow> if d = 43 \<or> d = 45 then [d] else []);
                  r' = drop (length sg) r
              in if takeWhile is_digit16 r' = [] then None
                 else Some (c # sg @ takeWhile is_digit16 r', dropWhile is_digit16 r'))
           else Some ([], s)))"

definition num_text :: "jsstr \<Rightarrow> (jsstr \<times> jsstr) option" where
  "num_text s =
     (let sg = (case s of [] \<Rightarrow> [] | d # _ \<Rightarrow> if d = 45 then [d] else [])
      in case num_int (drop (length sg) s) of
           None \<Rightarrow> None
         | Some (i, s1) \<Rightarrow>
             (case num_frac s1 of
                None \<Rightarrow> None
              | Some (f, s2) \<Rightarrow>
                  (case num_exp s2 of
                     None \<Rightarrow> None
                   | Some (x, s3) \<Rightarrow> Some (sg @ i @ f @ x, s3))))"

section \<open>Values\<close>

definition word_lit :: "string \<Rightarrow> json \<Rightarrow> jsstr \<Rightarrow> (json \<times> jsstr) option" where
  "word_lit w v s = (if starts_with s (lit w) then Some (v, drop (length w) s) else None)"

fun p_val :: "nat \<Rightarrow> jsstr \<Rightarrow> (json \<times> jsstr) option"
and p_elems :: "nat \<Rightarrow> jsstr \<Rightarrow> (json list \<times> jsstr) option"
and p_membs :: "nat \<Rightarrow> jsstr \<Rightarrow> ((jsstr \<times> json) list \<times> jsstr) option"
where
  "p_val 0 s = None"
| "p_val (Suc n) s =
     (case skip_ws s of
        [] \<Rightarrow> None
      | c # r \<Rightarrow>
          (if c = 34 then map_option (\<lambda>(x, y). (JStr x, y)) (str_body r)
           else if c = 123 then
             (case skip_ws r of
                [] \<Rightarrow> None
              | d # r' \<Rightarrow>
                  (if d = 125 then Some (JObj [], r')
                   else map_option (\<lambda>(x, y). (JObj x, y)) (p_membs n (d # r'))))
           else if c = 91 then
             (case skip_ws r of
                [] \<Rightarrow> None
              | d # r' \<Rightarrow>
                  (if d = 93 then Some (JArr [], r')
                   else map_option (\<lambda>(x, y). (JArr x, y)) (p_elems n (d # r'))))
           else if c = 116 then word_lit ''true'' (JBool True) (c # r)
           else if c = 102 then word_lit ''false'' (JBool False) (c # r)
           else if c = 110 then word_lit ''null'' JNull (c # r)
           else map_option (\<lambda>(x, y). (JNum x, y)) (num_text (c # r))))"
| "p_elems 0 s = None"
| "p_elems (Suc n) s =
     (case p_val n s of
        None \<Rightarrow> None
      | Some (v, s1) \<Rightarrow>
          (case skip_ws s1 of
             [] \<Rightarrow> None
           | c # r \<Rightarrow>
               (if c = 93 then Some ([v], r)
                else if c = 44 then cons_fst v (p_elems n r)
                else None)))"
| "p_membs 0 s = None"
| "p_membs (Suc n) s =
     (case skip_ws s of
        [] \<Rightarrow> None
      | q # r0 \<Rightarrow>
          (if q \<noteq> 34 then None
           else
             (case str_body r0 of
                None \<Rightarrow> None
              | Some (k, s1) \<Rightarrow>
                  (case skip_ws s1 of
                     [] \<Rightarrow> None
                   | cl # s2 \<Rightarrow>
                       (if cl \<noteq> 58 then None
                        else
                          (case p_val n s2 of
                             None \<Rightarrow> None
                           | Some (v, s3) \<Rightarrow>
                               (case skip_ws s3 of
                                  [] \<Rightarrow> None
                                | c # r \<Rightarrow>
                                    (if c = 125 then Some ([(k, v)], r)
                                     else if c = 44 then cons_fst (k, v) (p_membs n r)
                                     else None))))))))"

text \<open>\<open>JSON.parse(s)\<close>: one value and nothing but white space after it.\<close>

definition json_parse :: "jsstr \<Rightarrow> json option" where
  "json_parse s =
     (case p_val (3 * Suc (length s)) s of
        None \<Rightarrow> None
      | Some (v, r) \<Rightarrow> (if skip_ws r = [] then Some v else None))"

section \<open>The fuel is enough\<close>

lemma cons_fst_Some [simp]:
  "cons_fst x r = Some (zs, y) \<longleftrightarrow> (\<exists>xs. zs = x # xs \<and> r = Some (xs, y))"
  by (cases r) (auto simp: cons_fst_def)

lemma cons_fst_simps [simp]: "cons_fst x (Some (xs, y)) = Some (x # xs, y)" "cons_fst x None = None"
  by (simp_all add: cons_fst_def)

lemma length_skip_ws: "length (skip_ws s) \<le> length s"
  by (simp add: skip_ws_def length_dropWhile_le)

lemma skip_ws_Cons_less: "skip_ws s = c # r \<Longrightarrow> length r < length s"
  using length_skip_ws [of s] by simp

lemma str_body_length: "str_body s = Some (x, r) \<Longrightarrow> length r < length s"
proof (induction s arbitrary: x rule: str_body.induct)
  case (2 c s)
  then show ?case
    by (fastforce split: if_splits list.splits option.splits simp: less_SucI)
qed simp

lemma word_lit_length:
  "word_lit w v s = Some (u, r) \<Longrightarrow> w \<noteq> [] \<Longrightarrow> length r < length s"
  by (auto simp: word_lit_def starts_with_def lit_def split: if_splits)
     (metis diff_less length_greater_0_conv length_map take_Nil map_is_Nil_conv)

lemma num_int_length: "num_int s = Some (i, r) \<Longrightarrow> length r < length s"
  by (auto simp: num_int_def length_dropWhile_le less_Suc_eq_le split: list.splits if_splits)

lemma num_frac_length: "num_frac s = Some (i, r) \<Longrightarrow> length r \<le> length s"
  by (auto simp: num_frac_def intro: le_SucI length_dropWhile_le split: list.splits if_splits)

lemma num_exp_length: "num_exp s = Some (i, r) \<Longrightarrow> length r \<le> length s"
  by (auto simp: num_exp_def Let_def intro: le_SucI length_dropWhile_le
      order_trans [OF length_dropWhile_le] split: list.splits if_splits)

lemma num_text_length: "num_text s = Some (i, r) \<Longrightarrow> length r < length s"
  by (fastforce simp: num_text_def Let_def dest: num_int_length num_frac_length num_exp_length
      split: list.splits if_splits option.splits)

text \<open>Every parser consumes input, whatever its fuel.\<close>

lemma p_consumes:
  shows "p_val n s = Some (v, r) \<Longrightarrow> length r < length s"
    and "p_elems n s = Some (vs, r) \<Longrightarrow> length r < length s"
    and "p_membs n s = Some (ms, r) \<Longrightarrow> length r < length s"
proof (induction n arbitrary: s v vs ms r)
  case (Suc n)
  {
    case 1
    then show ?case
      by (fastforce split: list.splits if_splits
          dest: skip_ws_Cons_less str_body_length word_lit_length num_text_length
            Suc.IH(2) Suc.IH(3))
  next
    case 2
    then show ?case
      by (fastforce split: list.splits if_splits option.splits
          dest: skip_ws_Cons_less Suc.IH(1) Suc.IH(2))
  next
    case 3
    then show ?case
      by (fastforce split: list.splits if_splits option.splits
          dest: skip_ws_Cons_less str_body_length Suc.IH(1) Suc.IH(3))
  }
qed simp_all

text \<open>Once the fuel exceeds twice the length of the input, more of it changes nothing.\<close>

lemma parser_fuel_enough:
  shows "2 * length s < n \<Longrightarrow> n \<le> m \<Longrightarrow> p_val m s = p_val n s"
    and "2 * length s + 1 < n \<Longrightarrow> n \<le> m \<Longrightarrow> p_elems m s = p_elems n s"
    and "2 * length s < n \<Longrightarrow> n \<le> m \<Longrightarrow> p_membs m s = p_membs n s"
proof (induction n arbitrary: s m)
  case (Suc n)
  {
    case 1
    then obtain m' where m: "m = Suc m'" "n \<le> m'" by (cases m) auto
    have inner: "p_elems m' (d # r') = p_elems n (d # r') \<and>
        p_membs m' (d # r') = p_membs n (d # r')"
      if "skip_ws s = c # r" and "skip_ws r = d # r'" for c r d r'
    proof -
      have "length (d # r') < length s"
        using length_skip_ws [of r] skip_ws_Cons_less [OF that(1)] that(2) by simp
      then have "2 * length (d # r') + 1 < n" using 1 by linarith
      then show ?thesis
        using Suc.IH(2) [of "d # r'" m'] Suc.IH(3) [of "d # r'" m'] m(2) by simp
    qed
    show ?case
    proof (cases "skip_ws s")
      case Nil
      then show ?thesis by (simp add: m(1))
    next
      case c: (Cons c r)
      show ?thesis
      proof (cases "skip_ws r")
        case Nil
        with c show ?thesis by (simp add: m(1))
      next
        case (Cons d r')
        note eqs = inner [OF c Cons]
        show ?thesis by (simp only: m(1) p_val.simps c Cons list.case eqs)
      qed
    qed
  next
    case 2
    then obtain m' where m: "m = Suc m'" "n \<le> m'" by (cases m) auto
    have v: "p_val m' s = p_val n s" using Suc.IH(1) [of s m'] 2 m(2) by simp
    have es: "p_elems m' r = p_elems n r"
      if "p_val n s = Some (v, s1)" and "skip_ws s1 = c # r" for v s1 c r
      using p_consumes(1) [OF that(1)] skip_ws_Cons_less [OF that(2)] Suc.IH(2) [of r m'] 2 m(2) by simp
    show ?case
    proof (cases "p_val n s")
      case (Some p)
      then obtain u s1 where p: "p_val n s = Some (u, s1)" by (cases p) auto
      then show ?thesis using es [OF p] by (cases "skip_ws s1") (simp_all add: m(1) v)
    qed (simp add: m(1) v)
  next
    case 3
    then obtain m' where m: "m = Suc m'" "n \<le> m'" by (cases m) auto
    show ?case
    proof (cases "\<exists>r0 k s1 s2. skip_ws s = 34 # r0 \<and> str_body r0 = Some (k, s1) \<and>
        skip_ws s1 = 58 # s2")
      case True
      then obtain r0 k s1 s2 where eqs: "skip_ws s = 34 # r0" "str_body r0 = Some (k, s1)"
        "skip_ws s1 = 58 # s2" by blast
      then have s2: "length s2 + 2 < length s"
        using skip_ws_Cons_less [OF eqs(1)] str_body_length [OF eqs(2)]
          skip_ws_Cons_less [OF eqs(3)] by simp
      then have v: "p_val m' s2 = p_val n s2" using Suc.IH(1) [of s2 m'] 3 m(2) by simp
      show ?thesis
      proof (cases "p_val n s2")
        case (Some p)
        then obtain u s3 where p: "p_val n s2 = Some (u, s3)" by (cases p) auto
        have "p_membs m' r = p_membs n r" if "skip_ws s3 = c # r" for c r
          using s2 p_consumes(1) [OF p] skip_ws_Cons_less [OF that] Suc.IH(3) [of r m'] 3 m(2) by simp
        then show ?thesis using p by (cases "skip_ws s3") (simp_all add: m(1) v eqs)
      qed (simp add: m(1) v eqs)
    next
      case False
      then show ?thesis by (auto simp: m(1) split: list.splits option.splits)
    qed
  }
qed simp_all

corollary p_val_fuel:
  "2 * length s < n \<Longrightarrow> p_val n s = p_val (3 * Suc (length s)) s"
  using parser_fuel_enough(1) [of s "Suc (2 * length s)" n]
    parser_fuel_enough(1) [of s "Suc (2 * length s)" "3 * Suc (length s)"] by simp

declare p_val.simps [simp del] p_elems.simps [simp del] p_membs.simps [simp del]

section \<open>Objects\<close>

text \<open>
  Members become properties in order. A repeated name overwrites the value and keeps the
  place of its first occurrence.
\<close>

fun set_prop :: "jsstr \<Rightarrow> 'v \<Rightarrow> (jsstr \<times> 'v) list \<Rightarrow> (jsstr \<times> 'v) list" where
  "set_prop k v [] = [(k, v)]"
| "set_prop k v ((k', v') # ps) = (if k = k' then (k, v) # ps else (k', v') # set_prop k v ps)"

definition props_of :: "(jsstr \<times> 'v) list \<Rightarrow> (jsstr \<times> 'v) list" where
  "props_of ms = fold (\<lambda>(k, v) ps. set_prop k v ps) ms []"

text \<open>
  \<open>Object.keys\<close> lists the array indices (canonical decimal numbers below \<open>2 ^ 32 - 1\<close>)
  in ascending order before all other names.
\<close>

definition index_value :: "jsstr \<Rightarrow> nat" where
  "index_value k = foldl (\<lambda>a c. 10 * a + unat (c - 48)) 0 k"

definition is_index :: "jsstr \<Rightarrow> bool" where
  "is_index k \<longleftrightarrow> k \<noteq> [] \<and> (\<forall>c \<in> set k. is_digit16 c) \<and> (hd k = 48 \<longrightarrow> length k = 1) \<and>
     index_value k < 2 ^ 32 - 1"

definition object_keys :: "(jsstr \<times> 'v) list \<Rightarrow> jsstr list" where
  "object_keys ps =
     sort_key index_value (filter is_index (map fst ps)) @
     filter (\<lambda>k. \<not> is_index k) (map fst ps)"

lemma set_prop_fresh: "k \<notin> fst ` set ps \<Longrightarrow> set_prop k v ps = ps @ [(k, v)]"
  by (induction ps) auto

lemma props_of_distinct_aux:
  "distinct (map fst (ps @ ms)) \<Longrightarrow> fold (\<lambda>(k, v) ps. set_prop k v ps) ms ps = ps @ ms"
proof (induction ms arbitrary: ps)
  case (Cons m ms)
  obtain k v where m: "m = (k, v)" by (cases m)
  have "set_prop k v ps = ps @ [(k, v)]"
    using Cons.prems by (intro set_prop_fresh) (auto simp: m)
  then show ?case using Cons.IH [of "ps @ [(k, v)]"] Cons.prems by (simp add: m)
qed simp

lemma props_of_distinct: "distinct (map fst ms) \<Longrightarrow> props_of ms = ms"
  using props_of_distinct_aux [of "[]" ms] by (simp add: props_of_def)

lemma map_of_set_prop: "map_of (set_prop k v ps) = (map_of ps)(k \<mapsto> v)"
  by (induction ps) auto

lemma set_object_keys: "set (object_keys ps) = fst ` set ps"
  by (auto simp: object_keys_def)

lemma object_keys_plain: "\<forall>k \<in> fst ` set ps. \<not> is_index k \<Longrightarrow> object_keys ps = map fst ps"
  by (simp add: object_keys_def filter_empty_conv filter_id_conv)

end
