(* ===== verification/Cert_Model.thy ===== *)
theory Cert_Model
  imports Js_Utils Json_Text
begin

text \<open>
  The data model of the entry bundle \<open>app/assets/dist/js/app.c2d43b15.js\<close>: certificates
  (module \<open>6848\<close>), administrators (\<open>36d1\<close>), salesmen (\<open>ef88\<close>), authorisation records (\<open>2c2f\<close>)
  and the status enumerations of module \<open>5487\<close>. The names \<open>Gia\<close>, \<open>Cert\<close> and \<open>CertOwn\<close> stand for
  the exported classes b, a and c of module \<open>6848\<close>.
\<close>

section \<open>Enumerations\<close>

text \<open>Module 5487, exports c and a: transaction and certificate kinds.\<close>

datatype tx_status = TxNone | Sended | Pendding | Confirm | TxError

definition tx_status_text :: "tx_status \<Rightarrow> string" where
  "tx_status_text s =
     (case s of TxNone \<Rightarrow> ''None'' | Sended \<Rightarrow> ''Sened'' | Pendding \<Rightarrow> ''Pendding''
      | Confirm \<Rightarrow> ''Confirm'' | TxError \<Rightarrow> ''Error'')"

datatype cert_type = CertNone | CertGia | CertOther

text \<open>Module 6848, exports e and d: the up-chain state and the signature state.\<close>

datatype tri_state = StSuccess | StFailure | StNone

text \<open>Module 36d1, export a, and module ef88, export a: what an operation does.\<close>

datatype admin_op = AdminNone | AddAdmin | DeleteAdmin

datatype business_op = BusinessNone | Auth | Delete

datatype auth_state = AuthSUCCESS | AuthFAILURE | AuthERROR

text \<open>Module 2c2f, exports c and b: the state and the kind of an authorisation record.\<close>

datatype record_status = PADDING | Expired | FINALLY

datatype record_op = INIT | ADD | REMOVE | EDIT | NONE

section \<open>Certificates\<close>

type_synonym entry = "jsstr \<times> jsstr"

record tx_base =
  obj_id :: jsstr
  txid :: jsstr
  obj_address :: jsstr
  ts :: int
  status :: tx_status

definition process :: "tx_status \<Rightarrow> 'a tx_base_scheme \<Rightarrow> 'a tx_base_scheme" where
  "process e b = b\<lparr>status := e\<rparr>"

record gia_fields =
  gia :: jsstr
  carat :: jsstr
  color :: jsstr
  clarity :: jsstr
  cut :: jsstr
  hash :: jsstr

text \<open>
  \<open>assigned\<close> holds the six fields that \<open>Object.assign\<close> copies from a \<open>Gia\<close> object onto a
  certificate; a freshly constructed certificate has none.
\<close>

record cert = tx_base +
  objArray :: "entry list"
  i18n :: bool
  certType :: cert_type
  assigned :: "gia_fields option"

record gia_obj = tx_base +
  gia_data :: gia_fields

definition new_cert :: cert where
  "new_cert = \<lparr>obj_id = [], txid = [], obj_address = [], ts = 0, status = TxNone,
     objArray = [], i18n = False, certType = CertNone, assigned = None\<rparr>"

definition new_gia :: gia_obj where
  "new_gia = \<lparr>obj_id = [], txid = [], obj_address = [], ts = 0, status = TxNone,
     gia_data = \<lparr>gia = [], carat = [], color = [], clarity = [], cut = [], hash = []\<rparr>\<rparr>"

text \<open>\<open>objArray.findIndex(e => e.key === k)\<close> followed by the read of the entry's value.\<close>

fun find_entry :: "jsstr \<Rightarrow> entry list \<Rightarrow> jsstr option" where
  "find_entry k [] = None"
| "find_entry k ((k', v) # es) = (if k' = k then Some v else find_entry k es)"

text \<open>\<open>getId\<close> looks the number up once and keeps it in the field \<open>id\<close>.\<close>

definition getId :: "cert \<Rightarrow> jsstr \<times> cert" where
  "getId c =
     (if obj_id c = [] then
        (case (case find_entry KimId (objArray c) of
                 Some v \<Rightarrow> Some v
               | None \<Rightarrow> find_entry GiaId (objArray c)) of
           Some v \<Rightarrow> (v, c\<lparr>obj_id := v\<rparr>)
         | None \<Rightarrow> ([], c))
      else (obj_id c, c))"

definition push_if :: "string \<Rightarrow> jsstr \<Rightarrow> entry list \<Rightarrow> entry list" where
  "push_if k v es = (if v \<noteq> [] then es @ [(lit k, v)] else es)"

definition toCert :: "gia_obj \<Rightarrow> cert" where
  "toCert g =
     (let f = gia_data g;
          es0 = [];
          es1 = push_if ''gia'' (gia f) es0;
          es2 = push_if ''carat'' (carat f) es1;
          es3 = push_if ''color'' (color f) es2;
          es4 = push_if ''clarity'' (clarity f) es3;
          es5 = push_if ''cut'' (cut f) es4;
          es6 = push_if ''hash'' (hash f) es5
      in \<lparr>obj_id = obj_id g, txid = txid g, obj_address = obj_address g, ts = ts g, status = status g,
          objArray = es6, i18n = True, certType = CertGia, assigned = Some f\<rparr>)"

datatype js_error = TypeError

definition value_at :: "entry list \<Rightarrow> nat \<Rightarrow> js_error + jsstr" where
  "value_at es i = (if i < length es then Inr (snd (es ! i)) else Inl TypeError)"

text \<open>
  \<open>toGia\<close> reads the entries by position, the hash from position 4 like the cut. Its result
  is the updated object and the boolean it returns, or the error of reading \<open>value\<close> of an
  entry that is not there.
\<close>

definition toGia :: "gia_obj \<Rightarrow> cert \<Rightarrow> js_error + (gia_obj \<times> bool)" where
  "toGia g c =
     (if certType c \<noteq> CertGia then Inr (g, False)
      else
        (case (value_at (objArray c) 0, value_at (objArray c) 1, value_at (objArray c) 2,
               value_at (objArray c) 3, value_at (objArray c) 4) of
           (Inr v0, Inr v1, Inr v2, Inr v3, Inr v4) \<Rightarrow>
             Inr (\<lparr>obj_id = obj_id c, txid = txid c, obj_address = obj_address c, ts = ts c,
                   status = status c,
                   gia_data = \<lparr>gia = v0, carat = v1, color = v2, clarity = v3, cut = v4,
                             hash = v4\<rparr>\<rparr>, False)
         | _ \<Rightarrow> Inl TypeError))"

record attach_info = tx_base +
  inputData :: jsstr
  businessAddress :: jsstr
  upChainStatus :: tri_state
  certSignStatus :: tri_state
  certSignedInfo :: jsstr

definition new_attach :: attach_info where
  "new_attach = \<lparr>obj_id = [], txid = [], obj_address = [], ts = 0, status = TxNone,
     inputData = [], businessAddress = [], upChainStatus = StNone, certSignStatus = StNone,
     certSignedInfo = []\<rparr>"

record cert_own =
  the_cert :: cert
  attachInfo :: attach_info

definition new_cert_own :: cert_own where
  "new_cert_own = \<lparr>the_cert = new_cert, attachInfo = new_attach\<rparr>"

subsection \<open>The text that goes on the chain\<close>

text \<open>The loop of \<open>assembleJsonInfo\<close> appends one quoted member and a comma for each entry.\<close>

definition entry_text :: "entry \<Rightarrow> jsstr" where
  "entry_text e = [34] @ fst e @ lit [CHR 0x22, CHR 0x3A, CHR 0x22] @ snd e @ lit [CHR 0x22, CHR 0x2C]"

fun append_entries :: "jsstr \<Rightarrow> entry list \<Rightarrow> jsstr" where
  "append_entries t [] = t"
| "append_entries t (e # es) = append_entries (t @ entry_text e) es"

definition assembleJsonInfo :: "cert_own \<Rightarrow> jsstr" where
  "assembleJsonInfo co =
     (let t = append_entries (lit ''{'') (objArray (the_cert co))
      in substr t 0 (int (length t) - 1) @ lit ''}'')"

section \<open>Administrators, salesmen and authorisation records\<close>

record address_model =
  am_index :: jsstr
  am_name :: jsstr
  am_address :: jsstr
  signStatus :: bool
  signInfo :: jsstr

record auth_original_tx =
  targetTxAddress :: jsstr
  targetTxName :: jsstr
  authType :: admin_op
  nowAdminAddress :: jsstr
  nowAdminName :: jsstr
  isSignEnough :: bool
  originalAddressModelList :: "address_model list"

definition new_auth_original_tx :: auth_original_tx where
  "new_auth_original_tx = \<lparr>targetTxAddress = [], targetTxName = [], authType = AdminNone,
     nowAdminAddress = [], nowAdminName = [], isSignEnough = False,
     originalAddressModelList = []\<rparr>"

record business =
  b_txid :: jsstr
  b_authAddress :: jsstr
  b_name :: jsstr
  b_address :: jsstr
  maxCount :: int
  leftCount :: int
  b_authType :: business_op
  nonce :: int
  b_signInfo :: jsstr
  authState :: auth_state
  b_ts :: int

definition new_business :: business where
  "new_business = \<lparr>b_txid = [], b_authAddress = [], b_name = [], b_address = [],
     maxCount = -1, leftCount = -1, b_authType = Delete, nonce = 0, b_signInfo = [],
     authState = AuthERROR, b_ts = 0\<rparr>"

record auth_record =
  r_index :: jsstr
  r_caller :: jsstr
  r_operator :: jsstr
  r_name :: jsstr
  r_txStatus :: record_status
  r_operation :: record_op

definition new_auth_record :: auth_record where
  "new_auth_record = \<lparr>r_index = [], r_caller = [], r_operator = [], r_name = [],
     r_txStatus = PADDING, r_operation = ADD\<rparr>"

section \<open>Facts about certificates\<close>

lemma getId_stable: "getId (snd (getId c)) = getId c"
  by (auto simp: getId_def split: option.splits)

lemma getId_frame: "objArray (snd (getId c)) = objArray c \<and> status (snd (getId c)) = status c"
  by (auto simp: getId_def split: option.splits)

lemma find_entry_map_of: "find_entry k es = map_of es k"
  by (induction es) auto

lemma append_entries_eq: "append_entries t es = t @ concat (map entry_text es)"
  by (induction es arbitrary: t) simp_all

lemma entry_text_eq: "entry_text (k, v) = 34 # k @ 34 # 58 # 34 # v @ [34, 44]"
  by (simp add: entry_text_def lit_def)

lemma entry_text_nonempty [simp]: "entry_text e \<noteq> []"
  by (simp add: entry_text_def)

lemma substr_butlast: "substr t 0 (int (length t) - 1) = butlast t"
  by (cases t) (simp_all add: substr_def butlast_conv_take)

lemma assembleJsonInfo_eq:
  "assembleJsonInfo co =
     butlast (123 # concat (map entry_text (objArray (the_cert co)))) @ [125]"
  by (simp add: assembleJsonInfo_def append_entries_eq substr_butlast Let_def lit_def)

text \<open>A character is plain when JSON needs no escape for it.\<close>

definition plain_char :: "jschar \<Rightarrow> bool" where
  "plain_char c \<longleftrightarrow> c \<noteq> 34 \<and> c \<noteq> 92 \<and> \<not> c < 32"

definition plain_entry :: "entry \<Rightarrow> bool" where
  "plain_entry e \<longleftrightarrow> (\<forall>c \<in> set (fst e) \<union> set (snd e). plain_char c)"

lemma str_body_plain:
  "\<forall>c \<in> set x. plain_char c \<Longrightarrow> str_body (x @ 34 # r) = Some (x, r)"
  by (induction x) (auto simp: plain_char_def)

lemma skip_ws_mark [simp]:
  "c \<in> {34, 58, 44, 123, 125} \<Longrightarrow> skip_ws (c # s) = c # s"
  by (auto simp: skip_ws_def json_space_def)

lemma p_val_plain:
  "\<forall>c \<in> set x. plain_char c \<Longrightarrow> p_val (Suc n) (34 # x @ 34 # r) = Some (JStr x, r)"
  by (simp add: p_val.simps str_body_plain)

lemma p_membs_last:
  assumes "\<forall>c \<in> set k. plain_char c" and "\<forall>c \<in> set v. plain_char c"
  shows "p_membs (Suc (Suc n)) (34 # k @ 34 # 58 # 34 # v @ 34 # 125 # r) = Some ([(k, JStr v)], r)"
  by (subst p_membs.simps) (simp add: str_body_plain p_val_plain assms)

lemma p_membs_next:
  assumes "\<forall>c \<in> set k. plain_char c" and "\<forall>c \<in> set v. plain_char c"
  shows "p_membs (Suc (Suc n)) (34 # k @ 34 # 58 # 34 # v @ 34 # 44 # s) =
    cons_fst (k, JStr v) (p_membs (Suc n) s)"
  by (subst p_membs.simps) (simp add: str_body_plain p_val_plain assms)

definition members :: "entry list \<Rightarrow> (jsstr \<times> json) list" where
  "members es = map (\<lambda>(k, v). (k, JStr v)) es"

lemma p_membs_entries:
  assumes "\<forall>e \<in> set es. plain_entry e" and "es \<noteq> []" and "length es < n"
  shows "p_membs n (butlast (concat (map entry_text es)) @ 125 # r) = Some (members es, r)"
  using assms
proof (induction es arbitrary: n)
  case (Cons e es)
  obtain k v where e: "e = (k, v)" by (cases e)
  have plain: "\<forall>c \<in> set k. plain_char c" "\<forall>c \<in> set v. plain_char c"
    using Cons.prems(1) by (auto simp: e plain_entry_def)
  define n' where "n' = n - 2"
  have n: "n = Suc (Suc n')" using Cons.prems(3) by (simp add: n'_def)
  show ?case
  proof (cases "es = []")
    case True
    then have shape: "butlast (concat (map entry_text (e # es))) @ 125 # r =
        34 # k @ 34 # 58 # (34 # v @ 34 # 125 # r)"
      by (simp add: e entry_text_eq butlast_append)
    show ?thesis
      unfolding shape n using True by (simp add: p_membs_last plain members_def e)
  next
    case False
    then have ne: "concat (map entry_text es) \<noteq> []" by (cases es) simp_all
    have shape: "butlast (concat (map entry_text (e # es))) @ 125 # r =
        34 # k @ 34 # 58 # (34 # v @ 34 # 44 # butlast (concat (map entry_text es)) @ 125 # r)"
      using ne by (simp add: e entry_text_eq butlast_append del: concat_eq_Nil_conv)
    have "p_membs (Suc n') (butlast (concat (map entry_text es)) @ 125 # r) = Some (members es, r)"
      using Cons False n by simp
    then show ?thesis
      unfolding shape n by (simp add: p_membs_next plain members_def e)
  qed
qed simp

end
