(* ===== verification/Cert_Properties.thy ===== *)
theory Cert_Properties
  imports Cert_Model
begin

text \<open>
  What the certificate model promises: the text of \<open>assembleJsonInfo\<close> against \<open>JSON.parse\<close>,
  the conversions between \<open>Gia\<close> and \<open>Cert\<close>, and the cached certificate number.
\<close>

lemma length_entries: "length es \<le> length (concat (map entry_text es))"
proof (induction es)
  case (Cons e es)
  then show ?case by (cases e) (simp add: entry_text_eq)
qed simp

lemma json_parse_entries:
  assumes "es \<noteq> []" and "\<forall>e \<in> set es. plain_entry e"
  shows "json_parse (123 # butlast (concat (map entry_text es)) @ [125]) = Some (JObj (members es))"
proof -
  obtain k v es' where es: "es = (k, v) # es'" using assms(1) by (cases es) auto
  have ne: "concat (map entry_text es) \<noteq> []" by (simp add: es)
  let ?t = "butlast (concat (map entry_text es)) @ [125]"
  have hd: "?t = 34 # tl ?t" by (simp add: es entry_text_eq)
  define N where "N = 3 * Suc (length (123 # ?t)) - 1"
  have N: "3 * Suc (length (123 # ?t)) = Suc N" by (simp add: N_def)
  have "length es < N"
    using length_entries [of es] ne by (simp add: N_def)
  then have p: "p_membs N ?t = Some (members es, [])"
    using p_membs_entries [OF assms(2,1)] by blast
  have "p_val (Suc N) (123 # ?t) = map_option (\<lambda>(x, y). (JObj x, y)) (p_membs N ?t)"
    by (subst hd, subst (2) hd) (simp add: p_val.simps)
  with p have "p_val (Suc N) (123 # ?t) = Some (JObj (members es), [])" by simp
  then show ?thesis unfolding json_parse_def N by (simp add: skip_ws_def)
qed

lemma map_fst_members [simp]: "map fst (members es) = map fst es"
  by (induction es) (auto simp: members_def)

lemma fst_set_members [simp]: "fst ` set (members es) = fst ` set es"
  by (metis list.set_map map_fst_members)

text \<open>C5
  Round trip of the certificate text: when a certificate has entries and no key or value needs
  an escape, \<open>JSON.parse\<close> of the assembled text is the object with exactly these members, in
  this order, and if the keys are distinct and none is an array index, \<open>Object.keys\<close> of that
  object lists them in the order of the certificate.
\<close>

theorem assembleJsonInfo_roundtrip:
  assumes "objArray (the_cert co) = es" and "es \<noteq> []" and "\<forall>e \<in> set es. plain_entry e"
  shows "json_parse (assembleJsonInfo co) = Some (JObj (members es)) \<and>
    (distinct (map fst es) \<and> (\<forall>k \<in> fst ` set es. \<not> is_index k) \<longrightarrow>
      object_keys (props_of (members es)) = map fst es)"
proof -
  have "concat (map entry_text es) \<noteq> []"
    using assms(2) by (cases es) simp_all
  then have "json_parse (assembleJsonInfo co) = Some (JObj (members es))"
    using json_parse_entries [OF assms(2,3)] assms(1)
    by (simp add: assembleJsonInfo_eq del: concat_eq_Nil_conv)
  then show ?thesis by (simp add: props_of_distinct object_keys_plain)
qed

definition sample_own :: "entry list \<Rightarrow> cert_own" where
  "sample_own es = new_cert_own\<lparr>the_cert := new_cert\<lparr>objArray := es\<rparr>\<rparr>"

lemma objArray_sample [simp]: "objArray (the_cert (sample_own es)) = es"
  by (simp add: sample_own_def)

theorem assembleJsonInfo_roundtrip_witness:
  "json_parse (assembleJsonInfo (sample_own [(KimId, lit ''K1''), (lit ''cut'', lit ''Good'')])) =
     Some (JObj [(KimId, JStr (lit ''K1'')), (lit ''cut'', JStr (lit ''Good''))])"
  using assembleJsonInfo_roundtrip
    [of "sample_own [(KimId, lit ''K1''), (lit ''cut'', lit ''Good'')]", OF objArray_sample]
  by (simp add: members_def plain_entry_def plain_char_def KimId_def lit_def)

text \<open>
  Error branch: the assembled text is valid JSON of an object only if the certificate has an
  entry. Without entries the loop never runs, \<open>substr\<close> cuts the opening brace off, the text is a
  single closing brace and \<open>JSON.parse\<close> throws.
\<close>

theorem assembleJsonInfo_empty:
  assumes "objArray (the_cert co) = []"
  shows "assembleJsonInfo co = lit ''}'' \<and> json_parse (assembleJsonInfo co) = None"
proof -
  have t: "assembleJsonInfo co = [125]" using assms by (simp add: assembleJsonInfo_eq)
  have "num_text [125] = None"
    by (simp add: num_text_def num_int_def is_digit16_def)
  then have "p_val (Suc n) [125] = None" for n by (simp add: p_val.simps)
  from this [of 5] have "json_parse [125] = None" by (simp add: json_parse_def)
  then show ?thesis by (simp add: t lit_def)
qed

theorem assembleJsonInfo_empty_witness: "assembleJsonInfo new_cert_own = lit ''}''"
  using assembleJsonInfo_empty [of new_cert_own] by (simp add: new_cert_own_def new_cert_def)

text \<open>
  The values are not escaped: a value that contains a quote can close its member and add another
  one, so two different certificates have the same text. In particular the holder of a
  certificate with one free field can forge any further field of the record on the chain.
\<close>

theorem assembleJsonInfo_forgeable:
  "assembleJsonInfo (sample_own (es @ [(k, v @ lit [CHR 0x22, CHR 0x2C, CHR 0x22] @ k' @
      lit [CHR 0x22, CHR 0x3A, CHR 0x22] @ v')])) =
   assembleJsonInfo (sample_own (es @ [(k, v), (k', v')]))"
  by (simp add: assembleJsonInfo_eq entry_text_eq lit_def)

section \<open>Gia and Cert\<close>

definition complete_gia :: "gia_obj \<Rightarrow> bool" where
  "complete_gia g \<longleftrightarrow> gia (gia_data g) \<noteq> [] \<and> carat (gia_data g) \<noteq> [] \<and>
     color (gia_data g) \<noteq> [] \<and> clarity (gia_data g) \<noteq> [] \<and> cut (gia_data g) \<noteq> [] \<and>
     hash (gia_data g) \<noteq> []"

lemma value_at_Cons:
  "value_at (e # es) 0 = Inr (snd e)"
  "value_at (e # es) (Suc i) = value_at es i"
  "value_at [] i = Inl TypeError"
  by (simp_all add: value_at_def)

text \<open>
  \<open>toGia\<close> after \<open>toCert\<close> of a complete report restores every field but the hash, which it reads
  from the position of the cut; so the round trip holds exactly for reports whose hash is
  their cut. The boolean it returns is false although the conversion succeeded.
\<close>

theorem toGia_toCert:
  assumes "complete_gia g"
  shows "toGia g0 (toCert g) = Inr (g\<lparr>gia_data := (gia_data g)\<lparr>hash := cut (gia_data g)\<rparr>\<rparr>, False) \<and>
    (toGia g0 (toCert g) = Inr (g, False) \<longleftrightarrow> hash (gia_data g) = cut (gia_data g))"
  using assms
  by (cases g; cases "gia_data g")
     (auto simp: complete_gia_def toGia_def toCert_def push_if_def value_at_Cons numeral_eq_Suc)

theorem toGia_toCert_witness:
  "toGia new_gia (toCert (new_gia\<lparr>gia_data := \<lparr>gia = [1], carat = [2], color = [3],
      clarity = [4], cut = [5], hash = [6]\<rparr>\<rparr>)) =
   Inr (new_gia\<lparr>gia_data := \<lparr>gia = [1], carat = [2], color = [3],
      clarity = [4], cut = [5], hash = [5]\<rparr>\<rparr>, False)"
  using toGia_toCert [of "new_gia\<lparr>gia_data := \<lparr>gia = [1], carat = [2], color = [3],
      clarity = [4], cut = [5], hash = [6]\<rparr>\<rparr>" new_gia]
  by (simp add: complete_gia_def)

text \<open>
  \<open>getId\<close> prefers the entry named \<open>kimId\<close>, falls back to \<open>gia\<close>, and a number once found is
  kept: later calls return it even when the entries have changed. Without such an entry the
  result is the empty string and nothing is stored.
\<close>

theorem getId_lookup:
  "(obj_id c = [] \<longrightarrow>
      getId c = (case map_of (objArray c) KimId of
         Some v \<Rightarrow> (v, c\<lparr>obj_id := v\<rparr>)
       | None \<Rightarrow> (case map_of (objArray c) GiaId of
           Some v \<Rightarrow> (v, c\<lparr>obj_id := v\<rparr>) | None \<Rightarrow> ([], c)))) \<and>
   (obj_id c \<noteq> [] \<longrightarrow> getId (c\<lparr>objArray := es\<rparr>) = (obj_id c, c\<lparr>objArray := es\<rparr>)) \<and>
   getId (snd (getId c)) = getId c"
  by (simp add: getId_stable)
     (auto simp: getId_def find_entry_map_of split: option.splits)

theorem getId_lookup_witness:
  "getId (new_cert\<lparr>objArray := [(GiaId, [7]), (KimId, [8])]\<rparr>) =
     ([8], new_cert\<lparr>obj_id := [8], objArray := [(GiaId, [7]), (KimId, [8])]\<rparr>)"
  using getId_lookup [of "new_cert\<lparr>objArray := [(GiaId, [7]), (KimId, [8])]\<rparr>" "[]"]
  by (simp add: new_cert_def GiaId_def KimId_def)

end
