(* ===== verification/Lang.thy ===== *)
theory Lang
  imports Cashbox_Prelude
begin

text \<open>
  Language selection: module \<open>2c4c\<close> (\<open>langInit\<close>, \<open>setLang\<close>, \<open>getLang\<close>) and the context map
  \<open>ad58\<close> of lazily loaded language tables, both in \<open>app/assets/dist/js/app.c2d43b15.js\<close>.

  A call of the context map starts a load whose continuation registers the table with the
  widget library (\<open>use\<close>) and writes it into the message object. The loads in flight are a list;
  they complete in any order. A table is known by the id of its module.
\<close>

datatype lang = En | Zh | Ja | Ko

definition lang_text :: "lang \<Rightarrow> jsstr" where
  "lang_text l = lit (case l of En \<Rightarrow> ''en'' | Zh \<Rightarrow> ''zh'' | Ja \<Rightarrow> ''ja'' | Ko \<Rightarrow> ''ko'')"

section \<open>The context map ad58\<close>

text \<open>Request, module id, mode of the module namespace, chunks to load first.\<close>

definition ad58_table :: "(string \<times> string \<times> nat \<times> string list) list" where
  "ad58_table =
    [(''./en'', ''0b57'', 9, [''chunk-2d0ae94a'']),
     (''./en.js'', ''5939'', 9, [''chunk-2d0c9500'']),
     (''./en.js.map'', ''08f9'', 7, [''chunk-2d0a5191'']),
     (''./en.ts'', ''0b57'', 9, [''chunk-2d0ae94a'']),
     (''./ja'', ''a05d'', 9, [''chunk-2d2073f4'']),
     (''./ja.js'', ''ca8f'', 9, [''chunk-2d221502'']),
     (''./ja.js.map'', ''dc52'', 7, [''chunk-2d229052'']),
     (''./ja.ts'', ''a05d'', 9, [''chunk-2d2073f4'']),
     (''./ko'', ''15c2'', 9, [''chunk-2d0aba49'']),
     (''./ko.js'', ''1565'', 9, [''chunk-2d0ab4d9'']),
     (''./ko.js.map'', ''5bce8'', 7, [''chunk-749967f3'']),
     (''./ko.ts'', ''15c2'', 9, [''chunk-2d0aba49'']),
     (''./lang'', ''2c4c'', 9, []),
     (''./lang.js'', ''2316'', 9, [''chunk-2d0b211c'']),
     (''./lang.js.map'', ''28d8'', 7, [''chunk-2d0b3a10'']),
     (''./lang.ts'', ''2c4c'', 9, []),
     (''./zh'', ''0205'', 9, [''chunk-2d0a347d'']),
     (''./zh.js'', ''734e'', 9, [''chunk-2d0d6783'']),
     (''./zh.js.map'', ''4c56'', 7, [''chunk-2d0cbe86'']),
     (''./zh.ts'', ''0205'', 9, [''chunk-2d0a347d''])]"

text \<open>A request that is not in the map rejects with \<open>MODULE_NOT_FOUND\<close>.\<close>

datatype load_error = MODULE_NOT_FOUND jsstr

definition ad58 :: "jsstr \<Rightarrow> load_error + (string \<times> nat \<times> string list)" where
  "ad58 req =
     (case map_of (map (\<lambda>(k, v). (lit k, v)) ad58_table) req of
        None \<Rightarrow> Inl (MODULE_NOT_FOUND req)
      | Some v \<Rightarrow> Inr v)"

section \<open>Module 2c4c\<close>

record load =
  request :: jsstr
  vant_name :: jsstr
  slot :: lang

record lang_state =
  stored :: "jsstr option"
  query_lang :: "jsstr option"
  current :: "jsstr option"
  i18n_locale :: jsstr
  messages :: "lang \<Rightarrow> string option"
  vant :: "(jsstr \<times> string) option"
  pending :: "load list"

definition start_load :: "jsstr \<Rightarrow> jsstr \<Rightarrow> lang \<Rightarrow> lang_state \<Rightarrow> lang_state" where
  "start_load e vn sl s =
     s\<lparr>pending := pending s @ [\<lparr>request = lit ''./'' @ e, vant_name = vn, slot = sl\<rparr>]\<rparr>"

text \<open>A string is falsy when it is missing or empty.\<close>

definition truthy :: "jsstr option \<Rightarrow> bool" where
  "truthy e \<longleftrightarrow> (case e of None \<Rightarrow> False | Some x \<Rightarrow> x \<noteq> [])"

definition langInit :: "lang_state \<Rightarrow> jsstr \<times> lang_state" where
  "langInit s =
     (let e = (if truthy (stored s) then stored s else query_lang s);
          (t, s1) =
            (if truthy e then
               (if starts_with (the e) (lit ''zh'') then
                  (lang_text Zh, start_load (lang_text Zh) (lit ''zh-CN'') Zh s)
                else if starts_with (the e) (lit ''ja'') then
                  (lang_text Ja, start_load (lang_text Ja) (lang_text Ja) Ja s)
                else if starts_with (the e) (lit ''ko'') then
                  (lang_text Ko, start_load (lang_text Ko) (lang_text Ko) Ko s)
                else (lang_text En, start_load (lang_text En) (lang_text En) En s))
             else (lang_text En, start_load (lang_text En) (lang_text En) En s))
      in (t, s1\<lparr>stored := Some t, current := Some t, i18n_locale := t\<rparr>))"

text \<open>
  The switch of \<open>setLang\<close>. The branch of Chinese has no \<open>break\<close>, so it runs into the branch of
  Japanese, which loads the table of \<open>e\<close> once more and files it under \<open>ja\<close>.
\<close>

definition setLang :: "jsstr option \<Rightarrow> lang_state \<Rightarrow> lang_state" where
  "setLang e0 s =
     (let e = (if truthy e0 then the e0 else lang_text En);
          s1 = (if e = lang_text En then start_load e e En s
                else if e = lang_text Zh then
                  start_load e e Ja (start_load e (lit ''zh-CN'') Zh s)
                else if e = lang_text Ja then start_load e e Ja s
                else if e = lang_text Ko then start_load e e Ko s
                else s)
      in s1\<lparr>current := Some e, i18n_locale := e, stored := Some e\<rparr>)"

definition getLang :: "lang_state \<Rightarrow> jsstr option" where
  "getLang s = current s"

text \<open>The continuation of the load at position \<open>i\<close>; a rejected load changes nothing.\<close>

definition finish_load :: "nat \<Rightarrow> lang_state \<Rightarrow> lang_state" where
  "finish_load i s =
     (if i < length (pending s) then
        (let l = pending s ! i;
             s1 = s\<lparr>pending := take i (pending s) @ drop (Suc i) (pending s)\<rparr>
         in case ad58 (request l) of
              Inl _ \<Rightarrow> s1
            | Inr (m, _, _) \<Rightarrow>
                s1\<lparr>vant := Some (vant_name l, m), messages := (messages s1)(slot l := Some m)\<rparr>)
      else s)"

section \<open>Runs\<close>

datatype lang_op = Init | Set "jsstr option" | Finish nat

fun lang_exec :: "lang_op \<Rightarrow> lang_state \<Rightarrow> lang_state" where
  "lang_exec Init s = snd (langInit s)"
| "lang_exec (Set e) s = setLang e s"
| "lang_exec (Finish i) s = finish_load i s"

text \<open>All loads in flight complete, in an order the network chooses.\<close>

inductive settles :: "lang_state \<Rightarrow> lang_state \<Rightarrow> bool" where
  settled: "pending s = [] \<Longrightarrow> settles s s"
| one: "i < length (pending s) \<Longrightarrow> settles (finish_load i s) t \<Longrightarrow> settles s t"

inductive_cases settlesE: "settles s t"

text \<open>The module with the table of a language.\<close>

definition table_module :: "lang \<Rightarrow> string" where
  "table_module l = (case l of En \<Rightarrow> ''0b57'' | Zh \<Rightarrow> ''0205'' | Ja \<Rightarrow> ''a05d'' | Ko \<Rightarrow> ''15c2'')"

lemma lang_text_inj [simp]: "lang_text l = lang_text l' \<longleftrightarrow> l = l'"
  by (cases l; cases l') (simp_all add: lang_text_def)

lemma lang_text_nonempty [simp]: "lang_text l \<noteq> []"
  by (cases l) (simp_all add: lang_text_def)

lemma truthy_Some [simp]: "truthy (Some x) \<longleftrightarrow> x \<noteq> []"
  by (simp add: truthy_def)

lemma truthy_None [simp]: "\<not> truthy None"
  by (simp add: truthy_def)

lemma ad58_lang: "\<exists>md ch. ad58 (lit ''./'' @ lang_text l) = Inr (table_module l, md, ch)"
  by (cases l) (simp_all add: ad58_def ad58_table_def lang_text_def table_module_def
      flip: lit_append)

text \<open>The language a code stands for.\<close>

definition lang_of_code :: "jsstr option \<Rightarrow> lang" where
  "lang_of_code e =
     (if \<not> truthy e then En
      else if starts_with (the e) (lit ''zh'') then Zh
      else if starts_with (the e) (lit ''ja'') then Ja
      else if starts_with (the e) (lit ''ko'') then Ko
      else En)"

definition vant_of :: "lang \<Rightarrow> jsstr" where
  "vant_of l = (if l = Zh then lit ''zh-CN'' else lang_text l)"

lemma langInit_eq:
  "langInit s =
     (let l = lang_of_code (if truthy (stored s) then stored s else query_lang s)
      in (lang_text l, (start_load (lang_text l) (vant_of l) l s)
            \<lparr>stored := Some (lang_text l), current := Some (lang_text l),
             i18n_locale := lang_text l\<rparr>))"
  by (simp add: langInit_def lang_of_code_def vant_of_def Let_def)

lemma lang_of_code_text [simp]: "lang_of_code (Some (lang_text l)) = l"
  by (cases l) (simp_all add: lang_of_code_def lang_text_def starts_with_def lit_def)

text \<open>Loads whose file matches the slot they write to.\<close>

definition load_ok :: "load \<Rightarrow> bool" where
  "load_ok l \<longleftrightarrow> request l = lit ''./'' @ lang_text (slot l)"

definition tables_ok :: "lang_state \<Rightarrow> bool" where
  "tables_ok s \<longleftrightarrow> (\<forall>l m. messages s l = Some m \<longrightarrow> m = table_module l) \<and>
     (\<forall>l \<in> set (pending s). load_ok l)"

lemma tables_ok_init: "tables_ok s \<Longrightarrow> tables_ok (snd (langInit s))"
  by (auto simp: langInit_eq tables_ok_def start_load_def load_ok_def Let_def)

lemma tables_ok_set:
  assumes "tables_ok s" and "e \<noteq> Some (lang_text Zh)"
  shows "tables_ok (setLang e s)"
  using assms
  by (cases e) (auto simp: setLang_def tables_ok_def start_load_def load_ok_def Let_def)

lemma tables_ok_finish:
  assumes "tables_ok s" shows "tables_ok (finish_load i s)"
proof (cases "i < length (pending s)")
  case True
  define l where "l = pending s ! i"
  have "l \<in> set (pending s)" using True by (simp add: l_def)
  then have "request l = lit ''./'' @ lang_text (slot l)"
    using assms by (simp add: tables_ok_def load_ok_def)
  then obtain md ch where "ad58 (request l) = Inr (table_module (slot l), md, ch)"
    using ad58_lang by metis
  moreover have "set (take i (pending s) @ drop (Suc i) (pending s)) \<subseteq> set (pending s)"
    by (auto dest: in_set_takeD in_set_dropD)
  ultimately show ?thesis
    using assms True by (auto simp: finish_load_def tables_ok_def Let_def simp flip: l_def)
qed (use assms in \<open>simp add: finish_load_def\<close>)

lemma tables_ok_exec:
  "tables_ok s \<Longrightarrow> op \<noteq> Set (Some (lang_text Zh)) \<Longrightarrow> tables_ok (lang_exec op s)"
  by (cases op) (auto intro: tables_ok_init tables_ok_set tables_ok_finish)

lemma tables_ok_fold:
  "tables_ok s \<Longrightarrow> Set (Some (lang_text Zh)) \<notin> set ops \<Longrightarrow> tables_ok (fold lang_exec ops s)"
proof (induction ops arbitrary: s)
  case (Cons op ops)
  then have "tables_ok (lang_exec op s)" by (auto intro: tables_ok_exec)
  with Cons show ?case by simp
qed simp

text \<open>
  What holds in every session: the slot of Japanese may get the Chinese table, the other slots only
  their own.
\<close>

definition slots_ok :: "lang_state \<Rightarrow> bool" where
  "slots_ok s \<longleftrightarrow>
     (\<forall>l m. messages s l = Some m \<longrightarrow> m = table_module l \<or> l = Ja \<and> m = table_module Zh) \<and>
     (\<forall>l \<in> set (pending s). load_ok l \<or> slot l = Ja \<and> request l = lit ''./'' @ lang_text Zh)"

lemma tables_slots: "tables_ok s \<Longrightarrow> slots_ok s"
  by (auto simp: tables_ok_def slots_ok_def)

lemma slots_ok_init: "slots_ok s \<Longrightarrow> slots_ok (snd (langInit s))"
  by (auto simp: langInit_eq slots_ok_def start_load_def load_ok_def Let_def)

lemma slots_ok_set: "slots_ok s \<Longrightarrow> slots_ok (setLang e s)"
  by (auto simp: setLang_def slots_ok_def start_load_def load_ok_def Let_def)

lemma slots_ok_finish:
  assumes "slots_ok s" shows "slots_ok (finish_load i s)"
proof (cases "i < length (pending s)")
  case True
  define l where "l = pending s ! i"
  have "l \<in> set (pending s)" using True by (simp add: l_def)
  then obtain d where d: "request l = lit ''./'' @ lang_text d" "d = slot l \<or> slot l = Ja \<and> d = Zh"
    using assms by (auto simp: slots_ok_def load_ok_def)
  obtain md ch where "ad58 (request l) = Inr (table_module d, md, ch)"
    using ad58_lang d(1) by metis
  moreover have "set (take i (pending s) @ drop (Suc i) (pending s)) \<subseteq> set (pending s)"
    by (auto dest: in_set_takeD in_set_dropD)
  ultimately show ?thesis
    using assms True d(2) by (auto simp: finish_load_def slots_ok_def Let_def simp flip: l_def)
qed (use assms in \<open>simp add: finish_load_def\<close>)

lemma slots_ok_fold: "slots_ok s \<Longrightarrow> slots_ok (fold lang_exec ops s)"
proof (induction ops arbitrary: s)
  case (Cons op ops)
  then have "slots_ok (lang_exec op s)"
    by (cases op) (auto intro: slots_ok_init slots_ok_set slots_ok_finish)
  with Cons.IH show ?case by simp
qed simp

text \<open>A page that was just opened has no tables and no loads.\<close>

definition fresh_page :: "lang_state \<Rightarrow> bool" where
  "fresh_page s \<longleftrightarrow> messages s = (\<lambda>_. None) \<and> pending s = []"

lemma fresh_tables: "fresh_page s \<Longrightarrow> tables_ok s"
  by (simp add: fresh_page_def tables_ok_def)

lemma session_slots: "fresh_page s0 \<Longrightarrow> s = fold lang_exec ops s0 \<Longrightarrow> slots_ok s"
  using slots_ok_fold tables_slots fresh_tables by blast

lemma ad58_lang_lit: "ad58 (lit ''./'' @ lang_text l) = Inr (table_module l, 9,
   [case l of En \<Rightarrow> ''chunk-2d0ae94a'' | Zh \<Rightarrow> ''chunk-2d0a347d'' | Ja \<Rightarrow> ''chunk-2d2073f4''
      | Ko \<Rightarrow> ''chunk-2d0aba49''])"
  by (cases l) (simp_all add: ad58_def ad58_table_def lang_text_def table_module_def
      flip: lit_append)

lemma settles_none: "pending s = [] \<Longrightarrow> settles s t \<Longrightarrow> t = s"
  by (erule settlesE) auto

lemma settles_single:
  assumes "settles s t" and "pending s = [l]"
  shows "t = finish_load 0 s"
  using assms(1)
proof (cases rule: settles.cases)
  case (one i)
  then have "i = 0" using assms(2) by simp
  moreover have "pending (finish_load 0 s) = []"
    using assms(2) by (auto simp: finish_load_def Let_def split: sum.split)
  ultimately show ?thesis using one settles_none by metis
qed (use assms(2) in simp)

lemma length_pending_finish:
  "i < length (pending s) \<Longrightarrow> Suc (length (pending (finish_load i s))) = length (pending s)"
  by (auto simp: finish_load_def Let_def split: sum.split)

lemma settles_total: "\<exists>t. settles s t"
proof (induction "length (pending s)" arbitrary: s)
  case 0
  then show ?case using settled by auto
next
  case (Suc n)
  then have p: "0 < length (pending s)" by (cases "pending s") simp_all
  then have "n = length (pending (finish_load 0 s))"
    using Suc.hyps(2) length_pending_finish [of 0 s] by simp
  then show ?case using Suc.hyps(1) one [OF p] by blast
qed

end
