(* ===== verification/Lang_Properties.thy ===== *)
theory Lang_Properties
  imports Lang
begin

text \<open>
  What language selection promises, and where it does not keep it: the choice at start-up, the
  tables that end up in the message object, and the Chinese branch of \<open>setLang\<close>.
\<close>

text \<open>
  Start-up: \<open>langInit\<close> takes the stored code, else the code of the query string, reduces it to
  one of the four languages by its prefix (English when there is none), stores it, and after
  its load completes the table of that very language stands under its slot and is registered
  with the widget library. Calling it again chooses the same language.
\<close>

theorem langInit_selects:
  assumes "pending s = []" and "l = lang_of_code (if truthy (stored s) then stored s else query_lang s)"
    and "settles (snd (langInit s)) u"
  shows "fst (langInit s) = lang_text l \<and> stored u = Some (lang_text l) \<and>
    getLang u = Some (lang_text l) \<and> i18n_locale u = lang_text l \<and>
    messages u = (messages s)(l \<mapsto> table_module l) \<and>
    vant u = Some (vant_of l, table_module l) \<and> fst (langInit u) = lang_text l"
proof -
  have "u = finish_load 0 (snd (langInit s))"
    using settles_single [OF assms(3)] assms(1,2)
    by (simp add: langInit_eq start_load_def Let_def)
  then show ?thesis
    using assms(1,2)
    by (simp add: langInit_eq start_load_def Let_def finish_load_def getLang_def ad58_lang_lit)
qed

definition start_state :: lang_state where
  "start_state = \<lparr>stored = None, query_lang = Some (lit ''zh-CN''), current = None,
     i18n_locale = lit ''en'', messages = (\<lambda>_. None), vant = None, pending = []\<rparr>"

theorem langInit_selects_witness:
  "messages (finish_load 0 (snd (langInit start_state))) Zh = Some ''0205''"
proof -
  let ?u = "finish_load 0 (snd (langInit start_state))"
  have p: "pending ?u = []"
    by (simp add: langInit_def start_state_def starts_with_def lit_def start_load_def
        finish_load_def Let_def split: sum.split)
  have "settles (snd (langInit start_state)) ?u"
    by (rule one [of 0], simp add: langInit_def start_load_def Let_def) (rule settled [OF p])
  moreover have "Zh = lang_of_code (if truthy (stored start_state) then stored start_state
      else query_lang start_state)"
    by (simp add: start_state_def lang_of_code_def starts_with_def lit_def)
  ultimately show ?thesis
    using langInit_selects [of start_state Zh ?u] by (simp add: start_state_def table_module_def)
qed

text \<open>
  Choosing Chinese damages Japanese: the branch of \<open>zh\<close> in \<open>setLang\<close> has no \<open>break\<close>, so once
  the two loads it starts are complete, in whichever order, the Chinese table stands under the
  slot of Japanese too.
\<close>

theorem setLang_zh_overwrites_ja:
  assumes "pending s = []" and "settles (setLang (Some (lang_text Zh)) s) u"
  shows "messages u = (messages s)(Zh \<mapsto> table_module Zh, Ja \<mapsto> table_module Zh) \<and>
    getLang u = Some (lang_text Zh) \<and> messages u Ja \<noteq> Some (table_module Ja)"
proof -
  let ?z = "\<lparr>request = lit ''./'' @ lang_text Zh, vant_name = lit ''zh-CN'', slot = Zh\<rparr>"
  let ?j = "\<lparr>request = lit ''./'' @ lang_text Zh, vant_name = lang_text Zh, slot = Ja\<rparr>"
  let ?s = "setLang (Some (lang_text Zh)) s"
  have s: "?s = s\<lparr>pending := [?z, ?j], current := Some (lang_text Zh),
      i18n_locale := lang_text Zh, stored := Some (lang_text Zh)\<rparr>"
    using assms(1) by (simp add: setLang_def start_load_def Let_def)
  have "\<exists>i < 2. settles (finish_load i ?s) u"
    using assms(2) by (cases rule: settles.cases) (auto simp: s numeral_eq_Suc)
  then obtain i where lt: "i < 2" and u: "settles (finish_load i ?s) u" by auto
  from lt have i: "i = 0 \<or> i = 1" by auto
  from i have "u = finish_load 0 (finish_load i ?s)"
    by (elim disjE; intro settles_single [OF u])
       (simp_all add: s finish_load_def ad58_lang_lit)
  with i show ?thesis
    by (elim disjE) (auto simp: s finish_load_def ad58_lang_lit getLang_def table_module_def)
qed

theorem setLang_zh_overwrites_ja_witness:
  "\<exists>u. settles (setLang (Some (lang_text Zh)) start_state) u \<and> messages u Ja = Some ''0205''"
proof -
  obtain u where "settles (setLang (Some (lang_text Zh)) start_state) u"
    using settles_total by blast
  then show ?thesis
    using setLang_zh_overwrites_ja [of start_state u]
    by (auto simp: start_state_def table_module_def)
qed

text \<open>
  Every other sequence keeps the tables right: starting from a state without tables and loads,
  any interleaving of \<open>langInit\<close>, \<open>setLang\<close> (except with \<open>zh\<close>) and completing loads leaves
  every slot either empty or filled with the table of its own language.
\<close>

theorem tables_stay_ok:
  assumes "messages s = (\<lambda>_. None)" and "pending s = []"
    and "Set (Some (lang_text Zh)) \<notin> set ops"
  shows "\<forall>l m. messages (fold lang_exec ops s) l = Some m \<longrightarrow> m = table_module l"
proof -
  have "tables_ok s" using assms(1,2) by (simp add: tables_ok_def)
  then have "tables_ok (fold lang_exec ops s)" using assms(3) by (rule tables_ok_fold)
  then show ?thesis by (simp add: tables_ok_def)
qed

theorem tables_stay_ok_witness:
  "messages (fold lang_exec [Init, Set (Some (lang_text Ja)), Finish 1, Finish 0] start_state) Ja
     \<in> {None, Some ''a05d''}"
proof -
  let ?u = "fold lang_exec [Init, Set (Some (lang_text Ja)), Finish 1, Finish 0] start_state"
  have "\<forall>l m. messages ?u l = Some m \<longrightarrow> m = table_module l"
    by (rule tables_stay_ok) (simp_all add: start_state_def)
  then have "messages ?u Ja = None \<or> messages ?u Ja = Some (table_module Ja)"
    by (cases "messages ?u Ja") auto
  then show ?thesis by (simp add: table_module_def)
qed

text \<open>
  A code outside the four languages switches the locale and is stored although no table is
  loaded for it: the messages are left as they were.
\<close>

theorem setLang_unsupported:
  assumes "e \<noteq> []" and "\<forall>l. e \<noteq> lang_text l"
  shows "pending (setLang (Some e) s) = pending s \<and> messages (setLang (Some e) s) = messages s \<and>
    i18n_locale (setLang (Some e) s) = e \<and> stored (setLang (Some e) s) = Some e \<and>
    getLang (setLang (Some e) s) = Some e"
  using assms by (simp add: setLang_def getLang_def Let_def)

theorem setLang_unsupported_witness:
  "i18n_locale (setLang (Some (lit ''fr'')) start_state) = lit ''fr'' \<and>
   pending (setLang (Some (lit ''fr'')) start_state) = []"
proof -
  have "\<forall>l. lit ''fr'' \<noteq> lang_text l"
    by (simp add: lang_text_def split: lang.split)
  then show ?thesis
    using setLang_unsupported [of "lit ''fr''" start_state] by (simp add: start_state_def)
qed

end
