(* ===== verification/Promises.thy ===== *)
theory Promises
  imports Cashbox_Prelude
begin

text \<open>
  Promises as the code uses them: a list of promise states in the order of their creation, a
  promise being known by its position. \<open>settle\<close> is what the two functions of the executor do:
  the first call counts, later calls do nothing.

  The locale \<open>promise_machine\<close> is the contract between a component that keeps promises and the
  code that waits for them: a settled promise keeps its outcome through every step.
\<close>

datatype ('v, 'e) pstate = Pending | Fulfilled 'v | Rejected 'e

definition settle :: "nat \<Rightarrow> ('v, 'e) pstate \<Rightarrow> ('v, 'e) pstate list \<Rightarrow> ('v, 'e) pstate list" where
  "settle p r ps = (if p < length ps \<and> ps ! p = Pending then ps[p := r] else ps)"

lemma length_settle [simp]: "length (settle p r ps) = length ps"
  by (simp add: settle_def)

lemma settle_kept [simp]: "ps ! q \<noteq> Pending \<Longrightarrow> settle p r ps ! q = ps ! q"
  by (auto simp: settle_def nth_list_update)

lemma settle_other [simp]: "p \<noteq> q \<Longrightarrow> settle p r ps ! q = ps ! q"
  by (simp add: settle_def)

lemma settle_at: "p < length ps \<Longrightarrow> ps ! p = Pending \<Longrightarrow> settle p r ps ! p = r"
  by (simp add: settle_def)

lemma settle_not_pending:
  "p < length ps \<Longrightarrow> r \<noteq> Pending \<Longrightarrow> settle p r ps ! p \<noteq> Pending"
  by (simp add: settle_def)

locale promise_machine =
  fixes states :: "'s \<Rightarrow> ('v, 'e) pstate list"
    and step :: "'ev \<Rightarrow> 's \<Rightarrow> 's"
  assumes grows: "length (states s) \<le> length (states (step e s))"
    and kept: "p < length (states s) \<Longrightarrow> states s ! p \<noteq> Pending \<Longrightarrow>
      states (step e s) ! p = states s ! p"
begin

lemma run_grows: "length (states s) \<le> length (states (fold step es s))"
proof (induction es arbitrary: s)
  case (Cons e es)
  then show ?case using grows [of s e] by (metis fold_simps(2) order_trans)
qed simp

lemma run_kept:
  "p < length (states s) \<Longrightarrow> states s ! p \<noteq> Pending \<Longrightarrow>
    states (fold step es s) ! p = states s ! p"
proof (induction es arbitrary: s)
  case (Cons e es)
  then have "states (step e s) ! p = states s ! p" and "p < length (states (step e s))"
    using kept grows [of s e] by auto
  with Cons show ?case by simp
qed simp

text \<open>Two observations of a promise that both see it settled agree.\<close>

lemma outcome_unique:
  assumes "p < length (states s)" and "states (fold step es s) ! p = r" and "r \<noteq> Pending"
    and "states (fold step (es @ fs) s) ! p = r'"
  shows "r' = r"
  using run_kept [of p "fold step es s" fs] run_grows [of s es] assms by auto

end

section \<open>Waiters\<close>

text \<open>
  A component keeps for each key at most one promise it still has to settle. \<open>matched w ps\<close>: the
  keys and the pending promises correspond one to one, so no pending promise is forgotten and
  none is settled on behalf of another key.
\<close>

definition matched :: "('k \<Rightarrow> nat option) \<Rightarrow> ('v, 'e) pstate list \<Rightarrow> bool" where
  "matched w ps \<longleftrightarrow>
     (\<forall>k p. w k = Some p \<longrightarrow> p < length ps \<and> ps ! p = Pending) \<and>
     (\<forall>k k' p. w k = Some p \<longrightarrow> w k' = Some p \<longrightarrow> k = k') \<and>
     (\<forall>p < length ps. ps ! p = Pending \<longrightarrow> (\<exists>k. w k = Some p))"

lemma matched_pending: "matched w ps \<Longrightarrow> w k = Some p \<Longrightarrow> p < length ps \<and> ps ! p = Pending"
  by (simp add: matched_def)

lemma matched_owner: "matched w ps \<Longrightarrow> p < length ps \<Longrightarrow> ps ! p = Pending \<Longrightarrow> \<exists>k. w k = Some p"
  by (simp add: matched_def)

lemma matched_empty: "matched (\<lambda>_. None) []"
  by (simp add: matched_def)

lemma matched_new:
  assumes "matched w ps" and "w k = None"
  shows "matched (w(k \<mapsto> length ps)) (ps @ [Pending])"
  unfolding matched_def
proof (intro conjI allI impI)
  fix k' p
  assume "(w(k \<mapsto> length ps)) k' = Some p"
  then show "p < length (ps @ [Pending])" and "(ps @ [Pending]) ! p = Pending"
    using matched_pending [OF assms(1)] by (auto simp: nth_append less_SucI split: if_splits)
next
  fix k1 k2 p
  assume "(w(k \<mapsto> length ps)) k1 = Some p" and "(w(k \<mapsto> length ps)) k2 = Some p"
  then show "k1 = k2"
    using assms(1) matched_pending [OF assms(1)]
    by (auto simp: matched_def split: if_splits)
next
  fix p
  assume p: "p < length (ps @ [Pending])" "(ps @ [Pending]) ! p = Pending"
  show "\<exists>k'. (w(k \<mapsto> length ps)) k' = Some p"
  proof (cases "p = length ps")
    case False
    then have "p < length ps" using p by simp
    moreover from this have "ps ! p = Pending" using p by (simp add: nth_append)
    ultimately obtain k' where "w k' = Some p" using matched_owner [OF assms(1)] by blast
    then show ?thesis using assms(2) by (intro exI [of _ k']) auto
  qed auto
qed

lemma matched_settle:
  assumes "matched w ps" and "w k = Some p" and "r \<noteq> Pending"
  shows "matched (w(k := None)) (settle p r ps)"
  unfolding matched_def
proof (intro conjI allI impI)
  fix k' q
  assume a: "(w(k := None)) k' = Some q"
  then have w: "w k' = Some q" "k' \<noteq> k" by (auto split: if_splits)
  then have "q \<noteq> p" using assms(1,2) by (auto simp: matched_def)
  then show "q < length (settle p r ps)" and "settle p r ps ! q = Pending"
    using matched_pending [OF assms(1) w(1)] by simp_all
next
  fix k1 k2 q
  assume "(w(k := None)) k1 = Some q" and "(w(k := None)) k2 = Some q"
  then show "k1 = k2" using assms(1) by (auto simp: matched_def split: if_splits)
next
  fix q
  assume q: "q < length (settle p r ps)" "settle p r ps ! q = Pending"
  then have "q \<noteq> p" using settle_not_pending [of p ps r] assms(3) by auto
  then obtain k' where "w k' = Some q" using q matched_owner [OF assms(1), of q] by auto
  then show "\<exists>k'. (w(k := None)) k' = Some q"
    using \<open>q \<noteq> p\<close> assms(2) by (intro exI [of _ k']) auto
qed

end
