(* ===== verification/Webpack_Runtime.thy ===== *)
theory Webpack_Runtime
  imports Promises
begin

text \<open>
  The loader at the head of \<open>app/assets/dist/js/app.c2d43b15.js\<close>: the tables of chunk names, the
  function \<open>o.e\<close> that starts the load of a chunk and its style sheet, the handlers of the script
  and link elements, the callback \<open>t\<close> through which a chunk registers its modules, the check \<open>n\<close>
  of deferred entries and the module function \<open>o\<close> with its cache.

  The browser is the source of events: a script element reports load, error or (by the timer of
  120 seconds) timeout, a chunk that runs calls the callback, a link element reports load or
  error, and a continuation of a promise runs as a microtask.
\<close>

section \<open>Names\<close>

text \<open>The tables of \<open>i(e)\<close> and of \<open>o.e\<close>: the hash of a chunk's script and of its style sheet.\<close>

definition script_hash :: "(string \<times> string) list" where
  "script_hash =
    [(''chunk-17145e97'', ''8c9c1a97''), (''chunk-20dd31a9'', ''3777f0e0''),
     (''chunk-260ddaea'', ''9d9dd362''), (''chunk-2d0a347d'', ''7d2d1a5b''),
     (''chunk-2d0a5191'', ''ab18a80e''), (''chunk-2d0ab4d9'', ''e472b6d6''),
     (''chunk-2d0aba49'', ''80839b5b''), (''chunk-2d0ae94a'', ''d73de80d''),
     (''chunk-2d0b211c'', ''34a4e2d4''), (''chunk-2d0b3a10'', ''7bfd372e''),
     (''chunk-2d0be08d'', ''2c7664e9''), (''chunk-2d0c9500'', ''7b26c656''),
     (''chunk-2d0cbe86'', ''f4945adf''), (''chunk-2d0d6783'', ''fc05457e''),
     (''chunk-2d0e48f0'', ''ce106788''), (''chunk-2d2073f4'', ''a4d78a1d''),
     (''chunk-2d221502'', ''c46a4809''), (''chunk-2d229052'', ''6ca990cd''),
     (''chunk-2d856f3d'', ''923aa50e''), (''chunk-366a9ded'', ''87ef3900''),
     (''chunk-417fe318'', ''7fd9cc96''), (''chunk-60aefd06'', ''82adc59f''),
     (''chunk-65f6e5ef'', ''30b2af6b''), (''chunk-13a133bc'', ''92655da4''),
     (''chunk-488d230c'', ''94c72c53''), (''chunk-7618b7ac'', ''f7e7d444''),
     (''chunk-7814d7ca'', ''248d4688''), (''chunk-9658de64'', ''842a76a5''),
     (''chunk-a2453b60'', ''b6ef5a42''), (''chunk-749967f3'', ''764efd36''),
     (''chunk-79ae0b8e'', ''94fb2697''), (''chunk-7bcd7ac3'', ''f71d9c33''),
     (''chunk-7ca391f8'', ''b08bbeef''), (''chunk-7e477f36'', ''d548593b''),
     (''chunk-9068ef6e'', ''7dac95c2''), (''chunk-a884be24'', ''da4633b3''),
     (''chunk-c3eba2e4'', ''b8293ca1''), (''chunk-c466b422'', ''a1189875'')]"

definition style_hash :: "(string \<times> string) list" where
  "style_hash =
    [(''chunk-17145e97'', ''f62cfe34''), (''chunk-20dd31a9'', ''1363f097''),
     (''chunk-260ddaea'', ''1fbaaa38''), (''chunk-2d0a347d'', ''31d6cfe0''),
     (''chunk-2d0a5191'', ''31d6cfe0''), (''chunk-2d0ab4d9'', ''31d6cfe0''),
     (''chunk-2d0aba49'', ''31d6cfe0''), (''chunk-2d0ae94a'', ''31d6cfe0''),
     (''chunk-2d0b211c'', ''31d6cfe0''), (''chunk-2d0b3a10'', ''31d6cfe0''),
     (''chunk-2d0be08d'', ''31d6cfe0''), (''chunk-2d0c9500'', ''31d6cfe0''),
     (''chunk-2d0cbe86'', ''31d6cfe0''), (''chunk-2d0d6783'', ''31d6cfe0''),
     (''chunk-2d0e48f0'', ''31d6cfe0''), (''chunk-2d2073f4'', ''31d6cfe0''),
     (''chunk-2d221502'', ''31d6cfe0''), (''chunk-2d229052'', ''31d6cfe0''),
     (''chunk-2d856f3d'', ''dc0e368a''), (''chunk-366a9ded'', ''ae89e3a6''),
     (''chunk-417fe318'', ''f85bc702''), (''chunk-60aefd06'', ''a6e4e6d8''),
     (''chunk-65f6e5ef'', ''7e41f541''), (''chunk-13a133bc'', ''9c90b3b5''),
     (''chunk-488d230c'', ''2d455c8a''), (''chunk-7618b7ac'', ''25d3c7fa''),
     (''chunk-7814d7ca'', ''ad6f09bd''), (''chunk-9658de64'', ''3c42286b''),
     (''chunk-a2453b60'', ''4600b4e4''), (''chunk-749967f3'', ''31d6cfe0''),
     (''chunk-79ae0b8e'', ''8b3168c4''), (''chunk-7bcd7ac3'', ''9a4ee78a''),
     (''chunk-7ca391f8'', ''3c5bd89b''), (''chunk-7e477f36'', ''c243b0fa''),
     (''chunk-9068ef6e'', ''5035bfb1''), (''chunk-a884be24'', ''30747719''),
     (''chunk-c3eba2e4'', ''298f99fb''), (''chunk-c466b422'', ''b46f9070'')]"

text \<open>The chunks that have a style sheet.\<close>

definition css_chunks :: "string list" where
  "css_chunks =
    [''chunk-17145e97'', ''chunk-20dd31a9'', ''chunk-260ddaea'', ''chunk-2d856f3d'',
     ''chunk-366a9ded'', ''chunk-417fe318'', ''chunk-60aefd06'', ''chunk-65f6e5ef'',
     ''chunk-13a133bc'', ''chunk-488d230c'', ''chunk-7618b7ac'', ''chunk-7814d7ca'',
     ''chunk-9658de64'', ''chunk-a2453b60'', ''chunk-79ae0b8e'', ''chunk-7bcd7ac3'',
     ''chunk-7ca391f8'', ''chunk-7e477f36'', ''chunk-9068ef6e'', ''chunk-a884be24'',
     ''chunk-c3eba2e4'', ''chunk-c466b422'']"

text \<open>\<open>o.p\<close> is the empty string. A chunk that is not in the table gives \<open>undefined\<close> in the name.\<close>

definition script_src :: "string \<Rightarrow> string" where
  "script_src e = ''js/'' @ e @ ''.'' @
     (case map_of script_hash e of Some h \<Rightarrow> h | None \<Rightarrow> ''undefined'') @ ''.js''"

definition style_href :: "string \<Rightarrow> string" where
  "style_href e = ''css/'' @ e @ ''.'' @
     (case map_of style_hash e of Some h \<Rightarrow> h | None \<Rightarrow> ''undefined'') @ ''.css''"

section \<open>Modules\<close>

text \<open>
  A module is its factory, seen as the sequence of what the loader can observe: it requires
  another module, defines an export or throws. \<open>ran\<close> lists the factories that were started.
\<close>

datatype mstmt = Req string | Export string | Throw string

datatype require_error = NotCallable string | ModuleThrow string

record modsys =
  factories :: "string \<Rightarrow> mstmt list option"
  cache :: "string \<Rightarrow> (bool \<times> string list) option"
  ran :: "string list"

definition finish_module :: "string \<Rightarrow> modsys \<Rightarrow> modsys" where
  "finish_module t m =
     m\<lparr>cache := (cache m)(t := map_option (\<lambda>(l, xs). (True, xs)) (cache m t))\<rparr>"

definition add_export :: "string \<Rightarrow> string \<Rightarrow> modsys \<Rightarrow> modsys" where
  "add_export t x m =
     m\<lparr>cache := (cache m)(t := map_option (\<lambda>(l, xs). (l, xs @ [x])) (cache m t))\<rparr>"

text \<open>
  \<open>o(t)\<close>: a cached module answers at once, also while it is still running and after it threw.
  Otherwise the cache entry is made first and the factory is called then; a missing factory
  throws with the entry in place. The first argument bounds the depth of nested calls.
\<close>

fun require :: "nat \<Rightarrow> string \<Rightarrow> modsys \<Rightarrow> (require_error option \<times> modsys) option"
and run_body :: "nat \<Rightarrow> string \<Rightarrow> mstmt list \<Rightarrow> modsys \<Rightarrow> (require_error option \<times> modsys) option"
where
  "require 0 t m = None"
| "require (Suc n) t m =
     (case cache m t of
        Some _ \<Rightarrow> Some (None, m)
      | None \<Rightarrow>
          (let m1 = m\<lparr>cache := (cache m)(t \<mapsto> (False, []))\<rparr>
           in case factories m t of
                None \<Rightarrow> Some (Some (NotCallable t), m1)
              | Some b \<Rightarrow> run_body n t b (m1\<lparr>ran := ran m1 @ [t]\<rparr>)))"
| "run_body n t [] m = Some (None, finish_module t m)"
| "run_body n t (Req u # b) m =
     (case require n u m of
        None \<Rightarrow> None
      | Some (Some e, m') \<Rightarrow> Some (Some e, m')
      | Some (None, m') \<Rightarrow> run_body n t b m')"
| "run_body n t (Export x # b) m = run_body n t b (add_export t x m)"
| "run_body n t (Throw x # b) m = Some (Some (ModuleThrow x), m)"

section \<open>Chunks\<close>

text \<open>
  \<open>scripts\<close> is the object \<open>s\<close> (undefined, the pair of executor functions with the promise, 0),
  \<open>styles\<close> the object \<open>r\<close>, where the flag tells that the link has reported and only the
  continuation that stores 0 is outstanding. \<open>tags\<close> are the script elements in the order of
  their creation, with the flag whether their handlers are still set; \<open>hrefs\<close> are the style
  sheets in the document. \<open>deferred\<close> is the list \<open>c\<close>, \<open>started\<close> the entries run from it.
\<close>

datatype script_state = Unset | Loading nat | Loaded

datatype style_state = StyleUnset | StyleLoading nat bool | StyleLoaded

datatype tag_event = Load | Error | Timeout

datatype load_failure =
    ChunkLoadError string tag_event
  | CssLoadFailed string

record loader =
  scripts :: "string \<Rightarrow> script_state"
  styles :: "string \<Rightarrow> style_state"
  states :: "(unit, load_failure) pstate list"
  tags :: "(string \<times> bool) list"
  hrefs :: "string list"
  deferred :: "string list list"
  started :: "string list"
  mods :: modsys

definition new_promise :: "loader \<Rightarrow> nat \<times> loader" where
  "new_promise l = (length (states l), l\<lparr>states := states l @ [Pending]\<rparr>)"

text \<open>The style sheet of a chunk: the first half of \<open>o.e\<close>.\<close>

definition ensure_style :: "string \<Rightarrow> loader \<Rightarrow> nat list \<times> loader" where
  "ensure_style e l =
     (case styles l e of
        StyleLoading p _ \<Rightarrow> ([p], l)
      | StyleLoaded \<Rightarrow> ([], l)
      | StyleUnset \<Rightarrow>
          (if e \<in> set css_chunks then
             (let (p, l1) = new_promise l
              in if style_href e \<in> set (hrefs l) then
                   ([p], l1\<lparr>styles := (styles l)(e := StyleLoading p True)\<rparr>)
                 else
                   ([p], l1\<lparr>styles := (styles l)(e := StyleLoading p False),
                            hrefs := hrefs l @ [style_href e]\<rparr>))
           else ([], l)))"

text \<open>The script of a chunk: the second half.\<close>

definition ensure_script :: "string \<Rightarrow> loader \<Rightarrow> nat list \<times> loader" where
  "ensure_script e l =
     (case scripts l e of
        Loaded \<Rightarrow> ([], l)
      | Loading p \<Rightarrow> ([p], l)
      | Unset \<Rightarrow>
          (let (p, l1) = new_promise l
           in ([p], l1\<lparr>scripts := (scripts l)(e := Loading p), tags := tags l @ [(e, True)]\<rparr>)))"

text \<open>\<open>o.e(e)\<close>: the promises that \<open>Promise.all\<close> waits for.\<close>

definition ensure :: "string \<Rightarrow> loader \<Rightarrow> nat list \<times> loader" where
  "ensure e l =
     (let (ps, l1) = ensure_style e l; (qs, l2) = ensure_script e l1 in (ps @ qs, l2))"

text \<open>The handler \<open>u\<close> of a script element, also called by its timer.\<close>

definition script_event :: "nat \<Rightarrow> tag_event \<Rightarrow> loader \<Rightarrow> loader" where
  "script_event i ev l =
     (if i < length (tags l) \<and> snd (tags l ! i) then
        (let e = fst (tags l ! i);
             l1 = l\<lparr>tags := (tags l)[i := (e, False)]\<rparr>
         in case scripts l e of
              Loaded \<Rightarrow> l1
            | Loading p \<Rightarrow>
                l1\<lparr>states := settle p (Rejected (ChunkLoadError e ev)) (states l),
                   scripts := (scripts l)(e := Unset)\<rparr>
            | Unset \<Rightarrow> l1)
      else l)"

definition link_load :: "string \<Rightarrow> loader \<Rightarrow> loader" where
  "link_load e l =
     (case styles l e of
        StyleLoading p False \<Rightarrow> l\<lparr>styles := (styles l)(e := StyleLoading p True)\<rparr>
      | _ \<Rightarrow> l)"

definition link_error :: "string \<Rightarrow> loader \<Rightarrow> loader" where
  "link_error e l =
     (case styles l e of
        StyleLoading p False \<Rightarrow>
          l\<lparr>styles := (styles l)(e := StyleUnset),
            hrefs := remove1 (style_href e) (hrefs l),
            states := settle p (Rejected (CssLoadFailed e)) (states l)\<rparr>
      | _ \<Rightarrow> l)"

definition style_microtask :: "string \<Rightarrow> loader \<Rightarrow> loader" where
  "style_microtask e l =
     (case styles l e of
        StyleLoading p True \<Rightarrow>
          l\<lparr>styles := (styles l)(e := StyleLoaded), states := settle p (Fulfilled ()) (states l)\<rparr>
      | _ \<Rightarrow> l)"

text \<open>
  \<open>checkDeferred\<close>: every entry whose chunks have all arrived leaves the list and its module is
  required. A module that throws ends the walk.
\<close>

fun check_deferred :: "nat \<Rightarrow> string list list \<Rightarrow> loader \<Rightarrow> loader" where
  "check_deferred n [] l = l"
| "check_deferred n ([] # ds) l = check_deferred n ds l"
| "check_deferred n ((entry # deps) # ds) l =
     (if \<forall>d \<in> set deps. scripts l d = Loaded then
        (let l1 = l\<lparr>deferred := remove1 (entry # deps) (deferred l), started := started l @ [entry]\<rparr>
         in case require n entry (mods l) of
              None \<Rightarrow> l1
            | Some (Some _, m) \<Rightarrow> l1\<lparr>mods := m\<rparr>
            | Some (None, m) \<Rightarrow> check_deferred n ds (l1\<lparr>mods := m\<rparr>))
      else check_deferred n ds l)"

fun arrive :: "string list \<Rightarrow> loader \<Rightarrow> loader" where
  "arrive [] l = l"
| "arrive (e # es) l =
     arrive es
       (case scripts l e of
          Loading p \<Rightarrow>
            l\<lparr>scripts := (scripts l)(e := Loaded), states := settle p (Fulfilled ()) (states l)\<rparr>
        | _ \<Rightarrow> l\<lparr>scripts := (scripts l)(e := Loaded)\<rparr>)"

text \<open>The callback \<open>t\<close>: chunk names, modules, deferred entries.\<close>

definition jsonp ::
  "nat \<Rightarrow> string list \<Rightarrow> (string \<times> mstmt list) list \<Rightarrow> string list list \<Rightarrow> loader \<Rightarrow> loader" where
  "jsonp n es new ds l =
     (let l1 = arrive es (l\<lparr>mods := (mods l)\<lparr>factories := factories (mods l) ++ map_of new\<rparr>\<rparr>);
          l2 = l1\<lparr>deferred := deferred l1 @ ds\<rparr>
      in check_deferred n (deferred l2) l2)"

datatype event =
    Ensure string
  | Script nat tag_event
  | LinkLoad string
  | LinkError string
  | Microtask string
  | Jsonp "string list" "(string \<times> mstmt list) list" "string list list"

fun step :: "nat \<Rightarrow> event \<Rightarrow> loader \<Rightarrow> loader" where
  "step n (Ensure e) l = snd (ensure e l)"
| "step n (Script i ev) l = script_event i ev l"
| "step n (LinkLoad e) l = link_load e l"
| "step n (LinkError e) l = link_error e l"
| "step n (Microtask e) l = style_microtask e l"
| "step n (Jsonp es new ds) l = jsonp n es new ds l"

text \<open>The start of the bundle: the chunk \<open>app\<close> is there, the entry 0 waits for the vendors.\<close>

definition boot :: "(string \<Rightarrow> mstmt list option) \<Rightarrow> loader" where
  "boot fs =
     \<lparr>scripts = (\<lambda>_. Unset)(''app'' := Loaded), styles = (\<lambda>_. StyleUnset)(''app'' := StyleLoaded),
      states = [], tags = [], hrefs = [], deferred = [[''0'', ''chunk-vendors'']], started = [],
      mods = \<lparr>factories = fs, cache = (\<lambda>_. None), ran = []\<rparr>\<rparr>"

end
