(* ===== verification/Webpack_Properties.thy ===== *)
theory Webpack_Properties
  imports Webpack_Runtime
begin

text \<open>
  What the loader promises: promises settle once, no pending promise is forgotten, a chunk that
  has arrived stays, a failed one is loaded again, a module factory runs once, and the entry
  runs when its chunks have arrived, in whichever order they come.
\<close>

section \<open>Promises of the loader\<close>

lemma states_check_deferred [simp]: "states (check_deferred n ds l) = states l"
  by (induction n ds l rule: check_deferred.induct) (auto split: option.split simp: Let_def)

lemma scripts_check_deferred [simp]: "scripts (check_deferred n ds l) = scripts l"
  by (induction n ds l rule: check_deferred.induct) (auto split: option.split simp: Let_def)

lemma styles_check_deferred [simp]: "styles (check_deferred n ds l) = styles l"
  by (induction n ds l rule: check_deferred.induct) (auto split: option.split simp: Let_def)

lemma tags_check_deferred [simp]: "tags (check_deferred n ds l) = tags l"
  by (induction n ds l rule: check_deferred.induct) (auto split: option.split simp: Let_def)

lemma length_states_arrive [simp]: "length (states (arrive es l)) = length (states l)"
  by (induction es l rule: arrive.induct) (auto split: script_state.split)

lemma states_arrive_kept: "states l ! p \<noteq> Pending \<Longrightarrow> states (arrive es l) ! p = states l ! p"
  by (induction es l rule: arrive.induct) (auto split: script_state.split)

lemma scripts_arrive: "scripts (arrive es l) e = (if e \<in> set es then Loaded else scripts l e)"
  by (induction es l rule: arrive.induct) (auto split: script_state.split)

lemmas ensure_defs = ensure_def ensure_style_def ensure_script_def new_promise_def Let_def

lemma step_grows: "length (states l) \<le> length (states (step n ev l))"
  by (cases ev)
     (auto simp: ensure_defs script_event_def link_load_def link_error_def style_microtask_def
        jsonp_def split: script_state.split style_state.split bool.split)

lemma step_kept:
  "p < length (states l) \<Longrightarrow> states l ! p \<noteq> Pending \<Longrightarrow> states (step n ev l) ! p = states l ! p"
  by (cases ev)
     (auto simp: ensure_defs script_event_def link_load_def link_error_def style_microtask_def
        jsonp_def states_arrive_kept nth_append split: script_state.split style_state.split bool.split)

interpretation chunk_loader: promise_machine states "step n"
  by unfold_locales (auto intro: step_grows step_kept)

section \<open>The invariant\<close>

definition waits :: "loader \<Rightarrow> string + string \<Rightarrow> nat option" where
  "waits l k = (case k of
      Inl e \<Rightarrow> (case scripts l e of Loading p \<Rightarrow> Some p | _ \<Rightarrow> None)
    | Inr e \<Rightarrow> (case styles l e of StyleLoading p _ \<Rightarrow> Some p | _ \<Rightarrow> None))"

text \<open>
  Keys and pending promises correspond, a chunk that is loading has a script element whose
  handlers and timer are still set, and the entry chunk is there.
\<close>

definition loader_ok :: "loader \<Rightarrow> bool" where
  "loader_ok l \<longleftrightarrow> matched (waits l) (states l) \<and>
     (\<forall>e p. scripts l e = Loading p \<longrightarrow> (e, True) \<in> set (tags l)) \<and> scripts l ''app'' = Loaded"

lemma waits_script:
  "scripts l' = (scripts l)(e := Loading p) \<Longrightarrow> styles l' = styles l \<Longrightarrow>
     waits l' = (waits l)(Inl e \<mapsto> p)"
  "scripts l' = (scripts l)(e := Loaded) \<Longrightarrow> styles l' = styles l \<Longrightarrow>
     waits l' = (waits l)(Inl e := None)"
  "scripts l' = (scripts l)(e := Unset) \<Longrightarrow> styles l' = styles l \<Longrightarrow>
     waits l' = (waits l)(Inl e := None)"
  by (auto simp: waits_def fun_eq_iff split: sum.split)

lemma waits_style:
  "styles l' = (styles l)(e := StyleLoading p b) \<Longrightarrow> scripts l' = scripts l \<Longrightarrow>
     waits l' = (waits l)(Inr e \<mapsto> p)"
  "styles l' = (styles l)(e := StyleLoaded) \<Longrightarrow> scripts l' = scripts l \<Longrightarrow>
     waits l' = (waits l)(Inr e := None)"
  "styles l' = (styles l)(e := StyleUnset) \<Longrightarrow> scripts l' = scripts l \<Longrightarrow>
     waits l' = (waits l)(Inr e := None)"
  by (auto simp: waits_def fun_eq_iff split: sum.split)

lemma waits_cong:
  "scripts l = scripts l' \<Longrightarrow> styles l = styles l' \<Longrightarrow> waits l = waits l'"
  by (auto simp: waits_def fun_eq_iff split: sum.split)

lemma waits_at:
  "scripts l e = Loading p \<Longrightarrow> waits l (Inl e) = Some p"
  "scripts l e = Unset \<Longrightarrow> waits l (Inl e) = None"
  "scripts l e = Loaded \<Longrightarrow> waits l (Inl e) = None"
  "styles l e = StyleLoading p b \<Longrightarrow> waits l (Inr e) = Some p"
  "styles l e = StyleUnset \<Longrightarrow> waits l (Inr e) = None"
  by (simp_all add: waits_def)

text \<open>Each operation keeps the invariant: it starts a promise, settles one or touches none.\<close>

lemma loader_ok_new:
  assumes "loader_ok l" and "waits l k = None" and "waits l' = (waits l)(k \<mapsto> length (states l))"
    and "states l' = states l @ [Pending]" and "set (tags l) \<subseteq> set (tags l')"
    and "\<And>e p. scripts l' e = Loading p \<Longrightarrow> scripts l e = Loading p \<or> (e, True) \<in> set (tags l')"
    and "scripts l' ''app'' = Loaded"
  shows "loader_ok l'"
  using assms matched_new [of "waits l" "states l" k] by (fastforce simp: loader_ok_def)

lemma loader_ok_settled:
  assumes "loader_ok l" and "waits l k = Some p" and "r \<noteq> Pending"
    and "waits l' = (waits l)(k := None)" and "states l' = settle p r (states l)"
    and "\<And>e p. scripts l' e = Loading p \<Longrightarrow> (e, True) \<in> set (tags l')"
    and "scripts l' ''app'' = Loaded"
  shows "loader_ok l'"
  using assms matched_settle [of "waits l" "states l" k p r] by (simp add: loader_ok_def)

lemma loader_ok_same:
  assumes "loader_ok l" and "waits l' = waits l" and "states l' = states l"
    and "\<And>e p. scripts l' e = Loading p \<Longrightarrow> (e, True) \<in> set (tags l')"
    and "scripts l' ''app'' = Loaded"
  shows "loader_ok l'"
  using assms by (simp add: loader_ok_def)

lemma loader_ok_tag: "loader_ok l \<Longrightarrow> scripts l e = Loading p \<Longrightarrow> (e, True) \<in> set (tags l)"
  by (simp add: loader_ok_def)

lemma loader_ok_app: "loader_ok l \<Longrightarrow> scripts l ''app'' = Loaded"
  by (simp add: loader_ok_def)

lemma loader_ok_style:
  assumes "loader_ok l" shows "loader_ok (snd (ensure_style e l))"
proof (cases "styles l e = StyleUnset \<and> e \<in> set css_chunks")
  case True
  let ?l = "snd (ensure_style e l)"
  show ?thesis
  proof (rule loader_ok_new [OF assms, of "Inr e" ?l])
    show "waits ?l = (waits l)(Inr e \<mapsto> length (states l))"
      by (rule waits_style(1) [of _ _ _ _ "style_href e \<in> set (hrefs l)"])
         (use True in \<open>simp_all add: ensure_defs\<close>)
  qed (use True loader_ok_app [OF assms] in \<open>auto simp: ensure_defs waits_at split: if_splits\<close>)
qed (use assms in \<open>auto simp: ensure_style_def split: style_state.split\<close>)

lemma loader_ok_script:
  assumes "loader_ok l" shows "loader_ok (snd (ensure_script e l))"
proof (cases "scripts l e")
  case Unset
  let ?l = "snd (ensure_script e l)"
  show ?thesis
  proof (rule loader_ok_new [OF assms, of "Inl e" ?l])
    show "waits ?l = (waits l)(Inl e \<mapsto> length (states l))"
      by (rule waits_script(1)) (use Unset in \<open>simp_all add: ensure_defs\<close>)
  qed (use Unset loader_ok_app [OF assms] in
      \<open>auto simp: ensure_defs waits_at split: if_splits\<close>)
qed (use assms in \<open>simp_all add: ensure_script_def\<close>)

lemma loader_ok_ensure: "loader_ok l \<Longrightarrow> loader_ok (snd (ensure e l))"
  using loader_ok_script [OF loader_ok_style, of l e e]
  by (simp add: ensure_def Let_def split_beta)

lemma tags_other:
  assumes "(d, True) \<in> set ts" and "fst (ts ! i) \<noteq> d"
  shows "(d, True) \<in> set (ts[i := x])"
proof -
  obtain j where j: "j < length ts" "ts ! j = (d, True)" using assms(1) by (auto simp: in_set_conv_nth)
  then have "ts[i := x] ! j = (d, True)" using assms(2) by (metis fst_conv nth_list_update_neq)
  then show ?thesis using j(1) by (metis length_list_update nth_mem)
qed

lemma loader_ok_script_event:
  assumes "loader_ok l" shows "loader_ok (script_event i ev l)"
proof (cases "i < length (tags l) \<and> snd (tags l ! i)")
  case True
  define e where "e = fst (tags l ! i)"
  let ?l = "script_event i ev l"
  have t: "tags ?l = (tags l)[i := (e, False)]" and st: "styles ?l = styles l"
    using True by (simp_all add: script_event_def Let_def e_def split: script_state.split)
  have tags: "(d, True) \<in> set (tags ?l)" if "scripts l d = Loading p" "d \<noteq> e" for d p
    using tags_other loader_ok_tag [OF assms] that unfolding t e_def by metis
  show ?thesis
  proof (cases "scripts l e")
    case (Loading p)
    have sc: "scripts ?l = (scripts l)(e := Unset)"
      using True Loading by (simp add: script_event_def Let_def flip: e_def)
    show ?thesis
    proof (rule loader_ok_settled [OF assms waits_at(1) [OF Loading]])
      show "states ?l = settle p (Rejected (ChunkLoadError e ev)) (states l)"
        using True Loading by (simp add: script_event_def Let_def flip: e_def)
      show "waits ?l = (waits l)(Inl e := None)" by (rule waits_script(3) [OF sc st])
    qed (use loader_ok_app [OF assms] tags Loading in \<open>auto simp: sc split: if_splits\<close>)
  next
    case Unset
    have "(d, True) \<in> set (tags ?l)" if "scripts l d = Loading p" for d p
      using tags [OF that] that Unset by (cases "d = e") auto
    then show ?thesis
      using True Unset loader_ok_app [OF assms]
      by (intro loader_ok_same [OF assms waits_cong])
         (simp_all add: script_event_def Let_def flip: e_def)
  next
    case Loaded
    have "(d, True) \<in> set (tags ?l)" if "scripts l d = Loading p" for d p
      using tags [OF that] that Loaded by (cases "d = e") auto
    then show ?thesis
      using True Loaded loader_ok_app [OF assms]
      by (intro loader_ok_same [OF assms waits_cong])
         (simp_all add: script_event_def Let_def flip: e_def)
  qed
qed (use assms in \<open>auto simp: script_event_def\<close>)

lemma loader_ok_link_load:
  assumes "loader_ok l" shows "loader_ok (link_load e l)"
proof (cases "\<exists>p. styles l e = StyleLoading p False")
  case True
  then obtain p where p: "styles l e = StyleLoading p False" by blast
  have "waits (link_load e l) = (waits l)(Inr e \<mapsto> p)"
    by (rule waits_style(1) [of _ _ _ _ True]) (simp_all add: link_load_def p)
  also have "\<dots> = waits l" using waits_at(4) [OF p] by (simp add: fun_upd_idem)
  finally show ?thesis
    by (rule loader_ok_same [OF assms])
       (use loader_ok_tag [OF assms] loader_ok_app [OF assms] in \<open>auto simp: link_load_def p\<close>)
qed (use assms in \<open>auto simp: link_load_def split: style_state.split bool.split\<close>)

lemma loader_ok_link_error:
  assumes "loader_ok l" shows "loader_ok (link_error e l)"
proof (cases "\<exists>p. styles l e = StyleLoading p False")
  case True
  then obtain p where p: "styles l e = StyleLoading p False" by blast
  have "waits (link_error e l) = (waits l)(Inr e := None)"
    by (rule waits_style(3)) (simp_all add: link_error_def p)
  then show ?thesis
    by (rule loader_ok_settled [OF assms waits_at(4) [OF p], of "Rejected (CssLoadFailed e)", rotated])
       (use loader_ok_tag [OF assms] loader_ok_app [OF assms] in \<open>auto simp: link_error_def p\<close>)
qed (use assms in \<open>auto simp: link_error_def split: style_state.split bool.split\<close>)

lemma loader_ok_microtask:
  assumes "loader_ok l" shows "loader_ok (style_microtask e l)"
proof (cases "\<exists>p. styles l e = StyleLoading p True")
  case True
  then obtain p where p: "styles l e = StyleLoading p True" by blast
  have "waits (style_microtask e l) = (waits l)(Inr e := None)"
    by (rule waits_style(2)) (simp_all add: style_microtask_def p)
  then show ?thesis
    by (rule loader_ok_settled [OF assms waits_at(4) [OF p], of "Fulfilled ()", rotated])
       (use loader_ok_tag [OF assms] loader_ok_app [OF assms] in \<open>auto simp: style_microtask_def p\<close>)
qed (use assms in \<open>auto simp: style_microtask_def split: style_state.split bool.split\<close>)

lemma loader_ok_arrive: "loader_ok l \<Longrightarrow> loader_ok (arrive es l)"
proof (induction es arbitrary: l)
  case (Cons e es)
  note tag = loader_ok_tag [OF Cons.prems] and app = loader_ok_app [OF Cons.prems]
  show ?case
  proof (cases "scripts l e")
    case (Loading p)
    let ?l = "l\<lparr>scripts := (scripts l)(e := Loaded), states := settle p (Fulfilled ()) (states l)\<rparr>"
    have "waits ?l = (waits l)(Inl e := None)" by (rule waits_script(2)) simp_all
    then have "loader_ok ?l"
      by (rule loader_ok_settled [OF Cons.prems waits_at(1) [OF Loading], of "Fulfilled ()", rotated])
         (use tag app in \<open>auto split: if_splits\<close>)
    then show ?thesis using Cons.IH Loading by simp
  next
    case Unset
    let ?l = "l\<lparr>scripts := (scripts l)(e := Loaded)\<rparr>"
    have "waits ?l = (waits l)(Inl e := None)" by (rule waits_script(2)) simp_all
    also have "\<dots> = waits l" using waits_at(2) [OF Unset] by (simp add: fun_upd_idem)
    finally have "loader_ok ?l"
      by (rule loader_ok_same [OF Cons.prems]) (use tag app in \<open>auto split: if_splits\<close>)
    then show ?thesis using Cons.IH Unset by simp
  next
    case Loaded
    have "(scripts l)(e := Loaded) = scripts l" using Loaded by (simp add: fun_upd_idem)
    then show ?thesis using Cons Loaded by simp
  qed
qed simp

lemma loader_ok_cong:
  assumes "scripts l = scripts l'" "styles l = styles l'" "states l = states l'" "tags l = tags l'"
  shows "loader_ok l = loader_ok l'"
  using assms waits_cong [of l l'] by (simp add: loader_ok_def)

lemma loader_ok_jsonp:
  assumes "loader_ok l" shows "loader_ok (jsonp n es new ds l)"
proof -
  let ?m = "l\<lparr>mods := (mods l)\<lparr>factories := factories (mods l) ++ map_of new\<rparr>\<rparr>"
  have "loader_ok ?m" using assms loader_ok_cong [of l ?m] by simp
  then have "loader_ok (arrive es ?m)" by (rule loader_ok_arrive)
  then show ?thesis
    using loader_ok_cong [of "jsonp n es new ds l" "arrive es ?m"]
    by (simp add: jsonp_def Let_def)
qed

lemma loader_ok_step: "loader_ok l \<Longrightarrow> loader_ok (step n ev l)"
  by (cases ev)
     (simp_all add: loader_ok_ensure loader_ok_script_event loader_ok_link_load
       loader_ok_link_error loader_ok_microtask loader_ok_jsonp)

lemma loader_ok_boot: "loader_ok (boot fs)"
proof -
  have "waits (boot fs) = (\<lambda>_. None)" by (auto simp: waits_def boot_def fun_eq_iff split: sum.split)
  then show ?thesis by (simp add: loader_ok_def matched_empty) (simp add: boot_def matched_empty)
qed

lemma loader_ok_run: "loader_ok (fold (step n) evs (boot fs))"
proof -
  have "loader_ok l \<Longrightarrow> loader_ok (fold (step n) evs l)" for l
    by (induction evs arbitrary: l) (simp_all add: loader_ok_step)
  then show ?thesis using loader_ok_boot by blast
qed

section \<open>Modules run once\<close>

definition uncached :: "modsys \<Rightarrow> nat" where
  "uncached m = card {t \<in> dom (factories m). cache m t = None}"

text \<open>What a call may change: the cache grows, the factories stay.\<close>

definition extends :: "modsys \<Rightarrow> modsys \<Rightarrow> bool" where
  "extends m m' \<longleftrightarrow> factories m' = factories m \<and> (\<forall>t. cache m' t = None \<longrightarrow> cache m t = None)"

lemma extends_refl [simp]: "extends m m"
  by (simp add: extends_def)

lemma extends_trans: "extends m m' \<Longrightarrow> extends m' m'' \<Longrightarrow> extends m m''"
  by (auto simp: extends_def)

lemma extends_uncached:
  assumes "extends m m'" and "finite (dom (factories m))"
  shows "uncached m' \<le> uncached m"
  unfolding uncached_def
proof (rule card_mono)
  show "finite {t \<in> dom (factories m). cache m t = None}" using assms(2) by simp
  show "{t \<in> dom (factories m'). cache m' t = None} \<subseteq> {t \<in> dom (factories m). cache m t = None}"
    using assms(1) by (auto simp: extends_def)
qed

lemma extends_finish [simp]: "extends m (finish_module t m)"
  by (auto simp: extends_def finish_module_def)

lemma extends_export [simp]: "extends m (add_export t x m)"
  by (auto simp: extends_def add_export_def)

lemma extends_start [simp]: "extends m (m\<lparr>cache := (cache m)(t \<mapsto> v), ran := rs\<rparr>)"
  by (auto simp: extends_def)

lemma extends_mark [simp]: "extends m (m\<lparr>cache := (cache m)(t \<mapsto> v)\<rparr>)"
  by (auto simp: extends_def)

lemma require_extends:
  "require n t m = Some (r, m') \<Longrightarrow> extends m m'"
  "run_body n t b m = Some (r, m') \<Longrightarrow> extends m m'"
proof (induction n t m and n t b m arbitrary: r m' and r m' rule: require_run_body.induct)
  case (2 n t m)
  show ?case
  proof (cases "cache m t")
    case None
    show ?thesis
    proof (cases "factories m t")
      case (Some b)
      let ?m = "m\<lparr>cache := (cache m)(t \<mapsto> (False, [])), ran := ran m @ [t]\<rparr>"
      have "run_body n t b ?m = Some (r, m')" using "2.prems" None Some by (simp add: Let_def)
      then have "extends ?m m'" using "2.IH" [OF None refl Some] by simp
      then show ?thesis by (rule extends_trans [OF extends_start])
    qed (use 2 None in auto)
  qed (use 2 in auto)
next
  case (4 n t u b m)
  from "4.prems" show ?case
    by (auto split: option.splits prod.splits dest: "4.IH"(1) "4.IH"(2) intro: extends_trans)
next
  case (5 n t x b m)
  then have "extends (add_export t x m) m'" by simp
  then show ?case by (rule extends_trans [OF extends_export])
qed auto

lemma uncached_start:
  assumes "cache m t = None" and "factories m t = Some b" and "finite (dom (factories m))"
  shows "uncached (m\<lparr>cache := (cache m)(t \<mapsto> v), ran := rs\<rparr>) < uncached m"
  unfolding uncached_def
  by (rule psubset_card_mono) (use assms in auto)

text \<open>The nesting of calls is bounded by the number of modules that are not cached.\<close>

lemma require_total:
  "finite (dom (factories m)) \<Longrightarrow> uncached m < n \<Longrightarrow> require n t m \<noteq> None"
  "finite (dom (factories m)) \<Longrightarrow> uncached m < n \<Longrightarrow> run_body n t b m \<noteq> None"
proof (induction n t m and n t b m rule: require_run_body.induct)
  case (2 n t m)
  show ?case
  proof (cases "cache m t")
    case None
    show ?thesis
    proof (cases "factories m t")
      case (Some b)
      have "uncached (m\<lparr>cache := (cache m)(t \<mapsto> (False, [])), ran := ran m @ [t]\<rparr>) < n"
        using uncached_start [OF None Some "2.prems"(1), where v = "(False, [])" and rs = "ran m @ [t]"]
          "2.prems"(2)
        by linarith
      then show ?thesis
        using "2.IH" [OF None refl Some] "2.prems"(1) None Some by (simp add: Let_def)
    qed (simp add: None)
  qed simp
next
  case (4 n t u b m)
  then obtain r m' where r: "require n u m = Some (r, m')" by fastforce
  show ?case
  proof (cases r)
    case None
    have e: "extends m m'" using require_extends(1) [OF r] .
    then have "finite (dom (factories m'))" and "uncached m' < n"
      using "4.prems" extends_uncached [OF e] by (auto simp: extends_def)
    then show ?thesis using "4.IH"(2) r None by simp
  qed (simp add: r)
next
  case (5 n t x b m)
  have "uncached (add_export t x m) \<le> uncached m"
    by (rule extends_uncached) (use "5.prems" in simp_all)
  moreover have "factories (add_export t x m) = factories m" by (simp add: add_export_def)
  ultimately show ?case using 5 by simp
qed simp_all

definition once :: "modsys \<Rightarrow> bool" where
  "once m \<longleftrightarrow> distinct (ran m) \<and> set (ran m) \<subseteq> dom (cache m)"

lemma once_finish [simp]: "once m \<Longrightarrow> once (finish_module t m)"
  by (auto simp: once_def finish_module_def)

lemma once_export [simp]: "once m \<Longrightarrow> once (add_export t x m)"
  by (auto simp: once_def add_export_def)

lemma require_once:
  "require n t m = Some (r, m') \<Longrightarrow> once m \<Longrightarrow> once m' \<and> cache m' t \<noteq> None"
  "run_body n t b m = Some (r, m') \<Longrightarrow> once m \<Longrightarrow> once m'"
proof (induction n t m and n t b m arbitrary: r m' and r m' rule: require_run_body.induct)
  case (2 n t m)
  show ?case
  proof (cases "cache m t")
    case None
    show ?thesis
    proof (cases "factories m t")
      case (Some b)
      let ?m = "m\<lparr>cache := (cache m)(t \<mapsto> (False, [])), ran := ran m @ [t]\<rparr>"
      have "once ?m" using "2.prems"(2) None by (auto simp: once_def)
      moreover have run: "run_body n t b ?m = Some (r, m')"
        using "2.prems"(1) None Some by (simp add: Let_def)
      ultimately have "once m'" using "2.IH" [OF None refl Some] by simp
      moreover have "extends ?m m'" using require_extends(2) [OF run] .
      then have "cache m' t = None \<longrightarrow> cache ?m t = None" unfolding extends_def by blast
      ultimately show ?thesis by simp
    next
      case none: None
      have "m' = m\<lparr>cache := (cache m)(t \<mapsto> (False, []))\<rparr>" using "2.prems"(1) None none by simp
      then show ?thesis using "2.prems"(2) unfolding once_def by (simp add: subset_insertI2)
    qed
  qed (use 2 in auto)
next
  case (4 n t u b m)
  from "4.prems" show ?case
    by (auto split: option.splits prod.splits dest: "4.IH"(1) "4.IH"(2))
qed auto

section \<open>The deferred entry\<close>

text \<open>The entry is either still waiting for the vendors or has been started, once.\<close>

definition entry_ok :: "loader \<Rightarrow> bool" where
  "entry_ok l \<longleftrightarrow> loader_ok l \<and>
     (if scripts l ''chunk-vendors'' = Loaded then deferred l = [] \<and> started l = [''0'']
      else deferred l = [[''0'', ''chunk-vendors'']] \<and> started l = [])"

text \<open>Chunks register modules; only the entry bundle itself defers an entry.\<close>

fun no_entry :: "event \<Rightarrow> bool" where
  "no_entry (Jsonp es new ds) \<longleftrightarrow> ds = []"
| "no_entry _ \<longleftrightarrow> True"

lemma deferred_arrive [simp]: "deferred (arrive es l) = deferred l"
  by (induction es l rule: arrive.induct) (auto split: script_state.split)

lemma started_arrive [simp]: "started (arrive es l) = started l"
  by (induction es l rule: arrive.induct) (auto split: script_state.split)

lemma entry_ok_jsonp:
  assumes "entry_ok l" shows "entry_ok (jsonp n es new [] l)"
proof -
  have ok: "loader_ok (jsonp n es new [] l)"
    using assms by (intro loader_ok_jsonp) (simp add: entry_ok_def)
  have e: "''app'' \<in> set es \<or> scripts l ''app'' = Loaded"
    using assms by (simp add: entry_ok_def loader_ok_def)
  show ?thesis
  proof (cases "scripts l ''chunk-vendors'' = Loaded")
    case True
    then show ?thesis
      using assms ok by (simp add: entry_ok_def jsonp_def Let_def scripts_arrive)
  next
    case False
    then show ?thesis
      using assms ok
      by (auto simp: entry_ok_def jsonp_def Let_def scripts_arrive split: option.split)
  qed
qed

lemma entry_ok_step: "entry_ok l \<Longrightarrow> no_entry ev \<Longrightarrow> entry_ok (step n ev l)"
proof (cases ev)
  case (Ensure e)
  assume "entry_ok l"
  then show ?thesis
    using Ensure loader_ok_step [of l n ev]
    by (auto simp: entry_ok_def ensure_defs split: script_state.split style_state.split)
next
  case (Script i t)
  assume "entry_ok l"
  then show ?thesis
    using Script loader_ok_step [of l n ev]
    by (auto simp: entry_ok_def script_event_def Let_def split: script_state.splits if_splits)
next
  case (LinkLoad e)
  assume "entry_ok l"
  then show ?thesis
    using LinkLoad loader_ok_step [of l n ev]
    by (auto simp: entry_ok_def link_load_def split: style_state.split bool.split)
next
  case (LinkError e)
  assume "entry_ok l"
  then show ?thesis
    using LinkError loader_ok_step [of l n ev]
    by (auto simp: entry_ok_def link_error_def split: style_state.split bool.split)
next
  case (Microtask e)
  assume "entry_ok l"
  then show ?thesis
    using Microtask loader_ok_step [of l n ev]
    by (auto simp: entry_ok_def style_microtask_def split: style_state.split bool.split)
qed (simp add: entry_ok_jsonp)

lemma entry_ok_boot: "entry_ok (boot fs)"
  using loader_ok_boot [of fs] by (simp add: entry_ok_def) (simp add: boot_def)

lemma entry_ok_run: "\<forall>ev \<in> set evs. no_entry ev \<Longrightarrow> entry_ok (fold (step n) evs (boot fs))"
proof -
  have "entry_ok l \<Longrightarrow> \<forall>ev \<in> set evs. no_entry ev \<Longrightarrow> entry_ok (fold (step n) evs l)" for l
    by (induction evs arbitrary: l) (simp_all add: entry_ok_step)
  then show "\<forall>ev \<in> set evs. no_entry ev \<Longrightarrow> entry_ok (fold (step n) evs (boot fs))"
    using entry_ok_boot by blast
qed

lemma scripts_stay: "scripts l e = Loaded \<Longrightarrow> scripts (step n ev l) e = Loaded"
  by (cases ev)
     (auto simp: ensure_defs script_event_def link_load_def link_error_def style_microtask_def
        jsonp_def scripts_arrive split: script_state.split style_state.split bool.split)

lemma scripts_stay_run: "scripts l e = Loaded \<Longrightarrow> scripts (fold (step n) evs l) e = Loaded"
  by (induction evs arbitrary: l) (simp_all add: scripts_stay)

section \<open>Claims\<close>

text \<open>C13
  No load is forgotten: in every state the loader can reach, a pending promise either belongs
  to a chunk whose script element still has its handlers and its timer, so that the timer
  rejects it, the chunk can be asked for again and the arrival of the chunk fulfils it; or it
  belongs to a style sheet, whose link element or continuation settles it.
\<close>

theorem pending_load_has_handler:
  assumes "l = fold (step n) evs (boot fs)" and "p < length (states l)" and "states l ! p = Pending"
  shows "(\<exists>e i. scripts l e = Loading p \<and> i < length (tags l) \<and> tags l ! i = (e, True) \<and>
        states (step n (Script i Timeout) l) ! p = Rejected (ChunkLoadError e Timeout) \<and>
        scripts (step n (Script i Timeout) l) e = Unset \<and>
        states (step n (Jsonp [e] ms []) l) ! p = Fulfilled ()) \<or>
     (\<exists>e b. styles l e = StyleLoading p b \<and>
        states (step n (if b then Microtask e else LinkError e) l) ! p =
          (if b then Fulfilled () else Rejected (CssLoadFailed e)))"
proof -
  have ok: "loader_ok l" using loader_ok_run assms(1) by simp
  then obtain k where k: "waits l k = Some p"
    using assms(2,3) matched_owner unfolding loader_ok_def by blast
  show ?thesis
  proof (cases k)
    case (Inl e)
    then have e: "scripts l e = Loading p" using k by (simp add: waits_def split: script_state.splits)
    then obtain i where "i < length (tags l)" and "tags l ! i = (e, True)"
      using loader_ok_tag [OF ok e] by (auto simp: in_set_conv_nth)
    with e assms(2,3) show ?thesis
      by (intro disjI1 exI [of _ e] exI [of _ i])
         (simp add: script_event_def settle_at jsonp_def Let_def)
  next
    case (Inr e)
    then obtain b where "styles l e = StyleLoading p b"
      using k by (auto simp: waits_def split: style_state.splits)
    with assms(2,3) show ?thesis
      by (intro disjI2 exI [of _ e] exI [of _ b])
         (simp add: link_error_def style_microtask_def settle_at)
  qed
qed

theorem pending_load_has_handler_witness:
  "states (step 1 (Script 0 Timeout) (step 1 (Ensure ''chunk-2d0ae94a'') (boot (\<lambda>_. None)))) =
     [Rejected (ChunkLoadError ''chunk-2d0ae94a'' Timeout)]"
proof -
  let ?l = "step 1 (Ensure ''chunk-2d0ae94a'') (boot (\<lambda>_. None))"
  have l: "scripts ?l = (scripts (boot (\<lambda>_. None)))(''chunk-2d0ae94a'' := Loading 0)"
    "states ?l = [Pending]" "tags ?l = [(''chunk-2d0ae94a'', True)]"
    "styles ?l = styles (boot (\<lambda>_. None))"
    by (simp_all add: ensure_defs boot_def css_chunks_def)
  have f: "?l = fold (step 1) [Ensure ''chunk-2d0ae94a''] (boot (\<lambda>_. None))" by simp
  have "styles ?l e \<noteq> StyleLoading 0 b" for e b by (simp only: l(4)) (simp add: boot_def)
  then obtain e i where e: "scripts ?l e = Loading 0" and i: "i < length (tags ?l)"
    and r: "states (step 1 (Script i Timeout) ?l) ! 0 = Rejected (ChunkLoadError e Timeout)"
    using pending_load_has_handler [OF f, where p = 0 and ms = "[]"] l(2)
    by (simp del: step.simps) blast
  have "e = ''chunk-2d0ae94a''" using e unfolding l(1) by (simp add: boot_def split: if_splits)
  moreover have "i = 0" using i unfolding l(3) by simp
  ultimately have "states (step 1 (Script 0 Timeout) ?l) ! 0 =
      Rejected (ChunkLoadError ''chunk-2d0ae94a'' Timeout)" using r by blast
  moreover have "length (states (step 1 (Script 0 Timeout) ?l)) = 1"
    by (simp only: step.simps(2) script_event_def Let_def l) (simp add: boot_def)
  ultimately show ?thesis
    by (cases "states (step 1 (Script 0 Timeout) ?l)") (simp_all del: step.simps)
qed

text \<open>
  A promise of the loader settles at most once: whatever events follow, an observer that comes
  later sees the outcome an earlier observer saw.
\<close>

theorem chunk_promise_settles_once:
  assumes "l = fold (step n) evs (boot fs)" and "p < length (states l)" and "states l ! p \<noteq> Pending"
  shows "states (fold (step n) (evs @ later) (boot fs)) ! p = states l ! p"
  using chunk_loader.run_kept [of p l n later] assms by simp

theorem chunk_promise_settles_once_witness:
  "states (fold (step 1) [Ensure ''a'', Script 0 Error, Jsonp [''a''] [] [], Script 0 Load]
      (boot (\<lambda>_. None))) ! 0 = Rejected (ChunkLoadError ''a'' Error)"
  using chunk_promise_settles_once [of "fold (step 1) [Ensure ''a'', Script 0 Error] (boot (\<lambda>_. None))"
      1 "[Ensure ''a'', Script 0 Error]" "\<lambda>_. None" 0 "[Jsonp [''a''] [] [], Script 0 Load]"]
  by (simp add: ensure_defs boot_def css_chunks_def script_event_def settle_def)

text \<open>What the reports of a chunk that is loading do to its promise.\<close>

lemma loading_pending:
  assumes "loader_ok l" "scripts l e = Loading p"
  shows "p < length (states l)" "states l ! p = Pending"
  using assms matched_pending [of "waits l" "states l" "Inl e" p]
  by (simp_all add: loader_ok_def waits_at)

lemma failure_rejects:
  assumes "loader_ok l" and "scripts l e = Loading p" and "i < length (tags l)" and "tags l ! i = (e, True)"
  shows "states (script_event i ev l) = (states l)[p := Rejected (ChunkLoadError e ev)]"
  using assms loading_pending [OF assms(1,2)] by (simp add: script_event_def settle_def)

lemma arrival_fulfils:
  "loader_ok l \<Longrightarrow> scripts l e = Loading p \<Longrightarrow> e \<in> set es \<Longrightarrow> states (arrive es l) ! p = Fulfilled ()"
proof (induction es arbitrary: l)
  case (Cons d es)
  note pending = loading_pending [OF Cons.prems(1,2)]
  have one: "arrive (d # es) l = arrive es (arrive [d] l)" by simp
  show ?case
  proof (cases "d = e")
    case True
    then have "states (arrive [d] l) ! p = Fulfilled ()"
      using Cons.prems(2) pending by (simp add: settle_at)
    then show ?thesis unfolding one by (simp add: states_arrive_kept)
  next
    case False
    then have "scripts (arrive [d] l) e = Loading p"
      using Cons.prems(2) by (simp only: scripts_arrive) simp
    then show ?thesis
      unfolding one using False Cons.prems by (intro Cons.IH loader_ok_arrive) simp_all
  qed
qed simp

text \<open>C15
  Loading, failure, retry and caching, in every state the loader can reach: a request for a chunk
  that is loading shares its promise, which is pending; when the handlers of its script report a
  failure, exactly this promise is rejected, with the error that names the chunk and the kind of
  the report, and the next request starts a fresh script with a fresh, pending promise; when the
  chunk arrives its promise is fulfilled; and once a chunk has arrived it stays, so that no later
  request starts a script for it.
\<close>

theorem chunk_load_cycle:
  assumes "l = fold (step n) before (boot fs)"
  shows "(scripts l e = Loading p \<longrightarrow> ensure_script e l = ([p], l) \<and> states l ! p = Pending) \<and>
    (scripts l e = Loading p \<and> i < length (tags l) \<and> tags l ! i = (e, True) \<longrightarrow>
      (let l' = step n (Script i ev) l; (ps, l'') = ensure_script e l'; q = length (states l) in
         states l' = (states l)[p := Rejected (ChunkLoadError e ev)] \<and>
         ps = [q] \<and> scripts l'' e = Loading q \<and> states l'' ! q = Pending \<and>
         tags l'' = (tags l)[i := (e, False)] @ [(e, True)])) \<and>
    (scripts l e = Loading p \<and> e \<in> set es \<longrightarrow>
      (let l' = step n (Jsonp es new ds) l in
         states l' ! p = Fulfilled () \<and> scripts l' e = Loaded)) \<and>
    (scripts l e = Loaded \<longrightarrow>
      ensure_script e (fold (step n) evs l) = ([], fold (step n) evs l))"
proof -
  have ok: "loader_ok l" using assms loader_ok_run by simp
  let ?m = "l\<lparr>mods := (mods l)\<lparr>factories := factories (mods l) ++ map_of new\<rparr>\<rparr>"
  have "loader_ok ?m" using ok loader_ok_cong [of l ?m] by simp
  then have "states (step n (Jsonp es new ds) l) ! p = Fulfilled ()"
    if "scripts l e = Loading p" "e \<in> set es"
    using arrival_fulfils [of ?m e p es] that by (simp add: jsonp_def Let_def)
  moreover have "scripts (step n (Jsonp es new ds) l) e = Loaded" if "e \<in> set es"
    using that by (simp add: jsonp_def scripts_arrive Let_def)
  moreover have "scripts (script_event i ev l) e = Unset \<and> tags (script_event i ev l) = (tags l)[i := (e, False)]"
    if "scripts l e = Loading p" "i < length (tags l)" "tags l ! i = (e, True)"
    using that by (simp add: script_event_def)
  moreover have "(xs @ [Pending]) ! length (states l) = Pending" if "length xs = length (states l)"
    for xs :: "(unit, load_failure) pstate list"
    using that by (simp add: nth_append)
  ultimately show ?thesis
    using scripts_stay_run [of l e n evs] loading_pending [OF ok] failure_rejects [OF ok, of e p i ev]
    by (auto simp: ensure_script_def new_promise_def Let_def)
qed

theorem chunk_load_cycle_witness:
  "states (step 1 (Script 0 Timeout) (step 1 (Ensure ''a'') (boot (\<lambda>_. None)))) ! 0 =
     Rejected (ChunkLoadError ''a'' Timeout) \<and>
   states (step 1 (Jsonp [''a''] [] []) (step 1 (Ensure ''a'') (boot (\<lambda>_. None)))) ! 0 = Fulfilled ()"
proof -
  let ?l = "step 1 (Ensure ''a'') (boot (\<lambda>_. None))"
  have l: "?l = fold (step 1) [Ensure ''a''] (boot (\<lambda>_. None))" by simp
  have "scripts ?l ''a'' = Loading 0" "tags ?l = [(''a'', True)]" "states ?l = [Pending]"
    by (simp_all add: ensure_defs boot_def css_chunks_def)
  then show ?thesis
    using chunk_load_cycle [OF l, of "''a''" 0 0 Timeout "[''a'']" "[]" "[]" "[]"]
    by (simp add: Let_def split_beta del: step.simps)
qed

text \<open>C14
  The module function is total and runs a factory at most once: with finitely many modules
  registered, a call with enough depth ends, whatever cycles the requirements have; no factory
  is started twice; and afterwards the module answers from the cache without an error, even
  when its factory threw or does not exist.
\<close>

theorem require_runs_once:
  assumes "finite (dom (factories m))" and "card (dom (factories m)) < n" and "once m"
  shows "\<exists>r m'. require n t m = Some (r, m') \<and> distinct (ran m') \<and>
    require n t m' = Some (None, m') \<and> factories m' = factories m"
proof -
  have "uncached m \<le> card (dom (factories m))"
    unfolding uncached_def by (rule card_mono) (use assms(1) in auto)
  then obtain r m' where r: "require n t m = Some (r, m')"
    using require_total(1) [OF assms(1), of n t] assms(2) by fastforce
  obtain k where "n = Suc k" using assms(2) by (cases n) simp_all
  then show ?thesis
    using r require_once(1) [OF r assms(3)] require_extends(1) [OF r]
    by (auto simp: once_def extends_def)
qed

definition cyclic_mods :: modsys where
  "cyclic_mods = \<lparr>factories = [''a'' \<mapsto> [Req ''b'', Export ''x''], ''b'' \<mapsto> [Req ''a'', Throw ''t'']],
     cache = (\<lambda>_. None), ran = []\<rparr>"

theorem require_runs_once_witness:
  "\<exists>r m'. require 3 ''a'' cyclic_mods = Some (r, m') \<and> require 3 ''a'' m' = Some (None, m')"
proof -
  have d: "dom (factories cyclic_mods) = {''a'', ''b''}"
    by (auto simp: cyclic_mods_def)
  have "once cyclic_mods" by (simp add: once_def cyclic_mods_def)
  then show ?thesis
    using require_runs_once [of cyclic_mods 3 "''a''"] by (auto simp: d)
qed

text \<open>C16
  The application starts exactly once, and exactly when the vendors have arrived: whatever loads,
  failures and retries the browser reports before and after, and whichever chunk comes first.
\<close>

theorem entry_starts_once:
  assumes "\<forall>ev \<in> set evs. no_entry ev"
  shows "started (fold (step n) evs (boot fs)) =
    (if scripts (fold (step n) evs (boot fs)) ''chunk-vendors'' = Loaded then [''0''] else [])"
  using entry_ok_run [OF assms, of n fs] by (simp add: entry_ok_def split: if_splits)

theorem entry_starts_once_witness:
  "started (fold (step 5) [Jsonp [''chunk-a''] [] [], Jsonp [''chunk-vendors''] [] [],
     Jsonp [''chunk-vendors''] [] []] (boot [''0'' \<mapsto> [Req ''cd49''], ''cd49'' \<mapsto> []])) = [''0'']"
proof -
  let ?evs = "[Jsonp [''chunk-a''] [] [], Jsonp [''chunk-vendors''] [] [],
     Jsonp [''chunk-vendors''] [] []]"
  let ?l = "fold (step 5) ?evs (boot [''0'' \<mapsto> [Req ''cd49''], ''cd49'' \<mapsto> []])"
  have "scripts ?l ''chunk-vendors'' = Loaded"
    by (simp add: jsonp_def scripts_arrive Let_def del: arrive.simps)
  then show ?thesis
    using entry_starts_once [of ?evs 5 "[''0'' \<mapsto> [Req ''cd49''], ''cd49'' \<mapsto> []]"] by simp
qed

end
