(* ===== verification/Refinement.thy ===== *)
theory Refinement
  imports Main
begin

text \<open>
  Functional refinement of a machine by an abstract one: \<open>look\<close> reads the abstract state off the
  detailed one, \<open>label\<close> maps the detailed events to abstract ones, and an event without a label
  must not be visible. The laws speak of one step; the lemmas of whole runs.
\<close>

locale refinement =
  fixes look :: "'s \<Rightarrow> 'a"
    and step :: "'e \<Rightarrow> 's \<Rightarrow> 's"
    and spec :: "'f \<Rightarrow> 'a \<Rightarrow> 'a"
    and label :: "'e \<Rightarrow> 'f option"
    and inv :: "'s \<Rightarrow> bool"
  assumes inv_step: "inv s \<Longrightarrow> inv (step e s)"
    and simulates: "inv s \<Longrightarrow>
      look (step e s) = (case label e of None \<Rightarrow> look s | Some f \<Rightarrow> spec f (look s))"
begin

lemma inv_run: "inv s \<Longrightarrow> inv (fold step es s)"
  by (induction es arbitrary: s) (simp_all add: inv_step)

lemma run_refines:
  "inv s \<Longrightarrow> look (fold step es s) = fold spec (List.map_filter label es) (look s)"
proof (induction es arbitrary: s)
  case (Cons e es)
  from Cons.IH [OF inv_step [OF Cons.prems]] show ?case
    by (simp add: simulates [OF Cons.prems] map_filter_simps split: option.split)
qed (simp add: map_filter_simps)

text \<open>An invariant of the abstract machine holds of what is seen of the detailed one.\<close>

lemma spec_invariant:
  assumes "inv s" and "J (look s)" and "\<And>f a. J a \<Longrightarrow> J (spec f a)"
  shows "J (look (fold step es s))"
proof -
  have "J (fold spec fs a)" if "J a" for fs a
    using that assms(3) by (induction fs arbitrary: a) auto
  then show ?thesis using assms(1,2) by (simp add: run_refines)
qed

end

end
