(* ===== verification/Loader_Properties.thy ===== *)
theory Loader_Properties
  imports Webpack_Properties Refinement
begin

text \<open>
  The life of a chunk as a user of the loader sees it, without modules, promises, style sheets
  and timers: a chunk is absent, requested or present; a request creates a script element, whose
  first report ends its life and takes a chunk that is still requested back to absent; the
  arrival of a chunk makes it present for good. The loader of \<open>Webpack_Runtime\<close> refines this
  machine, and the invariant that at most one script element of a chunk has its handlers is
  proved on the abstract machine.
\<close>

section \<open>The abstract machine\<close>

datatype phase = Absent | Requested | Present

record lifecycle =
  phase_of :: "string \<Rightarrow> phase"
  elements :: "(string \<times> bool) list"

datatype life_event =
    Ask string
  | Report nat
  | Arrive "string list"

fun life_step :: "life_event \<Rightarrow> lifecycle \<Rightarrow> lifecycle" where
  "life_step (Ask e) s =
     (if phase_of s e = Absent then
        s\<lparr>phase_of := (phase_of s)(e := Requested), elements := elements s @ [(e, True)]\<rparr>
      else s)"
| "life_step (Report i) s =
     (if i < length (elements s) \<and> snd (elements s ! i) then
        (let e = fst (elements s ! i)
         in s\<lparr>elements := (elements s)[i := (e, False)],
              phase_of := (if phase_of s e = Requested then (phase_of s)(e := Absent)
                           else phase_of s)\<rparr>)
      else s)"
| "life_step (Arrive es) s =
     s\<lparr>phase_of := (\<lambda>e. if e \<in> set es then Present else phase_of s e)\<rparr>"

definition live :: "string \<Rightarrow> lifecycle \<Rightarrow> nat" where
  "live e s = count_list (elements s) (e, True)"

text \<open>An absent chunk has no live element, a requested one exactly one, a present one at most
  one, whose script is still being run.\<close>

definition life_ok :: "lifecycle \<Rightarrow> bool" where
  "life_ok s \<longleftrightarrow> (\<forall>e. (phase_of s e = Absent \<longrightarrow> live e s = 0) \<and>
     (phase_of s e = Requested \<longrightarrow> live e s = 1) \<and> live e s \<le> 1)"

lemma count_list_disarm:
  assumes "i < length xs" and "xs ! i = (e, True)"
  shows "count_list (xs[i := (e, False)]) (k, True) =
    (if k = e then count_list xs (k, True) - 1 else count_list xs (k, True))"
proof -
  have xs: "xs = take i xs @ (e, True) # drop (Suc i) xs"
    using assms id_take_nth_drop by metis
  have up: "xs[i := (e, False)] = take i xs @ (e, False) # drop (Suc i) xs"
    using assms(1) by (rule upd_conv_take_nth_drop)
  have "count_list xs (k, True) = count_list (take i xs @ (e, True) # drop (Suc i) xs) (k, True)"
    using xs by simp
  then show ?thesis unfolding up by (cases "k = e") simp_all
qed

lemma life_step_ok:
  assumes "life_ok s" shows "life_ok (life_step f s)"
proof (cases f)
  case (Ask e)
  then show ?thesis using assms by (auto simp: life_ok_def live_def)
next
  case (Report i)
  show ?thesis
  proof (cases "i < length (elements s) \<and> snd (elements s ! i)")
    case True
    then obtain e where e: "elements s ! i = (e, True)" by (cases "elements s ! i") auto
    have "live k (life_step f s) = (if k = e then live k s - 1 else live k s)" for k
      using True e count_list_disarm [of i "elements s" e k] Report by (simp add: live_def Let_def)
    moreover have "phase_of (life_step f s) =
        (if phase_of s e = Requested then (phase_of s)(e := Absent) else phase_of s)"
      using True e Report by (simp add: Let_def)
    ultimately show ?thesis using assms by (auto simp: life_ok_def)
  qed (use assms Report in auto)
next
  case (Arrive es)
  then show ?thesis using assms by (auto simp: life_ok_def live_def)
qed

section \<open>The loader refines it\<close>

definition chunk_phase :: "script_state \<Rightarrow> phase" where
  "chunk_phase s = (case s of Unset \<Rightarrow> Absent | Loading _ \<Rightarrow> Requested | Loaded \<Rightarrow> Present)"

definition lifecycle_of :: "loader \<Rightarrow> lifecycle" where
  "lifecycle_of l = \<lparr>phase_of = (\<lambda>e. chunk_phase (scripts l e)), elements = tags l\<rparr>"

fun life_event_of :: "event \<Rightarrow> life_event option" where
  "life_event_of (Ensure e) = Some (Ask e)"
| "life_event_of (Script i ev) = Some (Report i)"
| "life_event_of (Jsonp es new ds) = Some (Arrive es)"
| "life_event_of _ = None"

lemma chunk_phase_simps [simp]:
  "chunk_phase Unset = Absent" "chunk_phase (Loading p) = Requested" "chunk_phase Loaded = Present"
  by (simp_all add: chunk_phase_def)

lemma scripts_ensure_style [simp]: "scripts (snd (ensure_style e l)) = scripts l"
  by (auto simp: ensure_defs split: style_state.split)

lemma tags_ensure_style [simp]: "tags (snd (ensure_style e l)) = tags l"
  by (auto simp: ensure_defs split: style_state.split)

lemma tags_arrive [simp]: "tags (arrive es l) = tags l"
  by (induction es l rule: arrive.induct) (auto split: script_state.split)

lemma lifecycle_ensure:
  "lifecycle_of (snd (ensure e l)) = life_step (Ask e) (lifecycle_of l)"
proof -
  have "snd (ensure e l) = snd (ensure_script e (snd (ensure_style e l)))"
    by (simp add: ensure_def split_beta Let_def)
  then show ?thesis
    by (auto simp: lifecycle_of_def ensure_script_def new_promise_def fun_eq_iff
        split: script_state.split)
qed

lemma lifecycle_script:
  "lifecycle_of (script_event i ev l) = life_step (Report i) (lifecycle_of l)"
  by (auto simp: lifecycle_of_def script_event_def Let_def fun_eq_iff split: script_state.split)

lemma lifecycle_jsonp:
  "lifecycle_of (jsonp n es new ds l) = life_step (Arrive es) (lifecycle_of l)"
  by (simp add: lifecycle_of_def jsonp_def Let_def scripts_arrive fun_eq_iff)

interpretation loader_life: refinement lifecycle_of "step n" life_step life_event_of "\<lambda>_. True"
proof
  fix s ev
  show "lifecycle_of (step n ev s) =
      (case life_event_of ev of None \<Rightarrow> lifecycle_of s | Some f \<Rightarrow> life_step f (lifecycle_of s))"
    by (cases ev)
       (auto simp: lifecycle_ensure lifecycle_script lifecycle_jsonp,
        auto simp: lifecycle_of_def link_load_def link_error_def style_microtask_def
          split: style_state.split bool.split)
qed simp

definition first_life :: lifecycle where
  "first_life = \<lparr>phase_of = (\<lambda>_. Absent)(''app'' := Present), elements = []\<rparr>"

lemma lifecycle_boot: "lifecycle_of (boot fs) = first_life"
  by (simp add: lifecycle_of_def boot_def first_life_def fun_eq_iff)

lemma first_life_ok: "life_ok first_life"
  by (simp add: life_ok_def first_life_def live_def)

section \<open>Properties\<close>

text \<open>C11
  Refinement: whatever the browser reports in whatever order, and whatever modules, style sheets
  and deferred entries do meanwhile, the phases of the chunks and their script elements are those
  of the abstract life of a chunk, run on the requests, reports and arrivals alone.
\<close>

theorem loader_refines_lifecycle:
  "lifecycle_of (fold (step n) evs (boot fs)) =
     fold life_step (List.map_filter life_event_of evs) first_life"
  by (simp add: loader_life.run_refines lifecycle_boot)

text \<open>The elements of a chunk grow only with a request that finds the chunk unset.\<close>

definition elements_of :: "string \<Rightarrow> loader \<Rightarrow> nat" where
  "elements_of e l = length (filter (\<lambda>t. fst t = e) (tags l))"

lemma filter_disarm:
  "i < length ts \<Longrightarrow> fst x = fst (ts ! i) \<Longrightarrow>
   length (filter (\<lambda>t. fst t = e) (ts[i := x])) = length (filter (\<lambda>t. fst t = e) ts)"
proof (induction ts arbitrary: i)
  case (Cons t ts)
  then show ?case by (cases i) auto
qed simp

lemma elements_step:
  "elements_of e (step n ev l) =
     (if ev = Ensure e \<and> scripts l e = Unset then Suc (elements_of e l) else elements_of e l)"
proof (cases ev)
  case (Ensure d)
  have "snd (ensure d l) = snd (ensure_script d (snd (ensure_style d l)))"
    by (simp add: ensure_def split_beta Let_def)
  then show ?thesis
    using Ensure
    by (auto simp: elements_of_def ensure_script_def new_promise_def split: script_state.split)
next
  case (Script i rep)
  then show ?thesis
    by (auto simp: elements_of_def script_event_def filter_disarm Let_def split: script_state.split)
qed (auto simp: elements_of_def link_load_def link_error_def style_microtask_def jsonp_def Let_def
    split: style_state.split bool.split)

text \<open>C12
  One armed script per chunk. In every state the loader can reach, at most one script element of a
  chunk still has its handlers, exactly one when the chunk is loading and none when it is not
  requested; and another element is made for a chunk only by a request that comes when every
  earlier element of it has reported, with a load, an error or a timeout. A timeout disarms the
  element and no more: its download may go on, and a retry puts a second element beside it,
  as in the witness.
\<close>

theorem one_live_script:
  assumes "l = fold (step n) evs (boot fs)"
  shows "count_list (tags l) (e, True) \<le> 1 \<and>
    (scripts l e = Unset \<longrightarrow> count_list (tags l) (e, True) = 0) \<and>
    (\<forall>p. scripts l e = Loading p \<longrightarrow> count_list (tags l) (e, True) = 1) \<and>
    (elements_of e (step n ev l) \<noteq> elements_of e l \<longrightarrow>
       ev = Ensure e \<and> count_list (tags l) (e, True) = 0 \<and>
       elements_of e (step n ev l) = Suc (elements_of e l))"
proof -
  have "life_ok (lifecycle_of l)"
    unfolding assms
    by (rule loader_life.spec_invariant) (simp_all add: lifecycle_boot first_life_ok life_step_ok)
  then have ok: "(chunk_phase (scripts l e) = Absent \<longrightarrow> count_list (tags l) (e, True) = 0) \<and>
      (chunk_phase (scripts l e) = Requested \<longrightarrow> count_list (tags l) (e, True) = 1) \<and>
      count_list (tags l) (e, True) \<le> 1"
    by (simp add: life_ok_def live_def lifecycle_of_def)
  then show ?thesis using elements_step [of e n ev l] by (auto split: if_splits)
qed

theorem one_live_script_witness:
  "let l = fold (step 5) [Ensure ''a'', Script 0 Timeout, Ensure ''a''] (boot (\<lambda>_. None))
   in elements_of ''a'' l = 2 \<and> count_list (tags l) (''a'', True) = 1"
proof -
  let ?evs = "[Ensure ''a'', Script 0 Timeout, Ensure ''a'']"
  let ?l = "fold (step 5) ?evs (boot (\<lambda>_. None))"
  have "scripts ?l ''a'' = Loading 1" "elements_of ''a'' ?l = 2"
    by (simp_all add: ensure_defs boot_def css_chunks_def script_event_def elements_of_def)
  then show ?thesis
    using one_live_script [OF refl, of 5 ?evs "\<lambda>_. None" "''a''"] by (simp only: Let_def)
qed

end
