(* ===== verification/Native_Bridge.thy ===== *)
theory Native_Bridge
  imports Promises Js_Utils Json_Text
begin

text \<open>
  The bridge to the native application, module \<open>481f\<close> of \<open>app/assets/dist/js/app.c2d43b15.js\<close>.
  A call makes a message with a fresh id, registers a function on \<open>window\<close> under a name derived
  from the id, and posts the message to a channel; the native side answers by calling that
  function with a text. The ids come from the uuid library, which is not part of the program:
  they are an argument of \<open>call\<close>.
\<close>

section \<open>Messages\<close>

datatype channel =
    EditOrLoadCA
  | QrScanToJs
  | SignMsgToJs
  | QrScanAndPwdAndSignToQR
  | GoBack

record native_msg =
  msg_id :: jsstr
  msg_data :: jsstr
  callFun :: jsstr
  msg_err :: jsstr

text \<open>The constructor \<open>o\<close>: the function's name is \<open>f\<close> and the id without its hyphens.\<close>

definition call_name :: "jsstr \<Rightarrow> jsstr" where
  "call_name uid = lit ''f'' @ filter (\<lambda>c. c \<noteq> 45) uid"

definition new_msg :: "jsstr \<Rightarrow> native_msg" where
  "new_msg uid = \<lparr>msg_id = uid, msg_data = [], callFun = call_name uid, msg_err = []\<rparr>"

section \<open>Reading the answer\<close>

text \<open>
  The property of a parsed value; values that are not objects have none of the names the code
  reads. Reading a property of \<open>null\<close> is an error, which \<open>receive\<close> treats itself.
\<close>

fun member :: "json \<Rightarrow> string \<Rightarrow> json option" where
  "member (JObj ms) k = map_of (props_of ms) (lit k)"
| "member _ k = None"

text \<open>
  A number is falsy when it is zero as a double: its digits are zero or its value is at most
  \<open>2 ^ -1075\<close>, which rounds to zero. Its text is split into the digits before the exponent, how
  many of them follow the point, and the exponent.
\<close>

definition mantissa :: "jsstr \<Rightarrow> jsstr" where
  "mantissa s = takeWhile (\<lambda>c. c \<noteq> 69 \<and> c \<noteq> 101) s"

definition fraction_digits :: "jsstr \<Rightarrow> nat" where
  "fraction_digits s = length (filter is_digit16 (dropWhile (\<lambda>c. c \<noteq> 46) (mantissa s)))"

definition exponent :: "jsstr \<Rightarrow> int" where
  "exponent s =
     (let x = drop (Suc (length (mantissa s))) s;
          v = int (index_value (filter is_digit16 x))
      in if x \<noteq> [] \<and> hd x = 45 then - v else v)"

definition zero_num :: "jsstr \<Rightarrow> bool" where
  "zero_num s =
     (let m = index_value (filter is_digit16 (mantissa s));
          e = exponent s - int (fraction_digits s)
      in m = 0 \<or> (e < 0 \<and> m * 2 ^ 1075 \<le> 10 ^ nat (- e)))"

fun js_truthy :: "json option \<Rightarrow> bool" where
  "js_truthy None = False"
| "js_truthy (Some JNull) = False"
| "js_truthy (Some (JBool b)) = b"
| "js_truthy (Some (JNum s)) = (\<not> zero_num s)"
| "js_truthy (Some (JStr s)) = (s \<noteq> [])"
| "js_truthy (Some _) = True"

section \<open>The bridge\<close>

text \<open>
  \<open>handlers\<close> are the functions registered on \<open>window\<close>, each with the promise it settles;
  \<open>replies\<close> are the promises; \<open>posted\<close> the messages the native side has received.
\<close>

record bridge =
  handlers :: "jsstr \<Rightarrow> nat option"
  replies :: "(json option, json) pstate list"
  posted :: "(channel \<times> native_msg) list"

definition empty_bridge :: bridge where
  "empty_bridge = \<lparr>handlers = (\<lambda>_. None), replies = [], posted = []\<rparr>"

text \<open>
  The function \<open>l(e, t)\<close>. When the channel does not exist on \<open>window\<close> the handler is registered
  and nothing is posted.
\<close>

definition call :: "jsstr \<Rightarrow> jsstr \<Rightarrow> channel \<Rightarrow> bool \<Rightarrow> bridge \<Rightarrow> bridge" where
  "call uid dat ch present b =
     (let r = (new_msg uid)\<lparr>msg_data := dat\<rparr>;
          b1 = b\<lparr>handlers := (handlers b)(callFun r \<mapsto> length (replies b)),
                 replies := replies b @ [Pending]\<rparr>
      in if present then b1\<lparr>posted := posted b @ [(ch, r)]\<rparr> else b1)"

definition callNativeEditOrLoadCA :: "jsstr \<Rightarrow> jsstr \<Rightarrow> bool \<Rightarrow> bridge \<Rightarrow> bridge" where
  "callNativeEditOrLoadCA uid e = call uid e EditOrLoadCA"

definition callNativeQrScanToJs :: "jsstr \<Rightarrow> bool \<Rightarrow> bridge \<Rightarrow> bridge" where
  "callNativeQrScanToJs uid = call uid [] QrScanToJs"

definition callNativeSignMsgToJs :: "jsstr \<Rightarrow> jsstr \<Rightarrow> bool \<Rightarrow> bridge \<Rightarrow> bridge" where
  "callNativeSignMsgToJs uid e = call uid e SignMsgToJs"

text \<open>What a call of a registered function throws into the native side.\<close>

datatype reply_error = NoSuchFunction | SyntaxError | NullReply

text \<open>An answer with a truthy \<open>err\<close> rejects the promise with the whole answer.\<close>

definition receive :: "jsstr \<Rightarrow> jsstr \<Rightarrow> bridge \<Rightarrow> reply_error option \<times> bridge" where
  "receive f text b =
     (case handlers b f of
        None \<Rightarrow> (Some NoSuchFunction, b)
      | Some p \<Rightarrow>
          (case json_parse text of
             None \<Rightarrow> (Some SyntaxError, b)
           | Some t \<Rightarrow>
               (let b1 = b\<lparr>handlers := (handlers b)(f := None)\<rparr>
                in if t = JNull then (Some NullReply, b1)
                   else if js_truthy (member t ''err'') then
                     (None, b1\<lparr>replies := settle p (Rejected t) (replies b)\<rparr>)
                   else
                     (None, b1\<lparr>replies := settle p (Fulfilled (member t ''data'')) (replies b)\<rparr>))))"

datatype bridge_event =
    Call jsstr jsstr channel bool
  | Reply jsstr jsstr

fun bridge_step :: "bridge_event \<Rightarrow> bridge \<Rightarrow> bridge" where
  "bridge_step (Call uid dat ch present) b = call uid dat ch present b"
| "bridge_step (Reply f text) b = snd (receive f text b)"

section \<open>Chain parameters for the native side\<close>

text \<open>
  \<open>callNativeSaveDappChainInfo\<close> reads the texts of the connected chain, which the chain library
  provides, and posts them as one object. \<open>parseInt\<close> reads the longest prefix of digits, in
  base 16 after \<open>0x\<close>; \<open>None\<close> is \<open>NaN\<close>.
\<close>

record chain_texts =
  specVersion_text :: jsstr
  transactionVersion_text :: jsstr
  genesisHash_text :: jsstr
  metadata_hex :: jsstr
  ss58Format_text :: jsstr
  tokenDecimals_text :: jsstr
  tokenSymbol_text :: jsstr

record dapp_chain_info =
  specVersion :: "int option"
  txVersion :: "int option"
  genesisHash :: jsstr
  metadata :: jsstr
  ss58Format :: "int option"
  tokenDecimals :: "int option"
  tokenSymbol :: jsstr

definition digits_value :: "int \<Rightarrow> jsstr \<Rightarrow> int option" where
  "digits_value base s =
     (let ds = takeWhile (\<lambda>c. \<exists>v \<in> set_option (hex_val c). uint v < base) s
      in if ds = [] then None
         else Some (foldl (\<lambda>a c. base * a + uint (the (hex_val c))) 0 ds))"

definition parse_int :: "jsstr \<Rightarrow> int option" where
  "parse_int s0 =
     (let s1 = dropWhile js_space s0;
          sg = (if s1 \<noteq> [] \<and> hd s1 = 45 then - 1 else 1 :: int);
          s2 = (if s1 \<noteq> [] \<and> (hd s1 = 45 \<or> hd s1 = 43) then tl s1 else s1)
      in map_option (\<lambda>v. sg * v)
           (if starts_with s2 (lit ''0x'') \<or> starts_with s2 (lit ''0X'')
            then digits_value 16 (drop 2 s2) else digits_value 10 s2))"

definition callNativeSaveDappChainInfo :: "chain_texts \<Rightarrow> dapp_chain_info" where
  "callNativeSaveDappChainInfo t =
     \<lparr>specVersion = parse_int (specVersion_text t),
      txVersion = parse_int (transactionVersion_text t),
      genesisHash = genesisHash_text t, metadata = metadata_hex t,
      ss58Format = parse_int (ss58Format_text t),
      tokenDecimals = parse_int (tokenDecimals_text t), tokenSymbol = tokenSymbol_text t\<rparr>"

end
