(* ===== verification/Native_Properties.thy ===== *)
theory Native_Properties
  imports Native_Bridge
begin

text \<open>
  What the bridge promises: an answer settles the call it belongs to and no other, answers are
  counted once, names of distinct calls differ; and the answer \<open>null\<close>, which loses its call.
\<close>

section \<open>Promises of the bridge\<close>

lemma bridge_grows: "length (replies b) \<le> length (replies (bridge_step ev b))"
  by (cases ev)
     (auto simp: call_def receive_def Let_def split: option.split)

lemma bridge_kept:
  "p < length (replies b) \<Longrightarrow> replies b ! p \<noteq> Pending \<Longrightarrow>
    replies (bridge_step ev b) ! p = replies b ! p"
  by (cases ev)
     (auto simp: call_def receive_def Let_def nth_append split: option.split)

interpretation native_bridge: promise_machine replies bridge_step
  by unfold_locales (auto intro: bridge_grows bridge_kept)

section \<open>Names\<close>

lemma below_16: "{..<16} = {0 :: nat, 1, 2, 3, 4, 5, 6, 7, 8, 9, 10, 11, 12, 13, 14, 15}"
  by auto presburger

lemma hyphen_not_hex: "(45 :: jschar) \<notin> hex_chars"
  unfolding hex_chars_def below_16 by (simp add: hex_char_def)

lemma variant_hex: "variant_chars \<subseteq> hex_chars"
  by (auto simp: variant_chars_def hex_chars_def)

lemma fits_hyphen:
  assumes "fits_template t c" and "fits_template t d"
  shows "c = 45 \<longleftrightarrow> d = 45" and "c = 45 \<Longrightarrow> c = d"
  using assms hyphen_not_hex variant_hex by (auto simp: fits_template_def split: if_splits)

lemma unhyphen_inj:
  assumes "list_all2 fits_template ts u" and "list_all2 fits_template ts v"
    and "filter (\<lambda>c. c \<noteq> 45) u = filter (\<lambda>c. c \<noteq> 45) v"
  shows "u = v"
  using assms
proof (induction ts arbitrary: u v)
  case (Cons t ts)
  then obtain c u' d v' where u: "u = c # u'" and v: "v = d # v'"
    by (auto simp: list_all2_Cons1)
  then have "c = 45 \<longleftrightarrow> d = 45" and "c = 45 \<Longrightarrow> c = d"
    using Cons.prems fits_hyphen [of t c d] by auto
  then show ?case using Cons.prems Cons.IH by (cases "c = 45") (auto simp: u v)
qed simp

lemma call_name_inj:
  "list_all2 fits_template ts u \<Longrightarrow> list_all2 fits_template ts v \<Longrightarrow>
    call_name u = call_name v \<Longrightarrow> u = v"
  by (auto simp: call_name_def intro: unhyphen_inj)

section \<open>The invariant\<close>

text \<open>The calls of a run, and its answers other than \<open>null\<close>.\<close>

fun call_ids :: "bridge_event list \<Rightarrow> jsstr list" where
  "call_ids [] = []"
| "call_ids (Call uid dat ch present # evs) = uid # call_ids evs"
| "call_ids (Reply f tx # evs) = call_ids evs"

fun no_null :: "bridge_event \<Rightarrow> bool" where
  "no_null (Reply f tx) \<longleftrightarrow> json_parse tx \<noteq> Some JNull"
| "no_null _ \<longleftrightarrow> True"

definition bridge_inv :: "jsstr list \<Rightarrow> bridge \<Rightarrow> bool" where
  "bridge_inv ids b \<longleftrightarrow> length (replies b) = length ids \<and>
     (\<forall>f q. handlers b f = Some q \<longrightarrow>
        q < length ids \<and> f = call_name (ids ! q) \<and> replies b ! q = Pending) \<and>
     (\<forall>q < length ids. replies b ! q = Pending \<longrightarrow> handlers b (call_name (ids ! q)) = Some q)"

lemma bridge_inv_empty: "bridge_inv [] empty_bridge"
  by (simp add: bridge_inv_def empty_bridge_def)

lemma bridge_inv_call:
  assumes "bridge_inv ids b" and "call_name uid \<notin> call_name ` set ids"
  shows "bridge_inv (ids @ [uid]) (call uid dat ch present b)"
proof -
  have h: "handlers (call uid dat ch present b) = (handlers b)(call_name uid \<mapsto> length ids)"
    and r: "replies (call uid dat ch present b) = replies b @ [Pending]"
    using assms(1) by (simp_all add: call_def new_msg_def bridge_inv_def Let_def)
  have len: "length (replies b) = length ids" using assms(1) by (simp add: bridge_inv_def)
  have ne: "call_name (ids ! q) \<noteq> call_name uid" if "q < length ids" for q
    using assms(2) imageI [OF nth_mem [OF that], of call_name] by metis
  show ?thesis
    unfolding bridge_inv_def h r
  proof (intro conjI allI impI)
    fix q assume "q < length (ids @ [uid])" and "(replies b @ [Pending]) ! q = Pending"
    then consider "q = length ids" | "q < length ids" "replies b ! q = Pending"
      using len unfolding nth_append by (cases "q < length ids") auto
    then show "((handlers b)(call_name uid \<mapsto> length ids)) (call_name ((ids @ [uid]) ! q)) = Some q"
    proof cases
      case 2
      then have "handlers b (call_name (ids ! q)) = Some q"
        using assms(1) by (simp add: bridge_inv_def)
      then show ?thesis using ne [OF 2(1)] 2(1) by (simp add: nth_append)
    qed simp
  next
    fix f q assume "((handlers b)(call_name uid \<mapsto> length ids)) f = Some q"
    then consider "f = call_name uid" "q = length ids" | "handlers b f = Some q"
      by (cases "f = call_name uid") simp_all
    then have "q < length (ids @ [uid]) \<and> f = call_name ((ids @ [uid]) ! q) \<and>
        (replies b @ [Pending]) ! q = Pending"
    proof cases
      case 1
      then show ?thesis using len by (simp add: nth_append)
    next
      case 2
      then have "q < length ids \<and> f = call_name (ids ! q) \<and> replies b ! q = Pending"
        using assms(1) by (simp add: bridge_inv_def)
      then show ?thesis using len by (simp add: nth_append)
    qed
    then show "q < length (ids @ [uid])" and "f = call_name ((ids @ [uid]) ! q)"
      and "(replies b @ [Pending]) ! q = Pending" by blast+
  qed (simp add: len)
qed

text \<open>What an answer other than \<open>null\<close> settles its promise with.\<close>

definition outcome :: "json \<Rightarrow> (json option, json) pstate" where
  "outcome t = (if js_truthy (member t ''err'') then Rejected t
     else Fulfilled (member t ''data''))"

lemma outcome_settled [simp]: "outcome t \<noteq> Pending"
  by (simp add: outcome_def)

lemma receive_answer:
  assumes "handlers b f = Some p" and "json_parse tx = Some t" and "t \<noteq> JNull"
  shows "receive f tx b =
    (None, b\<lparr>handlers := (handlers b)(f := None), replies := settle p (outcome t) (replies b)\<rparr>)"
  using assms by (simp add: receive_def outcome_def Let_def)

lemma receive_cases:
  assumes "json_parse tx \<noteq> Some JNull"
  obtains (unchanged) "snd (receive f tx b) = b"
  | (settles) p r where "handlers b f = Some p" and "r \<noteq> Pending" and
      "snd (receive f tx b) =
         b\<lparr>handlers := (handlers b)(f := None), replies := settle p r (replies b)\<rparr>"
proof (cases "handlers b f")
  case None
  then show ?thesis by (intro unchanged) (simp add: receive_def)
next
  case (Some p)
  show ?thesis
  proof (cases "json_parse tx")
    case None
    then show ?thesis using Some by (intro unchanged) (simp add: receive_def)
  next
    case t: (Some t)
    then have "t \<noteq> JNull" using assms by simp
    then show ?thesis using receive_answer [OF Some t] by (intro settles [OF Some]) simp_all
  qed
qed

lemma bridge_inv_reply:
  assumes "bridge_inv ids b" and "json_parse tx \<noteq> Some JNull"
  shows "bridge_inv ids (snd (receive f tx b))"
  using assms(2)
proof (cases rule: receive_cases [of tx f b])
  case (settles p r)
  have p: "p < length ids" "f = call_name (ids ! p)" "length (replies b) = length ids"
    using assms(1) settles(1) by (auto simp: bridge_inv_def)
  have q: "handlers b g = Some q \<Longrightarrow> g \<noteq> f \<Longrightarrow> q \<noteq> p" for g q
    using assms(1) p(2) by (auto simp: bridge_inv_def)
  have s: "settle p r (replies b) ! p \<noteq> Pending"
    using p settles(2) by (intro settle_not_pending) simp_all
  show ?thesis
    unfolding settles(3) bridge_inv_def
  proof (intro conjI allI impI)
    fix g q
    assume "handlers (b\<lparr>handlers := (handlers b)(f := None), replies := settle p r (replies b)\<rparr>) g = Some q"
    then have g: "handlers b g = Some q" "g \<noteq> f" by (auto split: if_splits)
    with q have "q \<noteq> p" by blast
    with g show "q < length ids" and "g = call_name (ids ! q)" and
      "replies (b\<lparr>handlers := (handlers b)(f := None), replies := settle p r (replies b)\<rparr>) ! q = Pending"
      using assms(1) by (auto simp: bridge_inv_def)
  next
    fix q assume "q < length ids"
      and pend: "replies (b\<lparr>handlers := (handlers b)(f := None),
        replies := settle p r (replies b)\<rparr>) ! q = Pending"
    then have "q \<noteq> p" using s by auto
    with pend \<open>q < length ids\<close> have h: "handlers b (call_name (ids ! q)) = Some q"
      using assms(1) by (simp add: bridge_inv_def)
    with settles(1) \<open>q \<noteq> p\<close> have "call_name (ids ! q) \<noteq> f" by auto
    with h show "handlers (b\<lparr>handlers := (handlers b)(f := None),
        replies := settle p r (replies b)\<rparr>) (call_name (ids ! q)) = Some q" by simp
  qed (simp add: p)
qed (use assms in simp)

lemma bridge_inv_run:
  assumes "bridge_inv ids b" and "distinct (map call_name (ids @ call_ids evs))"
    and "\<forall>ev \<in> set evs. no_null ev"
  shows "bridge_inv (ids @ call_ids evs) (fold bridge_step evs b)"
  using assms
proof (induction evs arbitrary: ids b)
  case (Cons ev evs)
  show ?case
  proof (cases ev)
    case (Call uid dat ch present)
    have "bridge_inv (ids @ [uid]) (call uid dat ch present b)"
      using Cons.prems Call by (intro bridge_inv_call) auto
    then show ?thesis using Cons.IH [of "ids @ [uid]"] Cons.prems Call by simp
  next
    case (Reply f tx)
    have "bridge_inv ids (snd (receive f tx b))"
      using Cons.prems Reply by (intro bridge_inv_reply) auto
    then show ?thesis using Cons.IH [of ids] Cons.prems Reply by simp
  qed
qed simp

text \<open>A promise without a handler stays pending.\<close>

lemma forgotten_step:
  assumes "p < length (replies b)" and "replies b ! p = Pending" and "\<forall>f. handlers b f \<noteq> Some p"
  shows "p < length (replies (bridge_step ev b)) \<and> replies (bridge_step ev b) ! p = Pending \<and>
    (\<forall>f. handlers (bridge_step ev b) f \<noteq> Some p)"
proof (cases ev)
  case (Reply f tx)
  have "settle q r (replies b) ! p = replies b ! p" if "handlers b f = Some q" for q r
    using assms(3) that by (intro settle_other) auto
  then show ?thesis
    using assms Reply by (cases "handlers b f") (auto simp: receive_def Let_def split: option.split)
qed (use assms in \<open>auto simp: call_def Let_def nth_append\<close>)

lemma forgotten_run:
  "p < length (replies b) \<Longrightarrow> replies b ! p = Pending \<Longrightarrow> \<forall>f. handlers b f \<noteq> Some p \<Longrightarrow>
    replies (fold bridge_step evs b) ! p = Pending"
proof (induction evs arbitrary: b)
  case (Cons ev evs)
  then show ?case using forgotten_step [of p b ev] by simp
qed simp

section \<open>Claims\<close>

text \<open>C10
  Answers reach their calls: in a run where the names of the calls differ and no answer is
  \<open>null\<close>, the calls correspond to the promises in order, a call is waiting exactly while its
  function is registered on \<open>window\<close>, and an answer to it that is JSON settles this one promise, by
  rejecting it with the whole answer when its \<open>err\<close> is truthy and resolving it with \<open>data\<close> otherwise, and
  leaves every other promise as it was. A text that is not JSON changes nothing.
\<close>

theorem answers_reach_their_calls:
  assumes "b = fold bridge_step evs empty_bridge" and "distinct (map call_name (call_ids evs))"
    and "\<forall>ev \<in> set evs. no_null ev" and "p < length (call_ids evs)"
  shows "(replies b ! p = Pending \<longleftrightarrow> handlers b (call_name (call_ids evs ! p)) = Some p) \<and>
    (replies b ! p = Pending \<and> json_parse tx = Some t \<and> t \<noteq> JNull \<longrightarrow>
       replies (bridge_step (Reply (call_name (call_ids evs ! p)) tx) b) =
         (replies b)[p := if js_truthy (member t ''err'') then Rejected t
                          else Fulfilled (member t ''data'')] \<and>
       handlers (bridge_step (Reply (call_name (call_ids evs ! p)) tx) b)
         (call_name (call_ids evs ! p)) = None) \<and>
    (json_parse tx = None \<longrightarrow> bridge_step (Reply f tx) b = b)"
proof -
  have inv: "bridge_inv (call_ids evs) b"
    using bridge_inv_run [OF bridge_inv_empty, of evs] assms by simp
  then have iff: "replies b ! p = Pending \<longleftrightarrow> handlers b (call_name (call_ids evs ! p)) = Some p"
    and len: "length (replies b) = length (call_ids evs)"
    using assms(4) by (auto simp: bridge_inv_def)
  show ?thesis
    using iff len assms(4) receive_answer [of b "call_name (call_ids evs ! p)" p tx t]
    by (auto simp: settle_def outcome_def) (auto simp: receive_def split: option.split)
qed

theorem answers_reach_their_calls_witness:
  "replies (bridge_step (Reply (call_name (lit ''b'')) (lit ''12''))
     (fold bridge_step [Call (lit ''a'') [] QrScanToJs True, Call (lit ''b'') [] SignMsgToJs True]
       empty_bridge)) = [Pending, Fulfilled None]"
proof -
  let ?evs = "[Call (lit ''a'') [] QrScanToJs True, Call (lit ''b'') [] SignMsgToJs True]"
  have "p_val (Suc n) [49, 50] = Some (JNum [49, 50], [])" for n
    by (simp add: p_val.simps num_text_def num_int_def num_frac_def num_exp_def
        is_digit16_def skip_ws_def json_space_def)
  from this [of 8] have "json_parse (lit ''12'') = Some (JNum (lit ''12''))"
    by (simp add: json_parse_def lit_def skip_ws_def)
  moreover have "replies (fold bridge_step ?evs empty_bridge) = [Pending, Pending]"
    by (simp add: call_def empty_bridge_def Let_def)
  ultimately show ?thesis
    using answers_reach_their_calls [of "fold bridge_step ?evs empty_bridge" ?evs 1
        "lit ''12''" "JNum (lit ''12'')"]
    by (simp add: call_name_def lit_def)
qed

text \<open>
  Names of calls: two uuids with different characters give different function names although the
  hyphens are dropped, so a function on \<open>window\<close> is never overwritten by a later call.
\<close>

theorem call_names_differ:
  assumes "list_all2 fits_template uuid_template u" and "list_all2 fits_template uuid_template v"
  shows "callFun (new_msg u) = callFun (new_msg v) \<longleftrightarrow> u = v"
  using call_name_inj [OF assms] by (auto simp: new_msg_def)

theorem call_names_differ_witness:
  "callFun (new_msg (uuid 0 (\<lambda>_. 0))) = callFun (new_msg (uuid 1 (\<lambda>_. 0))) \<longleftrightarrow>
     uuid 0 (\<lambda>_. 0) = uuid 1 (\<lambda>_. 0)"
  by (rule call_names_differ) (simp_all add: uuid_def uuid_fill_fits)

text \<open>
  The answer \<open>null\<close> loses its call: the function is removed before the error is looked up, the
  look-up throws, and the promise stays pending whatever happens afterwards.
\<close>

theorem null_answer_loses_call:
  assumes "p < length (replies b)" and "replies b ! p = Pending" and "handlers b f = Some p"
    and "\<forall>g. handlers b g = Some p \<longrightarrow> g = f"
  shows "fst (receive f (lit ''null'') b) = Some NullReply \<and>
    replies (fold bridge_step evs (snd (receive f (lit ''null'') b))) ! p = Pending"
proof -
  have "p_val (Suc n) [110, 117, 108, 108] = Some (JNull, [])" for n
    by (simp add: p_val.simps word_lit_def starts_with_def lit_def skip_ws_def json_space_def)
  from this [of 14] have "json_parse (lit ''null'') = Some JNull"
    by (simp add: json_parse_def lit_def skip_ws_def)
  then have r: "receive f (lit ''null'') b = (Some NullReply, b\<lparr>handlers := (handlers b)(f := None)\<rparr>)"
    using assms(3) by (simp add: receive_def)
  let ?b = "b\<lparr>handlers := (handlers b)(f := None)\<rparr>"
  have "\<forall>g. handlers ?b g \<noteq> Some p"
  proof
    fix g show "handlers ?b g \<noteq> Some p" using assms(4) by (cases "g = f") auto
  qed
  then have "replies (fold bridge_step evs ?b) ! p = Pending"
    using assms(1,2) by (intro forgotten_run) simp_all
  then show ?thesis by (simp add: r)
qed

theorem null_answer_loses_call_witness:
  "replies (fold bridge_step [Reply (call_name (lit ''a'')) (lit ''{}'')]
     (snd (receive (call_name (lit ''a'')) (lit ''null'')
        (call (lit ''a'') [] QrScanToJs True empty_bridge)))) ! 0 = Pending"
proof -
  let ?b = "call (lit ''a'') [] QrScanToJs True empty_bridge"
  have b: "replies ?b = [Pending]" "handlers ?b = [call_name (lit ''a'') \<mapsto> 0]"
    by (simp_all add: call_def empty_bridge_def new_msg_def Let_def)
  show ?thesis
    by (rule null_answer_loses_call [THEN conjunct2]) (simp_all add: b split: if_splits)
qed

end
