(* ===== verification/Chain_Api.thy ===== *)
theory Chain_Api
  imports Cert_Model
begin

text \<open>
  The chain client, class \<open>E\<close> of module \<open>5487\<close> in \<open>app/assets/dist/js/app.c2d43b15.js\<close>: the cached
  connection and contract, the assembly of the texts the native side signs, the storage reads
  and the queries with the decoding of their results.

  The chain library is not part of the program. What it answers is the record \<open>chain\<close>, an
  argument of the operations: account nonces, the runtime versions, the storage of a contract
  and the results of contract queries, already decoded into the tuples that the code names by
  its type strings. Its conversions are the record \<open>chain_lib\<close>.
\<close>

section \<open>What the library provides\<close>

datatype contract_call =
    BusinessEdit nat nat jsstr jsstr int
  | BusinessRemove nat nat jsstr
  | OriginalEdit nat nat nat jsstr jsstr
  | OriginalRemove nat nat nat jsstr
  | CertAdd nat nat jsstr jsstr
  | CertAddOwn nat nat jsstr jsstr

text \<open>The structure whose hexadecimal text is handed to the signer.\<close>

record sign_payload =
  fun_bytes :: "nat list"
  index :: nat
  genesis :: "nat list"
  version :: nat
  tx_version :: nat

record chain_lib =
  stringToHex :: "jsstr \<Rightarrow> jsstr"
  hexToString :: "jsstr \<Rightarrow> jsstr"
  u8aToBn :: "nat list \<Rightarrow> nat"
  call_bytes :: "jsstr \<Rightarrow> contract_call \<Rightarrow> nat list"
  payload_hex :: "sign_payload \<Rightarrow> jsstr"
  utf8_bytes :: "jsstr \<Rightarrow> nat list"
  num_string :: "jsstr \<Rightarrow> jsstr"

record cert_record =
  cert_id :: jsstr
  business_id :: jsstr
  cert_detail :: jsstr
  ower :: jsstr

record business_record =
  br_account :: jsstr
  br_name :: jsstr
  count_allowed :: nat
  used :: nat

record request_record =
  rr_index :: nat
  rr_caller :: jsstr
  rr_operator :: jsstr
  rr_name :: jsstr
  rr_status :: nat
  rr_operation :: nat

text \<open>A query gives \<open>None\<close> when it is not a success. Its arguments: contract, caller, gas limit.\<close>

record chain =
  account_nonce :: "jsstr \<Rightarrow> nat"
  spec_version :: nat
  transaction_version :: nat
  genesis_hash :: "nat list"
  storage :: "jsstr \<Rightarrow> string \<Rightarrow> nat list option"
  certQuery :: "jsstr \<Rightarrow> jsstr \<Rightarrow> nat \<Rightarrow> jsstr \<Rightarrow> cert_record list option"
  certList :: "jsstr \<Rightarrow> jsstr \<Rightarrow> nat \<Rightarrow> cert_record list option"
  businessList :: "jsstr \<Rightarrow> jsstr \<Rightarrow> nat \<Rightarrow> business_record list option"
  originalList :: "jsstr \<Rightarrow> jsstr \<Rightarrow> nat \<Rightarrow> (jsstr \<times> jsstr) list option"
  originalRequestRecord :: "jsstr \<Rightarrow> jsstr \<Rightarrow> nat \<Rightarrow> request_record list option"

text \<open>The default gas limits \<open>T\<close> and \<open>R\<close>.\<close>

definition default_gas :: nat where "default_gas = 500000000000"
definition list_gas :: nat where "list_gas = 3800000000000"

section \<open>The cached connection and contract\<close>

text \<open>
  The static fields \<open>apiPromise\<close> and \<open>apiContract\<close>. A connection is known by the number of
  connections made before it; a contract is a connection with the address it was built for.
  Loads run asynchronously: \<open>creating\<close> counts the connections under construction.
\<close>

record client =
  apiPromise :: "nat option"
  apiContract :: "(nat \<times> jsstr) option"
  connections :: nat

definition new_client :: client where
  "new_client = \<lparr>apiPromise = None, apiContract = None, connections = 0\<rparr>"

definition loadApiPromise :: "client \<Rightarrow> nat \<times> client" where
  "loadApiPromise cl =
     (case apiPromise cl of
        Some c \<Rightarrow> (c, cl)
      | None \<Rightarrow> (connections cl, cl\<lparr>apiPromise := Some (connections cl),
                                   connections := Suc (connections cl)\<rparr>))"

definition loadApiContract :: "page_env \<Rightarrow> client \<Rightarrow> (nat \<times> jsstr) \<times> client" where
  "loadApiContract env cl =
     (case apiContract cl of
        Some k \<Rightarrow> (k, cl)
      | None \<Rightarrow>
          (let (c, cl1) = loadApiPromise cl; k = (c, ContractAddress env)
           in (k, cl1\<lparr>apiContract := Some k\<rparr>)))"

text \<open>
  \<open>new ContractPromise\<close> makes an account of the address and throws for a malformed one. Then the
  call is rejected with the connection cached and no contract: \<open>accepts\<close> is the library's test of
  an address, \<open>None\<close> the rejection. The other operations of this theory describe calls whose
  contract is there or has an address that the library accepts.
\<close>

definition try_contract ::
  "(jsstr \<Rightarrow> bool) \<Rightarrow> page_env \<Rightarrow> client \<Rightarrow> (nat \<times> jsstr) option \<times> client" where
  "try_contract accepts env cl =
     (case apiContract cl of
        Some k \<Rightarrow> (Some k, cl)
      | None \<Rightarrow>
          (let (c, cl1) = loadApiPromise cl; k = (c, ContractAddress env)
           in if accepts (ContractAddress env) then (Some k, cl1\<lparr>apiContract := Some k\<rparr>)
              else (None, cl1)))"

lemma try_contract_accepted:
  "apiContract cl \<noteq> None \<or> accepts (ContractAddress env) \<Longrightarrow>
   try_contract accepts env cl = map_prod Some id (loadApiContract env cl)"
  by (auto simp: try_contract_def loadApiContract_def Let_def split_beta split: option.split)

lemma try_contract_refused:
  "apiContract cl = None \<Longrightarrow> \<not> accepts (ContractAddress env) \<Longrightarrow>
   try_contract accepts env cl = (None, snd (loadApiPromise cl))"
  by (simp add: try_contract_def split_beta)

text \<open>
  Two calls of \<open>loadApiPromise\<close> may overlap, since the connection is awaited between the test and
  the assignment. \<open>StartApi\<close> is the test, \<open>FinishApi c\<close> the assignment of connection \<open>c\<close>.
\<close>

datatype api_event = StartApi | FinishApi nat

record api_race =
  cached :: "nat option"
  made :: nat
  creating :: "nat list"

fun api_step :: "api_event \<Rightarrow> api_race \<Rightarrow> api_race" where
  "api_step StartApi s =
     (case cached s of
        Some _ \<Rightarrow> s
      | None \<Rightarrow> s\<lparr>made := Suc (made s), creating := creating s @ [made s]\<rparr>)"
| "api_step (FinishApi c) s =
     (if c \<in> set (creating s) then s\<lparr>cached := Some c, creating := remove1 c (creating s)\<rparr> else s)"

section \<open>Texts to sign\<close>

datatype api_error = UnwrapNone | BadJson | NotAnObject

text \<open>
  Every assembly checks its addresses first: a bad one is reported by a toast and the result is
  the empty text. Otherwise the result is the text of the structure. The message of the toast
  is the Chinese text of the source, here in its code units.
\<close>

definition bad_address_msg :: msg where
  "bad_address_msg = Raw [0x4F20, 0x5165, 0x7684, 0x5730, 0x5740, 0x6709, 0x95EE, 0x9898]"

definition bad_address :: effect where
  "bad_address = ToastFail bad_address_msg"

definition payload :: "chain_lib \<Rightarrow> chain \<Rightarrow> jsstr \<Rightarrow> jsstr \<Rightarrow> contract_call \<Rightarrow> sign_payload" where
  "payload lib ch from contract k =
     \<lparr>fun_bytes = call_bytes lib contract k, index = account_nonce ch from,
      genesis = genesis_hash ch, version = spec_version ch, tx_version = transaction_version ch\<rparr>"

definition assembleOperateBusiness ::
  "chain_lib \<Rightarrow> chain \<Rightarrow> page_env \<Rightarrow> business_op \<Rightarrow> jsstr \<Rightarrow> jsstr \<Rightarrow> jsstr \<Rightarrow> int \<Rightarrow> nat \<Rightarrow>
   client \<Rightarrow> (jsstr \<times> effect list) \<times> client" where
  "assembleOperateBusiness lib ch env op from nm addr cnt gas cl =
     (if is_address (Some from) \<and> is_address (Some addr) then
        (let cl1 = snd (loadApiPromise cl);
             ((_, contract), cl2) = loadApiContract env cl1;
             k = (if op = Auth then BusinessEdit 0 gas addr (stringToHex lib nm) cnt
                  else BusinessRemove 0 gas addr)
         in ((payload_hex lib (payload lib ch from contract k), []), cl2))
      else (([], [bad_address]), cl))"

text \<open>The storage entry that holds the nonce of the administrator operations.\<close>

definition storage_key :: "nat \<Rightarrow> string" where
  "storage_key i = ''0x0'' @ [char_of (48 + i)] @ replicate 62 (CHR ''0'')"

definition assembleAdminSingleMessage ::
  "chain_lib \<Rightarrow> chain \<Rightarrow> page_env \<Rightarrow> admin_op \<Rightarrow> jsstr \<Rightarrow> jsstr \<Rightarrow> jsstr \<Rightarrow> nat \<Rightarrow>
   client \<Rightarrow> (api_error + jsstr \<times> effect list) \<times> client" where
  "assembleAdminSingleMessage lib ch env op from addr nm gas cl =
     (if is_address (Some from) \<and> is_address (Some addr) then
        (let cl1 = snd (loadApiPromise cl);
             ((_, contract), cl2) = loadApiContract env cl1
         in case storage ch (ContractAddress env) (storage_key 3) of
              None \<Rightarrow> (Inl UnwrapNone, cl2)
            | Some m \<Rightarrow>
                (let k = (if op = AddAdmin then
                            OriginalEdit 0 gas (u8aToBn lib m) addr (stringToHex lib nm)
                          else OriginalRemove 0 gas (u8aToBn lib m) addr)
                 in (Inr (payload_hex lib (payload lib ch from contract k), []), cl2)))
      else (Inr ([], [bad_address]), cl))"

definition assembleAddCertInfo ::
  "chain_lib \<Rightarrow> chain \<Rightarrow> page_env \<Rightarrow> jsstr \<Rightarrow> cert_own \<Rightarrow> jsstr \<Rightarrow> nat \<Rightarrow>
   client \<Rightarrow> (jsstr \<times> effect list) \<times> client" where
  "assembleAddCertInfo lib ch env cid co from gas cl =
     (if is_address (Some from) then
        (let cl1 = snd (loadApiPromise cl);
             ((_, contract), cl2) = loadApiContract env cl1;
             k = CertAdd 0 gas (stringToHex lib cid) (stringToHex lib (assembleJsonInfo co))
         in ((payload_hex lib (payload lib ch from contract k), []), cl2))
      else (([], [bad_address]), cl))"

definition assembleAddCertOwnInfo ::
  "chain_lib \<Rightarrow> chain \<Rightarrow> page_env \<Rightarrow> jsstr \<Rightarrow> jsstr \<Rightarrow> jsstr \<Rightarrow> nat \<Rightarrow>
   client \<Rightarrow> (jsstr \<times> effect list) \<times> client" where
  "assembleAddCertOwnInfo lib ch env cid owner from gas cl =
     (if is_address (Some from) then
        (let cl1 = snd (loadApiPromise cl);
             ((_, contract), cl2) = loadApiContract env cl1;
             k = CertAddOwn 0 gas (stringToHex lib cid) (stringToHex lib owner)
         in ((payload_hex lib (payload lib ch from contract k), []), cl2))
      else (([], [bad_address]), cl))"

text \<open>
  \<open>new Array(t)\<close> has \<open>t\<close> empty places; the length and the bytes are written from the front and
  extend the array when it is too short.
\<close>

definition stringToContractBytes :: "chain_lib \<Rightarrow> jsstr \<Rightarrow> nat \<Rightarrow> nat option list" where
  "stringToContractBytes lib s t =
     (let n = utf8_bytes lib s; used = Some (length n) # map Some n
      in used @ replicate (t - length used) None)"

text \<open>
  \<open>sendToChain\<close> submits a signed text on the connection of the contract, as bytes; the conversion
  \<open>hexToU8a\<close> is the library's. What the subscription reports later is in \<open>Chain_Submit\<close>.
\<close>

definition sendToChain ::
  "(jsstr \<Rightarrow> nat list) \<Rightarrow> page_env \<Rightarrow> jsstr \<Rightarrow> client \<Rightarrow> (nat \<times> nat list) \<times> client" where
  "sendToChain hexToU8a env t cl =
     (let ((c, _), cl1) = loadApiContract env cl in ((c, hexToU8a t), cl1))"

section \<open>Storage reads\<close>

definition get_contract_value :: "chain \<Rightarrow> jsstr \<Rightarrow> string \<Rightarrow> client \<Rightarrow> nat list option \<times> client" where
  "get_contract_value ch addr key cl = (storage ch addr key, snd (loadApiPromise cl))"

definition load_count :: "nat \<Rightarrow> chain_lib \<Rightarrow> chain \<Rightarrow> page_env \<Rightarrow> client \<Rightarrow> jsstr \<times> client" where
  "load_count i lib ch env cl =
     (let ((_, contract), cl1) = loadApiContract env cl;
          (v, cl2) = get_contract_value ch contract (storage_key i) cl1
      in (case v of Some m \<Rightarrow> dec_nat (u8aToBn lib m) | None \<Rightarrow> lit ''0'', cl2))"

definition loadContractUsedCount :: "chain_lib \<Rightarrow> chain \<Rightarrow> page_env \<Rightarrow> client \<Rightarrow> jsstr \<times> client" where
  "loadContractUsedCount = load_count 0"

definition loadContractMaxCount :: "chain_lib \<Rightarrow> chain \<Rightarrow> page_env \<Rightarrow> client \<Rightarrow> jsstr \<times> client" where
  "loadContractMaxCount = load_count 1"

definition loadMaxCurrentBusinessCount ::
  "chain_lib \<Rightarrow> chain \<Rightarrow> page_env \<Rightarrow> client \<Rightarrow> jsstr \<times> client" where
  "loadMaxCurrentBusinessCount = load_count 2"

end
