(* ===== verification/Chain_Queries.thy ===== *)
theory Chain_Queries
  imports Chain_Api
begin

text \<open>
  The list and search queries of the chain client, module \<open>5487\<close>: \<open>findCertByGia\<close>,
  \<open>loadCertList\<close>, \<open>loadBusinessList\<close>, \<open>loadOriginalList\<close> and \<open>loadAuthAdminRecord\<close>, with the
  decoding of what the contract answers into the model classes.
\<close>

section \<open>Properties of parsed values\<close>

text \<open>
  The own enumerable properties of a parsed value, in the order of \<open>Object.keys\<close>: members of an
  object, elements of an array, code units of a string. A number or a boolean has none, and
  \<open>null\<close> is an error.
\<close>

fun enum_from :: "nat \<Rightarrow> 'a list \<Rightarrow> (nat \<times> 'a) list" where
  "enum_from i [] = []"
| "enum_from i (x # xs) = (i, x) # enum_from (Suc i) xs"

fun own_props :: "json \<Rightarrow> (jsstr \<times> json) list option" where
  "own_props JNull = None"
| "own_props (JObj ms) =
     (let ps = props_of ms in Some (map (\<lambda>k. (k, the (map_of ps k))) (object_keys ps)))"
| "own_props (JArr vs) = Some (map (\<lambda>(i, v). (dec_nat i, v)) (enum_from 0 vs))"
| "own_props (JStr s) = Some (map (\<lambda>(i, c). (dec_nat i, JStr [c])) (enum_from 0 s))"
| "own_props _ = Some []"

section \<open>Certificates\<close>

text \<open>
  \<open>toString()\<close> of a parsed value, \<open>None\<close> where it throws. An object whose own property is named
  \<open>toString\<close> hides the method with a value that cannot be called. Inside an array \<open>null\<close> counts
  as the empty text.
\<close>

fun join_comma :: "jsstr list \<Rightarrow> jsstr" where
  "join_comma [] = []"
| "join_comma [x] = x"
| "join_comma (x # xs) = x @ [44] @ join_comma xs"

fun all_some :: "'a option list \<Rightarrow> 'a list option" where
  "all_some [] = Some []"
| "all_some (None # xs) = None"
| "all_some (Some x # xs) = map_option ((#) x) (all_some xs)"

fun js_toString :: "chain_lib \<Rightarrow> json \<Rightarrow> jsstr option" where
  "js_toString lib JNull = None"
| "js_toString lib (JBool b) = Some (lit (if b then ''true'' else ''false''))"
| "js_toString lib (JNum t) = Some (num_string lib t)"
| "js_toString lib (JStr s) = Some s"
| "js_toString lib (JArr vs) =
     map_option join_comma
       (all_some (map (\<lambda>v. if v = JNull then Some [] else js_toString lib v) vs))"
| "js_toString lib (JObj ms) =
     (if map_of ms (lit ''toString'') = None then Some (lit ''[object Object]'') else None)"

text \<open>The entries of a certificate that was found: every value as a text.\<close>

fun text_entries :: "chain_lib \<Rightarrow> (jsstr \<times> json) list \<Rightarrow> entry list option" where
  "text_entries lib [] = Some []"
| "text_entries lib ((k, v) # ps) =
     (case js_toString lib v of
        None \<Rightarrow> None
      | Some s \<Rightarrow> map_option ((#) (k, s)) (text_entries lib ps))"

text \<open>
  \<open>findCertByGia\<close>. The loop over the records ends with its first round, so the first record is
  the answer; an error in reading it rejects the call. The \<open>Gia\<close> object that the loop fills is
  dropped. This query builds a contract of its own, with the address of the moment.
\<close>

definition findCertByGia ::
  "chain_lib \<Rightarrow> chain \<Rightarrow> page_env \<Rightarrow> jsstr \<Rightarrow> jsstr \<Rightarrow> nat \<Rightarrow> client \<Rightarrow>
   (api_error + cert_own option) \<times> client" where
  "findCertByGia lib ch env caller gid gas cl =
     (let cl1 = snd (loadApiPromise cl)
      in (case certQuery ch (ContractAddress env) caller gas gid of
            None \<Rightarrow> Inr None
          | Some [] \<Rightarrow> Inr None
          | Some (r # _) \<Rightarrow>
              (case json_parse (cert_detail r) of
                 None \<Rightarrow> Inl BadJson
               | Some v \<Rightarrow>
                   (case own_props v of
                      None \<Rightarrow> Inl NotAnObject
                    | Some ps \<Rightarrow>
                        (case text_entries lib ps of
                           None \<Rightarrow> Inl NotAnObject
                         | Some es \<Rightarrow>
                             Inr (Some \<lparr>the_cert = new_cert\<lparr>objArray := es\<rparr>,
                               attachInfo = new_attach\<lparr>inputData := ower r,
                                 businessAddress := business_id r\<rparr>\<rparr>)))), cl1))"

text \<open>
  The value of an entry of a listed certificate: \<open>null\<close> and blank texts become one space, and a
  value that is not a text has no \<open>trim\<close> to call.
\<close>

fun list_value :: "json \<Rightarrow> jsstr option" where
  "list_value JNull = Some (lit '' '')"
| "list_value (JStr s) = Some (if js_trim s = [] then lit '' '' else s)"
| "list_value _ = None"

fun list_entries :: "(jsstr \<times> json) list \<Rightarrow> entry list option" where
  "list_entries [] = Some []"
| "list_entries ((k, v) # ps) =
     (case list_value v of
        None \<Rightarrow> None
      | Some s \<Rightarrow> map_option ((#) (k, s)) (list_entries ps))"

text \<open>One record; an error inside the \<open>try\<close> drops it.\<close>

definition list_cert :: "cert_record \<Rightarrow> cert_own option" where
  "list_cert r =
     (case json_parse (cert_detail r) of
        None \<Rightarrow> None
      | Some v \<Rightarrow>
          (case own_props v of
             None \<Rightarrow> None
           | Some ps \<Rightarrow>
               map_option
                 (\<lambda>es. \<lparr>the_cert = new_cert\<lparr>objArray := es\<rparr>,
                    attachInfo = new_attach\<lparr>inputData := ower r, businessAddress := business_id r\<rparr>\<rparr>)
                 (list_entries ps)))"

definition loadCertList ::
  "chain \<Rightarrow> page_env \<Rightarrow> jsstr \<Rightarrow> nat \<Rightarrow> client \<Rightarrow> (cert_own list \<times> effect list) \<times> client" where
  "loadCertList ch env caller gas cl =
     (if is_address (Some caller) then
        (let ((_, contract), cl1) = loadApiContract env cl
         in ((case certList ch contract caller gas of
                None \<Rightarrow> []
              | Some rs \<Rightarrow> List.map_filter list_cert rs, []), cl1))
      else (([], [bad_address]), cl))"

section \<open>Salesmen, administrators, authorisation records\<close>

definition decode_business :: "chain_lib \<Rightarrow> business_record \<Rightarrow> business" where
  "decode_business lib r =
     new_business\<lparr>b_name := hexToString lib (br_name r), b_address := br_account r,
       maxCount := int (count_allowed r), leftCount := int (count_allowed r) - int (used r)\<rparr>"

definition loadBusinessList ::
  "chain_lib \<Rightarrow> chain \<Rightarrow> page_env \<Rightarrow> jsstr \<Rightarrow> nat \<Rightarrow> client \<Rightarrow> business list \<times> client" where
  "loadBusinessList lib ch env caller gas cl =
     (let ((_, contract), cl1) = loadApiContract env cl
      in (case businessList ch contract caller gas of
            None \<Rightarrow> []
          | Some rs \<Rightarrow> map (decode_business lib) rs, cl1))"

definition decode_admin :: "chain_lib \<Rightarrow> jsstr \<times> jsstr \<Rightarrow> address_model" where
  "decode_admin lib r =
     \<lparr>am_index = [], am_name = hexToString lib (snd r), am_address = fst r, signStatus = False,
      signInfo = []\<rparr>"

definition loadOriginalList ::
  "chain_lib \<Rightarrow> chain \<Rightarrow> page_env \<Rightarrow> jsstr \<Rightarrow> nat \<Rightarrow> client \<Rightarrow>
   (address_model list \<times> effect list) \<times> client" where
  "loadOriginalList lib ch env caller gas cl =
     (if is_address (Some caller) then
        (let cl1 = snd (loadApiPromise cl);
             ((_, contract), cl2) = loadApiContract env cl1
         in ((case originalList ch contract caller gas of
                None \<Rightarrow> []
              | Some rs \<Rightarrow> map (decode_admin lib) rs, []), cl2))
      else (([], [bad_address]), cl))"

text \<open>The enumerations of module \<open>2c2f\<close> as the contract numbers them.\<close>

definition op_code :: "record_op \<Rightarrow> nat" where
  "op_code op = (case op of INIT \<Rightarrow> 0 | ADD \<Rightarrow> 1 | REMOVE \<Rightarrow> 2 | EDIT \<Rightarrow> 3 | NONE \<Rightarrow> 4)"

definition status_code :: "record_status \<Rightarrow> nat" where
  "status_code st = (case st of PADDING \<Rightarrow> 0 | Expired \<Rightarrow> 1 | FINALLY \<Rightarrow> 2)"

definition decode_request :: "chain_lib \<Rightarrow> request_record \<Rightarrow> auth_record" where
  "decode_request lib r =
     (let n = dec_nat (rr_operation r); a = dec_nat (rr_status r)
      in \<lparr>r_index = dec_nat (rr_index r), r_caller = rr_caller r, r_operator = rr_operator r,
          r_name = hexToString lib (rr_name r),
          r_txStatus =
            (if a = dec_nat (status_code PADDING) then PADDING
             else if a = dec_nat (status_code Expired) then Expired else FINALLY),
          r_operation =
            (if n = dec_nat (op_code REMOVE) then REMOVE
             else if n = dec_nat (op_code EDIT) then EDIT
             else if n = dec_nat (op_code ADD) then ADD else INIT)\<rparr>)"

definition loadAuthAdminRecord ::
  "chain_lib \<Rightarrow> chain \<Rightarrow> page_env \<Rightarrow> jsstr \<Rightarrow> nat \<Rightarrow> client \<Rightarrow> auth_record list \<times> client" where
  "loadAuthAdminRecord lib ch env caller gas cl =
     (let ((_, contract), cl1) = loadApiContract env cl
      in (case originalRequestRecord ch contract caller gas of
            None \<Rightarrow> []
          | Some rs \<Rightarrow> map (decode_request lib) rs, cl1))"

end
