(* ===== verification/Chain_Properties.thy ===== *)
theory Chain_Properties
  imports Chain_Queries Cert_Properties
begin

text \<open>
  What the chain client promises: a certificate read back from a list is the one that was
  assembled, bad addresses reach neither the network nor the cache, the codes of authorisation
  records are decoded; and where the caches let the address of the contract go stale.
\<close>

section \<open>Reading a certificate back\<close>

lemma json_parse_own:
  assumes "objArray (the_cert co) = es" and "es \<noteq> []" and "\<forall>e \<in> set es. plain_entry e"
  shows "json_parse (assembleJsonInfo co) = Some (JObj (members es))"
proof -
  have "concat (map entry_text es) \<noteq> []" using assms(2) by (cases es) simp_all
  then show ?thesis
    using json_parse_entries [OF assms(2,3)] assms(1)
    by (simp add: assembleJsonInfo_eq del: concat_eq_Nil_conv)
qed

text \<open>Keys that an object lists in the order of insertion.\<close>

definition ordered_keys :: "entry list \<Rightarrow> bool" where
  "ordered_keys es \<longleftrightarrow> distinct (map fst es) \<and> (\<forall>k \<in> set (map fst es). \<not> is_index k)"

lemma map_lookup: "distinct (map fst ps) \<Longrightarrow> map (\<lambda>k. (k, the (map_of ps k))) (map fst ps) = ps"
  by (simp add: comp_def) (rule map_idI, auto simp: map_of_is_SomeI)

lemma own_props_members:
  assumes "ordered_keys es" shows "own_props (JObj (members es)) = Some (members es)"
proof -
  have d: "distinct (map fst (members es))" using assms by (simp add: ordered_keys_def)
  then have "props_of (members es) = members es" by (rule props_of_distinct)
  moreover have "object_keys (members es) = map fst (members es)"
    using assms by (intro object_keys_plain) (auto simp: ordered_keys_def)
  ultimately show ?thesis using map_lookup [OF d] by simp
qed

definition shown :: "entry \<Rightarrow> entry" where
  "shown e = (fst e, if js_trim (snd e) = [] then lit '' '' else snd e)"

lemma list_entries_members: "list_entries (members es) = Some (map shown es)"
  by (induction es) (auto simp: members_def shown_def)

lemma text_entries_members: "text_entries lib (members es) = Some es"
  by (induction es) (auto simp: members_def)

definition good_cert :: "cert_own \<Rightarrow> bool" where
  "good_cert co \<longleftrightarrow> objArray (the_cert co) \<noteq> [] \<and>
     (\<forall>e \<in> set (objArray (the_cert co)). plain_entry e) \<and> ordered_keys (objArray (the_cert co))"

text \<open>The record under which a certificate stands on the chain.\<close>

definition chain_record :: "jsstr \<Rightarrow> jsstr \<Rightarrow> jsstr \<Rightarrow> cert_own \<Rightarrow> cert_record" where
  "chain_record cid biz owner co =
     \<lparr>cert_id = cid, business_id = biz, cert_detail = assembleJsonInfo co, ower = owner\<rparr>"

lemma list_cert_good:
  assumes "good_cert co"
  shows "list_cert (chain_record cid biz owner co) =
    Some \<lparr>the_cert = new_cert\<lparr>objArray := map shown (objArray (the_cert co))\<rparr>,
      attachInfo = new_attach\<lparr>inputData := owner, businessAddress := biz\<rparr>\<rparr>"
  using assms json_parse_own [OF refl, of co] own_props_members [of "objArray (the_cert co)"]
  by (simp add: good_cert_def list_cert_def chain_record_def list_entries_members del: own_props.simps)

text \<open>C6
  What was signed onto the chain is what the list shows: when the contract answers with the
  records of assembled certificates whose entries need no escape and have distinct names, the
  list has exactly these certificates in order, entry by entry, with blank values shown as one
  space, and with the salesman and the owner of the record.
\<close>

theorem cert_list_roundtrip:
  assumes "is_address (Some caller)" and "\<forall>(cid, biz, owner, co) \<in> set cs. good_cert co"
    and "certList ch (snd (fst (loadApiContract env cl))) caller gas =
      Some (map (\<lambda>(cid, biz, owner, co). chain_record cid biz owner co) cs)"
  shows "fst (loadCertList ch env caller gas cl) =
    (map (\<lambda>(cid, biz, owner, co).
        \<lparr>the_cert = new_cert\<lparr>objArray := map shown (objArray (the_cert co))\<rparr>,
         attachInfo = new_attach\<lparr>inputData := owner, businessAddress := biz\<rparr>\<rparr>) cs, [])"
proof -
  have "List.map_filter list_cert (map (\<lambda>(cid, biz, owner, co). chain_record cid biz owner co) cs) =
      map (\<lambda>(cid, biz, owner, co).
        \<lparr>the_cert = new_cert\<lparr>objArray := map shown (objArray (the_cert co))\<rparr>,
         attachInfo = new_attach\<lparr>inputData := owner, businessAddress := biz\<rparr>\<rparr>) cs"
    using assms(2) by (induction cs) (auto simp: map_filter_simps list_cert_good)
  then show ?thesis using assms(1,3) by (simp add: loadCertList_def split_beta Let_def)
qed

definition sample_chain :: "cert_record list \<Rightarrow> chain" where
  "sample_chain rs = \<lparr>account_nonce = (\<lambda>_. 7), spec_version = 1, transaction_version = 1,
     genesis_hash = [1], storage = (\<lambda>_ _. None), certQuery = (\<lambda>_ _ _ _. Some rs),
     certList = (\<lambda>_ _ _. Some rs), businessList = (\<lambda>_ _ _. None),
     originalList = (\<lambda>_ _ _. None), originalRequestRecord = (\<lambda>_ _ _. None)\<rparr>"

definition kim_own :: cert_own where
  "kim_own = sample_own [(KimId, lit ''K1''), (lit ''note'', lit '' '')]"

lemma good_kim: "good_cert kim_own"
  by (simp add: good_cert_def kim_own_def ordered_keys_def plain_entry_def plain_char_def KimId_def
      lit_def is_index_def is_digit16_def)

theorem cert_list_roundtrip_witness:
  "fst (loadCertList (sample_chain [chain_record [1] [2] [3] kim_own]) initial_env
      (replicate 48 53) list_gas new_client) =
   ([\<lparr>the_cert = new_cert\<lparr>objArray := [(KimId, lit ''K1''), (lit ''note'', lit '' '')]\<rparr>,
      attachInfo = new_attach\<lparr>inputData := [3], businessAddress := [2]\<rparr>\<rparr>], [])"
proof -
  have "shown (KimId, lit ''K1'') = (KimId, lit ''K1'')"
    by (simp add: shown_def js_trim_def js_space_def lit_def)
  moreover have "shown (lit ''note'', lit '' '') = (lit ''note'', lit '' '')"
    by (simp add: shown_def)
  ultimately show ?thesis
    using cert_list_roundtrip [of "replicate 48 53" "[([1], [2], [3], kim_own)]"
        "sample_chain [chain_record [1] [2] [3] kim_own]" initial_env new_client list_gas]
      good_kim
    by (simp add: sample_chain_def) (simp add: kim_own_def)
qed

text \<open>
  Searching by number: the answer is the first record of the contract's answer, read entry by
  entry, whatever further records there are; a failed query or an empty answer finds nothing.
\<close>

theorem find_cert_first:
  assumes "good_cert co"
    and "certQuery ch (ContractAddress env) caller gas gid =
      Some (chain_record cid biz owner co # further)"
  shows "fst (findCertByGia lib ch env caller gid gas cl) =
    Inr (Some \<lparr>the_cert = new_cert\<lparr>objArray := objArray (the_cert co)\<rparr>,
      attachInfo = new_attach\<lparr>inputData := owner, businessAddress := biz\<rparr>\<rparr>)"
  using assms json_parse_own [OF refl, of co] own_props_members [of "objArray (the_cert co)"]
  by (simp add: findCertByGia_def good_cert_def chain_record_def text_entries_members Let_def
      del: own_props.simps)

definition sample_lib :: chain_lib where
  "sample_lib = \<lparr>stringToHex = (\<lambda>s. s), hexToString = (\<lambda>s. s), u8aToBn = sum_list,
     call_bytes = (\<lambda>a k. map unat a), payload_hex = (\<lambda>p. map of_nat (fun_bytes p)),
     utf8_bytes = string_to_bytes, num_string = (\<lambda>s. s)\<rparr>"

theorem find_cert_first_witness:
  "fst (findCertByGia sample_lib (sample_chain [chain_record [1] [2] [3] kim_own,
      chain_record [4] [5] [6] new_cert_own]) initial_env [] [9] default_gas new_client) =
   Inr (Some \<lparr>the_cert = new_cert\<lparr>objArray := [(KimId, lit ''K1''), (lit ''note'', lit '' '')]\<rparr>,
      attachInfo = new_attach\<lparr>inputData := [3], businessAddress := [2]\<rparr>\<rparr>)"
  using find_cert_first [OF good_kim, of "sample_chain [chain_record [1] [2] [3] kim_own,
      chain_record [4] [5] [6] new_cert_own]" initial_env "[]" default_gas "[9]" "[1]" "[2]" "[3]"
      "[chain_record [4] [5] [6] new_cert_own]" sample_lib new_client]
  by (simp add: sample_chain_def kim_own_def)

text \<open>C37
  A certificate without entries is lost on the chain: its text is not JSON, so the list leaves
  its record out and the search for it ends with a rejected promise.
\<close>

theorem empty_cert_unreadable:
  assumes "objArray (the_cert co) = []" and "is_address (Some caller)"
    and "certList ch (snd (fst (loadApiContract env cl))) caller gas =
      Some (rs @ chain_record cid biz owner co # rs')"
    and "certQuery ch (ContractAddress env) caller gas gid =
      Some (chain_record cid biz owner co # further)"
  shows "fst (loadCertList ch env caller gas cl) = (List.map_filter list_cert (rs @ rs'), []) \<and>
    fst (findCertByGia lib ch env caller gid gas cl) = Inl BadJson"
proof -
  have t: "assembleJsonInfo co = [125]" using assms(1) by (simp add: assembleJsonInfo_eq)
  have "num_text [125] = None" by (simp add: num_text_def num_int_def is_digit16_def)
  then have "p_val (Suc n) [125] = None" for n by (simp add: p_val.simps)
  from this [of 5] have "json_parse (assembleJsonInfo co) = None" by (simp add: t json_parse_def)
  then have "list_cert (chain_record cid biz owner co) = None" and
    "fst (findCertByGia lib ch env caller gid gas cl) = Inl BadJson"
    using assms(4) by (simp_all add: list_cert_def findCertByGia_def chain_record_def Let_def)
  then show ?thesis
    using assms(2,3) by (simp add: loadCertList_def split_beta map_filter_def)
qed

theorem empty_cert_unreadable_witness:
  "loadCertList (sample_chain [chain_record [1] [2] [3] new_cert_own]) initial_env
      (replicate 48 53) list_gas new_client =
   (([], []), snd (loadApiContract initial_env new_client))"
proof -
  let ?ch = "sample_chain [chain_record [1] [2] [3] new_cert_own]"
  have "fst (loadCertList ?ch initial_env (replicate 48 53) list_gas new_client) =
      (List.map_filter list_cert ([] @ []), [])"
    by (rule empty_cert_unreadable [where co = new_cert_own and cid = "[1]" and biz = "[2]"
            and owner = "[3]" and gid = "[]" and further = "[]", THEN conjunct1])
       (simp_all add: new_cert_own_def new_cert_def sample_chain_def)
  then show ?thesis
    by (simp add: loadCertList_def split_beta map_filter_def Let_def)
qed

section \<open>Codes\<close>

lemma dec_nat_small: "n < 10 \<Longrightarrow> dec_nat n = [of_nat (48 + n)]"
  by (simp add: dec_nat.simps)

lemma small_codes: "op_code op < 10" "status_code st < 10"
  by (cases op; simp add: op_code_def) (cases st; simp add: status_code_def)

text \<open>
  Authorisation records: the state and the kind that the contract stored come back, except that
  the kind \<open>NONE\<close> is read as \<open>INIT\<close>.
\<close>

theorem decode_request_codes:
  "r_txStatus (decode_request lib \<lparr>rr_index = i, rr_caller = c, rr_operator = o', rr_name = nm,
      rr_status = status_code st, rr_operation = op_code op\<rparr>) = st \<and>
   r_operation (decode_request lib \<lparr>rr_index = i, rr_caller = c, rr_operator = o', rr_name = nm,
      rr_status = status_code st, rr_operation = op_code op\<rparr>) = (if op = NONE then INIT else op)"
  by (cases st; cases op)
     (simp_all add: decode_request_def status_code_def op_code_def dec_nat_small Let_def)

section \<open>Caches\<close>


lemma loadApiPromise_cached [simp]: "apiPromise (snd (loadApiPromise cl)) \<noteq> None"
  by (simp add: loadApiPromise_def split: option.split)

lemma loadApiPromise_keeps_contract [simp]: "apiContract (snd (loadApiPromise cl)) = apiContract cl"
  by (simp add: loadApiPromise_def split: option.split)

lemma loadApiContract_cached: "apiContract cl = Some k \<Longrightarrow> loadApiContract env cl = (k, cl)"
  by (simp add: loadApiContract_def)

text \<open>
  The contract keeps the address it was built for: once \<open>loadApiContract\<close> has run, a contract
  address set later is ignored by it, so that the message of an administrator is assembled for
  the old contract while its nonce is read from the storage of the new one.
\<close>

theorem contract_address_stale:
  assumes "apiContract cl = Some (c, old)" and "is_address (Some from)" and "is_address (Some addr)"
    and "storage ch new (storage_key 3) = Some m"
  shows "fst (loadApiContract (setContractAddress new env) cl) = (c, old) \<and>
    fst (assembleAdminSingleMessage lib ch (setContractAddress new env) AddAdmin from addr nm gas cl) =
      Inr (payload_hex lib (payload lib ch from old
        (OriginalEdit 0 gas (u8aToBn lib m) addr (stringToHex lib nm))), [])"
  using assms
  by (simp add: assembleAdminSingleMessage_def loadApiContract_def setContractAddress_def
      split_beta Let_def)

theorem contract_address_stale_witness:
  "fst (loadApiContract (setContractAddress [9] initial_env)
     (snd (loadApiContract initial_env new_client))) = (0, [])"
proof -
  let ?cl = "snd (loadApiContract initial_env new_client)"
  have "apiContract ?cl = Some (0, [])"
    by (simp add: loadApiContract_def loadApiPromise_def new_client_def initial_env_def Let_def)
  then show ?thesis
    by (rule contract_address_stale [of _ _ _ "replicate 48 53" "replicate 48 53"
          "(sample_chain [])\<lparr>storage := \<lambda>_ _. Some [5]\<rparr>", THEN conjunct1])
       simp_all
qed

lemma start_many:
  "fold api_step (replicate n StartApi) \<lparr>cached = None, made = k, creating = cs\<rparr> =
     \<lparr>cached = None, made = k + n, creating = cs @ [k..<k + n]\<rparr>"
proof (induction n arbitrary: k cs)
  case (Suc n)
  have "[k..<k + Suc n] = k # [Suc k..<k + Suc n]" by (simp add: upt_conv_Cons)
  then show ?case using Suc by simp
qed simp

lemma cached_stays:
  "cached s \<noteq> None \<Longrightarrow> made (fold api_step evs s) = made s \<and> cached (fold api_step evs s) \<noteq> None"
proof (induction evs arbitrary: s)
  case (Cons e evs)
  have "cached (api_step e s) \<noteq> None \<and> made (api_step e s) = made s"
    using Cons.prems by (cases e) auto
  then show ?case using Cons.IH [of "api_step e s"] by simp
qed simp

definition no_connection :: api_race where
  "no_connection = \<lparr>cached = None, made = 0, creating = []\<rparr>"

text \<open>
  Overlapping first calls: \<open>n\<close> calls of \<open>loadApiPromise\<close> that start before a connection is there
  open \<open>n\<close> connections; whichever of them finishes is cached, and from then on no further one is
  opened, whatever follows. The calls of one page after another open a single connection.
\<close>

theorem overlapping_connections:
  assumes "c < n"
  shows "made (fold api_step (replicate n StartApi @ FinishApi c # evs) no_connection) = n \<and>
    cached (fold api_step (replicate n StartApi @ [FinishApi c]) no_connection) = Some c \<and>
    cached (fold api_step (replicate n StartApi @ FinishApi c # evs) no_connection) \<noteq> None \<and>
    connections (snd (loadApiPromise (snd (loadApiPromise new_client)))) = 1"
proof -
  let ?s = "api_step (FinishApi c) \<lparr>cached = None, made = n, creating = [0..<n]\<rparr>"
  have s: "cached ?s = Some c" "made ?s = n" using assms by simp_all
  have "fold api_step (replicate n StartApi) no_connection =
      \<lparr>cached = None, made = n, creating = [0..<n]\<rparr>"
    using start_many [of n 0 "[]"] by (simp add: no_connection_def)
  then show ?thesis
    using cached_stays [of ?s evs] s
    by (simp add: loadApiPromise_def new_client_def del: api_step.simps)
qed

theorem overlapping_connections_witness:
  "made (fold api_step (replicate 2 StartApi @ FinishApi 1 # [FinishApi 0, StartApi]) no_connection) = 2"
  using overlapping_connections [of 1 2 "[FinishApi 0, StartApi]"] by (simp del: api_step.simps)

text \<open>
  A bad address goes nowhere: without 48 characters in the address of the signer, every assembly
  and every guarded list gives the empty result and a toast, and neither opens a connection nor
  builds a contract.
\<close>

theorem bad_address_goes_nowhere:
  assumes "length from \<noteq> 48"
  shows "assembleOperateBusiness lib ch env op from nm addr cnt gas cl = (([], [bad_address]), cl) \<and>
    assembleAdminSingleMessage lib ch env aop from addr nm gas cl = (Inr ([], [bad_address]), cl) \<and>
    assembleAddCertInfo lib ch env cid co from gas cl = (([], [bad_address]), cl) \<and>
    assembleAddCertOwnInfo lib ch env cid owner from gas cl = (([], [bad_address]), cl) \<and>
    loadCertList ch env from gas cl = (([], [bad_address]), cl) \<and>
    loadOriginalList lib ch env from gas cl = (([], [bad_address]), cl)"
  using assms
  by (simp add: assembleOperateBusiness_def assembleAdminSingleMessage_def assembleAddCertInfo_def
      assembleAddCertOwnInfo_def loadCertList_def loadOriginalList_def)

theorem bad_address_goes_nowhere_witness:
  "loadCertList (sample_chain []) initial_env (lit ''5'') list_gas new_client =
     (([], [bad_address]), new_client)"
  using bad_address_goes_nowhere [of "lit ''5''" sample_lib "sample_chain []" initial_env Auth "[]" "[]"
      0 list_gas new_client AddAdmin "[]" new_cert_own "[]"]
  by simp

end
