(* ===== verification/Utf8.thy ===== *)
theory Utf8
  imports Js_Utils
begin

text \<open>
  UTF-8 as the reference of the encoders in the code. It encodes code points; a JavaScript string
  is a list of code units, in which a character beyond the basic plane is a pair of surrogates.
  The encoder of module \<open>ac6d\<close> does not join such pairs.
\<close>

section \<open>UTF-8 as the reference\<close>

definition utf8_point :: "nat \<Rightarrow> nat list" where
  "utf8_point n =
     (if n < 128 then [n]
      else if n < 2048 then [192 + n div 64, 128 + n mod 64]
      else if n < 65536 then [224 + n div 4096, 128 + n div 64 mod 64, 128 + n mod 64]
      else [240 + n div 262144, 128 + n div 4096 mod 64, 128 + n div 64 mod 64, 128 + n mod 64])"

definition high_surrogate :: "jschar \<Rightarrow> bool" where
  "high_surrogate c \<longleftrightarrow> 0xD800 \<le> c \<and> c \<le> 0xDBFF"

definition low_surrogate :: "jschar \<Rightarrow> bool" where
  "low_surrogate c \<longleftrightarrow> 0xDC00 \<le> c \<and> c \<le> 0xDFFF"

text \<open>The code points of a string; a surrogate without partner stands for itself.\<close>

fun code_points :: "jsstr \<Rightarrow> nat list" where
  "code_points [] = []"
| "code_points [c] = [unat c]"
| "code_points (c # d # s) =
     (if high_surrogate c \<and> low_surrogate d then
        (65536 + (unat c - 0xD800) * 1024 + (unat d - 0xDC00)) # code_points s
      else unat c # code_points (d # s))"

fun surrogate_pairs :: "jsstr \<Rightarrow> nat" where
  "surrogate_pairs [] = 0"
| "surrogate_pairs [c] = 0"
| "surrogate_pairs (c # d # s) =
     (if high_surrogate c \<and> low_surrogate d then Suc (surrogate_pairs s)
      else surrogate_pairs (d # s))"

text \<open>UTF-8 has no bytes for a surrogate; the standard puts the replacement character.\<close>

definition scalar :: "nat \<Rightarrow> nat" where
  "scalar n = (if 0xD800 \<le> n \<and> n \<le> 0xDFFF then 0xFFFD else n)"

definition utf8 :: "jsstr \<Rightarrow> nat list" where
  "utf8 s = concat (map (\<lambda>n. utf8_point (scalar n)) (code_points s))"

lemma scalar_unit [simp]:
  "\<not> high_surrogate c \<Longrightarrow> \<not> low_surrogate c \<Longrightarrow> scalar (unat c) = unat c"
  "high_surrogate c \<or> low_surrogate c \<Longrightarrow> scalar (unat c) = 0xFFFD"
  unfolding high_surrogate_def low_surrogate_def scalar_def word_le_nat_alt by auto

lemma scalar_astral [simp]: "scalar (65536 + n) = 65536 + n"
  by (simp add: scalar_def)

lemma utf8_simps [simp]:
  "utf8 [] = []"
  "utf8 [c] = utf8_point (scalar (unat c))"
  "utf8 (c # d # s) =
     (if high_surrogate c \<and> low_surrogate d then
        utf8_point (65536 + (unat c - 0xD800) * 1024 + (unat d - 0xDC00)) @ utf8 s
      else utf8_point (scalar (unat c)) @ utf8 (d # s))"
  by (simp_all add: utf8_def add.assoc)

section \<open>The encoder and the reference\<close>

text \<open>
  The encoder writes the reference's bytes of every code unit but a surrogate, for which it writes
  three bytes of its own, as many as the replacement character has.
\<close>

definition surrogate :: "jschar \<Rightarrow> bool" where
  "surrogate c \<longleftrightarrow> high_surrogate c \<or> low_surrogate c"

definition replaced :: "jsstr \<Rightarrow> jsstr" where
  "replaced s = map (\<lambda>c. if surrogate c then 0xFFFD else c) s"

lemma encode_unit_utf8: "encode_unit (unat c) = utf8_point (unat c)" for c :: jschar
  by (simp add: encode_char utf8_point_def add.commute)

lemma encode_replaced:
  "encode_unit (unat (if surrogate c then 0xFFFD else c)) = utf8_point (scalar (unat c))"
  for c :: jschar
  by (simp add: encode_unit_utf8 surrogate_def)

lemma surrogate_length:
  "surrogate c \<Longrightarrow> length (encode_unit (unat c)) = 3"
  by (auto simp: encode_char surrogate_def high_surrogate_def low_surrogate_def word_le_nat_alt)

lemma length_encode_scalar: "length (encode_unit (unat c)) = length (utf8_point (scalar (unat c)))"
  for c :: jschar
  by (cases "surrogate c")
    (simp_all add: surrogate_length, simp_all add: surrogate_def utf8_point_def [of 65533] encode_unit_utf8)

lemma length_utf8_astral: "length (utf8_point (65536 + n)) = 4"
  by (simp add: utf8_point_def)

lemma bytes_longer: "length (string_to_bytes s) = length (utf8 s) + 2 * surrogate_pairs s"
proof (induction s rule: code_points.induct)
  case (3 c d s)
  have "length (encode_unit (unat c)) = 3 \<and> length (encode_unit (unat d)) = 3"
    if "high_surrogate c \<and> low_surrogate d"
    using that surrogate_length by (simp add: surrogate_def)
  then show ?case using 3 by (simp add: length_encode_scalar length_utf8_astral [of "a + b" for a b, folded add.assoc])
qed (simp_all add: length_encode_scalar)

lemma bytes_replaced: "surrogate_pairs s = 0 \<Longrightarrow> utf8 s = string_to_bytes (replaced s)"
  by (induction s rule: code_points.induct) (auto simp: replaced_def encode_replaced split: if_splits)

lemma replaced_same: "replaced s = s \<longleftrightarrow> (\<forall>c \<in> set s. \<not> surrogate c)"
proof -
  have "\<not> surrogate 0xFFFD"
    by (simp add: surrogate_def high_surrogate_def low_surrogate_def)
  then show ?thesis by (induction s) (auto simp: replaced_def)
qed

lemma pairs_of_surrogates: "\<forall>c \<in> set s. \<not> surrogate c \<Longrightarrow> surrogate_pairs s = 0"
  by (induction s rule: surrogate_pairs.induct) (auto simp: surrogate_def)

lemma bytes_are_utf8: "string_to_bytes s = utf8 s \<longleftrightarrow> (\<forall>c \<in> set s. \<not> surrogate c)"
proof
  assume eq: "string_to_bytes s = utf8 s"
  then have "surrogate_pairs s = 0" using bytes_longer [of s] by simp
  then have "string_to_bytes s = string_to_bytes (replaced s)" using eq bytes_replaced by simp
  then have "replaced s = s" by (metis string_to_bytes_inj)
  then show "\<forall>c \<in> set s. \<not> surrogate c" using replaced_same by blast
next
  assume none: "\<forall>c \<in> set s. \<not> surrogate c"
  then show "string_to_bytes s = utf8 s"
    using bytes_replaced [OF pairs_of_surrogates [OF none]] replaced_same by metis
qed

end
