(* ===== verification/Encoder_Properties.thy ===== *)
theory Encoder_Properties
  imports Utf8
begin

text \<open>The byte encoder of module \<open>ac6d\<close> against UTF-8.\<close>

text \<open>C35
  Equivalence of the byte encoder with UTF-8: the bytes are those of UTF-8 exactly when the
  string contains no surrogate at all, neither in a pair nor alone. Each pair, that is each
  character beyond the basic plane, costs two bytes more than in UTF-8, so the limit on the length
  of a certificate counts it as six; a surrogate alone costs as much as the replacement character
  that UTF-8 has in its place.
\<close>

theorem encoder_is_utf8:
  "(string_to_bytes s = utf8 s \<longleftrightarrow> \<not> list_ex surrogate s) \<and>
   length (string_to_bytes s) = length (utf8 s) + 2 * surrogate_pairs s"
  using bytes_are_utf8 bytes_longer by (auto simp: list_ex_iff)

end
