(* ===== verification/Hex_Codec.thy ===== *)
theory Hex_Codec
  imports Utf8
begin

text \<open>
  Texts as bytes and bytes as hexadecimal: the functions \<open>stringToHex\<close>, \<open>hexToString\<close>, \<open>u8aToU8a\<close>
  of module \<open>fe84\<close> (the utilities of polkadot) in \<open>chunk-vendors.28fb2c37.js\<close>, with those they call.
  The classes \<open>TextEncoder\<close> and \<open>TextDecoder\<close> of the platform are the standard's; a truth value
  tells whether the platform has them, since the code has fallbacks.
\<close>

unbundle bit_operations_syntax

text \<open>The errors of the utilities and of the hash library.\<close>

datatype lib_error = FinalizeAlreadyCalled | ExpectedHex | InvalidHex

section \<open>Hexadecimal\<close>

definition hex_digits :: jsstr where
  "hex_digits = lit ''0123456789abcdef''"

definition u8aToHex :: "8 word list \<Rightarrow> jsstr" where
  "u8aToHex bs = lit ''0x'' @
     foldl (\<lambda>a b. a @ [hex_digits ! unat (drop_bit 4 b)] @ [hex_digits ! unat (15 AND b)]) [] bs"

text \<open>
  \<open>isHex\<close> (module \<open>7aa0\<close>) tests for the prefix and hexadecimal digits after it, and an even length
  unless that is ignored; \<open>hexHasPrefix\<close> (\<open>8302\<close>), \<open>hexStripPrefix\<close> (\<open>4519\<close>); \<open>hexToU8a\<close> (\<open>7ae8\<close>)
  reads the digits in pairs.
\<close>

definition is_hex_char :: "jschar \<Rightarrow> bool" where
  "is_hex_char c \<longleftrightarrow> (97 \<le> c \<and> c \<le> 102) \<or> (65 \<le> c \<and> c \<le> 70) \<or> (48 \<le> c \<and> c \<le> 57)"

definition isHex :: "bool \<Rightarrow> jsstr \<Rightarrow> bool" where
  "isHex ignore s \<longleftrightarrow>
     (s = lit ''0x'' \<or> take 2 s = lit ''0x'' \<and> drop 2 s \<noteq> [] \<and> list_all is_hex_char (drop 2 s)) \<and>
     (ignore \<or> even (length s))"

definition hexHasPrefix :: "jsstr \<Rightarrow> bool" where
  "hexHasPrefix s \<longleftrightarrow> s \<noteq> [] \<and> isHex True s \<and> take 2 s = lit ''0x''"

definition hexStripPrefix :: "jsstr \<Rightarrow> lib_error + jsstr" where
  "hexStripPrefix s =
     (if s = [] then Inr []
      else if hexHasPrefix s then Inr (drop 2 s)
      else if list_all is_hex_char s then Inr s
      else Inl InvalidHex)"

definition digit_value :: "jschar \<Rightarrow> nat" where
  "digit_value c = (if c \<le> 57 then unat c - 48 else if c \<le> 70 then unat c - 55 else unat c - 87)"

fun read_pairs :: "jsstr \<Rightarrow> 8 word list" where
  "read_pairs (c # d # s) = of_nat (16 * digit_value c + digit_value d) # read_pairs s"
| "read_pairs _ = []"

definition hexToU8a :: "jsstr \<Rightarrow> lib_error + 8 word list" where
  "hexToU8a s =
     (if s = [] then Inr []
      else if \<not> isHex False s then Inl ExpectedHex
      else map_sum id read_pairs (hexStripPrefix s))"

section \<open>Texts\<close>

text \<open>
  \<open>TextEncoder\<close>: UTF-8, with the replacement character for a surrogate without partner. Without it
  \<open>stringToU8a\<close> (\<open>7f28\<close>) stores the code units into bytes.
\<close>

definition text_encode :: "jsstr \<Rightarrow> 8 word list" where
  "text_encode s = map of_nat (utf8 s)"

definition stringToU8a :: "bool \<Rightarrow> jsstr \<Rightarrow> 8 word list" where
  "stringToU8a encoder s =
     (if s = [] then [] else if encoder then text_encode s else map ucast s)"

text \<open>
  \<open>TextDecoder\<close>: a leading byte announces one, two or three more, the first of which has its own
  bounds; a byte out of bounds, or the end, gives a replacement character and is read again.
  A byte order mark at the start is dropped.
\<close>

fun continuation :: "nat \<Rightarrow> nat \<Rightarrow> nat \<Rightarrow> nat \<Rightarrow> nat list \<Rightarrow> nat \<times> nat list" where
  "continuation 0 n lo hi bs = (n, bs)"
| "continuation (Suc k) n lo hi [] = (0xFFFD, [])"
| "continuation (Suc k) n lo hi (b # bs) =
     (if lo \<le> b \<and> b \<le> hi then continuation k (64 * n + b mod 64) 128 191 bs
      else (0xFFFD, b # bs))"

definition read_point :: "nat \<Rightarrow> nat list \<Rightarrow> nat \<times> nat list" where
  "read_point b bs =
     (if b < 128 then (b, bs)
      else if 0xC2 \<le> b \<and> b \<le> 0xDF then continuation 1 (b mod 32) 128 191 bs
      else if 0xE0 \<le> b \<and> b \<le> 0xEF then
        continuation 2 (b mod 16) (if b = 0xE0 then 160 else 128) (if b = 0xED then 159 else 191) bs
      else if 0xF0 \<le> b \<and> b \<le> 0xF4 then
        continuation 3 (b mod 8) (if b = 0xF0 then 144 else 128) (if b = 0xF4 then 143 else 191) bs
      else (0xFFFD, bs))"

lemma length_continuation: "length (snd (continuation k n lo hi bs)) \<le> length bs"
  by (induction k n lo hi bs rule: continuation.induct) auto

lemma length_read_point: "length (snd (read_point b bs)) \<le> length bs"
  using length_continuation by (simp add: read_point_def)

function decode_points :: "nat list \<Rightarrow> nat list" where
  "decode_points [] = []"
| "decode_points (b # bs) = fst (read_point b bs) # decode_points (snd (read_point b bs))"
  by pat_completeness auto

termination
  by (relation "measure length") (simp_all add: length_read_point less_Suc_eq_le)

definition code_units :: "nat \<Rightarrow> jsstr" where
  "code_units n =
     (if n < 65536 then [of_nat n]
      else [of_nat (0xD800 + (n - 65536) div 1024), of_nat (0xDC00 + (n - 65536) mod 1024)])"

definition without_mark :: "nat list \<Rightarrow> nat list" where
  "without_mark ns = (case ns of n # ms \<Rightarrow> if n = 0xFEFF then ms else ns | [] \<Rightarrow> [])"

definition text_decode :: "8 word list \<Rightarrow> jsstr" where
  "text_decode bs = concat (map code_units (without_mark (decode_points (map unat bs))))"

text \<open>\<open>u8aToString\<close> (\<open>d880\<close>), with a character for each byte where there is no \<open>TextDecoder\<close>.\<close>

definition u8aToString :: "bool \<Rightarrow> 8 word list \<Rightarrow> jsstr" where
  "u8aToString decoder bs =
     (if bs = [] then [] else if decoder then text_decode bs else map ucast bs)"

text \<open>Modules \<open>605b\<close>, \<open>075f\<close> and \<open>43a8\<close>.\<close>

definition string_to_hex :: "bool \<Rightarrow> jsstr \<Rightarrow> jsstr" where
  "string_to_hex encoder s = u8aToHex (stringToU8a encoder s)"

definition hex_to_string :: "bool \<Rightarrow> jsstr \<Rightarrow> lib_error + jsstr" where
  "hex_to_string decoder s = map_sum id (u8aToString decoder) (hexToU8a s)"

definition u8aToU8a :: "bool \<Rightarrow> jsstr \<Rightarrow> lib_error + 8 word list" where
  "u8aToU8a encoder s =
     (if s = [] then Inr [] else if isHex False s then hexToU8a s else Inr (stringToU8a encoder s))"

end
