(* ===== verification/Hex_Facts.thy ===== *)
theory Hex_Facts
  imports Hex_Codec
begin

text \<open>
  Facts about the codecs: hexadecimal can be read back, a decoder of UTF-8 reads what an encoder
  wrote, and a string is the units of its code points.
\<close>

section \<open>Hexadecimal digits\<close>

lemma hex_digits_eq: "hex_digits = [48, 49, 50, 51, 52, 53, 54, 55, 56, 57, 97, 98, 99, 100, 101, 102]"
  by (simp add: hex_digits_def lit_def)

lemma unat_nibbles: "unat (drop_bit 4 b) = unat b div 16" "unat (15 AND b) = unat b mod 16"
  for b :: "8 word"
proof -
  have "take_bit 8 (unat b) = unat b"
    using unsigned_less [of b] by (intro take_bit_nat_eq_self) simp
  then show "unat (drop_bit 4 b) = unat b div 16"
    by (subst unsigned_drop_bit_eq) (simp add: drop_bit_eq_div)
  show "unat (15 AND b) = unat b mod 16"
    using take_bit_eq_mask [of 4 "unat b"]
    by (simp add: unsigned_and_eq take_bit_eq_mod mask_eq_exp_minus_1 and.commute)
qed

definition byte_hex :: "8 word \<Rightarrow> jsstr" where
  "byte_hex b = [hex_digits ! (unat b div 16), hex_digits ! (unat b mod 16)]"

lemma hex_fold: "foldl (\<lambda>a b. a @ [hex_digits ! unat (drop_bit 4 b)] @ [hex_digits ! unat (15 AND b)]) t bs =
    t @ concat (map byte_hex bs)"
  by (induction bs arbitrary: t) (simp_all add: byte_hex_def unat_nibbles)

lemma u8aToHex_eq: "u8aToHex bs = lit ''0x'' @ concat (map byte_hex bs)"
  unfolding u8aToHex_def hex_fold by simp

lemma length_byte_hex [simp]: "length (byte_hex b) = 2"
  by (simp add: byte_hex_def)

lemma length_u8aToHex: "length (u8aToHex bs) = 2 + 2 * length bs"
proof -
  have "length (concat (map byte_hex bs)) = 2 * length bs" by (induction bs) simp_all
  then show ?thesis by (simp add: u8aToHex_eq lit_def)
qed

lemma unat_byte_less: "unat (b :: 8 word) < 256"
  using unsigned_less [of b] by simp

lemma u8aToHex_chars: "set (u8aToHex bs) \<subseteq> set hex_digits \<union> {120}"
proof -
  have "set (byte_hex b) \<subseteq> set hex_digits" for b
  proof -
    have "length hex_digits = 16" by (simp add: hex_digits_eq)
    then show ?thesis using unat_byte_less [of b] by (simp add: byte_hex_def less_mult_imp_div_less)
  qed
  moreover have "set (lit ''0x'') = {48, 120}" by (auto simp: lit_def)
  moreover have "48 \<in> set hex_digits" by (simp add: hex_digits_eq)
  ultimately show ?thesis by (auto simp: u8aToHex_eq)
qed

text \<open>Reading back.\<close>

lemma digit_value_hex: "n < 16 \<Longrightarrow> digit_value (hex_digits ! n) = n \<and> is_hex_char (hex_digits ! n)"
proof -
  have "list_all (\<lambda>n. digit_value (hex_digits ! n) = n \<and> is_hex_char (hex_digits ! n)) [0..<16]"
    by (simp add: hex_digits_eq digit_value_def is_hex_char_def upt_rec)
  then show "n < 16 \<Longrightarrow> digit_value (hex_digits ! n) = n \<and> is_hex_char (hex_digits ! n)"
    by (simp add: list_all_iff)
qed

lemma nibbles: "unat (b :: 8 word) div 16 < 16" "16 * (unat b div 16) + unat b mod 16 = unat b"
  using unat_byte_less [of b] by (simp_all add: less_mult_imp_div_less)

lemma read_byte_hex: "read_pairs (byte_hex b @ s) = b # read_pairs s"
  by (simp add: byte_hex_def digit_value_hex nibbles del: of_nat_add of_nat_mult)

lemma read_bytes_hex: "read_pairs (concat (map byte_hex bs)) = bs"
  by (induction bs) (simp_all add: read_byte_hex)

lemma hex_char_bytes: "list_all is_hex_char (concat (map byte_hex bs))"
  by (induction bs) (simp_all add: byte_hex_def digit_value_hex nibbles)

lemma isHex_bytes: "isHex ignore (u8aToHex bs)"
proof -
  have "even (length (concat (map byte_hex bs)))" by (induction bs) simp_all
  then show ?thesis
    using hex_char_bytes [of bs] by (cases bs) (auto simp: isHex_def u8aToHex_eq lit_def byte_hex_def)
qed

lemma hexToU8a_bytes: "hexToU8a (u8aToHex bs) = Inr bs"
proof -
  have "hexHasPrefix (u8aToHex bs)"
    using isHex_bytes by (simp add: hexHasPrefix_def u8aToHex_eq lit_def)
  then show ?thesis
    using isHex_bytes by (simp add: hexToU8a_def hexStripPrefix_def u8aToHex_eq lit_def read_bytes_hex)
qed

lemma hexToU8a_hex: "isHex False s \<Longrightarrow> hexToU8a s = Inr (read_pairs (drop 2 s))"
proof -
  assume h: "isHex False s"
  then have "take 2 s = lit ''0x''" "isHex True s" by (auto simp: isHex_def lit_def)
  then show ?thesis
    using h by (auto simp: hexToU8a_def hexStripPrefix_def hexHasPrefix_def)
qed

lemma u8aToU8a_ok: "\<exists>bs. u8aToU8a encoder s = Inr bs"
  by (simp add: u8aToU8a_def hexToU8a_hex)

lemma hexToU8a_error: "hexToU8a s = Inl e \<longleftrightarrow> e = ExpectedHex \<and> s \<noteq> [] \<and> \<not> isHex False s"
  using hexToU8a_hex [of s] by (auto simp: hexToU8a_def)

lemma u8aToHex_inject [simp]: "u8aToHex bs = u8aToHex cs \<longleftrightarrow> bs = cs"
  using hexToU8a_bytes by (metis sum.inject(2))

section \<open>Surrogates\<close>

fun paired :: "jsstr \<Rightarrow> bool" where
  "paired [] = True"
| "paired [c] = (\<not> high_surrogate c \<and> \<not> low_surrogate c)"
| "paired (c # d # s) =
     (if high_surrogate c then low_surrogate d \<and> paired s
      else \<not> low_surrogate c \<and> paired (d # s))"

definition byte_list :: "nat list \<Rightarrow> 8 word list" where
  "byte_list ns = map of_nat ns"

lemma byte_list_simps [simp]:
  "byte_list [] = []" "byte_list (n # ns) = of_nat n # byte_list ns"
  "byte_list (ns @ ms) = byte_list ns @ byte_list ms" "length (byte_list ns) = length ns"
  by (simp_all add: byte_list_def)

lemma surrogate_range: "c < 55296 \<or> 57344 \<le> c \<longleftrightarrow> \<not> high_surrogate c \<and> \<not> low_surrogate c"
  for c :: jschar
  unfolding high_surrogate_def low_surrogate_def word_le_nat_alt word_less_nat_alt by auto

lemma paired_append: "paired s \<Longrightarrow> paired t \<Longrightarrow> paired (s @ t)"
proof (induction s rule: paired.induct)
  case (2 c)
  then show ?case by (cases t) simp_all
qed (auto split: if_splits)

lemma paired_plain: "\<forall>c \<in> set s. c < 128 \<Longrightarrow> paired s"
proof (induction s rule: paired.induct)
  case (2 c)
  then show ?case by (auto simp: high_surrogate_def low_surrogate_def word_le_nat_alt word_less_nat_alt)
next
  case (3 c d s)
  then show ?case by (auto simp: high_surrogate_def low_surrogate_def word_le_nat_alt word_less_nat_alt)
qed simp

lemma paired_butlast: "paired (s @ [c]) \<Longrightarrow> c < 128 \<Longrightarrow> paired s"
proof (induction s rule: paired.induct)
  case (2 d)
  then show ?case
    by (auto simp: high_surrogate_def low_surrogate_def word_le_nat_alt word_less_nat_alt split: if_splits)
qed (auto split: if_splits)

lemma unit_scalar: "\<not> high_surrogate c \<Longrightarrow> \<not> low_surrogate c \<Longrightarrow> unat c < 0xD800 \<or> 0xDFFF < unat c"
  unfolding high_surrogate_def low_surrogate_def word_le_nat_alt by simp linarith

lemma code_points_scalar: "paired s \<Longrightarrow> n \<in> set (code_points s) \<Longrightarrow> n < 0xD800 \<or> 0xDFFF < n"
proof (induction s rule: paired.induct)
  case (2 c)
  then show ?case using unit_scalar [of c] by simp
next
  case (3 c d s)
  show ?case
  proof (cases "high_surrogate c")
    case True
    then have "n = 65536 + (unat c - 0xD800) * 1024 + (unat d - 0xDC00) \<or> n \<in> set (code_points s)"
      using 3(3,4) by simp
    moreover have "paired s" using 3(3) True by simp
    ultimately show ?thesis using 3(1) [OF True] by (elim disjE) (linarith, blast)
  next
    case False
    then have "n = unat c \<or> n \<in> set (code_points (d # s))" using 3(4) by simp
    moreover have "\<not> low_surrogate c" "paired (d # s)" using 3(3) False by simp_all
    ultimately show ?thesis using 3(2) [OF False] unit_scalar [OF False] by (elim disjE) (simp, blast)
  qed
qed simp

section \<open>Encoding\<close>

lemma scalar_points: "paired s \<Longrightarrow> map scalar (code_points s) = code_points s"
proof (rule map_idI)
  fix n assume "paired s" "n \<in> set (code_points s)"
  from code_points_scalar [OF this] show "scalar n = n" by (elim disjE) (simp_all add: scalar_def)
qed

lemma text_encode_eq: "text_encode s = byte_list (concat (map utf8_point (map scalar (code_points s))))"
  by (simp add: text_encode_def byte_list_def utf8_def comp_def)

lemma text_encode_utf8: "text_encode s = byte_list (utf8 s)"
  by (simp add: text_encode_def byte_list_def)

section \<open>Decoding\<close>

lemma unat_byte_list: "\<forall>n \<in> set ns. n < 256 \<Longrightarrow> map unat (byte_list ns) = ns"
  by (induction ns) (simp_all add: unat_of_nat)

lemma utf8_point_bytes: "m < 0x110000 \<Longrightarrow> n \<in> set (utf8_point m) \<Longrightarrow> n < 256"
  by (auto simp: utf8_point_def split: if_splits)

text \<open>The digits to the base 64 that the bytes of a code point carry.\<close>

lemma digits_64: "64 * (n div 64) + n mod 64 = n" "n div 64 div 64 = n div 4096"
  "n div 64 div 4096 = n div 262144" for n :: nat
  by (simp_all flip: div_mult2_eq)

lemma mod_tag: "x < k \<Longrightarrow> (k * t + x) mod k = x" for x k t :: nat
  by simp

lemma low_digit: "(128 + n mod 64) mod 64 = n mod 64" "n mod 64 \<le> 63" for n :: nat
  using mod_tag [of "n mod 64" 64 2] by (simp_all flip: less_Suc_eq_le)

lemma continuation_last:
  "lo \<le> 128 + n mod 64 \<Longrightarrow> 128 + n mod 64 \<le> hi \<Longrightarrow>
    continuation (Suc k) (n div 64) lo hi ((128 + n mod 64) # ns) = continuation k n 128 191 ns"
  by (simp add: low_digit digits_64)

lemma decode_utf8_point:
  assumes "n < 0x110000" "n < 0xD800 \<or> 0xDFFF < n"
  shows "decode_points (utf8_point n @ ns) = n # decode_points ns"
proof -
  have m: "128 + k mod 64 \<le> 191" for k :: nat using low_digit(2) [of k] by simp
  consider "n < 128" | "128 \<le> n" "n < 2048" | "2048 \<le> n" "n < 65536" | "65536 \<le> n" by linarith
  then show ?thesis
  proof cases
    case 1
    then show ?thesis by (simp add: utf8_point_def read_point_def)
  next
    case 2
    define a where "a = n div 64"
    have a: "2 \<le> a" "a < 32" using 2 by (simp_all add: a_def div_le_mono less_mult_imp_div_less)
    moreover have "(192 + a) mod 32 = a" using mod_tag [of a 32 6] a by simp
    ultimately have "read_point (192 + a) ((128 + n mod 64) # ns) = continuation 0 n 128 191 ns"
      using continuation_last [of 128 n 191 0 ns] m by (simp add: read_point_def a_def)
    then show ?thesis using 2 by (simp add: utf8_point_def a_def)
  next
    case 3
    define a where "a = n div 64 div 64"
    have a: "a < 16" "a = n div 4096" using 3 by (simp_all add: a_def digits_64 less_mult_imp_div_less)
    have lo: "160 \<le> 128 + n div 64 mod 64" if "a = 0"
    proof -
      have "n div 64 < 64" using that by (simp add: a_def)
      moreover have "32 \<le> n div 64" using 3 by (simp add: div_le_mono)
      ultimately show ?thesis by simp
    qed
    have hi: "128 + n div 64 mod 64 \<le> 159" if "a = 13"
    proof -
      have "n < 0xD800" using assms(2) that a(2) 3 by (auto simp: div_nat_eqI)
      then have "n div 64 < 864" by (simp add: less_mult_imp_div_less)
      moreover have "n div 64 = 64 * 13 + n div 64 mod 64"
        using mult_div_mod_eq [of 64 "n div 64"] that unfolding a_def by linarith
      ultimately show ?thesis by simp
    qed
    have step: "continuation 2 a l h ((128 + n div 64 mod 64) # (128 + n mod 64) # ns) = (n, ns)"
      if "l \<le> 128 + n div 64 mod 64" "128 + n div 64 mod 64 \<le> h" for l h
      using that m [of n] by (simp add: a_def numeral_2_eq_2 low_digit)
    have "(224 + a) mod 16 = a" using mod_tag [of a 16 14] a by simp
    then have "read_point (224 + a) ((128 + n div 64 mod 64) # (128 + n mod 64) # ns) = continuation 0 n 128 191 ns"
      using a(1) lo hi m [of "n div 64"] by (simp add: read_point_def step)
    then show ?thesis using 3 by (simp add: utf8_point_def a(2))
  next
    case 4
    define a where "a = n div 64 div 64 div 64"
    have a: "a < 5" "a = n div 262144" using assms(1) by (simp_all add: a_def less_mult_imp_div_less flip: div_mult2_eq)
    have lo: "144 \<le> 128 + n div 64 div 64 mod 64" if "a = 0"
    proof -
      have "n div 64 div 64 < 64" using that by (simp add: a_def)
      moreover have "16 \<le> n div 64 div 64" using 4 by (simp add: digits_64 div_le_mono)
      ultimately show ?thesis by simp
    qed
    have hi: "128 + n div 64 div 64 mod 64 \<le> 143" if "a = 4"
    proof -
      have "n div 64 div 64 < 272" using assms(1) by (simp add: digits_64 less_mult_imp_div_less)
      moreover have "n div 64 div 64 = 64 * 4 + n div 64 div 64 mod 64"
        using mult_div_mod_eq [of 64 "n div 64 div 64"] that unfolding a_def by linarith
      ultimately show ?thesis by simp
    qed
    have step: "continuation 3 a l h ((128 + n div 64 div 64 mod 64) # (128 + n div 64 mod 64) #
        (128 + n mod 64) # ns) = (n, ns)"
      if "l \<le> 128 + n div 64 div 64 mod 64" "128 + n div 64 div 64 mod 64 \<le> h" for l h
      using that m [of n] m [of "n div 64"] by (simp add: a_def numeral_3_eq_3 low_digit)
    have "(240 + a) mod 8 = a" using mod_tag [of a 8 30] a by simp
    then have "read_point (240 + a) ((128 + n div 64 div 64 mod 64) # (128 + n div 64 mod 64) # (128 + n mod 64) # ns) =
        continuation 0 n 128 191 ns"
      using a(1) lo hi m [of "n div 64 div 64"] by (simp add: read_point_def step)
    then show ?thesis using 4 by (simp add: utf8_point_def a(2) digits_64)
  qed
qed

lemma decode_utf8_points: "\<forall>n \<in> set ns. n < 0x110000 \<and> (n < 0xD800 \<or> 0xDFFF < n) \<Longrightarrow>
    decode_points (concat (map utf8_point ns)) = ns"
  by (induction ns) (simp_all add: decode_utf8_point)

lemma code_points_bound: "n \<in> set (code_points s) \<Longrightarrow> n < 0x110000"
proof (induction s rule: code_points.induct)
  case (2 c)
  then show ?case using less_trans [OF unat_jschar_less [of c], of "0x110000"] by simp
next
  case (3 c d s)
  show ?case
  proof (cases "high_surrogate c \<and> low_surrogate d")
    case True
    then have "unat c \<le> 0xDBFF" "unat d \<le> 0xDFFF"
      by (simp_all add: high_surrogate_def low_surrogate_def word_le_nat_alt)
    then have "65536 + (unat c - 0xD800) * 1024 + (unat d - 0xDC00) < 0x110000" by simp
    then show ?thesis using 3 True by auto
  next
    case False
    then show ?thesis using 3 less_trans [OF unat_jschar_less [of c], of "0x110000"] by auto
  qed
qed simp

lemma decode_encoded: "map unat (text_encode s) = concat (map utf8_point (map scalar (code_points s)))"
  unfolding text_encode_eq
proof (rule unat_byte_list, rule ballI)
  fix n assume "n \<in> set (concat (map utf8_point (map scalar (code_points s))))"
  then obtain m where "m \<in> set (code_points s)" "n \<in> set (utf8_point (scalar m))" by auto
  then show "n < 256"
    using code_points_bound [of m s] utf8_point_bytes [of "scalar m" n] by (simp add: scalar_def)
qed

lemma decode_text_encode: "decode_points (map unat (text_encode s)) = map scalar (code_points s)"
  unfolding decode_encoded
proof (rule decode_utf8_points, rule ballI)
  fix n assume "n \<in> set (map scalar (code_points s))"
  then obtain m where "m \<in> set (code_points s)" "n = scalar m" by auto
  then show "n < 0x110000 \<and> (n < 0xD800 \<or> 0xDFFF < n)"
    using code_points_bound [of m s] by (auto simp: scalar_def)
qed

section \<open>Units and points\<close>

lemma units_of_points: "concat (map code_units (code_points s)) = s"
proof (induction s rule: code_points.induct)
  case (2 c)
  then show ?case using unat_jschar_less [of c] by (simp add: code_units_def)
next
  case (3 c d s)
  show ?case
  proof (cases "high_surrogate c \<and> low_surrogate d")
    case True
    then have c: "0xD800 \<le> unat c" and d: "0xDC00 \<le> unat d" "unat d \<le> 0xDFFF"
      by (simp_all add: high_surrogate_def low_surrogate_def word_le_nat_alt)
    have "(65536 + (unat c - 0xD800) * 1024 + (unat d - 0xDC00) - 65536) div 1024 = unat c - 0xD800"
      "(65536 + (unat c - 0xD800) * 1024 + (unat d - 0xDC00) - 65536) mod 1024 = unat d - 0xDC00"
      using d mod_tag [of "unat d - 0xDC00" 1024 "unat c - 0xD800"] by (simp_all add: mult.commute)
    then have "code_units (65536 + (unat c - 0xD800) * 1024 + (unat d - 0xDC00)) = [c, d]"
      using c d by (simp add: code_units_def del: of_nat_add of_nat_diff)
    then show ?thesis using 3 True by simp
  next
    case False
    then show ?thesis using 3 unat_jschar_less [of c] by (auto simp: code_units_def)
  qed
qed simp

lemma code_units_nonempty [simp]: "code_units n \<noteq> []"
  by (simp add: code_units_def)

lemma scalar_mark: "scalar n = 0xFEFF \<longleftrightarrow> n = 0xFEFF"
  by (simp add: scalar_def)

lemma code_points_Nil [simp]: "code_points s = [] \<longleftrightarrow> s = []"
  by (cases s rule: code_points.cases) auto

lemma text_encode_Nil [simp]: "text_encode s = [] \<longleftrightarrow> s = []"
proof -
  have "utf8_point n \<noteq> []" for n by (simp add: utf8_point_def)
  then show ?thesis by (auto simp: text_encode_eq byte_list_def)
qed

text \<open>What comes back: the text, without a mark at its start.\<close>

definition unmarked :: "jsstr \<Rightarrow> jsstr" where
  "unmarked s = (case s of c # t \<Rightarrow> if c = 0xFEFF then t else s | [] \<Rightarrow> [])"

lemma units_without_mark: "concat (map code_units (without_mark (code_points s))) = unmarked s"
proof (cases s rule: code_points.cases)
  case (2 c)
  have "unat c = 0xFEFF \<longleftrightarrow> c = 0xFEFF" using unsigned_word_eqI [of c "0xFEFF"] by auto
  then show ?thesis
    using 2 units_of_points [of s] by (auto simp: without_mark_def unmarked_def)
next
  case (3 c d t)
  have u: "unat c = 0xFEFF \<longleftrightarrow> c = 0xFEFF" using unsigned_word_eqI [of c "0xFEFF"] by auto
  show ?thesis
  proof (cases "high_surrogate c \<and> low_surrogate d")
    case True
    then have "c \<noteq> 0xFEFF" by (auto simp: high_surrogate_def)
    then show ?thesis
      using 3 True units_of_points [of s] by (simp add: without_mark_def unmarked_def)
  next
    case False
    then show ?thesis
      using 3 u units_of_points [of s] units_of_points [of "d # t"]
      by (auto simp: without_mark_def unmarked_def)
  qed
qed (simp add: without_mark_def unmarked_def)

lemma decode_text: "paired s \<Longrightarrow> text_decode (text_encode s) = unmarked s"
  by (simp add: text_decode_def decode_text_encode scalar_points units_without_mark)

lemma hex_text_back: "paired s \<Longrightarrow> hex_to_string True (string_to_hex True s) = Inr (unmarked s)"
  by (cases "s = []")
    (simp_all add: hex_to_string_def string_to_hex_def hexToU8a_bytes u8aToString_def stringToU8a_def
      decode_text unmarked_def)

lemma byte_of_unit: "(ucast (ucast c :: 8 word) :: jschar) = c AND 0xFF"
proof -
  have "c AND 0xFF = take_bit 8 c" by (simp add: take_bit_eq_mask mask_eq_exp_minus_1)
  then show ?thesis by (intro bit_word_eqI) (auto simp: bit_simps)
qed

lemma hex_text_plain: "hex_to_string False (string_to_hex False s) = Inr (map (\<lambda>c. c AND 0xFF) s)"
  by (simp add: hex_to_string_def string_to_hex_def hexToU8a_bytes u8aToString_def stringToU8a_def
      comp_def byte_of_unit)

end
