(* ===== verification/Hex_Properties.thy ===== *)
theory Hex_Properties
  imports Hex_Facts
begin

text \<open>What the utilities that turn texts into hexadecimal and back promise.\<close>

text \<open>
  Texts in hexadecimal: \<open>hexToString\<close> of \<open>stringToHex\<close> gives the text back when every surrogate has
  its partner, but without a byte order mark at its start; on a platform without \<open>TextEncoder\<close> and
  \<open>TextDecoder\<close> it gives back the low bytes of the code units, so that only the texts of the first 256
  characters survive; and \<open>hexToString\<close> fails exactly on a text that is not empty and no
  hexadecimal with prefix and an even number of digits.
\<close>

theorem hex_text_roundtrip:
  assumes "paired s"
  shows "hex_to_string True (string_to_hex True s) =
      Inr (case s of [] \<Rightarrow> [] | c # t \<Rightarrow> if c = 0xFEFF then t else s) \<and>
    hex_to_string False (string_to_hex False s) = Inr (map (\<lambda>c. c AND 0xFF) s) \<and>
    (hex_to_string decoder t = Inl e \<longleftrightarrow> e = ExpectedHex \<and> t \<noteq> [] \<and> \<not> isHex False t)"
proof -
  have "hex_to_string decoder t = Inl e \<longleftrightarrow> hexToU8a t = Inl e"
    by (cases "hexToU8a t") (simp_all add: hex_to_string_def)
  moreover have "unmarked s = (case s of [] \<Rightarrow> [] | c # t \<Rightarrow> if c = 0xFEFF then t else s)"
    by (cases s) (simp_all add: unmarked_def)
  ultimately show ?thesis
    using hex_text_back [OF assms] hex_text_plain [of s] hexToU8a_error [of t e] by simp
qed

text \<open>A Chinese character and a pair of surrogates come back; with a mark in front they do too, alone.\<close>

theorem hex_text_roundtrip_witness:
  "hex_to_string True (string_to_hex True [0xFEFF, 0x4E2D, 0xD83D, 0xDE00]) =
     Inr [0x4E2D, 0xD83D, 0xDE00] \<and>
   hex_to_string False (string_to_hex False [0xFEFF, 0x4E2D, 0xD83D, 0xDE00]) =
     Inr [0xFF, 0x2D, 0x3D, 0] \<and>
   hex_to_string True (lit ''0xf'') = Inl ExpectedHex"
proof -
  have "paired [0xFEFF, 0x4E2D, 0xD83D, 0xDE00]"
    by (simp add: high_surrogate_def low_surrogate_def)
  note roundtrip = hex_text_roundtrip [OF this, of True "lit ''0xf''" ExpectedHex]
  have "\<not> isHex False (lit ''0xf'')" by (simp add: isHex_def lit_def)
  then show ?thesis using roundtrip by (simp add: lit_def)
qed

end
