(* ===== verification/Keccak_Spec.thy ===== *)
theory Keccak_Spec
  imports Cashbox_Prelude
begin

text \<open>
  The hash function Keccak as its designers and the standard on SHA-3 define it, on 64-bit lanes:
  the reference for the implementation in the date and chain libraries' bundle, which works on
  pairs of 32-bit words. The names of the steps, the walk that gives the rotation offsets and the
  shift register that gives the round constants are those of the standard; the padding is the
  original one of Keccak, without the two bits that SHA-3 puts in front of it.
\<close>

unbundle bit_operations_syntax

section \<open>The state\<close>

text \<open>Twenty-five lanes; lane \<open>(x, y)\<close> is at position \<open>x + 5 * y\<close>.\<close>

type_synonym lane = "64 word"

definition lane_at :: "lane list \<Rightarrow> nat \<Rightarrow> nat \<Rightarrow> lane" where
  "lane_at A x y = A ! (x mod 5 + 5 * (y mod 5))"

definition lanes_of :: "(nat \<Rightarrow> nat \<Rightarrow> lane) \<Rightarrow> lane list" where
  "lanes_of f = map (\<lambda>i. f (i mod 5) (i div 5)) [0..<25]"

section \<open>The steps of a round\<close>

definition column :: "lane list \<Rightarrow> nat \<Rightarrow> lane" where
  "column A x = lane_at A x 0 XOR lane_at A x 1 XOR lane_at A x 2 XOR lane_at A x 3 XOR lane_at A x 4"

definition theta :: "lane list \<Rightarrow> lane list" where
  "theta A = lanes_of (\<lambda>x y. lane_at A x y XOR (column A (x + 4) XOR word_rotl 1 (column A (x + 1))))"

text \<open>The offsets: starting at \<open>(1, 0)\<close>, step \<open>t\<close> of the walk rotates by \<open>(t + 1) * (t + 2) / 2\<close>.\<close>

fun walk :: "nat \<Rightarrow> nat \<times> nat" where
  "walk 0 = (1, 0)"
| "walk (Suc t) = (let (x, y) = walk t in (y, (2 * x + 3 * y) mod 5))"

definition offset :: "nat \<Rightarrow> nat \<Rightarrow> nat" where
  "offset x y =
     (case List.find (\<lambda>t. walk t = (x, y)) [0..<24] of
        None \<Rightarrow> 0
      | Some t \<Rightarrow> (t + 1) * (t + 2) div 2 mod 64)"

definition rho :: "lane list \<Rightarrow> lane list" where
  "rho A = lanes_of (\<lambda>x y. word_rotl (offset x y) (lane_at A x y))"

definition pi_step :: "lane list \<Rightarrow> lane list" where
  "pi_step A = lanes_of (\<lambda>x y. lane_at A (x + 3 * y) x)"

definition chi :: "lane list \<Rightarrow> lane list" where
  "chi A = lanes_of (\<lambda>x y. lane_at A x y XOR (NOT (lane_at A (x + 1) y) AND lane_at A (x + 2) y))"

text \<open>The round constants: the output bits of a linear shift register of eight bits.\<close>

fun lfsr :: "bool list \<Rightarrow> bool list" where
  "lfsr [r0, r1, r2, r3, r4, r5, r6, r7] = [r7, r0, r1, r2, r3 \<noteq> r7, r4 \<noteq> r7, r5 \<noteq> r7, r6]"
| "lfsr r = r"

definition rc_bit :: "nat \<Rightarrow> bool" where
  "rc_bit t = hd ((lfsr ^^ t) [True, False, False, False, False, False, False, False])"

definition round_constant :: "nat \<Rightarrow> lane" where
  "round_constant i =
     foldr (\<lambda>j w. if rc_bit (j + 7 * i) then w OR push_bit (2 ^ j - 1) 1 else w) [0..<7] 0"

definition iota :: "nat \<Rightarrow> lane list \<Rightarrow> lane list" where
  "iota i A = A[0 := A ! 0 XOR round_constant i]"

definition keccak_round :: "nat \<Rightarrow> lane list \<Rightarrow> lane list" where
  "keccak_round i A = iota i (chi (pi_step (rho (theta A))))"

definition keccak_f :: "lane list \<Rightarrow> lane list" where
  "keccak_f A = fold keccak_round [0..<24] A"

section \<open>The sponge\<close>

type_synonym byte = "8 word"

definition lane_bytes :: "lane \<Rightarrow> byte list" where
  "lane_bytes w = map (\<lambda>i. ucast (drop_bit (8 * i) w)) [0..<8]"

definition bytes_lane :: "byte list \<Rightarrow> lane" where
  "bytes_lane bs = foldr (\<lambda>b w. push_bit 8 w OR ucast b) bs 0"

fun blocks_of :: "nat \<Rightarrow> nat \<Rightarrow> 'a list \<Rightarrow> 'a list list" where
  "blocks_of 0 r bs = []"
| "blocks_of (Suc n) r bs = take r bs # blocks_of n r (drop r bs)"

text \<open>A block of the rate is added to the first lanes; the others are the capacity.\<close>

definition absorb_block :: "byte list \<Rightarrow> lane list \<Rightarrow> lane list" where
  "absorb_block b A =
     keccak_f (map2 (XOR) A
       (map bytes_lane (blocks_of (length b div 8) 8 b) @ replicate (25 - length b div 8) 0))"

definition pad :: "nat \<Rightarrow> nat \<Rightarrow> byte list" where
  "pad r n =
     (let q = r - n mod r in if q = 1 then [0x81] else 0x01 # replicate (q - 2) 0 @ [0x80])"

definition sponge :: "nat \<Rightarrow> nat \<Rightarrow> byte list \<Rightarrow> byte list" where
  "sponge r n bs =
     (let p = bs @ pad r (length bs)
      in take n (concat (map lane_bytes
           (fold absorb_block (blocks_of (length p div r) r p) (replicate 25 0)))))"

definition keccak256 :: "byte list \<Rightarrow> byte list" where
  "keccak256 bs = sponge 136 32 bs"

section \<open>Tables\<close>

lemma upt_25: "[0..<25] = [0, 1, 2, 3, 4, 5, 6, 7, 8, 9, 10, 11, 12, 13, 14, 15, 16, 17, 18, 19,
    20, 21, 22, 23, 24]"
  by (simp add: upt_rec)

lemma upt_24: "[0..<24] = [0, 1, 2, 3, 4, 5, 6, 7, 8, 9, 10, 11, 12, 13, 14, 15, 16, 17, 18, 19,
    20, 21, 22, 23]"
  by (simp add: upt_rec)

lemma walk_table: "map walk [0..<24] =
    [(1, 0), (0, 2), (2, 1), (1, 2), (2, 3), (3, 3), (3, 0), (0, 1), (1, 3), (3, 1), (1, 4), (4, 4),
     (4, 0), (0, 3), (3, 4), (4, 3), (3, 2), (2, 2), (2, 0), (0, 4), (4, 2), (2, 4), (4, 1), (1, 1)]"
  by code_simp

lemma offset_table: "map (\<lambda>i. offset (i mod 5) (i div 5)) [0..<25] =
    [0, 1, 62, 28, 27, 36, 44, 6, 55, 20, 3, 10, 43, 25, 39, 41, 45, 15, 21, 8, 18, 2, 61, 56, 14]"
  by code_simp

end
