(* ===== verification/Keccak_Js.thy ===== *)
theory Keccak_Js
  imports Hex_Codec
begin

text \<open>
  The hash of certificates: module \<open>1c55\<close> (\<open>js-sha3\<close>) of \<open>chunk-vendors.28fb2c37.js\<close>, which the
  function \<open>keccakAsHex\<close> of the modules \<open>4962\<close>, \<open>b244\<close> and \<open>26af\<close> uses unless a compiled
  implementation was loaded. The state is a list of fifty 32-bit words, a lane being a pair with
  the low word first; the blocks are filled word by word, and a text is encoded as its
  characters are put into the block.
\<close>

unbundle bit_operations_syntax

section \<open>The permutation\<close>

text \<open>
  The body of the loop in \<open>T\<close>, which is unrolled over the state: first the sums of the columns,
  which are added to every word; then the rotations, of which each word of a lane takes bits from
  both, and the combination of the rotated words; last the round constant. The names are those
  of the code, except that \<open>e\<close> and \<open>t\<close>, which are assigned five times, are numbered, and that
  \<open>o\<close>, \<open>O\<close>, \<open>_\<close> and \<open>$\<close> are \<open>ob\<close>, \<open>Oo\<close>, \<open>us\<close> and \<open>dd\<close>.
\<close>

definition js_theta :: "32 word list \<Rightarrow> 32 word list" where
  "js_theta A =
     (let
        n = A ! 0 XOR A ! 10 XOR A ! 20 XOR A ! 30 XOR A ! 40;
        i = A ! 1 XOR A ! 11 XOR A ! 21 XOR A ! 31 XOR A ! 41;
        ob = A ! 2 XOR A ! 12 XOR A ! 22 XOR A ! 32 XOR A ! 42;
        a = A ! 3 XOR A ! 13 XOR A ! 23 XOR A ! 33 XOR A ! 43;
        s = A ! 4 XOR A ! 14 XOR A ! 24 XOR A ! 34 XOR A ! 44;
        u = A ! 5 XOR A ! 15 XOR A ! 25 XOR A ! 35 XOR A ! 45;
        c = A ! 6 XOR A ! 16 XOR A ! 26 XOR A ! 36 XOR A ! 46;
        g = A ! 7 XOR A ! 17 XOR A ! 27 XOR A ! 37 XOR A ! 47;
        l = A ! 8 XOR A ! 18 XOR A ! 28 XOR A ! 38 XOR A ! 48;
        d = A ! 9 XOR A ! 19 XOR A ! 29 XOR A ! 39 XOR A ! 49;
        e1 = l XOR (push_bit 1 ob OR drop_bit 31 a);
        t1 = d XOR (push_bit 1 a OR drop_bit 31 ob);
        e2 = n XOR (push_bit 1 s OR drop_bit 31 u);
        t2 = i XOR (push_bit 1 u OR drop_bit 31 s);
        e3 = ob XOR (push_bit 1 c OR drop_bit 31 g);
        t3 = a XOR (push_bit 1 g OR drop_bit 31 c);
        e4 = s XOR (push_bit 1 l OR drop_bit 31 d);
        t4 = u XOR (push_bit 1 d OR drop_bit 31 l);
        e5 = c XOR (push_bit 1 n OR drop_bit 31 i);
        t5 = g XOR (push_bit 1 i OR drop_bit 31 n)
      in
        [A ! 0 XOR e1, A ! 1 XOR t1, A ! 2 XOR e2, A ! 3 XOR t2, A ! 4 XOR e3, A ! 5 XOR t3,
         A ! 6 XOR e4, A ! 7 XOR t4, A ! 8 XOR e5, A ! 9 XOR t5, A ! 10 XOR e1, A ! 11 XOR t1,
         A ! 12 XOR e2, A ! 13 XOR t2, A ! 14 XOR e3, A ! 15 XOR t3, A ! 16 XOR e4, A ! 17 XOR t4,
         A ! 18 XOR e5, A ! 19 XOR t5, A ! 20 XOR e1, A ! 21 XOR t1, A ! 22 XOR e2, A ! 23 XOR t2,
         A ! 24 XOR e3, A ! 25 XOR t3, A ! 26 XOR e4, A ! 27 XOR t4, A ! 28 XOR e5, A ! 29 XOR t5,
         A ! 30 XOR e1, A ! 31 XOR t1, A ! 32 XOR e2, A ! 33 XOR t2, A ! 34 XOR e3, A ! 35 XOR t3,
         A ! 36 XOR e4, A ! 37 XOR t4, A ! 38 XOR e5, A ! 39 XOR t5, A ! 40 XOR e1, A ! 41 XOR t1,
         A ! 42 XOR e2, A ! 43 XOR t2, A ! 44 XOR e3, A ! 45 XOR t3, A ! 46 XOR e4, A ! 47 XOR t4,
         A ! 48 XOR e5, A ! 49 XOR t5])"

definition js_chi :: "32 word list \<Rightarrow> 32 word list" where
  "js_chi A =
     (let
        f = A ! 0;
        I = A ! 1;
        q = push_bit 4 (A ! 11) OR drop_bit 28 (A ! 10);
        Z = push_bit 4 (A ! 10) OR drop_bit 28 (A ! 11);
        S = push_bit 3 (A ! 20) OR drop_bit 29 (A ! 21);
        k = push_bit 3 (A ! 21) OR drop_bit 29 (A ! 20);
        aA = push_bit 9 (A ! 31) OR drop_bit 23 (A ! 30);
        sA = push_bit 9 (A ! 30) OR drop_bit 23 (A ! 31);
        P = push_bit 18 (A ! 40) OR drop_bit 14 (A ! 41);
        x = push_bit 18 (A ! 41) OR drop_bit 14 (A ! 40);
        Oo = push_bit 1 (A ! 2) OR drop_bit 31 (A ! 3);
        F = push_bit 1 (A ! 3) OR drop_bit 31 (A ! 2);
        h = push_bit 12 (A ! 13) OR drop_bit 20 (A ! 12);
        B = push_bit 12 (A ! 12) OR drop_bit 20 (A ! 13);
        V = push_bit 10 (A ! 22) OR drop_bit 22 (A ! 23);
        W = push_bit 10 (A ! 23) OR drop_bit 22 (A ! 22);
        us = push_bit 13 (A ! 33) OR drop_bit 19 (A ! 32);
        G = push_bit 13 (A ! 32) OR drop_bit 19 (A ! 33);
        uA = push_bit 2 (A ! 42) OR drop_bit 30 (A ! 43);
        cA = push_bit 2 (A ! 43) OR drop_bit 30 (A ! 42);
        eA = push_bit 30 (A ! 5) OR drop_bit 2 (A ! 4);
        tA = push_bit 30 (A ! 4) OR drop_bit 2 (A ! 5);
        L = push_bit 6 (A ! 14) OR drop_bit 26 (A ! 15);
        H = push_bit 6 (A ! 15) OR drop_bit 26 (A ! 14);
        C = push_bit 11 (A ! 25) OR drop_bit 21 (A ! 24);
        Q = push_bit 11 (A ! 24) OR drop_bit 21 (A ! 25);
        z = push_bit 15 (A ! 34) OR drop_bit 17 (A ! 35);
        X = push_bit 15 (A ! 35) OR drop_bit 17 (A ! 34);
        Y = push_bit 29 (A ! 45) OR drop_bit 3 (A ! 44);
        N = push_bit 29 (A ! 44) OR drop_bit 3 (A ! 45);
        D = push_bit 28 (A ! 6) OR drop_bit 4 (A ! 7);
        b = push_bit 28 (A ! 7) OR drop_bit 4 (A ! 6);
        rA = push_bit 23 (A ! 17) OR drop_bit 9 (A ! 16);
        nA = push_bit 23 (A ! 16) OR drop_bit 9 (A ! 17);
        U = push_bit 25 (A ! 26) OR drop_bit 7 (A ! 27);
        j = push_bit 25 (A ! 27) OR drop_bit 7 (A ! 26);
        E = push_bit 21 (A ! 36) OR drop_bit 11 (A ! 37);
        w = push_bit 21 (A ! 37) OR drop_bit 11 (A ! 36);
        dd = push_bit 24 (A ! 47) OR drop_bit 8 (A ! 46);
        AA = push_bit 24 (A ! 46) OR drop_bit 8 (A ! 47);
        R = push_bit 27 (A ! 8) OR drop_bit 5 (A ! 9);
        T = push_bit 27 (A ! 9) OR drop_bit 5 (A ! 8);
        M = push_bit 20 (A ! 18) OR drop_bit 12 (A ! 19);
        v = push_bit 20 (A ! 19) OR drop_bit 12 (A ! 18);
        iA = push_bit 7 (A ! 29) OR drop_bit 25 (A ! 28);
        oA = push_bit 7 (A ! 28) OR drop_bit 25 (A ! 29);
        J = push_bit 8 (A ! 38) OR drop_bit 24 (A ! 39);
        K = push_bit 8 (A ! 39) OR drop_bit 24 (A ! 38);
        m = push_bit 14 (A ! 48) OR drop_bit 18 (A ! 49);
        y = push_bit 14 (A ! 49) OR drop_bit 18 (A ! 48)
      in
        [f XOR (NOT h AND C), I XOR (NOT B AND Q), h XOR (NOT C AND E), B XOR (NOT Q AND w),
         C XOR (NOT E AND m), Q XOR (NOT w AND y), E XOR (NOT m AND f), w XOR (NOT y AND I),
         m XOR (NOT f AND h), y XOR (NOT I AND B), D XOR (NOT M AND S), b XOR (NOT v AND k),
         M XOR (NOT S AND us), v XOR (NOT k AND G), S XOR (NOT us AND Y), k XOR (NOT G AND N),
         us XOR (NOT Y AND D), G XOR (NOT N AND b), Y XOR (NOT D AND M), N XOR (NOT b AND v),
         Oo XOR (NOT L AND U), F XOR (NOT H AND j), L XOR (NOT U AND J), H XOR (NOT j AND K),
         U XOR (NOT J AND P), j XOR (NOT K AND x), J XOR (NOT P AND Oo), K XOR (NOT x AND F),
         P XOR (NOT Oo AND L), x XOR (NOT F AND H), R XOR (NOT q AND V), T XOR (NOT Z AND W),
         q XOR (NOT V AND z), Z XOR (NOT W AND X), V XOR (NOT z AND dd), W XOR (NOT X AND AA),
         z XOR (NOT dd AND R), X XOR (NOT AA AND T), dd XOR (NOT R AND q), AA XOR (NOT T AND Z),
         eA XOR (NOT rA AND iA), tA XOR (NOT nA AND oA), rA XOR (NOT iA AND aA),
         nA XOR (NOT oA AND sA), iA XOR (NOT aA AND uA), oA XOR (NOT sA AND cA),
         aA XOR (NOT uA AND eA), sA XOR (NOT cA AND tA), uA XOR (NOT eA AND rA),
         cA XOR (NOT tA AND nA)])"

definition js_rc :: "32 word list" where
  "js_rc =
     [0x00000001, 0x00000000, 0x00008082, 0x00000000, 0x0000808A, 0x80000000,
      0x80008000, 0x80000000, 0x0000808B, 0x00000000, 0x80000001, 0x00000000,
      0x80008081, 0x80000000, 0x00008009, 0x80000000, 0x0000008A, 0x00000000,
      0x00000088, 0x00000000, 0x80008009, 0x00000000, 0x8000000A, 0x00000000,
      0x8000808B, 0x00000000, 0x0000008B, 0x80000000, 0x00008089, 0x80000000,
      0x00008003, 0x80000000, 0x00008002, 0x80000000, 0x00000080, 0x80000000,
      0x0000800A, 0x00000000, 0x8000000A, 0x80000000, 0x80008081, 0x80000000,
      0x00008080, 0x80000000, 0x80000001, 0x00000000, 0x80008008, 0x80000000]"

definition js_round :: "nat \<Rightarrow> 32 word list \<Rightarrow> 32 word list" where
  "js_round r A =
     (let B = js_chi (js_theta A)
      in B[0 := B ! 0 XOR js_rc ! r, 1 := B ! 1 XOR js_rc ! (r + 1)])"

definition js_permute :: "32 word list \<Rightarrow> 32 word list" where
  "js_permute A = fold (\<lambda>i. js_round (2 * i)) [0..<24] A"

section \<open>The hasher\<close>

text \<open>
  The constructor \<open>x\<close>. A word of \<open>blocks\<close> that was never assigned is \<open>undefined\<close>, which the bit
  operations take as zero, and so is \<open>lastByteIndex\<close> before the first update; both are zero here.
\<close>

record hasher =
  blocks :: "32 word list"
  words :: "32 word list"
  padding :: "32 word list"
  outputBits :: nat
  reset :: bool
  finalized :: bool
  block :: "32 word"
  start :: nat
  blockCount :: nat
  byteCount :: nat
  outputBlocks :: nat
  extraBytes :: nat
  lastByteIndex :: nat

definition new_hasher :: "nat \<Rightarrow> 32 word list \<Rightarrow> nat \<Rightarrow> hasher" where
  "new_hasher bits pad out =
     (let n = (1600 - 2 * bits) div 32
      in \<lparr>blocks = replicate (n + 1) 0, words = replicate 50 0, padding = pad, outputBits = out,
          reset = True, finalized = False, block = 0, start = 0, blockCount = n, byteCount = 4 * n,
          outputBlocks = out div 32, extraBytes = out mod 32 div 8, lastByteIndex = 0\<rparr>)"

definition keccak_padding :: "32 word list" where
  "keccak_padding = [1, 256, 65536, 16777216]"

text \<open>\<open>i[r >> 2] |= b << E[3 & r++]\<close>, the write of one byte, and of the bytes of an element.\<close>

definition put_byte :: "8 word \<Rightarrow> nat \<times> 32 word list \<Rightarrow> nat \<times> 32 word list" where
  "put_byte b rb =
     (let (r, i) = rb
      in (r + 1, i[r div 4 := i ! (r div 4) OR push_bit (8 * (r mod 4)) (ucast b)]))"

text \<open>
  The bytes of a code unit, or of a unit in the range of the surrogates with the one after it,
  whatever they are; after the end of the text the next unit is \<open>NaN\<close>, which counts as zero.
\<close>

definition unit_bytes :: "32 word \<Rightarrow> 8 word list" where
  "unit_bytes n =
     (if n < 128 then [ucast n]
      else if n < 2048 then [ucast (192 OR drop_bit 6 n), ucast (128 OR (63 AND n))]
      else [ucast (224 OR drop_bit 12 n), ucast (128 OR (drop_bit 6 n AND 63)),
            ucast (128 OR (63 AND n))])"

definition pair_bytes :: "32 word \<Rightarrow> 32 word \<Rightarrow> 8 word list" where
  "pair_bytes n m =
     (let p = 65536 + (push_bit 10 (1023 AND n) OR (1023 AND m))
      in [ucast (240 OR drop_bit 18 p), ucast (128 OR (drop_bit 12 p AND 63)),
          ucast (128 OR (drop_bit 6 p AND 63)), ucast (128 OR (63 AND p))])"

fun text_items :: "jsstr \<Rightarrow> 8 word list list" where
  "text_items [] = []"
| "text_items (c # s) =
     (if c < 55296 \<or> 57344 \<le> c then unit_bytes (ucast c) # text_items s
      else (case s of
              [] \<Rightarrow> [pair_bytes (ucast c) 0]
            | d # s' \<Rightarrow> pair_bytes (ucast c) (ucast d) # text_items s'))"

text \<open>
  The two inner loops of \<open>update\<close>, over the elements of an array or the characters of a text:
  they stop at the end of the input or of the block, which the last element may exceed.
\<close>

fun fill_block ::
  "nat \<Rightarrow> 8 word list list \<Rightarrow> nat \<times> 32 word list \<Rightarrow> 8 word list list \<times> nat \<times> 32 word list" where
  "fill_block n [] rb = ([], rb)"
| "fill_block n (it # its) rb =
     (if fst rb < n then fill_block n its (fold put_byte it rb) else (it # its, rb))"

text \<open>One round of the outer loop.\<close>

definition update_round :: "8 word list list \<Rightarrow> hasher \<Rightarrow> 8 word list list \<times> hasher" where
  "update_round its h =
     (let i = (if reset h then block h # replicate (blockCount h) 0 else blocks h);
          (rest, r, i') = fill_block (byteCount h) its (start h, i);
          h' = h\<lparr>blocks := i', reset := False, lastByteIndex := r\<rparr>
      in (rest,
          if byteCount h \<le> r then
            h'\<lparr>start := r - byteCount h, block := i' ! blockCount h,
               words := js_permute (map2 (XOR) (words h) (take (blockCount h) i' @
                 replicate (50 - blockCount h) 0)), reset := True\<rparr>
          else h'\<lparr>start := r\<rparr>))"

text \<open>The outer loop takes at least one element in each round, so their number is fuel enough.\<close>

fun update_loop :: "nat \<Rightarrow> 8 word list list \<Rightarrow> hasher \<Rightarrow> hasher" where
  "update_loop fuel [] h = h"
| "update_loop 0 its h = h"
| "update_loop (Suc fuel) its h =
     (let (rest, h') = update_round its h in update_loop fuel rest h')"

text \<open>A hasher that was finalized refuses further input.\<close>

definition update_items :: "8 word list list \<Rightarrow> hasher \<Rightarrow> lib_error + hasher" where
  "update_items its h =
     (if finalized h then Inl FinalizeAlreadyCalled else Inr (update_loop (length its) its h))"

definition update_text :: "jsstr \<Rightarrow> hasher \<Rightarrow> lib_error + hasher" where
  "update_text s h = update_items (text_items s) h"

definition update_bytes :: "8 word list \<Rightarrow> hasher \<Rightarrow> lib_error + hasher" where
  "update_bytes bs h = update_items (map (\<lambda>b. [b]) bs) h"

definition finalize :: "hasher \<Rightarrow> hasher" where
  "finalize h =
     (if finalized h then h
      else
        (let e = lastByteIndex h; t = blockCount h;
             A1 = (blocks h)[e div 4 := blocks h ! (e div 4) OR padding h ! (e mod 4)];
             A2 = (if lastByteIndex h = byteCount h then (A1 ! t) # replicate t 0 else A1);
             A3 = A2[t - 1 := A2 ! (t - 1) OR 0x80000000]
         in h\<lparr>finalized := True, blocks := A3,
              words := js_permute (map2 (XOR) (words h)
                (take t A3 @ replicate (50 - t) 0))\<rparr>))"

text \<open>
  \<open>arrayBuffer\<close>: the words of the state are copied block by block, with a permutation after every
  full block; \<open>Uint32Array\<close> stores them with the low byte first. The fuel is the number of words
  of the output, of which each round copies at least one.
\<close>

fun squeeze :: "nat \<Rightarrow> nat \<Rightarrow> nat \<Rightarrow> nat \<Rightarrow> 32 word list \<Rightarrow> 32 word list" where
  "squeeze 0 e out n t = []"
| "squeeze (Suc fuel) e out n t =
     (if out < n then
        (let k = min e (n - out); t' = (if (out + k) mod e = 0 then js_permute t else t)
         in take k t @ squeeze fuel e (out + k) n t')
      else [])"

definition word_bytes :: "32 word \<Rightarrow> 8 word list" where
  "word_bytes w = map (\<lambda>i. ucast (drop_bit (8 * i) w)) [0..<4]"

text \<open>The variants whose output is a number of whole words, as \<open>keccak256\<close>.\<close>

definition arrayBuffer :: "hasher \<Rightarrow> 8 word list" where
  "arrayBuffer h =
     (let h' = finalize h
      in concat (map word_bytes (squeeze (outputBlocks h) (blockCount h) 0 (outputBlocks h) (words h'))))"

section \<open>keccakAsHex\<close>

text \<open>
  Module \<open>b244\<close>: a compiled implementation of the hash, if it was loaded, takes the bytes of the
  text; otherwise \<open>js-sha3\<close> takes the text itself.
\<close>

definition js_keccak256 :: "jsstr \<Rightarrow> lib_error + 8 word list" where
  "js_keccak256 s = map_sum id arrayBuffer (update_text s (new_hasher 256 keccak_padding 256))"

definition keccakAsU8a ::
  "(8 word list \<Rightarrow> 8 word list) option \<Rightarrow> bool \<Rightarrow> jsstr \<Rightarrow> lib_error + 8 word list" where
  "keccakAsU8a compiled encoder s =
     (case compiled of Some f \<Rightarrow> map_sum id f (u8aToU8a encoder s) | None \<Rightarrow> js_keccak256 s)"

definition keccakAsHex ::
  "(8 word list \<Rightarrow> 8 word list) option \<Rightarrow> bool \<Rightarrow> jsstr \<Rightarrow> lib_error + jsstr" where
  "keccakAsHex compiled encoder s = map_sum id u8aToHex (keccakAsU8a compiled encoder s)"

end
