(* ===== verification/Keccak_Permutation.thy ===== *)
theory Keccak_Permutation
  imports Keccak_Spec Keccak_Js
begin

text \<open>
  The permutation of \<open>js-sha3\<close>, unrolled over fifty words, is Keccak-f on twenty-five lanes.
\<close>

section \<open>A lane as two words\<close>

definition lane :: "32 word \<Rightarrow> 32 word \<Rightarrow> lane" where
  "lane h l = push_bit 32 (ucast h) OR ucast l"

lemma bit_lane: "bit (lane h l) n \<longleftrightarrow> (if n < 32 then bit l n else bit h (n - 32))"
  by (auto simp: lane_def bit_simps dest: bit_imp_le_length)

lemma lane_xor: "lane h l XOR lane h' l' = lane (h XOR h') (l XOR l')"
  by (rule bit_word_eqI) (simp add: bit_lane bit_xor_iff)

lemma lane_and: "lane h l AND lane h' l' = lane (h AND h') (l AND l')"
  by (rule bit_word_eqI) (simp add: bit_lane bit_and_iff)

lemma lane_not: "NOT (lane h l) = lane (NOT h) (NOT l)"
  by (rule bit_word_eqI) (auto simp: bit_lane bit_not_iff)

lemma bit_rotl_64: "k < 64 \<Longrightarrow> n < 64 \<Longrightarrow>
    bit (word_rotl k w) n = bit w (if n < k then n + 64 - k else n - k)" for w :: lane
proof -
  assume "k < 64" "n < 64"
  then have "(n + (64 - k)) mod 64 = (if n < k then n + 64 - k else n - k)"
    by (cases "n < k") (simp_all add: mod_if)
  with \<open>k < 64\<close> \<open>n < 64\<close> show ?thesis by (simp add: bit_word_rotl_iff)
qed

lemma bit_shifted: "k < 32 \<Longrightarrow> n < 32 \<Longrightarrow>
    bit (push_bit k x OR drop_bit (32 - k) y) n = (if n < k then bit y (n + 32 - k) else bit x (n - k))"
  for x y :: "32 word"
proof (cases "n < k")
  case False
  moreover assume "k < 32" "n < 32"
  ultimately show ?thesis
    using bit_imp_le_length [of y "32 - k + n"] by (auto simp: bit_simps)
next
  case True
  moreover assume "k < 32"
  ultimately have "32 - k + n = n + 32 - k" by simp
  with True show ?thesis by (simp add: bit_simps)
qed

text \<open>A position of a rotated lane comes from the same word, or from the other one.\<close>

lemma lane_below: "n < 32 \<Longrightarrow> bit (lane h l) n = bit l n"
  by (simp add: bit_lane)

lemma lane_above: "32 \<le> n \<Longrightarrow> bit (lane h l) n = bit h (n - 32)"
  by (simp add: bit_lane)

lemma lane_rotl_low:
  assumes "k < 32"
  shows "word_rotl k (lane h l) =
    lane (push_bit k h OR drop_bit (32 - k) l) (push_bit k l OR drop_bit (32 - k) h)"
proof (rule bit_word_eqI)
  fix n assume "n < LENGTH(64)"
  then have n: "n < 64" by simp
  consider "n < k" | "k \<le> n" "n < 32" | "32 \<le> n" "n - 32 < k" | "32 \<le> n" "k \<le> n - 32" by linarith
  then show "bit (word_rotl k (lane h l)) n = bit (lane (push_bit k h OR drop_bit (32 - k) l)
      (push_bit k l OR drop_bit (32 - k) h)) n"
  proof cases
    case 1
    moreover from 1 assms have "32 \<le> n + 64 - k" "n + 64 - k - 32 = n + 32 - k" by linarith+
    ultimately show ?thesis using assms n by (simp add: bit_rotl_64 lane_below lane_above bit_shifted)
  next
    case 2
    then show ?thesis using assms n by (simp add: bit_rotl_64 lane_below bit_shifted)
  next
    case 3
    moreover from 3 assms have "\<not> n < k" "n - k < 32" "n - 32 + 32 - k = n - k" by linarith+
    ultimately show ?thesis using assms n by (simp add: bit_rotl_64 lane_below lane_above bit_shifted)
  next
    case 4
    moreover from 4 assms have "\<not> n < k" "32 \<le> n - k" "n - k - 32 = n - 32 - k" by linarith+
    ultimately show ?thesis using assms n by (simp add: bit_rotl_64 lane_above bit_shifted)
  qed
qed

lemma lane_swap: "word_rotl 32 (lane h l) = lane l h"
proof (rule bit_word_eqI)
  fix n assume "n < LENGTH(64)"
  then have n: "n < 64" by simp
  show "bit (word_rotl 32 (lane h l)) n = bit (lane l h) n"
  proof (cases "n < 32")
    case True
    then show ?thesis using n by (simp add: bit_rotl_64 lane_above lane_below)
  next
    case False
    moreover from this n have "n - 32 < 32" by linarith
    ultimately show ?thesis using n by (simp add: bit_rotl_64 lane_above lane_below)
  qed
qed

lemma rotl_twice: "k < 32 \<Longrightarrow> word_rotl (32 + k) w = word_rotl k (word_rotl 32 w)" for w :: lane
proof (rule bit_word_eqI)
  fix n assume k: "k < 32" and "n < LENGTH(64)"
  then have n: "n < 64" by simp
  define m where "m = (if n < k then n + 64 - k else n - k)"
  have "m < 64" using k n by (auto simp: m_def)
  have "(if m < 32 then m + 64 - 32 else m - 32) =
      (if n < 32 + k then n + 64 - (32 + k) else n - (32 + k))"
    using k n unfolding m_def by (cases "n < k"; cases "n - k < 32") auto
  moreover have "bit (word_rotl k (word_rotl 32 w)) n = bit (word_rotl 32 w) m"
    using bit_rotl_64 [of k n "word_rotl 32 w"] k n unfolding m_def by simp
  moreover have "bit (word_rotl 32 w) m = bit w (if m < 32 then m + 64 - 32 else m - 32)"
    using \<open>m < 64\<close> by (intro bit_rotl_64) simp
  moreover have "bit (word_rotl (32 + k) w) n =
      bit w (if n < 32 + k then n + 64 - (32 + k) else n - (32 + k))"
    using k n by (intro bit_rotl_64) simp_all
  ultimately show "bit (word_rotl (32 + k) w) n = bit (word_rotl k (word_rotl 32 w)) n"
    by (simp only:)
qed

lemma lane_rotl_high:
  assumes "k < 32"
  shows "word_rotl (32 + k) (lane h l) =
    lane (push_bit k l OR drop_bit (32 - k) h) (push_bit k h OR drop_bit (32 - k) l)"
  by (simp only: rotl_twice [OF assms] lane_swap lane_rotl_low [OF assms])

section \<open>The state as twenty-five lanes\<close>

definition join :: "32 word list \<Rightarrow> lane list" where
  "join A = map (\<lambda>i. lane (A ! (2 * i + 1)) (A ! (2 * i))) [0..<25]"

lemma length_join [simp]: "length (join A) = 25"
  by (simp add: join_def)

lemma nth_join: "i < 25 \<Longrightarrow> join A ! i = lane (A ! (2 * i + 1)) (A ! (2 * i))"
  by (simp add: join_def)

lemma lanes_of_list: "lanes_of f = [f 0 0, f 1 0, f 2 0, f 3 0, f 4 0, f 0 1, f 1 1, f 2 1, f 3 1,
    f 4 1, f 0 2, f 1 2, f 2 2, f 3 2, f 4 2, f 0 3, f 1 3, f 2 3, f 3 3, f 4 3, f 0 4, f 1 4,
    f 2 4, f 3 4, f 4 4]"
  by (simp add: lanes_of_def upt_25)

lemma join_list: "join A =
    [lane (A ! 1) (A ! 0), lane (A ! 3) (A ! 2), lane (A ! 5) (A ! 4), lane (A ! 7) (A ! 6),
     lane (A ! 9) (A ! 8), lane (A ! 11) (A ! 10), lane (A ! 13) (A ! 12), lane (A ! 15) (A ! 14),
     lane (A ! 17) (A ! 16), lane (A ! 19) (A ! 18), lane (A ! 21) (A ! 20), lane (A ! 23) (A ! 22),
     lane (A ! 25) (A ! 24), lane (A ! 27) (A ! 26), lane (A ! 29) (A ! 28), lane (A ! 31) (A ! 30),
     lane (A ! 33) (A ! 32), lane (A ! 35) (A ! 34), lane (A ! 37) (A ! 36), lane (A ! 39) (A ! 38),
     lane (A ! 41) (A ! 40), lane (A ! 43) (A ! 42), lane (A ! 45) (A ! 44), lane (A ! 47) (A ! 46),
     lane (A ! 49) (A ! 48)]"
  by (simp add: join_def upt_25)

lemma lane_rotl_1: "word_rotl 1 (lane h l) =
    lane (push_bit 1 h OR drop_bit 31 l) (push_bit 1 l OR drop_bit 31 h)"
  using lane_rotl_low [of 1 h l] by simp

lemma join_theta: "join (js_theta A) = theta (join A)"
  by (simp add: js_theta_def theta_def lanes_of_list column_def lane_at_def join_list lane_xor
      lane_rotl_1 Let_def del: One_nat_def)


lemmas offset_values = offset_table [unfolded upt_25, simplified]

lemmas high_rotations =
  lane_rotl_high [of 4, simplified] lane_rotl_high [of 7, simplified]
  lane_rotl_high [of 9, simplified] lane_rotl_high [of 11, simplified]
  lane_rotl_high [of 12, simplified] lane_rotl_high [of 13, simplified]
  lane_rotl_high [of 23, simplified] lane_rotl_high [of 24, simplified]
  lane_rotl_high [of 29, simplified] lane_rotl_high [of 30, simplified]

lemma rotl_0: "word_rotl 0 w = w" for w :: lane
  by (rule bit_word_eqI) (simp add: bit_rotl_64)

lemma rho_list: "rho (join A) =
    [lane (A ! 1) (A ! 0), word_rotl 1 (lane (A ! 3) (A ! 2)), word_rotl 62 (lane (A ! 5) (A ! 4)),
     word_rotl 28 (lane (A ! 7) (A ! 6)), word_rotl 27 (lane (A ! 9) (A ! 8)),
     word_rotl 36 (lane (A ! 11) (A ! 10)), word_rotl 44 (lane (A ! 13) (A ! 12)),
     word_rotl 6 (lane (A ! 15) (A ! 14)), word_rotl 55 (lane (A ! 17) (A ! 16)),
     word_rotl 20 (lane (A ! 19) (A ! 18)), word_rotl 3 (lane (A ! 21) (A ! 20)),
     word_rotl 10 (lane (A ! 23) (A ! 22)), word_rotl 43 (lane (A ! 25) (A ! 24)),
     word_rotl 25 (lane (A ! 27) (A ! 26)), word_rotl 39 (lane (A ! 29) (A ! 28)),
     word_rotl 41 (lane (A ! 31) (A ! 30)), word_rotl 45 (lane (A ! 33) (A ! 32)),
     word_rotl 15 (lane (A ! 35) (A ! 34)), word_rotl 21 (lane (A ! 37) (A ! 36)),
     word_rotl 8 (lane (A ! 39) (A ! 38)), word_rotl 18 (lane (A ! 41) (A ! 40)),
     word_rotl 2 (lane (A ! 43) (A ! 42)), word_rotl 61 (lane (A ! 45) (A ! 44)),
     word_rotl 56 (lane (A ! 47) (A ! 46)), word_rotl 14 (lane (A ! 49) (A ! 48))]"
  by (simp add: rho_def lanes_of_list lane_at_def join_list offset_values rotl_0)

lemma join_chi: "join (js_chi A) = chi (pi_step (rho (join A)))"
  unfolding rho_list
  by (simp add: js_chi_def chi_def pi_step_def lanes_of_list lane_at_def join_list
      lane_rotl_low high_rotations lane_xor lane_and lane_not Let_def del: One_nat_def)

lemma constants: "map round_constant [0..<24] = map (\<lambda>i. lane (js_rc ! (2 * i + 1)) (js_rc ! (2 * i))) [0..<24]"
  by code_simp

lemma round_constant_js:
  assumes "i < 24" shows "round_constant i = lane (js_rc ! (2 * i + 1)) (js_rc ! (2 * i))"
  using constants assms by (metis (no_types, lifting) diff_zero length_upt nth_map nth_upt add_0)

lemma length_js_chi [simp]: "length (js_chi A) = 50"
  by (simp add: js_chi_def Let_def)

lemma length_js_round [simp]: "length (js_round r A) = 50"
  by (simp add: js_round_def Let_def)

lemma join_first:
  assumes "length B = 50"
  shows "join (B[0 := x, 1 := y]) = (join B)[0 := lane y x]"
proof (rule nth_equalityI)
  fix i assume "i < length (join (B[0 := x, 1 := y]))"
  then have "i < 25" by simp
  then show "join (B[0 := x, 1 := y]) ! i = (join B)[0 := lane y x] ! i"
    using assms by (cases i) (simp_all add: nth_join)
qed simp

lemma join_round:
  assumes "i < 24" shows "join (js_round (2 * i) A) = keccak_round i (join A)"
proof -
  let ?B = "js_chi (js_theta A)"
  have "join (js_round (2 * i) A) = (join ?B)[0 := lane (?B ! 1 XOR js_rc ! (2 * i + 1)) (?B ! 0 XOR js_rc ! (2 * i))]"
    using join_first [of ?B, unfolded One_nat_def] by (simp add: js_round_def Let_def)
  also have "\<dots> = iota i (join ?B)"
    using round_constant_js [OF assms] by (simp add: iota_def lane_xor nth_join)
  finally show ?thesis by (simp add: join_chi join_theta keccak_round_def)
qed

lemma join_rounds:
  "\<forall>i \<in> set is. i < 24 \<Longrightarrow> join (fold (\<lambda>i. js_round (2 * i)) is A) = fold keccak_round is (join A)"
  by (induction "is" arbitrary: A) (simp_all add: join_round)

lemma join_permute: "join (js_permute A) = keccak_f (join A)"
  by (simp add: js_permute_def keccak_f_def join_rounds)

lemma length_js_permute [simp]: "length A = 50 \<Longrightarrow> length (js_permute A) = 50"
proof -
  assume "length A = 50"
  then have "length (fold (\<lambda>i. js_round (2 * i)) is A) = 50" for "is"
    by (induction "is" arbitrary: A) simp_all
  then show ?thesis by (simp add: js_permute_def)
qed

end
