(* ===== verification/Keccak_Sponge.thy ===== *)
theory Keccak_Sponge
  imports Keccak_Permutation
begin

text \<open>
  The hasher of \<open>js-sha3\<close> against the sponge: what \<open>update\<close> keeps of the bytes it was given, and
  what \<open>finalize\<close> makes of them.
\<close>

section \<open>Words as bytes\<close>

definition bytes_of :: "32 word list \<Rightarrow> byte list" where
  "bytes_of ws = concat (map word_bytes ws)"

lemma bytes_of_simps [simp]:
  "bytes_of [] = []" "bytes_of (w # ws) = word_bytes w @ bytes_of ws"
  "bytes_of (ws @ vs) = bytes_of ws @ bytes_of vs"
  by (simp_all add: bytes_of_def)

lemma upt_8: "[0..<8] = [0, 1, 2, 3, 4, 5, 6, 7]"
  by (simp add: upt_rec)

lemma upt_4: "[0..<4] = [0, 1, 2, 3]"
  by (simp add: upt_rec)

lemma length_word_bytes [simp]: "length (word_bytes w) = 4"
  by (simp add: word_bytes_def)

lemma length_bytes_of [simp]: "length (bytes_of ws) = 4 * length ws"
  by (induction ws) simp_all

lemma nth_word_bytes: "k < 4 \<Longrightarrow> word_bytes w ! k = ucast (drop_bit (8 * k) w)"
  by (simp add: word_bytes_def)

lemma nth_bytes_of: "k < 4 * length ws \<Longrightarrow>
    bytes_of ws ! k = ucast (drop_bit (8 * (k mod 4)) (ws ! (k div 4)))"
proof (induction ws arbitrary: k)
  case (Cons w ws)
  show ?case
  proof (cases "k < 4")
    case True
    then show ?thesis by (simp add: nth_append nth_word_bytes)
  next
    case False
    then have "(k - 4) div 4 = k div 4 - 1" "(k - 4) mod 4 = k mod 4" "k div 4 \<noteq> 0"
      by (simp_all add: le_div_geq le_mod_geq)
    then show ?thesis using Cons False by (simp add: nth_append)
  qed
qed simp

lemma bytes_of_zeros [simp]: "bytes_of (replicate n 0) = replicate (4 * n) 0"
  by (induction n) (simp_all add: word_bytes_def upt_4 eval_nat_numeral)

lemma take_bytes_of: "take (4 * n) (bytes_of ws) = bytes_of (take n ws)"
proof (induction ws arbitrary: n)
  case (Cons w ws)
  then show ?case by (cases n) simp_all
qed simp

section \<open>Writing a byte\<close>

lemma byte_of_or:
  fixes w :: "32 word" and b :: "8 word"
  assumes "j < 4" "m < 4"
  shows "(ucast (drop_bit (8 * j) (w OR push_bit (8 * m) (ucast b))) :: 8 word) =
    ucast (drop_bit (8 * j) w) OR (if j = m then b else 0)"
proof (rule bit_word_eqI)
  fix n assume "n < LENGTH(8)"
  then have n: "n < 8" by simp
  consider "j = m" | "j < m" "8 * j + n < 8 * m" | "m < j" "8 \<le> 8 * j + n - 8 * m"
    using n by linarith
  then show "bit (ucast (drop_bit (8 * j) (w OR push_bit (8 * m) (ucast b))) :: 8 word) n =
      bit (ucast (drop_bit (8 * j) w) OR (if j = m then b else 0)) n"
  proof cases
    case 3
    then show ?thesis
      using n bit_imp_le_length [of b "8 * j + n - 8 * m"] by (auto simp: bit_simps)
  qed (use n assms in \<open>auto simp: bit_simps\<close>)
qed

lemma bytes_put_byte:
  assumes "r < 4 * length i"
  shows "bytes_of (snd (put_byte b (r, i))) = (bytes_of i)[r := bytes_of i ! r OR b]"
proof (rule nth_equalityI)
  fix k assume "k < length (bytes_of (snd (put_byte b (r, i))))"
  then have k: "k < 4 * length i" by (simp add: put_byte_def)
  have "k = r \<longleftrightarrow> k div 4 = r div 4 \<and> k mod 4 = r mod 4"
    by (metis div_mult_mod_eq)
  moreover have "k div 4 < length i" "r div 4 < length i" using k assms by (simp_all add: less_mult_imp_div_less mult.commute)
  ultimately show "bytes_of (snd (put_byte b (r, i))) ! k = (bytes_of i)[r := bytes_of i ! r OR b] ! k"
    using k assms
    by (auto simp: put_byte_def nth_bytes_of nth_list_update byte_of_or
        simp del: drop_bit_or)
qed (simp add: put_byte_def)


section \<open>Blocks as lanes\<close>

fun pair_up :: "32 word list \<Rightarrow> lane list" where
  "pair_up (l # h # ws) = lane h l # pair_up ws"
| "pair_up [w] = []"
| "pair_up [] = []"

lemma length_pair_up [simp]: "length (pair_up ws) = length ws div 2"
  by (induction ws rule: pair_up.induct) simp_all

lemma nth_pair_up: "2 * i + 1 < length ws \<Longrightarrow> pair_up ws ! i = lane (ws ! (2 * i + 1)) (ws ! (2 * i))"
proof (induction ws arbitrary: i rule: pair_up.induct)
  case (1 l h ws)
  then show ?case by (cases i) simp_all
qed simp_all

lemma join_pair_up: "length A = 50 \<Longrightarrow> join A = pair_up A"
  by (intro nth_equalityI) (simp_all add: nth_join nth_pair_up)

lemma pair_up_append: "even (length ws) \<Longrightarrow> pair_up (ws @ vs) = pair_up ws @ pair_up vs"
  by (induction ws rule: pair_up.induct) simp_all

lemma lane_zero [simp]: "lane 0 0 = 0"
  by (simp add: lane_def)

lemma pair_up_zeros [simp]: "pair_up (replicate (2 * n) 0) = replicate n 0"
  by (induction n) simp_all

lemma pair_up_xor: "length ws = length vs \<Longrightarrow>
    pair_up (map2 (XOR) ws vs) = map2 (XOR) (pair_up ws) (pair_up vs)"
proof (induction ws arbitrary: vs rule: pair_up.induct)
  case (1 l h ws)
  then obtain l' h' vs' where "vs = l' # h' # vs'" by (cases vs; cases "tl vs") auto
  then show ?case using 1 by (simp add: lane_xor)
next
  case (2 v)
  then show ?case by (cases vs) auto
qed simp

lemma bit_bytes_lane: "n < 64 \<Longrightarrow>
    bit (bytes_lane bs) n \<longleftrightarrow> n < 8 * length bs \<and> bit (bs ! (n div 8)) (n mod 8)"
proof (induction bs arbitrary: n)
  case (Cons b bs)
  have push: "bit (bytes_lane (b # bs)) n \<longleftrightarrow> (if n < 8 then bit b n else bit (bytes_lane bs) (n - 8))"
    using Cons.prems bit_imp_le_length [of b n] by (auto simp: bytes_lane_def bit_simps)
  show ?case
  proof (cases "n < 8")
    case False
    then have "(n - 8) div 8 = n div 8 - 1" "(n - 8) mod 8 = n mod 8" "n div 8 \<noteq> 0"
      by (simp_all add: le_div_geq le_mod_geq)
    then show ?thesis using Cons.IH [of "n - 8"] Cons.prems False push by auto
  qed (simp add: push)
qed (simp add: bytes_lane_def)

lemma bytes_lane_words: "bytes_lane (word_bytes l @ word_bytes h) = lane h l"
proof (rule bit_word_eqI)
  fix n assume "n < LENGTH(64)"
  then have n: "n < 64" by simp
  have part: "bit (word_bytes w ! k) (m mod 8) = bit w m" if "m div 8 = k" "k < 4" for w k m
    using that by (auto simp: nth_word_bytes bit_simps)
  show "bit (bytes_lane (word_bytes l @ word_bytes h)) n = bit (lane h l) n"
  proof (cases "n < 32")
    case True
    moreover from this have "n div 8 < 4" by (simp add: less_mult_imp_div_less)
    ultimately show ?thesis using n by (simp add: bit_bytes_lane nth_append bit_lane part)
  next
    case False
    then have "(n - 32) div 8 = n div 8 - 4" "(n - 32) mod 8 = n mod 8" "\<not> n div 8 < 4"
      by (simp_all add: div_le_mono le_mod_geq)
    moreover have "n div 8 - 4 < 4"
      using n False less_mult_imp_div_less [of n 8 8] by linarith
    ultimately show ?thesis
      using n False part [of "n - 32" "n div 8 - 4" h] by (simp add: bit_bytes_lane nth_append bit_lane)
  qed
qed

lemma lanes_of_words:
  "length ws = 2 * n \<Longrightarrow> map bytes_lane (blocks_of n 8 (bytes_of ws)) = pair_up ws"
proof (induction n arbitrary: ws)
  case (Suc n)
  then obtain l h ws' where ws: "ws = l # h # ws'" by (cases ws; cases "tl ws") auto
  have "take 8 (bytes_of ws) = word_bytes l @ word_bytes h" "drop 8 (bytes_of ws) = bytes_of ws'"
    by (simp_all add: ws)
  then show ?case using Suc ws by (simp add: bytes_lane_words)
qed simp

lemma join_absorb:
  assumes "length A = 50" "length i = 34"
  shows "join (js_permute (map2 (XOR) A (i @ replicate 16 0))) = absorb_block (bytes_of i) (join A)"
proof -
  have "pair_up (i @ replicate 16 0) = pair_up i @ replicate 8 0"
    using assms(2) pair_up_append [of i] pair_up_zeros [of 8] by simp
  moreover have "map bytes_lane (blocks_of 17 8 (bytes_of i)) = pair_up i"
    using assms(2) by (intro lanes_of_words) simp
  ultimately show ?thesis
    using assms
    by (simp add: join_permute join_pair_up pair_up_xor absorb_block_def)
qed

section \<open>Filling a block\<close>

definition filled :: "byte list \<Rightarrow> 32 word list \<Rightarrow> bool" where
  "filled p i \<longleftrightarrow> length i = 35 \<and> length p \<le> 140 \<and> bytes_of i = p @ replicate (140 - length p) 0"

lemma filled_start: "length p \<le> 4 \<Longrightarrow> word_bytes w = p @ replicate (4 - length p) 0 \<Longrightarrow>
    filled p (w # replicate 34 0)"
  by (simp add: filled_def flip: replicate_add)

lemma filled_zeros: "filled [] (replicate 35 0)"
  by (simp add: filled_def)

lemma filled_put:
  assumes "filled p i" "length p < 140"
  shows "fst (put_byte b (length p, i)) = length (p @ [b])"
    and "filled (p @ [b]) (snd (put_byte b (length p, i)))"
proof -
  show "fst (put_byte b (length p, i)) = length (p @ [b])" by (simp add: put_byte_def)
  have z: "replicate (140 - length p) (0 :: byte) = 0 # replicate (139 - length p) 0"
  proof -
    have "140 - length p = Suc (139 - length p)" using assms(2) by simp
    then show ?thesis by simp
  qed
  have "bytes_of (snd (put_byte b (length p, i))) = (bytes_of i)[length p := bytes_of i ! length p OR b]"
    using assms by (intro bytes_put_byte) (simp add: filled_def)
  also have "\<dots> = p @ b # replicate (139 - length p) 0"
    using assms(1) by (simp add: filled_def z nth_append list_update_append)
  finally show "filled (p @ [b]) (snd (put_byte b (length p, i)))"
    using assms by (simp add: filled_def put_byte_def)
qed

lemma filled_fold:
  "filled p i \<Longrightarrow> length p + length bs \<le> 140 \<Longrightarrow>
    \<exists>i'. fold put_byte bs (length p, i) = (length (p @ bs), i') \<and> filled (p @ bs) i'"
proof (induction bs arbitrary: p i)
  case (Cons b bs)
  define i1 where "i1 = snd (put_byte b (length p, i))"
  have "put_byte b (length p, i) = (length (p @ [b]), i1)" and "filled (p @ [b]) i1"
    using filled_put [OF Cons.prems(1), of b] Cons.prems(2) by (simp_all add: i1_def prod_eq_iff)
  then show ?case using Cons.IH [of "p @ [b]" i1] Cons.prems(2) by simp
qed simp

definition small_items :: "byte list list \<Rightarrow> bool" where
  "small_items its \<longleftrightarrow> (\<forall>it \<in> set its. 1 \<le> length it \<and> length it \<le> 4)"

lemma small_items_simps [simp]:
  "small_items []" "small_items (it # its) \<longleftrightarrow> 1 \<le> length it \<and> length it \<le> 4 \<and> small_items its"
  "small_items (its @ jts) \<longleftrightarrow> small_items its \<and> small_items jts"
  by (auto simp: small_items_def)

text \<open>The elements that a block takes, and how far they reach.\<close>

lemma fill_block_takes:
  assumes "filled p i" "length p \<le> 139" "small_items its"
  obtains taken rest i' where "fill_block 136 its (length p, i) = (rest, length (p @ concat taken), i')"
    and "its = taken @ rest" and "filled (p @ concat taken) i'" and "length (p @ concat taken) \<le> 139"
    and "rest = [] \<or> 136 \<le> length (p @ concat taken)"
    and "length p < 136 \<Longrightarrow> its \<noteq> [] \<Longrightarrow> taken \<noteq> []"
    and "taken \<noteq> [] \<Longrightarrow> length (p @ concat (butlast taken)) < 136"
  using assms
proof (induction its arbitrary: p i thesis)
  case Nil
  show ?case by (rule Nil.prems(1) [of "[]" "[]" i]) (use Nil.prems in simp_all)
next
  case (Cons it its)
  show ?case
  proof (cases "length p < 136")
    case False
    show ?thesis by (rule Cons.prems(1) [of "it # its" "[]" i]) (use Cons.prems False in simp_all)
  next
    case True
    obtain i1 where i1: "fold put_byte it (length p, i) = (length (p @ it), i1)" "filled (p @ it) i1"
      using filled_fold [OF Cons.prems(2), of it] Cons.prems(4) True by auto
    show ?thesis
    proof (rule Cons.IH [of "p @ it" i1])
      fix taken rest i'
      assume h: "fill_block 136 its (length (p @ it), i1) = (rest, length ((p @ it) @ concat taken), i')"
        "its = taken @ rest" "filled ((p @ it) @ concat taken) i'"
        "length ((p @ it) @ concat taken) \<le> 139"
        "rest = [] \<or> 136 \<le> length ((p @ it) @ concat taken)"
        "taken \<noteq> [] \<Longrightarrow> length ((p @ it) @ concat (butlast taken)) < 136"
      show ?thesis
        by (rule Cons.prems(1) [of rest "it # taken" i']) (use h i1 True in auto)
    qed (use i1 Cons.prems True in auto)
  qed
qed

section \<open>Whole blocks and what is left\<close>

definition absorbed :: "byte list \<Rightarrow> lane list" where
  "absorbed bs = fold absorb_block (blocks_of (length bs div 136) 136 bs) (replicate 25 0)"

definition pending :: "byte list \<Rightarrow> byte list" where
  "pending bs = drop (length bs div 136 * 136) bs"

definition last_block :: "byte list \<Rightarrow> byte list" where
  "last_block bs = take 136 (drop ((length bs div 136 - 1) * 136) bs)"

lemma length_pending: "length (pending bs) = length bs mod 136"
  by (simp add: pending_def minus_div_mult_eq_mod)

lemma length_split: "length bs = length bs div 136 * 136 + length (pending bs)"
  by (simp add: length_pending)

lemma pending_less [simp]: "length (pending bs) < 136"
  by (simp add: length_pending)

lemma blocks_of_snoc: "blocks_of (Suc n) r bs = blocks_of n r bs @ [take r (drop (n * r) bs)]"
proof (induction n arbitrary: bs)
  case (Suc n)
  have "blocks_of (Suc (Suc n)) r bs = take r bs # blocks_of (Suc n) r (drop r bs)" by simp
  also have "\<dots> = (take r bs # blocks_of n r (drop r bs)) @ [take r (drop (n * r) (drop r bs))]"
    by (simp only: Suc.IH append.simps)
  finally show ?case by (simp add: add.commute)
qed simp

lemma blocks_of_append: "n * r \<le> length bs \<Longrightarrow> blocks_of n r (bs @ xs) = blocks_of n r bs"
  by (induction n arbitrary: bs) auto

lemma whole_blocks: "length bs div 136 * 136 \<le> length bs"
  by (rule div_times_less_eq_dividend)

lemma split_pending: "bs = take (length bs div 136 * 136) bs @ pending bs"
  by (simp add: pending_def)

text \<open>More bytes stay pending, or complete one block.\<close>

lemma more_pending:
  assumes "length (pending bs @ xs) < 136"
  shows "absorbed (bs @ xs) = absorbed bs" and "pending (bs @ xs) = pending bs @ xs"
proof -
  have "length (bs @ xs) div 136 = length bs div 136"
    using assms length_split [of bs] by (intro div_nat_eqI) (simp_all add: algebra_simps)
  then show "absorbed (bs @ xs) = absorbed bs" and "pending (bs @ xs) = pending bs @ xs"
    using whole_blocks [of bs] by (simp_all add: absorbed_def pending_def blocks_of_append)
qed

lemma more_blocks:
  assumes "136 \<le> length (pending bs @ xs)" "length (pending bs @ xs) < 272"
  shows "absorbed (bs @ xs) = absorb_block (take 136 (pending bs @ xs)) (absorbed bs)"
    and "pending (bs @ xs) = drop 136 (pending bs @ xs)"
    and "last_block (bs @ xs) = take 136 (pending bs @ xs)"
proof -
  let ?n = "length bs div 136"
  have n: "length (bs @ xs) div 136 = Suc ?n"
    using assms length_split [of bs] by (intro div_nat_eqI) (simp_all add: algebra_simps)
  have d: "drop (?n * 136) (bs @ xs) = pending bs @ xs"
    using whole_blocks [of bs] by (simp add: pending_def)
  have "blocks_of (Suc ?n) 136 (bs @ xs) = blocks_of ?n 136 bs @ [take 136 (pending bs @ xs)]"
    using whole_blocks [of bs] d by (simp only: blocks_of_snoc blocks_of_append)
  then show "absorbed (bs @ xs) = absorb_block (take 136 (pending bs @ xs)) (absorbed bs)"
    unfolding absorbed_def n by simp
  have "drop (Suc ?n * 136) (bs @ xs) = drop 136 (drop (?n * 136) (bs @ xs))"
    by (simp add: add.commute)
  then show "pending (bs @ xs) = drop 136 (pending bs @ xs)"
    unfolding pending_def [of "bs @ xs"] n d by simp
  show "last_block (bs @ xs) = take 136 (pending bs @ xs)"
    unfolding last_block_def n using d by simp
qed

section \<open>What a hasher keeps of its input\<close>

text \<open>
  After the bytes \<open>bs\<close> the state has absorbed their whole blocks. The bytes after these are in the
  block that is being filled, or, right after a block was completed, in the word \<open>block\<close> that
  goes in front of the next one; then \<open>blocks\<close> still holds the completed block.
\<close>

definition keeps :: "byte list \<Rightarrow> hasher \<Rightarrow> bool" where
  "keeps bs h \<longleftrightarrow> blockCount h = 34 \<and> byteCount h = 136 \<and> padding h = keccak_padding \<and>
     outputBlocks h = 8 \<and> \<not> finalized h \<and> length (words h) = 50 \<and> join (words h) = absorbed bs \<and>
     start h = length (pending bs) \<and>
     (if reset h then
        length (pending bs) \<le> 3 \<and>
        word_bytes (block h) = pending bs @ replicate (4 - length (pending bs)) 0 \<and>
        (if bs = [] then blocks h = replicate 35 0 \<and> lastByteIndex h = 0
         else 136 \<le> length bs \<and> filled (last_block bs @ pending bs) (blocks h) \<and>
           lastByteIndex h = 136 + length (pending bs))
      else filled (pending bs) (blocks h) \<and> lastByteIndex h = length (pending bs))"

lemma pending_Nil [simp]: "pending [] = []"
  by (simp add: pending_def)

lemma word_bytes_0: "word_bytes 0 = replicate 4 0"
  using bytes_of_zeros [of 1] by simp

lemma keeps_new: "keeps [] (new_hasher 256 keccak_padding 256)"
proof -
  have "join (replicate 50 0) = replicate 25 0"
    using pair_up_zeros [of 25] by (simp add: join_pair_up)
  moreover have "0 # replicate 34 (0 :: 32 word) = replicate 35 0"
    using replicate_Suc [of 34 "0 :: 32 word"] by simp
  ultimately show ?thesis
    by (simp add: keeps_def new_hasher_def absorbed_def word_bytes_0)
qed

lemma filled_take: "filled p i \<Longrightarrow> 136 \<le> length p \<Longrightarrow> bytes_of (take 34 i) = take 136 p"
  using take_bytes_of [of 34 i] by (simp add: filled_def)

lemma filled_carry:
  assumes "filled p i" "136 \<le> length p"
  shows "word_bytes (i ! 34) = drop 136 p @ replicate (140 - length p) 0"
proof -
  have i: "i = take 34 i @ [i ! 34]"
    using assms(1) id_take_nth_drop [of 34 i] by (simp add: filled_def)
  have "bytes_of i = bytes_of (take 34 i) @ word_bytes (i ! 34)"
    by (subst i) simp
  moreover have "length (bytes_of (take 34 i)) = 136" using assms(1) by (simp add: filled_def)
  ultimately have "word_bytes (i ! 34) = drop 136 (bytes_of i)" by (metis append_eq_conv_conj)
  also have "bytes_of i = p @ replicate (140 - length p) 0" using assms(1) by (simp add: filled_def)
  also have "drop 136 (p @ r) = drop 136 p @ r" for r using assms(2) by simp
  finally show ?thesis .
qed

text \<open>The end of a round, when the block is complete and when it is not.\<close>

lemma keeps_completed:
  assumes "blockCount h = 34" "byteCount h = 136" "padding h = keccak_padding" "outputBlocks h = 8"
    "\<not> finalized h" "length (words h) = 50" and q: "filled q i" "136 \<le> length q" "length q \<le> 139"
    and B: "absorbed B = absorb_block (take 136 q) (join (words h))" "pending B = drop 136 q"
      "last_block B = take 136 q" "136 \<le> length B"
  shows "keeps B (h\<lparr>blocks := i, lastByteIndex := length q, start := length q - 136, block := i ! 34,
    words := js_permute (map2 (XOR) (words h) (take 34 i @ replicate 16 0)), reset := True\<rparr>)"
proof -
  have i: "length i = 35" using q(1) by (simp add: filled_def)
  have "join (js_permute (map2 (XOR) (words h) (take 34 i @ replicate 16 0))) = absorbed B"
    using assms(6) i B(1) filled_take [OF q(1,2)] by (subst join_absorb) simp_all
  moreover have "length (js_permute (map2 (XOR) (words h) (take 34 i @ replicate 16 0))) = 50"
    using assms(6) i by (intro length_js_permute) simp
  moreover have "B \<noteq> []" using B(4) by auto
  ultimately show ?thesis
    using assms(1-5) q B(2-4) filled_carry [OF q(1,2)] by (simp add: keeps_def)
qed

lemma keeps_more:
  assumes "keeps bs h" "filled (pending B) i" "absorbed B = absorbed bs"
  shows "keeps B (h\<lparr>blocks := i, reset := False, lastByteIndex := length (pending B),
    start := length (pending B)\<rparr>)"
  using assms by (simp add: keeps_def)

lemma keeps_round:
  assumes k: "keeps bs h" and its: "its \<noteq> []" "small_items its"
  obtains taken rest h' where "update_round its h = (rest, h')" and "its = taken @ rest"
    and "taken \<noteq> []" and "keeps (bs @ concat taken) h'"
    and "reset h' \<longleftrightarrow> length (pending (bs @ concat taken)) < length (last taken)"
proof -
  define i where "i = (if reset h then block h # replicate (blockCount h) 0 else blocks h)"
  have p: "filled (pending bs) i"
    using k by (auto simp: keeps_def i_def intro: filled_start split: if_splits)
  have le: "length (pending bs) \<le> 139" "length (pending bs) < 136"
    using pending_less [of bs] by linarith+
  obtain taken rest i' where f: "fill_block 136 its (length (pending bs), i) =
      (rest, length (pending bs @ concat taken), i')" "its = taken @ rest"
      "filled (pending bs @ concat taken) i'" "length (pending bs @ concat taken) \<le> 139"
      "taken \<noteq> []" "length (pending bs @ concat (butlast taken)) < 136"
    using fill_block_takes [OF p le(1) its(2)] its(1) le(2) by metis
  let ?q = "pending bs @ concat taken"
  define h' where "h' = snd (update_round its h)"
  have u: "update_round its h = (rest, h')"
    using f(1) k unfolding update_round_def i_def [symmetric] h'_def
    by (simp add: keeps_def Let_def)
  have h': "h' = (let h1 = h\<lparr>blocks := i', reset := False, lastByteIndex := length ?q\<rparr>
      in if 136 \<le> length ?q then
           h1\<lparr>start := length ?q - 136, block := i' ! 34, words := js_permute (map2 (XOR) (words h)
             (take 34 i' @ replicate 16 0)), reset := True\<rparr>
         else h1\<lparr>start := length ?q\<rparr>)"
    using f(1) k unfolding h'_def update_round_def i_def [symmetric] by (simp add: keeps_def Let_def)
  have cat: "concat taken = concat (butlast taken) @ last taken"
    using f(5) by (metis append_butlast_last_id concat_append concat.simps append_Nil2)
  have last: "length ?q - 136 < length (last taken)" if "136 \<le> length ?q"
    using f(6) that cat by simp
  have "keeps (bs @ concat taken) h' \<and>
      (reset h' \<longleftrightarrow> length (pending (bs @ concat taken)) < length (last taken))"
  proof (cases "136 \<le> length ?q")
    case True
    have "length ?q < 272" using f(4) by linarith
    note more = more_blocks [OF True this]
    have "length ?q \<le> length (bs @ concat taken)" by (simp add: length_pending)
    then have "136 \<le> length (bs @ concat taken)" using True by linarith
    with more have "keeps (bs @ concat taken) (h\<lparr>blocks := i',
        lastByteIndex := length ?q, start := length ?q - 136, block := i' ! 34,
        words := js_permute (map2 (XOR) (words h) (take 34 i' @ replicate 16 0)), reset := True\<rparr>)"
      using k True f(3,4) by (intro keeps_completed) (simp_all only: keeps_def not_False_eq_True)
    moreover have "length (pending (bs @ concat taken)) < length (last taken)"
      using last [OF True] more(2) by (simp only: length_drop)
    ultimately show ?thesis using True by (simp add: h' Let_def)
  next
    case False
    then have "length ?q < 136" by simp
    note more = more_pending [OF this]
    have "keeps (bs @ concat taken) (h\<lparr>blocks := i', reset := False,
        lastByteIndex := length (pending (bs @ concat taken)),
        start := length (pending (bs @ concat taken))\<rparr>)"
      using f(3) by (intro keeps_more [OF k]) (simp_all only: more)
    moreover have "\<not> length (pending (bs @ concat taken)) < length (last taken)"
      unfolding more(2) using cat by simp
    ultimately show ?thesis using False more(2) by (simp add: h' Let_def)
  qed
  then show thesis using that [OF u f(2) f(5)] by blast
qed

lemma keeps_loop:
  "keeps bs h \<Longrightarrow> small_items its \<Longrightarrow> length its \<le> fuel \<Longrightarrow>
    keeps (bs @ concat its) (update_loop fuel its h) \<and>
    (its \<noteq> [] \<longrightarrow> (reset (update_loop fuel its h) \<longleftrightarrow>
      length (pending (bs @ concat its)) < length (last its)))"
proof (induction fuel its h arbitrary: bs rule: update_loop.induct)
  case (3 fuel it its h)
  obtain taken rest h' where r: "update_round (it # its) h = (rest, h')" "it # its = taken @ rest"
      "taken \<noteq> []" "keeps (bs @ concat taken) h'"
      "reset h' \<longleftrightarrow> length (pending (bs @ concat taken)) < length (last taken)"
    using keeps_round [OF 3(2) _ 3(3)] by blast
  have "small_items rest" using 3(3) unfolding r(2) by simp
  moreover have "length rest \<le> fuel"
  proof -
    have "length rest < length (it # its)" unfolding r(2) using r(3) by simp
    then show ?thesis using 3(4) by simp
  qed
  ultimately have ih: "keeps ((bs @ concat taken) @ concat rest) (update_loop fuel rest h')"
      "rest \<noteq> [] \<Longrightarrow> reset (update_loop fuel rest h') \<longleftrightarrow>
        length (pending ((bs @ concat taken) @ concat rest)) < length (last rest)"
    using 3(1) [OF r(1) [symmetric] refl r(4)] by blast+
  have cat: "concat (it # its) = concat taken @ concat rest" by (simp only: r(2) concat_append)
  show ?case
  proof (cases "rest = []")
    case True
    then have eq: "it # its = taken" using r(2) by simp
    have upd: "update_loop (Suc fuel) (it # its) h = h'" by (simp add: r(1) True)
    show ?thesis unfolding upd unfolding eq using r(4,5) by blast
  next
    case False
    then have "last (it # its) = last rest" by (simp only: r(2) last_append) simp
    then show ?thesis using ih False by (simp only: cat update_loop.simps r(1) prod.case append_assoc Let_def) simp
  qed
qed simp_all

text \<open>\<open>hashing\<close>: the hasher after the elements \<open>its\<close>, from the start.\<close>

definition hashing :: "byte list list \<Rightarrow> hasher" where
  "hashing its = update_loop (length its) its (new_hasher 256 keccak_padding 256)"

lemma keeps_hashing: "small_items its \<Longrightarrow> keeps (concat its) (hashing its)"
  using keeps_loop [OF keeps_new, of its "length its"] by (simp add: hashing_def)

lemma reset_hashing: "small_items its \<Longrightarrow> its \<noteq> [] \<Longrightarrow>
    reset (hashing its) \<longleftrightarrow> length (concat its) mod 136 < length (last its)"
  using keeps_loop [OF keeps_new, of its "length its"]
  by (simp add: hashing_def length_pending)

section \<open>The last block\<close>

text \<open>The end of the padding: the highest bit of the last byte of the block.\<close>

definition closed :: "byte list \<Rightarrow> byte list" where
  "closed b = b[135 := b ! 135 OR 0x80]"

lemma below_4: "j < 4 \<Longrightarrow> j = 0 \<or> j = 1 \<or> j = 2 \<or> j = (3 :: nat)"
  by auto

lemma padding_byte: "j < 4 \<Longrightarrow> keccak_padding ! j = push_bit (8 * j) (ucast (1 :: byte))"
  using below_4 [of j] by (auto simp: keccak_padding_def)

lemma put_padding:
  "snd (put_byte 1 (e, i)) = i[e div 4 := i ! (e div 4) OR keccak_padding ! (e mod 4)]"
  by (simp add: put_byte_def padding_byte)

lemma put_end: "snd (put_byte 0x80 (135, i)) = i[33 := i ! 33 OR 0x80000000]"
  by (simp add: put_byte_def)

lemma bytes_closed:
  assumes "length i = 35"
  shows "bytes_of (take 34 (i[33 := i ! 33 OR 0x80000000])) = closed (take 136 (bytes_of i))"
proof -
  have "bytes_of (take 34 (i[33 := i ! 33 OR 0x80000000])) =
      take 136 (bytes_of (snd (put_byte 0x80 (135, i))))"
    using take_bytes_of [of 34] by (simp add: put_end)
  also have "\<dots> = take 136 ((bytes_of i)[135 := bytes_of i ! 135 OR 0x80])"
    using assms by (subst bytes_put_byte) simp_all
  finally show ?thesis by (simp add: closed_def take_update_swap)
qed

text \<open>What \<open>finalize\<close> absorbs: the pending bytes with the padding, but the last block once more
  when an element went over its end and nothing came after it.\<close>

definition final_block :: "hasher \<Rightarrow> byte list \<Rightarrow> byte list" where
  "final_block h bs =
     (if reset h \<and> pending bs \<noteq> [] then last_block bs
      else pending bs @ [1] @ replicate (135 - length (pending bs)) 0)"

lemma length_last_block: "136 \<le> length bs \<Longrightarrow> length (last_block bs) = 136"
proof -
  assume "136 \<le> length bs"
  then have "0 < length bs div 136" by (simp add: div_greater_zero_iff)
  then have "(length bs div 136 - 1) * 136 + 136 \<le> length bs"
    using whole_blocks [of bs] by (cases "length bs div 136") simp_all
  then show ?thesis by (simp add: last_block_def)
qed

lemma filled_bytes: "filled p i \<Longrightarrow> length p < 136 \<Longrightarrow> take 136 (bytes_of i) = p @ replicate (136 - length p) 0"
  by (simp add: filled_def)

lemma final_words:
  assumes k: "keeps bs h"
  shows "join (words (finalize h)) = absorb_block (closed (final_block h bs)) (absorbed bs)"
    and "length (words (finalize h)) = 50"
proof -
  let ?A1 = "(blocks h)[lastByteIndex h div 4 :=
      blocks h ! (lastByteIndex h div 4) OR keccak_padding ! (lastByteIndex h mod 4)]"
  let ?A2 = "if lastByteIndex h = 136 then (?A1 ! 34) # replicate 34 0 else ?A1"
  have "length ?A2 = 35 \<and> take 136 (bytes_of ?A2) = final_block h bs"
  proof (cases "reset h \<and> bs \<noteq> []")
    case False
    then have p: "filled (pending bs) (blocks h)" "lastByteIndex h = length (pending bs)"
      using k filled_zeros by (auto simp: keeps_def split: if_splits)
    have "length (pending bs) < 140" using pending_less [of bs] by linarith
    from filled_put(2) [OF p(1) this, of 1] have f: "filled (pending bs @ [1]) ?A1"
      unfolding put_padding p(2) .
    have "take 136 (bytes_of ?A1) = pending bs @ [1] @ replicate (135 - length (pending bs)) 0"
    proof -
      have "136 - length (pending bs) = Suc (135 - length (pending bs))"
        "length (pending bs) \<le> 136" using pending_less [of bs] by linarith+
      then show ?thesis using f by (simp add: filled_def min_def)
    qed
    then show ?thesis
      using f p(2) False pending_less [of bs] by (auto simp: filled_def final_block_def)
  next
    case True
    then have p: "filled (last_block bs @ pending bs) (blocks h)" "136 \<le> length bs"
        "length (pending bs) \<le> 3" "lastByteIndex h = length (last_block bs @ pending bs)"
      using k by (auto simp: keeps_def length_last_block)
    have l: "length (last_block bs) = 136" by (rule length_last_block [OF p(2)])
    have "length (last_block bs @ pending bs) < 140" using l p(3) by simp
    from filled_put(2) [OF p(1) this, of 1] have f: "filled ((last_block bs @ pending bs) @ [1]) ?A1"
      unfolding put_padding p(4) .
    show ?thesis
    proof (cases "pending bs = []")
      case nil: True
      have "word_bytes (?A1 ! 34) = [1] @ replicate (4 - length [1 :: byte]) 0"
        using filled_carry [OF f] l nil by simp
      from filled_start [OF _ this] have "filled [1] (?A1 ! 34 # replicate 34 0)" by simp
      then show ?thesis using True nil l p(4) by (auto simp: filled_def final_block_def)
    next
      case ne: False
      then have "lastByteIndex h \<noteq> 136" using p(4) l by simp
      then show ?thesis using f l True ne by (simp add: filled_def final_block_def)
    qed
  qed
  then have A2: "length ?A2 = 35" "take 136 (bytes_of ?A2) = final_block h bs" by blast+
  have w: "words (finalize h) = js_permute (map2 (XOR) (words h)
      (take 34 (?A2[33 := ?A2 ! 33 OR 0x80000000]) @ replicate 16 0))"
    using k by (simp add: finalize_def keeps_def Let_def)
  show "length (words (finalize h)) = 50"
    unfolding w using k A2(1) by (intro length_js_permute) (simp add: keeps_def)
  show "join (words (finalize h)) = absorb_block (closed (final_block h bs)) (absorbed bs)"
    unfolding w using k A2 bytes_closed [OF A2(1)]
    by (subst join_absorb) (simp_all add: keeps_def)
qed

section \<open>The digest\<close>

lemma squeeze_done: "squeeze fuel e n n t = []"
  by (cases fuel) simp_all

lemma squeeze_8: "squeeze 8 34 0 8 t = take 8 t"
  using squeeze.simps(2) [of 7 34 0 8 t] by (simp add: squeeze_done)

lemma bit_word_bytes: "k < 4 \<Longrightarrow> m < 8 \<Longrightarrow> bit (word_bytes w ! k) m \<longleftrightarrow> bit w (8 * k + m)"
  by (simp add: nth_word_bytes bit_simps)

lemma lane_bytes_words: "lane_bytes (lane h l) = word_bytes l @ word_bytes h"
proof (rule nth_equalityI)
  fix k assume "k < length (lane_bytes (lane h l))"
  then have k: "k < 8" by (simp add: lane_bytes_def)
  show "lane_bytes (lane h l) ! k = (word_bytes l @ word_bytes h) ! k"
  proof (rule bit_word_eqI)
    fix m assume "m < LENGTH(8)"
    then have m: "m < 8" by simp
    have at: "bit (lane_bytes (lane h l) ! k) m = bit (lane h l) (8 * k + m)"
      using k m by (simp add: lane_bytes_def bit_simps)
    show "bit (lane_bytes (lane h l) ! k) m = bit ((word_bytes l @ word_bytes h) ! k) m"
    proof (cases "k < 4")
      case True
      then have "8 * k + m < 32" using m by linarith
      then show ?thesis using at True m by (simp add: nth_append bit_word_bytes lane_below)
    next
      case False
      then have "32 \<le> 8 * k + m" "8 * k + m - 32 = 8 * (k - 4) + m" "k - 4 < 4" using k by linarith+
      then show ?thesis using at False m by (simp add: nth_append bit_word_bytes lane_above)
    qed
  qed
qed (simp add: lane_bytes_def)

lemma bytes_pair_up: "even (length ws) \<Longrightarrow> concat (map lane_bytes (pair_up ws)) = bytes_of ws"
  by (induction ws rule: pair_up.induct) (simp_all add: lane_bytes_words)

lemma digest_words:
  assumes "keeps bs h"
  shows "arrayBuffer h =
    take 32 (concat (map lane_bytes (absorb_block (closed (final_block h bs)) (absorbed bs))))"
proof -
  have b: "blockCount h = 34" "outputBlocks h = 8" using assms by (simp_all add: keeps_def)
  have "arrayBuffer h = bytes_of (take 8 (words (finalize h)))"
    by (simp add: arrayBuffer_def b squeeze_8 bytes_of_def Let_def)
  also have "\<dots> = take 32 (bytes_of (words (finalize h)))"
    using take_bytes_of [of 8] by simp
  also have "bytes_of (words (finalize h)) = concat (map lane_bytes (join (words (finalize h))))"
    using final_words(2) [OF assms] by (simp add: join_pair_up bytes_pair_up)
  finally show ?thesis by (simp add: final_words(1) [OF assms])
qed

text \<open>When the pending bytes are absorbed, this is the sponge.\<close>

lemma closed_pad:
  "closed (pending bs @ [1] @ replicate (135 - length (pending bs)) 0) = pending bs @ pad 136 (length bs)"
proof -
  let ?l = "length (pending bs)"
  have l: "?l = length bs mod 136" "?l < 136" by (rule length_pending, rule pending_less)
  show ?thesis
  proof (cases "?l = 135")
    case True
    then show ?thesis using l by (simp add: closed_def pad_def Let_def nth_append list_update_append)
  next
    case False
    then have "135 - ?l \<noteq> 0" using l(2) by linarith
    then obtain n where n: "135 - ?l = Suc n" using not0_implies_Suc by blast
    then have m: "136 - ?l = Suc (Suc n)" and i: "135 = ?l + Suc n" using l(2) by linarith+
    have "(replicate (Suc n) (0 :: byte))[n := 0x80] = replicate n 0 @ [0x80]"
      using list_update_length [of "replicate n (0 :: byte)" 0 "[]" "0x80"]
      by (simp add: replicate_append_same)
    then have "([1 :: byte] @ replicate (Suc n) 0)[Suc n := 0x80] = [1] @ replicate n 0 @ [0x80]"
      by simp
    moreover have "(0 # replicate n (0 :: byte)) ! n = 0"
      using nth_replicate [of n "Suc n" "0 :: byte"] by simp
    then have "(pending bs @ [1] @ replicate (Suc n) 0) ! 135 = 0"
      by (simp add: i nth_append)
    ultimately show ?thesis
      unfolding closed_def n
      using m l(1) by (simp add: i list_update_append pad_def Let_def)
  qed
qed

lemma length_pad: "length (pending bs @ pad 136 (length bs)) = 136"
  by (simp flip: closed_pad add: closed_def) (use pending_less [of bs] in linarith)

lemma sponge_absorbed:
  "keccak256 bs = take 32 (concat (map lane_bytes
     (absorb_block (pending bs @ pad 136 (length bs)) (absorbed bs))))"
proof -
  have "absorbed (bs @ pad 136 (length bs)) = absorb_block (pending bs @ pad 136 (length bs)) (absorbed bs)"
    using more_blocks(1) [of bs "pad 136 (length bs)"] length_pad [of bs] by simp
  then show ?thesis by (simp add: keccak256_def sponge_def absorbed_def Let_def)
qed

lemma digest_keccak256:
  assumes "keeps bs h" "\<not> (reset h \<and> pending bs \<noteq> [])"
  shows "arrayBuffer h = keccak256 bs"
  using digest_words [OF assms(1)] assms(2) closed_pad [of bs]
  by (simp add: final_block_def sponge_absorbed)

end
