(* ===== verification/Keccak_Text.thy ===== *)
theory Keccak_Text
  imports Keccak_Sponge Hex_Facts
begin

text \<open>
  The elements of a text as \<open>js-sha3\<close> reads it are the bytes of UTF-8, character by character, when
  every surrogate has its partner.
\<close>

section \<open>One code unit\<close>

lemma or_240: "x < 8 \<Longrightarrow> x OR (240 :: nat) = x + 240"
  by (rule or_tag [of _ 3]) (simp_all add: take_bit_eq_mod)

lemma and_1023: "(1023 :: nat) AND n = n mod 1024"
  using take_bit_eq_mask [of 10 n] by (simp add: take_bit_eq_mod mask_eq_exp_minus_1 and.commute)

lemma byte_of_word: "(ucast w :: byte) = of_nat (unat w)" for w :: "32 word"
  by simp

lemma unat_unit: "unat (ucast c :: 32 word) = unat c" for c :: jschar
proof -
  have "unat c < 2 ^ 32" using less_trans [OF unat_jschar_less, of "2 ^ 32" c] by simp
  then show ?thesis by (simp add: unsigned_ucast_eq take_bit_nat_eq_self)
qed

text \<open>The bits of a unit or a point below two to the power 32, as quotients and remainders.\<close>

lemma unat_shift: "unat (drop_bit k w) = unat w div 2 ^ k" for w :: "32 word"
proof -
  have "take_bit 32 (unat w) = unat w"
    using unsigned_less [of w] by (intro take_bit_nat_eq_self) simp
  then show ?thesis by (subst unsigned_drop_bit_eq) (simp add: drop_bit_eq_div)
qed

lemma unat_low6: "unat (128 OR (63 AND w)) = 128 + unat w mod 64" for w :: "32 word"
  using or_128 [of "unat w mod 64"] by (simp add: unsigned_or_eq unsigned_and_eq or.commute)

lemma unat_low6': "unat (128 OR (w AND 63)) = 128 + unat w mod 64" for w :: "32 word"
  using unat_low6 [of w] by (simp add: and.commute)

lemma unit_bytes_utf8: "unit_bytes (ucast c) = byte_list (utf8_point (unat c))" for c :: jschar
proof -
  let ?w = "ucast c :: 32 word" and ?n = "unat c"
  have n: "?n < 65536" by (rule unat_jschar_less)
  have cmp: "?w < 128 \<longleftrightarrow> ?n < 128" "?w < 2048 \<longleftrightarrow> ?n < 2048"
    by (simp_all add: word_less_nat_alt unat_unit)
  have lead2: "unat (192 OR drop_bit 6 ?w) = 192 + ?n div 64" if "?n < 2048"
    using that or_192 [of "?n div 64"]
    by (simp add: unsigned_or_eq unat_shift unat_unit or.commute less_mult_imp_div_less)
  have lead3: "unat (224 OR drop_bit 12 ?w) = 224 + ?n div 4096"
    using n or_224 [of "?n div 4096"]
    by (simp add: unsigned_or_eq unat_shift unat_unit or.commute less_mult_imp_div_less)
  show ?thesis
    using n by (auto simp: unit_bytes_def utf8_point_def cmp byte_of_word lead2 lead3 unat_low6
        unat_low6' unat_shift unat_unit simp del: of_nat_unat)
qed

section \<open>A pair of units\<close>

text \<open>A high surrogate holds the upper ten bits of the point, less one for the plane.\<close>

lemma mod_offset: "m * k \<le> n \<Longrightarrow> n < m * Suc k \<Longrightarrow> n mod m = n - m * k" for n m k :: nat
  by (metis add_diff_cancel_left' div_nat_eqI minus_mod_eq_div_mult mod_div_mult_eq mult.commute
      minus_mult_div_eq_mod)

lemma pair_point:
  assumes "high_surrogate c" "low_surrogate d"
  shows "unat (65536 + (push_bit 10 (1023 AND ucast c) OR (1023 AND ucast d)) :: 32 word) =
    65536 + (unat c - 0xD800) * 1024 + (unat d - 0xDC00)"
proof -
  have c: "55296 \<le> unat c" "unat c \<le> 56319" and d: "56320 \<le> unat d" "unat d \<le> 57343"
    using assms by (simp_all add: high_surrogate_def low_surrogate_def word_le_nat_alt)
  have m: "unat c mod 1024 = unat c - 55296" "unat d mod 1024 = unat d - 56320"
    using c d by (auto simp: mod_offset [of 1024 54] mod_offset [of 1024 55])
  let ?h = "1023 AND ucast c :: 32 word" and ?l = "1023 AND ucast d :: 32 word"
  have hl: "unat ?h = unat c - 55296" "unat ?l = unat d - 56320"
    using m by (simp_all add: unsigned_and_eq and_1023 unat_unit)
  have "unat (push_bit 10 ?h) = (unat c - 55296) * 1024"
  proof -
    have "unat (push_bit 10 ?h) = take_bit 32 (push_bit 10 (unat ?h))"
      by (subst unsigned_push_bit_eq) simp
    also have "\<dots> = take_bit 32 ((unat c - 55296) * 1024)" by (simp only: hl(1) push_bit_eq_mult) simp
    also have "\<dots> = (unat c - 55296) * 1024" using c by (intro take_bit_nat_eq_self) simp
    finally show ?thesis .
  qed
  moreover have "(unat c - 55296) * 1024 OR (unat d - 56320) = (unat c - 55296) * 1024 + (unat d - 56320)"
    using d or_tag [of "unat d - 56320" 10 "(unat c - 55296) * 1024"]
    by (simp add: take_bit_eq_mod or.commute)
  ultimately have "unat (push_bit 10 ?h OR ?l) = (unat c - 55296) * 1024 + (unat d - 56320)"
    using hl(2) by (simp add: unsigned_or_eq)
  then show ?thesis using c d by (simp add: unat_word_ariths(1))
qed

lemma pair_bytes_utf8:
  assumes "high_surrogate c" "low_surrogate d"
  shows "pair_bytes (ucast c) (ucast d) =
    byte_list (utf8_point (65536 + (unat c - 0xD800) * 1024 + (unat d - 0xDC00)))"
proof -
  let ?n = "65536 + (unat c - 0xD800) * 1024 + (unat d - 0xDC00)"
  have n: "65536 \<le> ?n" "?n < 1114112"
    using assms by (auto simp: high_surrogate_def low_surrogate_def word_le_nat_alt)
  obtain p :: "32 word" where p: "p = 65536 + (push_bit 10 (1023 AND ucast c) OR (1023 AND ucast d))"
    and u: "unat p = ?n" using pair_point [OF assms] by blast
  have lead: "unat (240 OR drop_bit 18 p) = 240 + ?n div 262144"
    using n or_240 [of "?n div 262144"] unat_shift [of 18 p]
    by (simp add: unsigned_or_eq u or.commute less_mult_imp_div_less)
  show ?thesis
    using n unfolding pair_bytes_def Let_def p [symmetric]
    by (simp add: utf8_point_def byte_of_word lead unat_low6 unat_low6' unat_shift u
        del: of_nat_unat)
qed

section \<open>A text\<close>

lemma items_utf8: "paired s \<Longrightarrow> concat (text_items s) = byte_list (utf8 s)"
proof (induction s rule: paired.induct)
  case (3 c d s)
  show ?case
  proof (cases "high_surrogate c")
    case True
    then show ?thesis using 3 by (simp add: surrogate_range pair_bytes_utf8)
  next
    case False
    then show ?thesis using 3 by (simp add: surrogate_range unit_bytes_utf8)
  qed
qed (simp_all add: surrogate_range unit_bytes_utf8)

lemma length_unit_bytes: "0 < length (unit_bytes n) \<and> length (unit_bytes n) \<le> 3"
  by (simp add: unit_bytes_def)

lemma small_text_items: "small_items (text_items s)"
  by (induction s rule: text_items.induct)
    (auto simp: small_items_def unit_bytes_def pair_bytes_def Let_def split: list.splits)

lemma no_text_items [simp]: "text_items s = [] \<longleftrightarrow> s = []"
  by (cases s) (auto split: list.splits)

end
