(* ===== verification/Keccak_Hex.thy ===== *)
theory Keccak_Hex
  imports Keccak_Text Cert_Model
begin

text \<open>
  The hash in hexadecimal, as a certificate carries it: its characters, its length, and that the
  text of a certificate never runs into the end of a block, because its last character is a brace.
\<close>

lemma hex_plain: "c \<in> set (u8aToHex bs) \<Longrightarrow> plain_char c \<and> \<not> js_space c"
  using u8aToHex_chars [of bs] by (auto simp: hex_digits_eq plain_char_def js_space_def)

section \<open>The hash of a text\<close>

lemma js_keccak256_items: "js_keccak256 s = Inr (arrayBuffer (hashing (text_items s)))"
  by (simp add: js_keccak256_def update_text_def update_items_def hashing_def new_hasher_def Let_def)

lemma keeps_text: "paired s \<Longrightarrow> keeps (byte_list (utf8 s)) (hashing (text_items s))"
  using keeps_hashing [OF small_text_items, of s] by (simp add: items_utf8)

lemma text_digest:
  assumes "paired s" and "k = length (utf8 s) mod 136"
    and "s = [] \<or> k = 0 \<or> length (last (text_items s)) \<le> k"
  shows "js_keccak256 s = Inr (keccak256 (byte_list (utf8 s)))"
proof -
  have "\<not> (reset (hashing (text_items s)) \<and> pending (byte_list (utf8 s)) \<noteq> [])"
  proof (cases "s = []")
    case False
    have "length (pending (byte_list (utf8 s))) = k" by (simp add: length_pending assms(2))
    then show ?thesis
      using reset_hashing [OF small_text_items, of s] False assms by (auto simp: items_utf8)
  qed simp
  then show ?thesis
    by (simp add: js_keccak256_items digest_keccak256 [OF keeps_text [OF assms(1)]])
qed

text \<open>The hash as the pages put it into a certificate; a new hasher never fails.\<close>

definition hash_of :: "(byte list \<Rightarrow> byte list) option \<Rightarrow> bool \<Rightarrow> jsstr \<Rightarrow> jsstr" where
  "hash_of compiled encoder s = (case keccakAsHex compiled encoder s of Inl _ \<Rightarrow> [] | Inr h \<Rightarrow> h)"

lemma keccakAsHex_hash: "keccakAsHex compiled encoder s = Inr (hash_of compiled encoder s)"
  using u8aToU8a_ok [of encoder s]
  by (auto simp: hash_of_def keccakAsHex_def keccakAsU8a_def js_keccak256_items split: option.split)

lemma length_digest: "keeps bs h \<Longrightarrow> length (arrayBuffer h) = 32"
  using final_words(2) [of bs h]
  by (simp add: arrayBuffer_def keeps_def squeeze_8 Let_def flip: bytes_of_def)

lemma hash_of_hex: "\<exists>bs. hash_of compiled encoder s = u8aToHex bs"
  using u8aToU8a_ok [of encoder s]
  by (auto simp: hash_of_def keccakAsHex_def keccakAsU8a_def js_keccak256_items split: option.split)

lemma hash_plain: "c \<in> set (hash_of compiled encoder s) \<Longrightarrow> plain_char c"
  using hash_of_hex [of compiled encoder s] hex_plain by auto

lemma hex_not_blank: "js_trim (u8aToHex bs) \<noteq> []"
proof -
  let ?h = "u8aToHex bs"
  have "dropWhile js_space ?h = ?h" "?h \<noteq> []"
    by (simp_all add: u8aToHex_eq lit_def js_space_def)
  moreover have "dropWhile js_space (rev ?h) = rev ?h"
    using hex_plain [of "last ?h" bs] calculation(2) by (cases "rev ?h") (auto simp flip: rev_swap)
  ultimately show ?thesis by (simp add: js_trim_def)
qed

lemma hash_not_blank: "js_trim (hash_of compiled encoder s) \<noteq> []"
  using hash_of_hex [of compiled encoder s] hex_not_blank by auto

section \<open>The text of a certificate\<close>

lemma items_snoc: "paired t \<Longrightarrow> \<not> high_surrogate c \<Longrightarrow> \<not> low_surrogate c \<Longrightarrow>
    text_items (t @ [c]) = text_items t @ [unit_bytes (ucast c)] \<and> paired (t @ [c]) \<and>
    utf8 (t @ [c]) = utf8 t @ utf8_point (unat c)"
proof (induction t rule: paired.induct)
  case (3 a b t)
  then show ?case by (cases "high_surrogate a") (auto simp: surrogate_range)
qed (auto simp: surrogate_range)

text \<open>One byte at the end never straddles.\<close>

lemma text_digest_snoc:
  assumes "paired t" "c < 128"
  shows "js_keccak256 (t @ [c]) = Inr (keccak256 (byte_list (utf8 (t @ [c]))))"
proof -
  have c: "\<not> high_surrogate c" "\<not> low_surrogate c" "ucast c < (128 :: 32 word)"
    using assms(2) by (simp_all add: high_surrogate_def low_surrogate_def word_le_nat_alt word_less_nat_alt unat_unit)
  note snoc = items_snoc [OF assms(1) c(1,2)]
  have "length (last (text_items (t @ [c]))) = 1" using snoc c(3) by (simp add: unit_bytes_def)
  then have "length (utf8 (t @ [c])) mod 136 = 0 \<or>
      length (last (text_items (t @ [c]))) \<le> length (utf8 (t @ [c])) mod 136" by linarith
  then show ?thesis using text_digest [OF _ refl disjI2] snoc by simp
qed

definition paired_entry :: "entry \<Rightarrow> bool" where
  "paired_entry e \<longleftrightarrow> paired (fst e) \<and> paired (snd e)"

lemma entry_text_paired: "paired_entry e \<Longrightarrow> paired (entry_text e)"
proof -
  obtain k v where e: "e = (k, v)" by (cases e)
  have t: "entry_text e = [34] @ k @ [34, 58, 34] @ v @ [34, 44]" by (simp add: e entry_text_eq)
  show "paired_entry e \<Longrightarrow> paired (entry_text e)"
    unfolding t
    by (intro paired_append) (simp_all add: e paired_entry_def high_surrogate_def low_surrogate_def)
qed

lemma paired_entries: "\<forall>e \<in> set es. paired_entry e \<Longrightarrow> paired (concat (map entry_text es))"
  by (induction es) (simp_all add: entry_text_paired paired_append)

lemma assembled_paired:
  assumes "\<forall>e \<in> set (objArray (the_cert co)). paired_entry e"
  shows "paired (butlast (123 # concat (map entry_text (objArray (the_cert co)))))"
proof (cases "objArray (the_cert co)" rule: rev_cases)
  case (snoc es e)
  obtain k v where e: "e = (k, v)" by (cases e)
  let ?t = "[123] @ concat (map entry_text (objArray (the_cert co)))"
  have t: "?t = butlast ?t @ [44]" by (simp add: snoc e entry_text_eq butlast_append)
  have "paired ?t"
    using assms by (intro paired_append paired_entries paired_plain) simp_all
  from back_subst [of paired, OF this t] have "paired (butlast ?t)" by (rule paired_butlast) simp
  then show ?thesis by simp
qed simp

lemma assembled_text_paired:
  "\<forall>e \<in> set (objArray (the_cert co)). paired_entry e \<Longrightarrow> paired (assembleJsonInfo co)"
  using items_snoc [OF assembled_paired, of co 125]
  by (simp add: assembleJsonInfo_eq high_surrogate_def low_surrogate_def)

text \<open>The text of a certificate is no hexadecimal, so both implementations hash its encoding.\<close>

lemma assembled_bytes:
  assumes "paired (assembleJsonInfo co)"
  shows "u8aToU8a True (assembleJsonInfo co) = Inr (byte_list (utf8 (assembleJsonInfo co)))"
proof -
  have "hd (assembleJsonInfo co) \<in> {123, 125}"
    by (cases "concat (map entry_text (objArray (the_cert co))) = []")
      (simp_all add: assembleJsonInfo_eq del: concat_eq_Nil_conv)
  moreover have "assembleJsonInfo co \<noteq> []" by (simp add: assembleJsonInfo_eq)
  ultimately have "\<not> isHex False (assembleJsonInfo co)"
    by (cases "assembleJsonInfo co") (auto simp: isHex_def lit_def)
  then show ?thesis using assms by (simp add: u8aToU8a_def stringToU8a_def text_encode_utf8)
qed

lemma certificate_digest:
  assumes "\<forall>e \<in> set (objArray (the_cert co)). paired_entry e"
    and "\<forall>f. compiled = Some f \<longrightarrow> f = keccak256 \<and> encoder"
  shows "hash_of compiled encoder (assembleJsonInfo co) =
      u8aToHex (keccak256 (byte_list (utf8 (assembleJsonInfo co))))"
    and "length (keccak256 (byte_list (utf8 (assembleJsonInfo co)))) = 32"
proof -
  note p = assembled_paired [OF assms(1)]
  have d: "js_keccak256 (assembleJsonInfo co) = Inr (keccak256 (byte_list (utf8 (assembleJsonInfo co))))"
    using text_digest_snoc [OF p, of 125] by (simp add: assembleJsonInfo_eq)
  then show "length (keccak256 (byte_list (utf8 (assembleJsonInfo co)))) = 32"
    using length_digest [OF keeps_hashing [OF small_text_items]] by (simp add: js_keccak256_items) metis
  show "hash_of compiled encoder (assembleJsonInfo co) =
      u8aToHex (keccak256 (byte_list (utf8 (assembleJsonInfo co))))"
    using assms(2) d assembled_bytes [OF assembled_text_paired [OF assms(1)]]
    by (cases compiled) (simp_all add: hash_of_def keccakAsHex_def keccakAsU8a_def)
qed

end
