(* ===== verification/Keccak_Properties.thy ===== *)
theory Keccak_Properties
  imports Keccak_Hex
begin

text \<open>
  What the hash library promises: its permutation on 32-bit words is that of Keccak on lanes, its
  incremental hashing is the sponge over all the bytes, and on texts it is Keccak-256 of their
  UTF-8 encoding, unless the last character straddles the end of a block. The hash of a
  certificate is therefore Keccak-256 of its text.
\<close>

section \<open>The permutation\<close>

text \<open>C4
  Equivalence of the unrolled permutation of the library, on the low and high halves of the lanes
  and with its tables of constants, with the permutation of Keccak as the standard defines it by
  the steps theta, rho, pi, chi and iota: on every state of fifty words the halves of the result
  are those of the lanes, and there are fifty of them again.
\<close>

theorem permutation_is_keccak_f:
  assumes "length A = 50"
  shows "join (js_permute A) = keccak_f (join A) \<and> length (js_permute A) = 50"
  using assms join_permute length_js_permute by blast

theorem permutation_is_keccak_f_witness:
  "length (js_permute (replicate 50 0)) = 50 \<and>
   join (js_permute (replicate 50 0)) = keccak_f (replicate 25 0)"
proof -
  have "join (replicate 50 0) = replicate 25 0"
    using pair_up_zeros [of 25] by (simp add: join_pair_up)
  then show ?thesis using permutation_is_keccak_f [of "replicate 50 0"] by simp
qed

section \<open>Bytes in chunks\<close>

text \<open>Calls of \<open>update\<close> with arrays of bytes, up to the first that fails.\<close>

fun feed :: "byte list list \<Rightarrow> hasher \<Rightarrow> lib_error + hasher" where
  "feed [] h = Inr h"
| "feed (bs # bss) h = (case update_bytes bs h of Inl e \<Rightarrow> Inl e | Inr h' \<Rightarrow> feed bss h')"

lemma single_bytes: "concat (map (\<lambda>b. [b]) bs) = bs" "small_items (map (\<lambda>b. [b]) bs)"
  by (induction bs) simp_all

lemma keeps_bytes:
  assumes "keeps bs h" "reset h \<longrightarrow> pending bs = []"
  shows "\<exists>h'. update_bytes xs h = Inr h' \<and> keeps (bs @ xs) h' \<and> (reset h' \<longrightarrow> pending (bs @ xs) = [])"
proof -
  let ?its = "map (\<lambda>b. [b]) xs" and ?h = "update_loop (length xs) (map (\<lambda>b. [b]) xs) h"
  have loop: "keeps (bs @ xs) ?h"
    "xs \<noteq> [] \<longrightarrow> (reset ?h \<longleftrightarrow> length (pending (bs @ xs)) < length (last ?its))"
    using keeps_loop [OF assms(1) single_bytes(2), of xs "length xs"] by (simp_all add: single_bytes)
  have "reset ?h \<longrightarrow> pending (bs @ xs) = []"
  proof (cases "xs = []")
    case False
    then have "length (last ?its) = 1" by (simp add: last_map)
    then show ?thesis using loop(2) False by simp
  qed (use assms in simp)
  moreover have "update_bytes xs h = Inr ?h"
    using assms(1) by (simp add: update_bytes_def update_items_def keeps_def)
  ultimately show ?thesis using loop(1) by blast
qed

lemma keeps_feed:
  assumes "keeps bs h" "reset h \<longrightarrow> pending bs = []"
  shows "\<exists>h'. feed bss h = Inr h' \<and> keeps (bs @ concat bss) h' \<and>
    (reset h' \<longrightarrow> pending (bs @ concat bss) = [])"
  using assms
proof (induction bss arbitrary: bs h)
  case (Cons xs bss)
  obtain h' where "update_bytes xs h = Inr h'" "keeps (bs @ xs) h'"
      "reset h' \<longrightarrow> pending (bs @ xs) = []"
    using keeps_bytes [OF Cons.prems] by blast
  then show ?case using Cons.IH [of "bs @ xs" h'] by simp
qed simp

text \<open>C3
  Incremental hashing refines the sponge: whatever the chunks are into which an array of bytes is
  cut, and wherever they end in the blocks, the calls of \<open>update\<close> succeed and the digest is
  Keccak-256 of all the bytes; after the digest was taken \<open>update\<close> fails with the library's error
  and the digest can be read again.
\<close>

theorem chunks_refine_sponge:
  "\<exists>h. feed bss (new_hasher 256 keccak_padding 256) = Inr h \<and>
     arrayBuffer h = keccak256 (concat bss) \<and>
     arrayBuffer (finalize h) = arrayBuffer h \<and>
     update_bytes xs (finalize h) = Inl FinalizeAlreadyCalled"
proof -
  obtain h where h: "feed bss (new_hasher 256 keccak_padding 256) = Inr h" "keeps (concat bss) h"
      "reset h \<longrightarrow> pending (concat bss) = []"
    using keeps_feed [OF keeps_new] by auto
  have "arrayBuffer h = keccak256 (concat bss)" using h by (intro digest_keccak256) auto
  then show ?thesis
    using h(1,2) by (auto simp: finalize_def keeps_def Let_def arrayBuffer_def update_bytes_def update_items_def)
qed

section \<open>Texts\<close>

text \<open>
  Equivalence of the hash of a text, as \<open>js-sha3\<close> computes it when no compiled implementation was
  loaded, with Keccak-256 of its UTF-8 encoding: when every surrogate has
  its partner and the bytes of the last character do not straddle the end of a block of 136
  bytes. The hypothesis on the last character holds for one of the first 128 code points, and for
  any that ends a block or lies within one.
\<close>

theorem text_hash_is_keccak256:
  assumes "paired s" and "k = length (utf8 s) mod 136"
    and "s = [] \<or> k = 0 \<or> length (last (text_items s)) \<le> k"
  shows "keccakAsHex None encoder s = Inr (u8aToHex (keccak256 (byte_list (utf8 s))))"
  using text_digest [OF assms] by (simp add: keccakAsHex_def keccakAsU8a_def)

text \<open>One character of each length.\<close>

theorem text_hash_is_keccak256_witness:
  "keccakAsHex None True [0x61, 0xE9, 0x4E2D, 0xD83D, 0xDE00] =
   Inr (u8aToHex (keccak256 [0x61, 0xC3, 0xA9, 0xE4, 0xB8, 0xAD, 0xF0, 0x9F, 0x98, 0x80]))"
proof -
  let ?s = "[0x61, 0xE9, 0x4E2D, 0xD83D, 0xDE00] :: jsstr"
  have p: "paired ?s" by (simp add: high_surrogate_def low_surrogate_def)
  have u: "utf8 ?s = [0x61, 0xC3, 0xA9, 0xE4, 0xB8, 0xAD, 0xF0, 0x9F, 0x98, 0x80]"
    by (simp add: high_surrogate_def low_surrogate_def) (simp add: utf8_point_def scalar_def)
  have "length (last (text_items ?s)) = 4" by (simp add: pair_bytes_def Let_def)
  then have "?s = [] \<or> length (utf8 ?s) mod 136 = 0 \<or> length (last (text_items ?s)) \<le> length (utf8 ?s) mod 136"
    unfolding u by simp
  from text_hash_is_keccak256 [OF p refl this] show ?thesis unfolding u by simp
qed

section \<open>A character that straddles the end of a block\<close>

text \<open>Three bytes after 135 pending ones: the block is completed and two are carried.\<close>

lemma straddled_digest:
  assumes "paired t" "\<not> high_surrogate c" "\<not> low_surrogate c" "2048 \<le> c"
    and "length (utf8 t) mod 136 = 135"
  shows "arrayBuffer (hashing (text_items (t @ [c]))) =
    take 32 (concat (map lane_bytes (absorb_block
      (closed (pending (byte_list (utf8 t)) @ [of_nat (224 + unat c div 4096)]))
      (absorb_block (pending (byte_list (utf8 t)) @ [of_nat (224 + unat c div 4096)])
        (absorbed (byte_list (utf8 t)))))))"
proof -
  let ?t = "byte_list (utf8 t)" and ?c = "byte_list (utf8_point (unat c))"
  let ?h = "hashing (text_items (t @ [c]))"
  note snoc = items_snoc [OF assms(1-3)]
  have c: "2048 \<le> unat c" "unat c < 65536" using assms(4) by (simp_all add: word_le_nat_alt)
  then have "\<exists>y z. ?c = [of_nat (224 + unat c div 4096), y, z]" by (simp add: utf8_point_def scalar_def)
  then obtain y z where cs: "?c = [of_nat (224 + unat c div 4096), y, z]" by blast
  have l: "length (pending ?t) = 135" by (simp add: length_pending assms(5))
  have k: "keeps (?t @ ?c) ?h" using keeps_text [of "t @ [c]"] snoc by simp
  have more: "absorbed (?t @ ?c) = absorb_block (take 136 (pending ?t @ ?c)) (absorbed ?t)"
    "pending (?t @ ?c) = drop 136 (pending ?t @ ?c)" "last_block (?t @ ?c) = take 136 (pending ?t @ ?c)"
    using l cs by (intro more_blocks; simp)+
  have pend: "length (pending (?t @ ?c)) = 2" unfolding more(2) using l cs by simp
  have "length (last (text_items (t @ [c]))) = 3"
    using snoc unit_bytes_utf8 [of c] cs by simp
  then have "reset ?h"
    using reset_hashing [OF small_text_items, of "t @ [c]"] snoc pend
    by (simp add: items_utf8 assms(1) length_pending cs add.commute)
  then have "final_block ?h (?t @ ?c) = take 136 (pending ?t @ ?c)"
    using pend more(3) by (auto simp: final_block_def)
  then show ?thesis
    using digest_words [OF k] more(1) l cs by simp
qed

text \<open>C36
  What the library does with a character that straddles the end of a block: two texts that end
  in different characters of three bytes with the same leading byte have the same hash, when
  135 bytes of the last block come before the character. \<open>finalize\<close> absorbs the completed block a
  second time and never the bytes that were carried over its end.
\<close>

theorem straddling_collision:
  assumes "paired t" and "length (utf8 t) mod 136 = 135" and "c \<noteq> d"
    and "2048 \<le> c" and "\<not> high_surrogate c" and "\<not> low_surrogate c"
    and "2048 \<le> d" and "\<not> high_surrogate d" and "\<not> low_surrogate d"
    and "unat c div 4096 = unat d div 4096"
  shows "js_keccak256 (t @ [c]) = js_keccak256 (t @ [d]) \<and> utf8 (t @ [c]) \<noteq> utf8 (t @ [d])"
proof -
  have "utf8_point (unat c) \<noteq> utf8_point (unat d)"
  proof
    assume "utf8_point (unat c) = utf8_point (unat d)"
    moreover have "2048 \<le> unat c" "2048 \<le> unat d" using assms(4,7) by (simp_all add: word_le_nat_alt)
    ultimately have "unat c div 64 mod 64 = unat d div 64 mod 64" "unat c mod 64 = unat d mod 64"
      by (simp_all add: utf8_point_def scalar_def)
    moreover have "unat n = 4096 * (unat n div 4096) + 64 * (unat n div 64 mod 64) + unat n mod 64"
      for n :: jschar
    proof -
      have "unat n div 4096 = unat n div 64 div 64" by (simp flip: div_mult2_eq)
      then show ?thesis
        using mult_div_mod_eq [of 64 "unat n div 64"] mult_div_mod_eq [of 64 "unat n"] by linarith
    qed
    ultimately have "unat c = unat d" using assms(10) by metis
    with assms(3) show False using unsigned_word_eqI [of c d] by blast
  qed
  then show ?thesis
    using assms straddled_digest [of t c] straddled_digest [of t d] items_snoc [of t]
    by (simp add: js_keccak256_items)
qed

text \<open>A text of 135 letters \<open>a\<close> and the Chinese characters for \<open>middle\<close> and \<open>two\<close>.\<close>

theorem straddling_collision_witness:
  "js_keccak256 (replicate 135 0x61 @ [0x4E2D]) = js_keccak256 (replicate 135 0x61 @ [0x4E8C])"
proof -
  have plain: "paired (replicate n 0x61) \<and> utf8 (replicate n 0x61) = replicate n 0x61" for n
  proof (induction n rule: induct_nat_012)
    case (ge2 n)
    then show ?case by (simp add: high_surrogate_def low_surrogate_def utf8_point_def scalar_def)
  qed (simp_all add: high_surrogate_def low_surrogate_def utf8_point_def scalar_def)
  then show ?thesis
    using straddling_collision [of "replicate 135 0x61" "0x4E2D" "0x4E8C"]
    by (simp add: high_surrogate_def low_surrogate_def)
qed

section \<open>The hash of a certificate\<close>

text \<open>C2
  The hash of a certificate is Keccak-256: when no name and no value of its entries has a surrogate
  without partner, \<open>keccakAsHex\<close> of its text succeeds with the hexadecimal of Keccak-256 of the
  UTF-8 encoding of the text, whatever characters the entries have, since the text ends with a
  brace. It does not matter which implementation runs, provided that the compiled one is Keccak-256
  and the platform has \<open>TextEncoder\<close> then, because the text is not taken for hexadecimal. The hash
  has 66 characters, none of which JSON escapes, and is not blank; and two such certificates have
  the same hash only if the digests of their texts are the same.
\<close>

theorem certificate_hash:
  assumes "\<forall>e \<in> set (objArray (the_cert co)). paired_entry e"
    and "\<forall>e \<in> set (objArray (the_cert co')). paired_entry e"
    and "\<forall>f. compiled = Some f \<longrightarrow> f = keccak256 \<and> encoder"
    and "\<forall>f. compiled' = Some f \<longrightarrow> f = keccak256 \<and> encoder'"
    and "digest = (\<lambda>co. keccak256 (byte_list (utf8 (assembleJsonInfo co))))"
  shows "keccakAsHex compiled encoder (assembleJsonInfo co) = Inr (u8aToHex (digest co)) \<and>
    length (u8aToHex (digest co)) = 66 \<and>
    (\<forall>c \<in> set (u8aToHex (digest co)). plain_char c) \<and> js_trim (u8aToHex (digest co)) \<noteq> [] \<and>
    (keccakAsHex compiled encoder (assembleJsonInfo co) =
       keccakAsHex compiled' encoder' (assembleJsonInfo co') \<longleftrightarrow> digest co = digest co')"
  using certificate_digest [OF assms(1,3)] certificate_digest(1) [OF assms(2,4)]
    hex_plain hex_not_blank
  by (simp add: keccakAsHex_hash assms(5) length_u8aToHex)

theorem certificate_hash_witness:
  "keccakAsHex (Some keccak256) True
     (lit (''{'' @ [CHR 0x22] @ ''cut'' @ [CHR 0x22] @ '':'' @ [CHR 0x22] @ ''Good'' @ [CHR 0x22] @ ''}'')) =
   Inr (u8aToHex (keccak256 [123, 34, 99, 117, 116, 34, 58, 34, 71, 111, 111, 100, 34, 125]))"
proof -
  let ?co = "\<lparr>the_cert = new_cert\<lparr>objArray := [(lit ''cut'', lit ''Good'')]\<rparr>, attachInfo = new_attach\<rparr>"
  have p: "\<forall>e \<in> set (objArray (the_cert ?co)). paired_entry e"
    by (simp add: paired_entry_def lit_def high_surrogate_def low_surrogate_def)
  have t: "assembleJsonInfo ?co = [123, 34, 99, 117, 116, 34, 58, 34, 71, 111, 111, 100, 34, 125]"
    by (simp add: assembleJsonInfo_eq entry_text_eq lit_def)
  have u: "utf8 [123, 34, 99, 117, 116, 34, 58, 34, 71, 111, 111, 100, 34, 125] =
      [123, 34, 99, 117, 116, 34, 58, 34, 71, 111, 111, 100, 34, 125]"
    by (simp add: high_surrogate_def utf8_point_def scalar_def)
  show ?thesis
    using certificate_hash [OF p p _ _ refl, of "Some keccak256" True None False]
    unfolding t u by (simp add: lit_def)
qed

end
