(* ===== verification/App_Shell.thy ===== *)
theory App_Shell
  imports Chain_Queries Lang Webpack_Runtime Native_Bridge
begin

text \<open>
  The shell of the application, module \<open>cd49\<close> of \<open>app/assets/dist/js/app.c2d43b15.js\<close>: the store
  with its mutations, the route table, the search page and the start of the program.
\<close>

section \<open>The store\<close>

record store =
  mainMenu_show :: bool
  businesses :: "business list"
  certs :: "cert_own list"
  authOriginalTxModel :: auth_original_tx
  nowBusiness :: business
  nowCertOwn :: cert_own
  nowAuthAdminRecord :: auth_record

definition initial_store :: store where
  "initial_store =
     \<lparr>mainMenu_show = False, businesses = [], certs = [],
      authOriginalTxModel = new_auth_original_tx, nowBusiness = new_business,
      nowCertOwn = new_cert_own, nowAuthAdminRecord = new_auth_record\<rparr>"

definition upd_admins :: "(address_model list \<Rightarrow> address_model list) \<Rightarrow> store \<Rightarrow> store" where
  "upd_admins f st =
     st\<lparr>authOriginalTxModel := (authOriginalTxModel st)
        \<lparr>originalAddressModelList := f (originalAddressModelList (authOriginalTxModel st))\<rparr>\<rparr>"

definition upd_attach :: "(attach_info \<Rightarrow> attach_info) \<Rightarrow> store \<Rightarrow> store" where
  "upd_attach f st = st\<lparr>nowCertOwn := (nowCertOwn st)\<lparr>attachInfo := f (attachInfo (nowCertOwn st))\<rparr>\<rparr>"

text \<open>The mutations \<open>F\<close>, with the payload each takes.\<close>

datatype mutation =
    EmptyOriginalAddress
  | AddOriginalAddressModel address_model
  | UpdateAdminModel auth_original_tx
  | UpdateNowBusiness business
  | UpdateNowCertSignState tri_state
  | UpdateNowCertSignedInfo jsstr
  | UpdateCertBusinessAddress jsstr
  | UpdateCertAttachInputData jsstr

fun commit :: "mutation \<Rightarrow> store \<Rightarrow> store" where
  "commit EmptyOriginalAddress st = upd_admins (\<lambda>_. []) st"
| "commit (AddOriginalAddressModel a) st = upd_admins (\<lambda>as. as @ [a]) st"
| "commit (UpdateAdminModel t) st =
     st\<lparr>authOriginalTxModel := (authOriginalTxModel st)
        \<lparr>targetTxAddress := targetTxAddress t, targetTxName := targetTxName t,
          nowAdminAddress := nowAdminAddress t, authType := authType t\<rparr>\<rparr>"
| "commit (UpdateNowBusiness b) st = st\<lparr>nowBusiness := b\<rparr>"
| "commit (UpdateNowCertSignState x) st = upd_attach (\<lambda>a. a\<lparr>certSignStatus := x\<rparr>) st"
| "commit (UpdateNowCertSignedInfo x) st = upd_attach (\<lambda>a. a\<lparr>certSignedInfo := x\<rparr>) st"
| "commit (UpdateCertBusinessAddress x) st = upd_attach (\<lambda>a. a\<lparr>businessAddress := x\<rparr>) st"
| "commit (UpdateCertAttachInputData x) st = upd_attach (\<lambda>a. a\<lparr>inputData := x\<rparr>) st"

definition mutation_names :: "string list" where
  "mutation_names =
     [''emptyOriginalAddress'', ''addOriginalAddressModel'', ''updateAdminModel'',
      ''updateNowBusiness'', ''updateNowCertSignState'', ''updateNowCertSignedInfo'',
      ''updateCertBusinessAddress'', ''updateCertAttachInputData'']"

text \<open>The only action: after a second it commits a mutation by name.\<close>

definition addAsync :: "nat \<times> string" where
  "addAsync = (1000, ''add'')"

section \<open>Routes\<close>

text \<open>Path, name, the chunks that are loaded first, the module of the component.\<close>

type_synonym route = "string \<times> string \<times> string list \<times> string"

definition top_routes :: "route list" where
  "top_routes =
    [(''/'', ''cert_search'', [], ''cd49''),
     (''/search'', ''cert_search'', [], ''cd49''),
     (''/original/entry'', ''original_entry'', [''chunk-17145e97''], ''da53''),
     (''/frame'', ''frame'', [''chunk-7ca391f8''], ''1bd6''),
     (''/scaned'', ''scaned'', [''chunk-2d0be08d''], ''2f14'')]"

definition frame_routes :: "route list" where
  "frame_routes =
    [(''cert/gia_frame'', ''cert_gia_frame'', [''chunk-2d0e48f0''], ''9179''),
     (''cert/entry'', ''cert_to_chain_entry'',
        [''chunk-65f6e5ef'', ''chunk-7618b7ac'', ''chunk-7814d7ca''], ''5c99''),
     (''cert/list'', ''cert_list'', [''chunk-417fe318''], ''76e2''),
     (''cert/sign'', ''cert_sign'', [''chunk-65f6e5ef'', ''chunk-7618b7ac''], ''46d4''),
     (''cert/confirm'', ''cert_confirm'', [''chunk-60aefd06''], ''adb9''),
     (''cert/process'', ''cert_process'', [''chunk-a884be24''], ''4b99''),
     (''cert/detail'', ''cert_detail'', [''chunk-260ddaea''], ''e003''),
     (''business/entry'', ''business_entry'', [''chunk-65f6e5ef'', ''chunk-a2453b60''], ''7689''),
     (''business/list'', ''business_list'', [''chunk-20dd31a9''], ''6b50''),
     (''business/detail'', ''business_detail'', [''chunk-7e477f36''], ''94b0''),
     (''business/confirm'', ''business_confirm'', [''chunk-c3eba2e4''], ''9b10''),
     (''business/process'', ''business_process'', [''chunk-c466b422''], ''bb02''),
     (''original/confirm'', ''original/confirm'', [''chunk-65f6e5ef'', ''chunk-488d230c''], ''40d9''),
     (''original/process'', ''original_process'', [''chunk-7bcd7ac3''], ''e70a''),
     (''original/auth_admin_record'', ''auth_admin_record'', [''chunk-366a9ded''], ''9c58''),
     (''original/auth_admin_detail'', ''auth_admin_detail'', [''chunk-79ae0b8e''], ''4e16''),
     (''own/input'', ''own_input'', [''chunk-65f6e5ef'', ''chunk-13a133bc''], ''a046''),
     (''own/confirm'', ''own_confirm'', [''chunk-2d856f3d''], ''1efd''),
     (''own/process'', ''own_process'', [''chunk-9068ef6e''], ''d819''),
     (''account_info/account_info'', ''account_info'', [''chunk-65f6e5ef'', ''chunk-9658de64''], ''c949'')]"

text \<open>
  All routes with their full paths. A page inside the frame needs the chunk of the frame too.
\<close>

definition all_routes :: "route list" where
  "all_routes = top_routes @
     map (\<lambda>(p, nm, cs, m). (''/frame/'' @ p, nm, ''chunk-7ca391f8'' # cs, m)) frame_routes"

text \<open>A target of a navigation is a path, which starts with a slash, or the name of a route.\<close>

definition find_route :: "string \<Rightarrow> route option" where
  "find_route t =
     (if t \<noteq> [] \<and> hd t = CHR ''/'' then List.find (\<lambda>r. fst r = t) all_routes
      else List.find (\<lambda>r. fst (snd r) = t) all_routes)"

fun nav_targets :: "effect \<Rightarrow> string list" where
  "nav_targets (Push t) = [t]"
| "nav_targets (ReplaceRoute t) = [t]"
| "nav_targets (After n es) = concat (map nav_targets es)"
| "nav_targets _ = []"

text \<open>Every navigation among the effects leads to a page of the table.\<close>

definition navigates_well :: "effect list \<Rightarrow> bool" where
  "navigates_well es \<longleftrightarrow>
     list_all (\<lambda>t. case find_route t of
        None \<Rightarrow> False
      | Some (_, _, cs, _) \<Rightarrow> list_all (\<lambda>c. map_of script_hash c \<noteq> None) cs)
       (concat (map nav_targets es))"

section \<open>The search page\<close>

record search_page =
  certNumber :: jsstr
  isShowLoadingLayer :: bool
  isShowLanguagePicker :: bool

text \<open>
  \<open>onClickSearch\<close> starts a search when a number was typed in (the argument of the result is the
  search it starts); \<open>search_done\<close> is its continuation.
\<close>

definition onClickSearch :: "search_page \<Rightarrow> jsstr option \<times> effect list \<times> search_page" where
  "onClickSearch pg =
     (if certNumber pg \<noteq> [] then (Some (certNumber pg), [], pg\<lparr>isShowLoadingLayer := True\<rparr>)
      else (None, [ToastFail (Tr ''nullCertNum'')], pg))"

definition search_done ::
  "api_error + cert_own option \<Rightarrow> search_page \<times> store \<Rightarrow> effect list \<times> search_page \<times> store" where
  "search_done r ps =
     (let pg = (fst ps)\<lparr>isShowLoadingLayer := False\<rparr>
      in case r of
           Inl _ \<Rightarrow> ([], pg, snd ps)
         | Inr None \<Rightarrow> ([ToastFail (Tr ''giaNumNotExist'')], pg, snd ps)
         | Inr (Some co) \<Rightarrow> ([Push ''/frame/cert/detail''], pg, (snd ps)\<lparr>nowCertOwn := co\<rparr>))"

text \<open>What the picker shows for each language, in code units.\<close>

definition picker_text :: "lang \<Rightarrow> jsstr" where
  "picker_text l =
     (case l of En \<Rightarrow> lit ''ENGLISH'' | Zh \<Rightarrow> [0x4E2D, 0x6587]
      | Ko \<Rightarrow> [0xD55C, 0xAD6D, 0xC5B4] | Ja \<Rightarrow> [0x65E5, 0x672C, 0x8A9E])"

definition onConfirmLanguage ::
  "jsstr \<Rightarrow> search_page \<times> lang_state \<Rightarrow> search_page \<times> lang_state" where
  "onConfirmLanguage e ps =
     (let s0 = snd ps;
          s1 = (if e = picker_text En then setLang (Some (lang_text En)) s0 else s0);
          s2 = (if e = picker_text Zh then setLang (Some (lang_text Zh)) s1 else s1);
          s3 = (if e = picker_text Ko then setLang (Some (lang_text Ko)) s2 else s2);
          s4 = (if e = picker_text Ja then setLang (Some (lang_text Ja)) s3 else s3)
      in ((fst ps)\<lparr>isShowLanguagePicker := False\<rparr>, s4))"

definition onCloseDApp :: "effect list" where
  "onCloseDApp = [NativeGoBack]"

definition onClickRight :: "store \<Rightarrow> store" where
  "onClickRight st = st\<lparr>mainMenu_show := True\<rparr>"

definition onClickMenu :: "string \<Rightarrow> store \<Rightarrow> effect list \<times> store" where
  "onClickMenu p st = ([Push p], st\<lparr>mainMenu_show := False\<rparr>)"

definition menu_paths :: "string list" where
  "menu_paths =
     [''/frame/cert/list'', ''/frame/cert/entry'', ''/frame/business/list'',
      ''/frame/business/entry'', ''/original/entry'', ''/frame/account_info/account_info'']"

text \<open>
  When the page is mounted the native side is asked for the contract address; an answer that is
  not empty is stored.
\<close>

definition search_mounted :: "jsstr option \<Rightarrow> page_env \<Rightarrow> page_env" where
  "search_mounted r env =
     (case r of None \<Rightarrow> env | Some e \<Rightarrow> if e = [] then env else setContractAddress e env)"

end
