(* ===== verification/Chain_Submit.thy ===== *)
theory Chain_Submit
  imports App_Shell
begin

text \<open>
  The four confirmation pages that hand a signed text to the chain and watch its status:
  \<open>cert/confirm\<close> (module \<open>adb9\<close>), \<open>business/confirm\<close> (\<open>9b10\<close>), \<open>original/confirm\<close> (\<open>40d9\<close>) and
  \<open>own/confirm\<close> (\<open>1efd\<close>). Each subscribes a callback to the status of the extrinsic, looks the
  events of the final block up and tells the user what happened.
\<close>

section \<open>Events and statuses\<close>

text \<open>The statuses of the chain library that a callback can be given, its \<open>ExtrinsicStatus\<close>.\<close>

datatype chain_status =
    Future | Ready | Broadcast | InBlock | Retracted | FinalityTimeout | Finalized | Usurped
  | Dropped | Invalid

text \<open>An event of a block: section and method.\<close>

type_synonym chain_event = "string \<times> string"

definition contract_event :: "chain_event \<Rightarrow> bool" where
  "contract_event e \<longleftrightarrow> e = (''contracts'', ''ContractExecution'')"

text \<open>
  The loop over the events, which the four pages share: every execution of the contract shows
  the success toast and starts a timer for the navigation; when there was none, failure is shown.
\<close>

fun event_effects :: "effect \<Rightarrow> chain_event list \<Rightarrow> effect list" where
  "event_effects nav [] = []"
| "event_effects nav (e # es) =
     (if contract_event e then [ToastShowFor (Tr ''successUpLoad'') 8000, nav] else []) @
     event_effects nav es"

definition events_report :: "effect \<Rightarrow> chain_event list \<Rightarrow> effect list" where
  "events_report nav es = event_effects nav es @
     (if list_ex contract_event es then [] else [ToastFailFor (Tr ''failUpLoad'') 8000])"

text \<open>
  The statuses a page reacts to; \<open>Finalized\<close> starts the look-up of the events. The extrinsic also
  ends with \<open>Usurped\<close> or \<open>FinalityTimeout\<close>, to which no page reacts.
\<close>

definition status_report :: "chain_status \<Rightarrow> bool \<Rightarrow> effect list \<times> bool" where
  "status_report s loading =
     (case s of
        Dropped \<Rightarrow> ([ToastShowFor (Tr ''failUpLoad'') 8000], False)
      | Invalid \<Rightarrow> ([ToastShowFor (Tr ''failUpLoad'') 8000], False)
      | _ \<Rightarrow> ([], loading))"

section \<open>cert/confirm\<close>

text \<open>
  \<open>created\<close> only reports a missing signature; the button stays, and \<open>onClickDConfirm\<close> sends
  what the store holds. The first component of its result is the text that is sent.
\<close>

record cert_confirm =
  showUpChainBtn :: bool
  cc_loading :: bool
  certSignStateText :: msg

definition cert_confirm_created :: "store \<Rightarrow> cert_confirm \<Rightarrow> effect list \<times> cert_confirm" where
  "cert_confirm_created st pg =
     (if certSignStatus (attachInfo (nowCertOwn st)) = StSuccess then
        ([SetTitle ''infoToChain''],
         pg\<lparr>certSignStateText := Tr ''signSuccess'', showUpChainBtn := True\<rparr>)
      else
        ([SetTitle ''infoToChain'', ToastFail (Tr ''signFailureErrorHint'')],
         pg\<lparr>certSignStateText := Tr ''signFailure''\<rparr>))"

definition new_cert_confirm :: cert_confirm where
  "new_cert_confirm = \<lparr>showUpChainBtn = True, cc_loading = False, certSignStateText = Raw []\<rparr>"

definition cert_onClickDConfirm :: "store \<Rightarrow> bool \<Rightarrow> jsstr \<times> bool" where
  "cert_onClickDConfirm st loading = (certSignedInfo (attachInfo (nowCertOwn st)), True)"

definition cert_events :: "chain_event list \<Rightarrow> bool \<Rightarrow> effect list \<times> bool" where
  "cert_events es loading =
     (events_report (After 1000 [ReplaceRoute ''/frame/cert/process'']) es, False)"

definition cert_rejected :: "bool \<Rightarrow> effect list \<times> bool" where
  "cert_rejected loading = ([ToastShow (Tr ''failUpLoad'')], False)"

section \<open>own/confirm\<close>

definition own_created :: "store \<Rightarrow> effect list \<times> jsstr" where
  "own_created st = ([SetTitle ''confirmInfo''], inputData (attachInfo (nowCertOwn st)))"

definition own_confirmUpToChain :: "store \<Rightarrow> bool \<Rightarrow> jsstr \<times> bool" where
  "own_confirmUpToChain st loading = (certSignedInfo (attachInfo (nowCertOwn st)), True)"

definition own_events :: "chain_event list \<Rightarrow> bool \<Rightarrow> effect list \<times> bool" where
  "own_events es loading = (events_report (After 500 [Push ''own_process'']) es, False)"

definition own_rejected :: "bool \<Rightarrow> effect list \<times> bool" where
  "own_rejected loading = ([ToastShow (Tr ''failUpLoad'')], False)"

section \<open>business/confirm\<close>

record business_confirm =
  businessModel :: business
  authTypeText :: string
  signedValue :: jsstr
  bc_loading :: bool
  loadHintInfo :: string
  isFirstEnter :: bool

definition new_business_confirm :: business_confirm where
  "new_business_confirm =
     \<lparr>businessModel = new_business, authTypeText = [], signedValue = [], bc_loading = False,
      loadHintInfo = [], isFirstEnter = True\<rparr>"

definition business_created :: "business_confirm \<Rightarrow> effect list \<times> business_confirm" where
  "business_created pg =
     (if isFirstEnter pg then
        ([SetTitle ''confirmInfo'', NativeSaveDappChainInfo],
         pg\<lparr>authTypeText := ''unknownType'', isFirstEnter := False\<rparr>)
      else ([SetTitle ''confirmInfo''], pg\<lparr>authTypeText := ''unknownType''\<rparr>))"

definition business_mounted :: "store \<Rightarrow> business_confirm \<Rightarrow> effect list \<times> business_confirm" where
  "business_mounted st pg =
     (let b = nowBusiness st; pg1 = pg\<lparr>businessModel := b, signedValue := b_signInfo b\<rparr>
      in if b_authType b = Auth then ([], pg1\<lparr>authTypeText := ''addBusiness''\<rparr>)
         else if b_authType b = Delete then ([], pg1\<lparr>authTypeText := ''deleteBusiness''\<rparr>)
         else ([ToastFail (Tr ''operateTypeIsError'')], pg1))"

text \<open>
  The button assembles the operation, \<open>business_assembled\<close> is the continuation and
  \<open>business_signed\<close> the one of the signature, which goes to the chain.
\<close>

definition business_onClickDConfirm ::
  "chain_lib \<Rightarrow> chain \<Rightarrow> page_env \<Rightarrow> business_confirm \<Rightarrow> client \<Rightarrow>
   (jsstr \<times> effect list) \<times> business_confirm \<times> client" where
  "business_onClickDConfirm lib ch env pg cl =
     (let b = businessModel pg;
          (r, cl1) = assembleOperateBusiness lib ch env (b_authType b) (account env) (b_name b)
             (b_address b) (maxCount b) default_gas cl
      in (r, pg\<lparr>bc_loading := True, loadHintInfo := ''assemblingData''\<rparr>, cl1))"

definition business_assembled :: "jsstr \<Rightarrow> business_confirm \<Rightarrow> effect list \<times> business_confirm" where
  "business_assembled s pg =
     (if js_trim s \<noteq> [] then
        ([ToastShow (Tr ''plsInputPwdAndSign''), NativeSignMsg s], pg\<lparr>bc_loading := False\<rparr>)
      else ([ToastFail (Tr ''assembleDataError'')], pg\<lparr>bc_loading := False\<rparr>))"

definition business_assemble_failed ::
  "jsstr \<Rightarrow> business_confirm \<Rightarrow> effect list \<times> business_confirm" where
  "business_assemble_failed err pg =
     ([ToastShow (TrCat ''unknownErrorPlsRecheck'' err)], pg\<lparr>bc_loading := False\<rparr>)"

definition business_signed :: "jsstr \<Rightarrow> business_confirm \<Rightarrow> jsstr \<times> business_confirm" where
  "business_signed s pg = (s, pg\<lparr>bc_loading := True, loadHintInfo := ''dataUploading''\<rparr>)"

definition business_events :: "chain_event list \<Rightarrow> bool \<Rightarrow> effect list \<times> bool" where
  "business_events es loading = (events_report (After 1000 [Push ''business_process'']) es, False)"

definition business_rejected :: "bool \<Rightarrow> effect list \<times> bool" where
  "business_rejected loading =
     ([ReplaceRoute ''business_entry'', ToastShowFor (Tr ''failUpLoad'') 8000], False)"

section \<open>original/confirm\<close>

record original_confirm =
  authTypeValue :: string
  isLoadingAccount :: bool
  oc_targetTxAddress :: jsstr
  oc_targetTxName :: jsstr
  oc_nowAdminAddress :: jsstr
  waitSignInfo :: jsstr
  oc_firstEnter :: bool

definition new_original_confirm :: original_confirm where
  "new_original_confirm =
     \<lparr>authTypeValue = [], isLoadingAccount = True, oc_targetTxAddress = [], oc_targetTxName = [],
      oc_nowAdminAddress = [], waitSignInfo = [], oc_firstEnter = True\<rparr>"

definition original_created :: "store \<Rightarrow> original_confirm \<Rightarrow> effect list \<times> original_confirm" where
  "original_created st pg =
     (let pg1 = pg\<lparr>authTypeValue :=
            (if authType (authOriginalTxModel st) = DeleteAdmin then ''deleteAdmin'' else ''addAdmin'')\<rparr>
      in if oc_firstEnter pg then
           ([SetTitle ''confirmInfo'', NativeSaveDappChainInfo], pg1\<lparr>oc_firstEnter := False\<rparr>)
         else ([SetTitle ''confirmInfo''], pg1))"

text \<open>
  \<open>mounted\<close> with \<open>loadWaitSignInfo\<close>: the overlay goes away when the text is assembled; when the
  assembly is rejected the rest of the function does not run.
\<close>

definition original_mounted ::
  "chain_lib \<Rightarrow> chain \<Rightarrow> page_env \<Rightarrow> store \<Rightarrow> original_confirm \<Rightarrow> client \<Rightarrow>
   effect list \<times> original_confirm \<times> client" where
  "original_mounted lib ch env st pg cl =
     (let m = authOriginalTxModel st;
          pg1 = pg\<lparr>oc_nowAdminAddress := nowAdminAddress m, oc_targetTxAddress := targetTxAddress m,
                   oc_targetTxName := targetTxName m, isLoadingAccount := True\<rparr>;
          (r, cl1) = assembleAdminSingleMessage lib ch env (authType m) (account env)
             (targetTxAddress m) (targetTxName m) default_gas cl
      in case r of
           Inl _ \<Rightarrow> ([], pg1, cl1)
         | Inr (s, fx) \<Rightarrow>
             (fx @ (if s = [] then [ToastShow (Tr ''assembleDataError'')] else []),
              pg1\<lparr>waitSignInfo := s, isLoadingAccount := False\<rparr>, cl1))"

definition verifyPwdAndBroadcast :: "original_confirm \<Rightarrow> effect list" where
  "verifyPwdAndBroadcast pg = [NativeSignMsg (waitSignInfo pg)]"

definition original_signed :: "jsstr \<Rightarrow> original_confirm \<Rightarrow> jsstr \<times> original_confirm" where
  "original_signed s pg = (s, pg\<lparr>isLoadingAccount := True\<rparr>)"

text \<open>This page ends its overlay inside the loop, so only when there is an event.\<close>

definition original_events :: "chain_event list \<Rightarrow> bool \<Rightarrow> effect list \<times> bool" where
  "original_events es loading =
     (events_report (After 1000 [Push ''original_process'']) es, loading \<and> es = [])"

definition original_rejected :: "bool \<Rightarrow> effect list \<times> bool" where
  "original_rejected loading =
     ([ReplaceRoute ''original_entry'', ToastShowFor (Tr ''failUpLoad'') 8000], False)"

section \<open>The contract of a submitting page\<close>

text \<open>
  What happens to a subscription: statuses, the events of the final block, the failure of their
  look-up, whose promise has no handler for it, a rejection of the submission itself.
\<close>

datatype submit_event =
  Status chain_status | Events "chain_event list" | EventsFailed | Rejection

fun is_toast :: "effect \<Rightarrow> bool" where
  "is_toast (ToastShow m) \<longleftrightarrow> True"
| "is_toast (ToastShowFor m n) \<longleftrightarrow> True"
| "is_toast (ToastFail m) \<longleftrightarrow> True"
| "is_toast (ToastFailFor m n) \<longleftrightarrow> True"
| "is_toast _ \<longleftrightarrow> False"

fun submit_step ::
  "(chain_event list \<Rightarrow> bool \<Rightarrow> effect list \<times> bool) \<Rightarrow> (bool \<Rightarrow> effect list \<times> bool) \<Rightarrow>
   submit_event \<Rightarrow> bool \<Rightarrow> effect list \<times> bool" where
  "submit_step evs rej (Status s) l = status_report s l"
| "submit_step evs rej (Events es) l = evs es l"
| "submit_step evs rej EventsFailed l = ([], l)"
| "submit_step evs rej Rejection l = rej l"

fun submit_run ::
  "(chain_event list \<Rightarrow> bool \<Rightarrow> effect list \<times> bool) \<Rightarrow> (bool \<Rightarrow> effect list \<times> bool) \<Rightarrow>
   submit_event list \<Rightarrow> bool \<Rightarrow> effect list \<times> bool" where
  "submit_run evs rej [] l = ([], l)"
| "submit_run evs rej (e # es) l =
     (let (fx, l1) = submit_step evs rej e l; (fy, l2) = submit_run evs rej es l1 in (fx @ fy, l2))"

text \<open>The events of a run that report an end to the user.\<close>

fun reports :: "submit_event \<Rightarrow> bool" where
  "reports (Status s) \<longleftrightarrow> s = Dropped \<or> s = Invalid"
| "reports (Events es) \<longleftrightarrow> True"
| "reports EventsFailed \<longleftrightarrow> False"
| "reports Rejection \<longleftrightarrow> True"

text \<open>
  The events that end the overlay; \<open>leaves es\<close> tells of the events \<open>es\<close> of a block that the page
  leaves it.
\<close>

fun ends_overlay :: "(chain_event list \<Rightarrow> bool) \<Rightarrow> submit_event \<Rightarrow> bool" where
  "ends_overlay leaves (Events es) \<longleftrightarrow> \<not> leaves es"
| "ends_overlay leaves e \<longleftrightarrow> reports e"

fun executions :: "submit_event \<Rightarrow> nat" where
  "executions (Events es) = length (filter contract_event es)"
| "executions _ = 0"

text \<open>
  The laws every page keeps: the events are reported with the page's target, a success shows one
  timer for each execution of the contract and a failure a toast; a rejection is reported; the
  overlay is gone after a report, but for the blocks that the page leaves it.
\<close>

locale submitting_page =
  fixes events_done :: "chain_event list \<Rightarrow> bool \<Rightarrow> effect list \<times> bool"
    and rejected :: "bool \<Rightarrow> effect list \<times> bool"
    and nav :: effect
    and leaves :: "chain_event list \<Rightarrow> bool"
  assumes events_report: "fst (events_done es l) = events_report nav es"
    and events_loading: "snd (events_done es l) \<longleftrightarrow> l \<and> leaves es"
    and rejected_report: "\<exists>fx \<in> set (fst (rejected l)). is_toast fx"
    and rejected_loading: "\<not> snd (rejected l)"
    and rejected_stays: "nav \<notin> set (fst (rejected l))"
    and nav_timer: "\<exists>d fx. nav = After d fx"
begin

lemma nav_no_toast: "\<not> is_toast nav"
  using nav_timer by auto

lemma count_event_effects: "count_list (event_effects nav es) nav = length (filter contract_event es)"
  using nav_timer by (induction es) auto

lemma count_report: "count_list (events_report nav es) nav = length (filter contract_event es)"
  using count_event_effects [of es] nav_timer by (auto simp: events_report_def)

lemma report_toast: "\<exists>fx \<in> set (events_report nav es). is_toast fx"
proof (cases "list_ex contract_event es")
  case True
  then have "ToastShowFor (Tr ''successUpLoad'') 8000 \<in> set (event_effects nav es)"
    by (induction es) auto
  then show ?thesis by (force simp: events_report_def)
qed (simp add: events_report_def)

lemma step_count: "count_list (fst (submit_step events_done rejected e l)) nav = executions e"
proof (cases e)
  case (Status s)
  then show ?thesis using nav_timer by (cases s) (auto simp: status_report_def)
next
  case Rejection
  then show ?thesis using rejected_stays [of l] by (simp add: count_notin)
qed (simp_all add: events_report count_report)

lemma step_toast: "reports e \<Longrightarrow> \<exists>fx \<in> set (fst (submit_step events_done rejected e l)). is_toast fx"
  by (cases e) (auto simp: events_report report_toast rejected_report status_report_def)

lemma step_quiet: "\<not> reports e \<Longrightarrow> submit_step events_done rejected e l = ([], l)"
  by (cases e) (auto simp: status_report_def split: chain_status.split)

text \<open>The navigations of a run are counted by the executions of the contract.\<close>

lemma run_count:
  "count_list (fst (submit_run events_done rejected es l)) nav = sum_list (map executions es)"
proof (induction es arbitrary: l)
  case (Cons e es)
  then show ?case
    using step_count [of e l] by (simp add: Let_def split_beta)
qed simp

text \<open>The overlay goes with the events that end it and never comes back.\<close>

lemma step_loading:
  "snd (submit_step events_done rejected e l) \<longleftrightarrow> l \<and> \<not> ends_overlay leaves e"
proof (cases e)
  case (Status s)
  then show ?thesis by (cases s) (simp_all add: status_report_def)
qed (simp_all add: events_loading rejected_loading)

lemma run_loading:
  "snd (submit_run events_done rejected es l) \<longleftrightarrow> l \<and> \<not> list_ex (ends_overlay leaves) es"
  by (induction es arbitrary: l) (auto simp: Let_def split_beta step_loading)

text \<open>The user is told something exactly when a report came.\<close>

lemma run_toast:
  "list_ex is_toast (fst (submit_run events_done rejected es l)) \<longleftrightarrow> list_ex reports es"
proof (induction es arbitrary: l)
  case (Cons e es)
  show ?case
  proof (cases "reports e")
    case True
    then show ?thesis using step_toast [of e l] by (auto simp: Let_def split_beta list_ex_iff)
  next
    case False
    then show ?thesis using step_quiet [of e l] Cons.IH [of l] by simp
  qed
qed simp

end

section \<open>The four pages keep the contract\<close>

lemmas submit_defs = cert_events_def cert_rejected_def own_events_def own_rejected_def
  business_events_def business_rejected_def original_events_def original_rejected_def

interpretation cert_page: submitting_page cert_events cert_rejected
  "After 1000 [ReplaceRoute ''/frame/cert/process'']" "\<lambda>_. False"
  by unfold_locales (simp_all add: submit_defs)

interpretation own_page: submitting_page own_events own_rejected
  "After 500 [Push ''own_process'']" "\<lambda>_. False"
  by unfold_locales (simp_all add: submit_defs)

interpretation business_page: submitting_page business_events business_rejected
  "After 1000 [Push ''business_process'']" "\<lambda>_. False"
  by unfold_locales (simp_all add: submit_defs)

interpretation original_page: submitting_page original_events original_rejected
  "After 1000 [Push ''original_process'']" "\<lambda>es. es = []"
  by unfold_locales (simp_all add: submit_defs)

end
