(* ===== verification/Admin_Pages.thy ===== *)
theory Admin_Pages
  imports Chain_Submit
begin

text \<open>
  The pages of the administrators: the entry page (module \<open>da53\<close> of \<open>chunk-17145e97\<close>), the
  records (\<open>9c58\<close> of \<open>chunk-366a9ded\<close>), one record (\<open>4e16\<close> of \<open>chunk-79ae0b8e\<close>) and the final
  page (\<open>e70a\<close> of \<open>chunk-7bcd7ac3\<close>). The confirmation page is in \<open>Chain_Submit\<close>.

  A page is a record of its data; a handler returns its effects and the new page. What the native
  side or the chain answers is an argument of the continuation. \<open>toLowerCase\<close> of the language
  needs the Unicode tables and is an argument, \<open>lower\<close>.
\<close>

section \<open>Picking an address\<close>

text \<open>
  Both entry pages list an address as name, separator and address, and split the chosen line at
  the first separator.
\<close>

definition SeparateSymbol :: jsstr where "SeparateSymbol = [59]"

definition picker_line :: "jsstr \<Rightarrow> jsstr \<Rightarrow> jsstr" where
  "picker_line nm addr = nm @ SeparateSymbol @ addr"

definition split_line :: "jsstr \<Rightarrow> jsstr \<times> jsstr" where
  "split_line t =
     (let e = index_of t SeparateSymbol
      in (substring t 0 e, substring t (e + 1) (int (length t))))"

section \<open>The entry page\<close>

record admin_entry =
  ae_inputName :: jsstr
  inputAddressValue :: jsstr
  ae_loading :: bool
  isDisableInputAddress :: bool
  isDisableInputName :: bool
  ae_popup :: bool
  isShowRecord :: bool
  ae_addressList :: "jsstr list"
  isDisableAddAdminRadio :: bool
  addressHintInfo :: string
  ae_radio :: admin_op
  ae_rightIcon :: right_icon

definition new_admin_entry :: admin_entry where
  "new_admin_entry =
     \<lparr>ae_inputName = [], inputAddressValue = [], ae_loading = True, isDisableInputAddress = False,
      isDisableInputName = False, ae_popup = False, isShowRecord = False, ae_addressList = [],
      isDisableAddAdminRadio = False, addressHintInfo = [], ae_radio = AdminNone,
      ae_rightIcon = ICON_ARROW_DOWN\<rparr>"

text \<open>
  The watcher \<open>Change(t, e)\<close> of the radio button; \<open>e\<close> is \<open>None\<close> when it runs at creation.
\<close>

definition admin_Change :: "store \<Rightarrow> admin_op \<Rightarrow> admin_op option \<Rightarrow> admin_entry \<Rightarrow> admin_entry" where
  "admin_Change st t e pg =
     (let pg1 = (if t = AddAdmin \<and> Some t \<noteq> e then pg\<lparr>inputAddressValue := [], ae_inputName := []\<rparr>
                 else pg)
      in if length (originalAddressModelList (authOriginalTxModel st)) = MAX_ADMIN_COUNT then
           pg1\<lparr>isDisableAddAdminRadio := True, ae_rightIcon := ICON_ARROW_DOWN\<rparr>
         else
           pg1\<lparr>isDisableAddAdminRadio := False,
               ae_rightIcon := (if t = AddAdmin then ICON_SCAN else ICON_ARROW_DOWN)\<rparr>)"

text \<open>Assigning the radio button runs the watcher after the handler when the value changed.\<close>

definition select_admin_radio :: "store \<Rightarrow> admin_op \<Rightarrow> admin_entry \<Rightarrow> admin_entry" where
  "select_admin_radio st t pg =
     (if ae_radio pg = t then pg else admin_Change st t (Some (ae_radio pg)) (pg\<lparr>ae_radio := t\<rparr>))"

text \<open>
  The loop over the loaded administrators: a line for the picker, the store's list, and the
  access to the records when the user is one of them.
\<close>

fun admin_lines ::
  "(jsstr \<Rightarrow> jsstr) \<Rightarrow> jsstr \<Rightarrow> address_model list \<Rightarrow> admin_entry \<times> store \<Rightarrow> admin_entry \<times> store"
where
  "admin_lines lower me [] ps = ps"
| "admin_lines lower me (a # as) ps =
     admin_lines lower me as
       ((fst ps)\<lparr>ae_addressList := ae_addressList (fst ps) @ [picker_line (am_name a) (am_address a)],
          isShowRecord := isShowRecord (fst ps) \<or> lower (am_address a) = lower me\<rparr>,
        commit (AddOriginalAddressModel a) (snd ps))"

text \<open>\<open>mounted\<close>; the argument \<open>r\<close> is what loading the administrators gave.\<close>

definition admin_mounted ::
  "(jsstr \<Rightarrow> jsstr) \<Rightarrow> page_env \<Rightarrow> 'e + address_model list \<Rightarrow> admin_entry \<times> store \<Rightarrow>
   effect list \<times> admin_entry \<times> store" where
  "admin_mounted lower env r ps =
     (let pg = (fst ps)\<lparr>ae_loading := False\<rparr>
      in if ContractAddress env = [] then ([ToastShow (Tr ''contractAddressIsNull'')], pg, snd ps)
         else case r of
           Inl _ \<Rightarrow> ([ToastShow (Tr ''unknownErrorPlsRecheck'')], pg, snd ps)
         | Inr [] \<Rightarrow> ([ToastShow (Tr ''emptyChainData'')], pg, snd ps)
         | Inr as \<Rightarrow>
             (let full = (length as = MAX_ADMIN_COUNT);
                  pg1 = (if full then
                           pg\<lparr>addressHintInfo := ''plsChooseAddress'', isDisableInputAddress := True,
                             isDisableInputName := True, isDisableAddAdminRadio := True,
                             ae_rightIcon := ICON_ARROW_DOWN\<rparr>
                         else
                           pg\<lparr>addressHintInfo := ''plsChooseOrInputAddress'',
                             isDisableInputAddress := False, ae_rightIcon := ICON_SCAN\<rparr>);
                  (pg2, st2) = admin_lines lower (account env) as
                     (pg1, commit EmptyOriginalAddress (snd ps))
              in ([], select_admin_radio st2 (if full then DeleteAdmin else AddAdmin) pg2, st2)))"

definition admin_onClickBack :: "effect list" where
  "admin_onClickBack = [ReplaceRoute ''cert_search'']"

definition admin_onClickRight :: "effect list" where
  "admin_onClickRight = [Push ''auth_admin_record'']"

definition admin_nextStep :: "page_env \<Rightarrow> admin_entry \<Rightarrow> store \<Rightarrow> effect list \<times> store" where
  "admin_nextStep env pg st =
     (if length (ae_addressList pg) \<noteq> MAX_ADMIN_COUNT - 1 \<or> ae_radio pg \<noteq> DeleteAdmin then
        (if ae_radio pg = AddAdmin \<or> ae_radio pg = DeleteAdmin then
           (if inputAddressValue pg \<noteq> [] \<and> ae_inputName pg \<noteq> [] then
              (let t = new_auth_original_tx
                     \<lparr>targetTxName := ae_inputName pg, targetTxAddress := inputAddressValue pg,
                      nowAdminAddress := account env,
                      authType := (if ae_radio pg = AddAdmin then AddAdmin else DeleteAdmin)\<rparr>
               in ([Push ''original/confirm''], commit (UpdateAdminModel t) st))
            else ([ToastShow (Tr ''inputNotNull'')], st))
         else ([ToastShow (Tr ''operationTypeSelect'')], st))
      else ([ToastFail (Tr ''forbidDeleteAdmin'')], st))"

definition admin_clickAddressInput :: "admin_entry \<Rightarrow> effect list \<times> admin_entry" where
  "admin_clickAddressInput pg =
     (if ae_radio pg = AddAdmin then ([NativeQrScanToJs], pg) else ([], pg\<lparr>ae_popup := True\<rparr>))"

text \<open>The toast of a scan that is not an address is a Chinese text in the source.\<close>

definition not_address_msg :: msg where
  "not_address_msg = Raw [0x4E0D, 0x7B26, 0x5408, 0x6807, 0x51C6, 0x5730, 0x5740, 0x683C, 0x5F0F,
     0xFF0C, 0x8BF7, 0x60A8, 0x518D, 0x68C0, 0x67E5, 0x5730, 0x5740, 0x4FE1, 0x606F]"

definition admin_scanned :: "jsstr \<Rightarrow> admin_entry \<Rightarrow> effect list \<times> admin_entry" where
  "admin_scanned e pg =
     (if is_address (Some e) then [] else [ToastFail not_address_msg],
      pg\<lparr>inputAddressValue := e\<rparr>)"

definition admin_confirmPickerAddress :: "jsstr option \<Rightarrow> admin_entry \<Rightarrow> admin_entry" where
  "admin_confirmPickerAddress t pg =
     (let pg1 = pg\<lparr>ae_popup := False\<rparr>
      in case t of
           None \<Rightarrow> pg1
         | Some s \<Rightarrow>
             if s = [] then pg1
             else pg1\<lparr>ae_inputName := fst (split_line s), inputAddressValue := snd (split_line s)\<rparr>)"

section \<open>Records\<close>

record admin_records =
  ar_loading :: bool
  recordResult :: "auth_record list"

definition records_mounted :: "jsstr + auth_record list \<Rightarrow> admin_records \<Rightarrow> effect list \<times> admin_records" where
  "records_mounted r pg =
     (case r of
        Inr rs \<Rightarrow> ([], pg\<lparr>recordResult := rs, ar_loading := False\<rparr>)
      | Inl err \<Rightarrow> ([ToastFail (TrCat ''unknownErrorPlsRecheck'' err)], pg\<lparr>ar_loading := False\<rparr>))"

definition clickRecordDetail :: "auth_record \<Rightarrow> store \<Rightarrow> effect list \<times> store" where
  "clickRecordDetail r st = ([Push ''auth_admin_detail''], st\<lparr>nowAuthAdminRecord := r\<rparr>)"

text \<open>What the detail page shows of a record: the kind, the state, the target.\<close>

definition admin_detail :: "store \<Rightarrow> string \<times> string \<times> jsstr \<times> jsstr" where
  "admin_detail st =
     (let r = nowAuthAdminRecord st
      in (if r_operation r = ADD then ''addAdmin''
          else if r_operation r = EDIT then ''editAdmin''
          else if r_operation r = REMOVE then ''deleteAdmin'' else ''unknownType'',
          if r_txStatus r = FINALLY then ''authSuccess''
          else if r_txStatus r = Expired then ''authExpire'' else ''authPadding'',
          r_operator r, r_name r))"

section \<open>The final page\<close>

definition original_process :: "store \<Rightarrow> string \<times> jsstr \<times> jsstr \<times> jsstr" where
  "original_process st =
     (let m = authOriginalTxModel st
      in (if authType m = AddAdmin then ''addAdmin'' else ''deleteAdmin'',
          nowAdminAddress m, targetTxAddress m, targetTxName m))"

definition clickToHome :: "effect list" where
  "clickToHome = [ReplaceRoute ''cert_search'']"

end
