(* ===== verification/Business_Pages.thy ===== *)
theory Business_Pages
  imports Admin_Pages
begin

text \<open>
  The pages of the salesmen: the entry page (module \<open>7689\<close> of \<open>chunk-a2453b60\<close>), the list
  (\<open>6b50\<close> of \<open>chunk-20dd31a9\<close>), the detail page (\<open>94b0\<close> of \<open>chunk-7e477f36\<close>) and the final page
  (\<open>bb02\<close> of \<open>chunk-c466b422\<close>).
\<close>

section \<open>The entry page\<close>

text \<open>\<open>countTime\<close> is the number in the field for the permitted certificates.\<close>

record business_entry =
  be_inputName :: jsstr
  inputAddress :: jsstr
  countTime :: int
  be_radio :: business_op
  be_model :: business
  be_authAddress :: jsstr
  be_rightIcon :: right_icon
  be_popup :: bool
  be_addressList :: "jsstr list"
  be_loading :: bool

definition new_business_entry :: business_entry where
  "new_business_entry =
     \<lparr>be_inputName = [], inputAddress = [], countTime = 1000, be_radio = Auth,
      be_model = new_business, be_authAddress = [], be_rightIcon = ICON_ARROW_DOWN,
      be_popup = False, be_addressList = [], be_loading = True\<rparr>"

definition onChangeAuthType :: "business_op \<Rightarrow> business_entry \<Rightarrow> effect list \<times> business_entry" where
  "onChangeAuthType t pg =
     (if t = Auth then
        ([], pg\<lparr>be_model := (be_model pg)\<lparr>b_authType := Auth\<rparr>, be_rightIcon := ICON_SCAN\<rparr>)
      else if t = Delete then
        ([], pg\<lparr>be_model := (be_model pg)\<lparr>b_authType := Delete\<rparr>, be_rightIcon := ICON_ARROW_DOWN\<rparr>)
      else
        ([ToastShow (Tr ''operateTypeIsError'')], pg\<lparr>be_model := (be_model pg)\<lparr>b_authType := Auth\<rparr>\<rparr>))"

definition select_business_radio :: "business_op \<Rightarrow> business_entry \<Rightarrow> effect list \<times> business_entry" where
  "select_business_radio t pg =
     (if be_radio pg = t then ([], pg) else onChangeAuthType t (pg\<lparr>be_radio := t\<rparr>))"

definition business_entry_mounted ::
  "page_env \<Rightarrow> 'e + business list \<Rightarrow> business_entry \<Rightarrow> effect list \<times> business_entry" where
  "business_entry_mounted env r pg =
     (if ContractAddress env = [] then
        ([ToastShow (Tr ''contractAddressIsNull'')], pg\<lparr>be_loading := False\<rparr>)
      else
        (let pg1 = pg\<lparr>be_loading := False, be_authAddress := account env\<rparr>
         in case r of
              Inl _ \<Rightarrow> ([ToastFail (Tr ''plsCheckCaInfo'')], pg1)
            | Inr bs \<Rightarrow>
                ([], pg1\<lparr>be_addressList := be_addressList pg1 @
                       map (\<lambda>b. picker_line (b_name b) (b_address b)) bs\<rparr>)))"

definition scanOrChooseAddress :: "business_entry \<Rightarrow> effect list \<times> business_entry" where
  "scanOrChooseAddress pg =
     (if be_radio pg = Auth then ([NativeQrScanToJs], pg) else ([], pg\<lparr>be_popup := True\<rparr>))"

text \<open>The continuation of the scan: a text with a separator is dropped without a word.\<close>

definition business_scanned :: "jsstr \<Rightarrow> business_entry \<Rightarrow> effect list \<times> business_entry" where
  "business_scanned e pg =
     (if index_of e [59] = -1 then ([ToastShow (Tr ''qrInfoRegistered'')], pg\<lparr>inputAddress := e\<rparr>)
      else ([], pg))"

definition business_confirmPickerAddress :: "jsstr option \<Rightarrow> business_entry \<Rightarrow> business_entry" where
  "business_confirmPickerAddress t pg =
     (let pg1 = pg\<lparr>be_popup := False\<rparr>
      in case t of
           None \<Rightarrow> pg1
         | Some s \<Rightarrow>
             if s = [] then pg1
             else pg1\<lparr>be_inputName := fst (split_line s), inputAddress := snd (split_line s)\<rparr>)"

definition clickNextStep :: "business_entry \<Rightarrow> store \<Rightarrow> effect list \<times> business_entry \<times> store" where
  "clickNextStep pg st =
     (if is_address (Some (inputAddress pg)) then
        (if be_radio pg = Auth \<and> countTime pg \<le> 0 then
           ([ToastShow (Tr ''verifyAuthCount'')], pg, st)
         else
           (let b = (be_model pg)\<lparr>b_authAddress := be_authAddress pg, maxCount := countTime pg,
                      b_name := be_inputName pg, b_address := inputAddress pg\<rparr>
            in ([Push ''business_confirm''], pg\<lparr>be_model := b\<rparr>, commit (UpdateNowBusiness b) st)))
      else ([ToastShow (Tr ''verifyAddressError'')], pg, st))"

section \<open>The list\<close>

record business_list =
  showList :: "business list"
  cacheBusinessList :: "business list"
  searchValue :: jsstr
  bl_finished :: bool
  bl_loading :: bool
  bl_overlay :: bool

definition new_business_list :: business_list where
  "new_business_list =
     \<lparr>showList = [], cacheBusinessList = [], searchValue = [], bl_finished = True,
      bl_loading = False, bl_overlay = True\<rparr>"

definition business_match :: "(jsstr \<Rightarrow> jsstr) \<Rightarrow> jsstr \<Rightarrow> business \<Rightarrow> bool" where
  "business_match lower q b \<longleftrightarrow>
     lower (js_trim (b_name b)) = lower (js_trim q) \<or>
     lower (js_trim (b_address b)) = lower (js_trim q)"

definition business_onSearch :: "(jsstr \<Rightarrow> jsstr) \<Rightarrow> business_list \<Rightarrow> effect list \<times> business_list" where
  "business_onSearch lower pg =
     (if 1 \<le> length (cacheBusinessList pg) then
        (let found = filter (business_match lower (searchValue pg)) (cacheBusinessList pg)
         in (if found = [] then [ToastFail (Tr ''noSearchResult'')] else [], pg\<lparr>showList := found\<rparr>))
      else ([ToastShow (Tr ''emptyChainData'')], pg))"

definition business_onLoad ::
  "page_env \<Rightarrow> 'e + business list \<Rightarrow> business_list \<times> store \<Rightarrow>
   effect list \<times> business_list \<times> store" where
  "business_onLoad env r ps =
     (let pg = (fst ps)\<lparr>bl_loading := False, bl_finished := True, bl_overlay := False\<rparr>
      in if ContractAddress env = [] then ([ToastShow (Tr ''contractAddressIsNull'')], pg, snd ps)
         else case r of
           Inl _ \<Rightarrow> ([ToastShow (Tr ''unknownErrorPlsRecheck'')], pg, snd ps)
         | Inr bs \<Rightarrow>
             (if bs = [] then [ToastShow (Tr ''emptyChainData'')] else [],
              pg\<lparr>cacheBusinessList := bs, showList := bs\<rparr>, (snd ps)\<lparr>businesses := bs\<rparr>))"

definition showBusiness :: "business \<Rightarrow> store \<Rightarrow> effect list \<times> store" where
  "showBusiness b st = ([Push ''business_detail''], commit (UpdateNowBusiness b) st)"

section \<open>Detail and final page\<close>

definition business_detail :: "store \<Rightarrow> business" where
  "business_detail st = nowBusiness st"

definition business_process :: "store \<Rightarrow> effect list \<times> string \<times> jsstr \<times> jsstr" where
  "business_process st =
     (let b = nowBusiness st
      in (if b_authType b = Auth \<or> b_authType b = Delete then []
          else [ToastFail (Tr ''operateTypeIsError'')],
          if b_authType b = Auth then ''addBusiness''
          else if b_authType b = Delete then ''deleteBusiness'' else ''unknownType'',
          b_address b, b_name b))"

end
