(* ===== verification/Cert_Pages.thy ===== *)
theory Cert_Pages
  imports Business_Pages
begin

text \<open>
  The pages of the certificates: input (module \<open>5c99\<close> of \<open>chunk-7814d7ca\<close>), signature (\<open>46d4\<close> of
  \<open>chunk-7618b7ac\<close>), list (\<open>76e2\<close> of \<open>chunk-417fe318\<close>), detail (\<open>e003\<close> of \<open>chunk-260ddaea\<close>),
  final page (\<open>4b99\<close> of \<open>chunk-a884be24\<close>), the owner's note (\<open>a046\<close> of \<open>chunk-13a133bc\<close>), and
  the card that shows a certificate (\<open>c7fe\<close>, in every chunk that uses it).
\<close>

section \<open>The input page\<close>

record cert_entry =
  ce_loadingPdf :: bool
  ce_certOwn :: cert_own
  giaValue :: jsstr
  certObjList :: "entry list"

text \<open>\<open>created\<close> offers four properties of a stone without values.\<close>

definition cert_entry_created :: cert_entry where
  "cert_entry_created =
     \<lparr>ce_loadingPdf = False, ce_certOwn = new_cert_own, giaValue = [],
      certObjList = [(lit ''carat'', []), (lit ''color'', []), (lit ''clarity'', []), (lit ''cut'', [])]\<rparr>"

text \<open>
  \<open>afterRead\<close>: what reading the chosen file gave is the argument, \<open>None\<close> when the file has no
  content, an error when the document library rejects it, else its text. The properties that the
  code cuts out of the text are put into a \<open>Gia\<close> object that is not used afterwards; the page
  goes on with a new, empty certificate.
\<close>

definition bad_pdf_msg :: jsstr where
  "bad_pdf_msg = [0x6587, 0x4EF6, 0x4E0D, 0x7B26, 0x5408, 0x47, 0x49, 0x41, 0x8BC1, 0x4E66, 0x683C,
     0x5F0F, 0x2C, 0x8BF7, 0x91CD, 0x65B0, 0x68C0, 0x67E5, 0x6587, 0x4EF6]"

definition afterRead ::
  "(jsstr + jsstr) option \<Rightarrow> cert_entry \<times> store \<Rightarrow> effect list \<times> cert_entry \<times> store" where
  "afterRead r ps =
     (case r of
        None \<Rightarrow> ([ToastShow (Raw bad_pdf_msg)], (fst ps)\<lparr>ce_loadingPdf := False\<rparr>, snd ps)
      | Some (Inl err) \<Rightarrow>
          ([ToastShow (Raw (bad_pdf_msg @ err))], (fst ps)\<lparr>ce_loadingPdf := False\<rparr>, snd ps)
      | Some (Inr pdf) \<Rightarrow>
          ([Push ''cert_sign''], (fst ps)\<lparr>ce_loadingPdf := True, ce_certOwn := new_cert_own\<rparr>,
           (snd ps)\<lparr>nowCertOwn := new_cert_own\<rparr>))"

definition addMoreItem :: "cert_entry \<Rightarrow> effect list \<times> cert_entry" where
  "addMoreItem pg =
     (if 10 < length (certObjList pg) then ([ToastFail (Tr ''canNotAddMore'')], pg)
      else ([], pg\<lparr>certObjList := certObjList pg @ [([], [])]\<rparr>))"

text \<open>
  \<open>onclickOtherNext\<close>: the loop over the typed entries takes those with a name and a value and
  counts their bytes.
\<close>

fun take_items :: "entry list \<Rightarrow> entry list \<times> nat \<Rightarrow> entry list \<times> nat" where
  "take_items [] acc = acc"
| "take_items ((k, v) # es) acc =
     take_items es
       (if js_trim k \<noteq> [] \<and> js_trim v \<noteq> [] then
          (fst acc @ [(k, v)],
           snd acc + length (string_to_bytes k) + length (string_to_bytes v))
        else acc)"

definition onclickOtherNext ::
  "(jsstr \<Rightarrow> jsstr) \<Rightarrow> cert_entry \<Rightarrow> store \<Rightarrow> effect list \<times> cert_entry \<times> store" where
  "onclickOtherNext keccak pg st =
     (if js_trim (giaValue pg) \<noteq> [] then
        (let (es, r) = take_items (certObjList pg) ([(KimId, giaValue pg)], 0)
         in if 256 < r then ([ToastFail (Tr ''notMoreThan'')], pg, st)
            else
              (let co = (ce_certOwn pg)\<lparr>the_cert := new_cert\<lparr>objArray := es\<rparr>\<rparr>;
                   co' = co\<lparr>the_cert := new_cert\<lparr>objArray :=
                           es @ [(CertHash, keccak (assembleJsonInfo co))]\<rparr>\<rparr>
               in ([Push ''cert_sign''], pg\<lparr>ce_certOwn := co'\<rparr>, st\<lparr>nowCertOwn := co'\<rparr>)))
      else ([ToastFail (Tr ''kimNumNotEmpty'')], pg, st))"

section \<open>The signature page\<close>

record cert_sign =
  cs_certOwn :: cert_own
  cs_loading :: bool
  cs_firstEnter :: bool

definition cert_sign_created :: "store \<Rightarrow> cert_sign \<Rightarrow> effect list \<times> cert_sign" where
  "cert_sign_created st pg =
     (SetTitle ''messageSigned'' # (if cs_firstEnter pg then [NativeSaveDappChainInfo] else []),
      pg\<lparr>cs_certOwn := nowCertOwn st, cs_firstEnter := False\<rparr>)"

text \<open>
  \<open>onClickToSign\<close> assembles the message; \<open>cert_assembled\<close> is its continuation, which looks at
  the account but not at the text; \<open>cert_signed\<close> stores what the native side answers.
\<close>

definition onClickToSign ::
  "chain_lib \<Rightarrow> chain \<Rightarrow> page_env \<Rightarrow> cert_sign \<Rightarrow> client \<Rightarrow>
   (jsstr \<times> effect list) \<times> cert_sign \<times> client" where
  "onClickToSign lib ch env pg cl =
     (let (cid, c) = getId (the_cert (cs_certOwn pg));
          co = (cs_certOwn pg)\<lparr>the_cert := c\<rparr>;
          (r, cl1) = assembleAddCertInfo lib ch env cid co (account env) default_gas cl
      in (r, pg\<lparr>cs_certOwn := co, cs_loading := True\<rparr>, cl1))"

definition cert_assembled ::
  "page_env \<Rightarrow> jsstr \<Rightarrow> cert_sign \<Rightarrow> store \<Rightarrow> effect list \<times> cert_sign \<times> store" where
  "cert_assembled env e pg st =
     (let pg1 = pg\<lparr>cs_loading := False\<rparr>
      in if account env = [] then ([ToastFail (Tr ''businessAddressIsNull'')], pg1, st)
         else ([NativeSignMsg e], pg1, commit (UpdateCertBusinessAddress (account env)) st))"

definition cert_assemble_failed :: "cert_sign \<Rightarrow> effect list \<times> cert_sign" where
  "cert_assemble_failed pg = ([ToastFail (Tr ''assembleDataError'')], pg\<lparr>cs_loading := False\<rparr>)"

definition cert_signed :: "jsstr \<Rightarrow> store \<Rightarrow> effect list \<times> store" where
  "cert_signed e st =
     ([After 1000 [Push ''/frame/cert/confirm'']],
      commit (UpdateNowCertSignState StSuccess) (commit (UpdateNowCertSignedInfo e) st))"

section \<open>The list\<close>

record cert_list =
  cacheAllCertList :: "cert_own list"
  showCertList :: "cert_own list"
  cl_loading :: bool
  cl_finished :: bool
  certSearchNum :: jsstr
  cl_overlay :: bool

definition new_cert_list :: cert_list where
  "new_cert_list =
     \<lparr>cacheAllCertList = [], showCertList = [], cl_loading = False, cl_finished = True,
      certSearchNum = [], cl_overlay = False\<rparr>"

text \<open>
  The search through the cache calls \<open>getId\<close> on one certificate after the other, which stores
  the number it finds in the certificate, and stops at the first match.
\<close>

fun search_cache :: "jsstr \<Rightarrow> cert_own list \<Rightarrow> cert_own option \<times> cert_own list" where
  "search_cache q [] = (None, [])"
| "search_cache q (co # cs) =
     (let (i, c) = getId (the_cert co); co' = co\<lparr>the_cert := c\<rparr>
      in if i \<noteq> [] \<and> i = q then (Some co', co' # cs)
         else (let (r, cs') = search_cache q cs in (r, co' # cs')))"

text \<open>\<open>searchCert\<close>: a hit in the cache is shown; otherwise (\<open>True\<close>) the contract is asked.\<close>

definition searchCert :: "cert_list \<times> store \<Rightarrow> bool \<times> cert_list \<times> store" where
  "searchCert ps =
     (let (r, cs) = search_cache (certSearchNum (fst ps)) (cacheAllCertList (fst ps));
          pg = (fst ps)\<lparr>cacheAllCertList := cs\<rparr>
      in case r of
           Some co \<Rightarrow> (False, pg\<lparr>showCertList := [co]\<rparr>, (snd ps)\<lparr>nowCertOwn := co\<rparr>)
         | None \<Rightarrow> (True, pg\<lparr>cl_overlay := True\<rparr>, snd ps))"

definition searchCert_done ::
  "api_error + cert_own option \<Rightarrow> cert_list \<times> store \<Rightarrow> effect list \<times> cert_list \<times> store" where
  "searchCert_done r ps =
     (let pg = (fst ps)\<lparr>cl_overlay := False\<rparr>
      in case r of
           Inr (Some co) \<Rightarrow> ([], pg\<lparr>showCertList := [co]\<rparr>, (snd ps)\<lparr>nowCertOwn := co\<rparr>)
         | _ \<Rightarrow> ([ToastFail (Tr ''giaNumNotExist'')], pg, snd ps))"

definition cert_onLoad ::
  "page_env \<Rightarrow> 'e + cert_own list \<Rightarrow> cert_list \<Rightarrow> effect list \<times> cert_list" where
  "cert_onLoad env r pg =
     (if ContractAddress env = [] then
        ([ToastShow (Tr ''contractAddressIsNull'')], pg\<lparr>cl_loading := False, cl_finished := True\<rparr>)
      else
        (let pg1 = pg\<lparr>cl_overlay := False, cl_loading := False, cl_finished := True\<rparr>
         in case r of
              Inl _ \<Rightarrow> ([ToastFail (Tr ''unknownErrorPlsRecheck'')], pg1)
            | Inr cs \<Rightarrow>
                (if 1 \<le> length cs then ([], pg1\<lparr>cacheAllCertList := cs, showCertList := cs\<rparr>)
                 else ([ToastFail (Tr ''certListIsEmpty'')], pg1))))"

definition onClickRow :: "jsstr \<Rightarrow> cert_list \<times> store \<Rightarrow> effect list \<times> store" where
  "onClickRow n ps =
     (case List.find (\<lambda>co. fst (getId (the_cert co)) = n) (showCertList (fst ps)) of
        None \<Rightarrow> ([], snd ps)
      | Some co \<Rightarrow> ([Push ''/frame/cert/detail''], (snd ps)\<lparr>nowCertOwn := co\<rparr>))"

section \<open>The card\<close>

text \<open>
  The entries a card shows. For a certificate whose keys are to be translated the loop looks
  every key up in the language table, \<open>tr\<close> (which gives a key back that it does not have), and
  assigns the translation to the entry itself, an object that the certificate in the store
  shares: the second component is the certificate after the card was drawn.
\<close>

fun translate_entries :: "(jsstr \<Rightarrow> jsstr) \<Rightarrow> entry list \<Rightarrow> entry list" where
  "translate_entries tr [] = []"
| "translate_entries tr ((k, v) # es) =
     (if tr k \<noteq> [] then (tr k, v) else (k, v)) # translate_entries tr es"

definition certMap :: "(jsstr \<Rightarrow> jsstr) \<Rightarrow> cert_own \<Rightarrow> entry list \<times> cert_own" where
  "certMap tr co =
     (let c = the_cert co
      in if i18n c then
           (let es = translate_entries tr (objArray c)
            in (es, co\<lparr>the_cert := c\<lparr>objArray := es\<rparr>\<rparr>))
         else (objArray c, co))"

section \<open>Detail, note of the owner, final page\<close>

text \<open>The detail page shows the note when there is one and offers to add it otherwise.\<close>

definition cert_detail_created :: "store \<Rightarrow> bool \<times> jsstr" where
  "cert_detail_created st =
     (if inputData (attachInfo (nowCertOwn st)) \<noteq> [] then
        (True, inputData (attachInfo (nowCertOwn st)))
      else (False, []))"

definition goOwnInput :: "effect list" where
  "goOwnInput = [Push ''own_input'']"

record own_input =
  inputMessage :: jsstr
  kimNum :: jsstr
  oi_firstEnter :: bool

definition own_input_created :: "own_input \<Rightarrow> effect list \<times> own_input" where
  "own_input_created pg =
     (SetTitle ''attachInfoToChain'' # (if oi_firstEnter pg then [NativeSaveDappChainInfo] else []),
      pg\<lparr>oi_firstEnter := False\<rparr>)"

definition own_input_mounted :: "store \<Rightarrow> own_input \<Rightarrow> own_input \<times> store" where
  "own_input_mounted st pg =
     (let (i, c) = getId (the_cert (nowCertOwn st))
      in (pg\<lparr>kimNum := i\<rparr>, st\<lparr>nowCertOwn := (nowCertOwn st)\<lparr>the_cert := c\<rparr>\<rparr>))"

text \<open>
  \<open>onClickSelfSign\<close> with the continuation of the assembly, which asks for a signature of
  whatever text it got.
\<close>

definition onClickSelfSign ::
  "chain_lib \<Rightarrow> chain \<Rightarrow> page_env \<Rightarrow> own_input \<Rightarrow> store \<Rightarrow> client \<Rightarrow>
   effect list \<times> store \<times> client" where
  "onClickSelfSign lib ch env pg st cl =
     (if inputMessage pg \<noteq> [] then
        (let st1 = commit (UpdateCertAttachInputData (inputMessage pg)) st
         in if is_address (Some (account env)) then
              (let ((e, fx), cl1) = assembleAddCertOwnInfo lib ch env (kimNum pg) (inputMessage pg)
                     (account env) default_gas cl
               in (fx @ [NativeSignMsg e], st1, cl1))
            else ([ToastFail (Tr ''notPermitAddress'')], st1, cl))
      else ([ToastFail (Tr ''attachMustNotNull'')], st, cl))"

definition own_signed :: "jsstr \<Rightarrow> store \<Rightarrow> effect list \<times> store" where
  "own_signed e st = ([Push ''own_confirm''], commit (UpdateNowCertSignedInfo e) st)"

definition cert_process_mounted :: "store \<Rightarrow> string \<times> string \<times> jsstr" where
  "cert_process_mounted st =
     (let a = attachInfo (nowCertOwn st)
      in (if certSignStatus a = StSuccess then ''signSuccess'' else ''signFailure'',
          if upChainStatus a = StSuccess then ''successUpChain''
          else if upChainStatus a = StFailure then ''failureUpChain'' else ''uploadingChain'',
          businessAddress a))"

definition own_process_clickToHome :: "effect list" where
  "own_process_clickToHome = [ReplaceRoute ''cert_search'']"

end
