(* ===== verification/Account_Pages.thy ===== *)
theory Account_Pages
  imports Cert_Pages
begin

text \<open>
  The account page (module \<open>c949\<close> of \<open>chunk-9658de64\<close>), where the contract address is shown and
  edited, and the small pages: the frame (\<open>1bd6\<close> of \<open>chunk-7ca391f8\<close>), the report of the gemstone
  institute (\<open>9179\<close> of \<open>chunk-2d0e48f0\<close>) and the page for scanned texts (\<open>2f14\<close> of
  \<open>chunk-2d0be08d\<close>).
\<close>

section \<open>The account page\<close>

record account_info =
  addressContent :: jsstr
  contractAddressValue :: jsstr
  isEditableCA :: bool
  availableCount :: jsstr
  maxCurrentBusinessCount :: jsstr
  editText :: string
  ai_loading :: bool
  qrCodeInfo :: jsstr

definition new_account_info :: account_info where
  "new_account_info =
     \<lparr>addressContent = [], contractAddressValue = [], isEditableCA = False, availableCount = [],
      maxCurrentBusinessCount = lit ''0'', editText = [], ai_loading = False, qrCodeInfo = []\<rparr>"

text \<open>The watcher of \<open>isEditableCA\<close> names the button.\<close>

definition account_stateChange :: "account_info \<Rightarrow> account_info" where
  "account_stateChange pg = pg\<lparr>editText := (if isEditableCA pg then ''save'' else ''edit'')\<rparr>"

text \<open>\<open>toString()\<close> of a difference of two parsed numbers, \<open>None\<close> being \<open>NaN\<close>.\<close>

definition dec_int :: "int option \<Rightarrow> jsstr" where
  "dec_int n =
     (case n of
        None \<Rightarrow> lit ''NaN''
      | Some i \<Rightarrow> if i < 0 then lit ''-'' @ dec_nat (nat (- i)) else dec_nat (nat i))"

definition js_minus :: "int option \<Rightarrow> int option \<Rightarrow> int option" where
  "js_minus a b = (case (a, b) of (Some x, Some y) \<Rightarrow> Some (x - y) | _ \<Rightarrow> None)"

definition doLoadChinInfo ::
  "chain_lib \<Rightarrow> chain \<Rightarrow> page_env \<Rightarrow> account_info \<Rightarrow> client \<Rightarrow> account_info \<times> client" where
  "doLoadChinInfo lib ch env pg cl =
     (let (s, cl1) = loadContractUsedCount lib ch env cl;
          (a, cl2) = loadContractMaxCount lib ch env cl1;
          (m, cl3) = loadMaxCurrentBusinessCount lib ch env cl2
      in (pg\<lparr>maxCurrentBusinessCount := m,
            availableCount := dec_int (js_minus (parse_int a) (parse_int s)),
            ai_loading := False\<rparr>, cl3))"

text \<open>A rejection on the way leaves the counts at zero.\<close>

definition account_load_failed :: "account_info \<Rightarrow> effect list \<times> account_info" where
  "account_load_failed pg =
     ([ToastFail (Tr ''plsCheckCaInfo'')],
      pg\<lparr>maxCurrentBusinessCount := lit ''0'', availableCount := lit ''0'', ai_loading := False\<rparr>)"

definition account_mounted ::
  "chain_lib \<Rightarrow> chain \<Rightarrow> page_env \<Rightarrow> account_info \<Rightarrow> client \<Rightarrow>
   effect list \<times> account_info \<times> client" where
  "account_mounted lib ch env pg cl =
     (let pg1 = pg\<lparr>addressContent := account env, qrCodeInfo := account env,
                   contractAddressValue := ContractAddress env\<rparr>
      in if ContractAddress env = [] then
           ([ToastShow (Tr ''contractAddressIsNull'')], pg1\<lparr>ai_loading := False\<rparr>, cl)
         else if length (ContractAddress env) \<noteq> StandardAddressLength then
           ([ToastShow (Tr ''caLengthIsWrong'')], pg1, cl)
         else (let (pg2, cl1) = doLoadChinInfo lib ch env pg1 cl in ([], pg2, cl1)))"

text \<open>
  \<open>editOrLoadContractAddress\<close>: the first press makes the field editable, the second saves its
  content on the native side and in the page environment and loads the counts again.
\<close>

definition editOrLoadContractAddress ::
  "chain_lib \<Rightarrow> chain \<Rightarrow> page_env \<Rightarrow> account_info \<Rightarrow> client \<Rightarrow>
   effect list \<times> page_env \<times> account_info \<times> client" where
  "editOrLoadContractAddress lib ch env pg cl =
     (if isEditableCA pg then
        (if length (contractAddressValue pg) \<noteq> StandardAddressLength then
           ([ToastShow (Tr ''caLengthIsWrong'')], env, pg, cl)
         else
           (let env1 = setContractAddress (contractAddressValue pg) env;
                (pg1, cl1) = doLoadChinInfo lib ch env1 pg cl
            in ([NativeEditOrLoadCA (contractAddressValue pg)], env1,
                account_stateChange (pg1\<lparr>isEditableCA := False\<rparr>), cl1)))
      else ([], env, account_stateChange (pg\<lparr>isEditableCA := True\<rparr>), cl))"

definition account_scanned :: "jsstr \<Rightarrow> account_info \<Rightarrow> account_info" where
  "account_scanned s pg = pg\<lparr>contractAddressValue := s\<rparr>"

section \<open>Frame, report page, scanned page\<close>

text \<open>
  The watcher of the route in the frame compares the field \<open>tx\<close> of the metadata of both routes,
  which may be missing; a route that is \<open>null\<close> or undefined is \<open>None\<close>.
\<close>

definition frame_Change :: "int option option \<Rightarrow> int option option \<Rightarrow> string \<Rightarrow> string" where
  "frame_Change t e nm =
     (case (t, e) of
        (Some (Some x), Some (Some y)) \<Rightarrow> (if y < x then ''Skright'' else ''Skleft'')
      | _ \<Rightarrow> nm)"

definition frame_onClickLeft :: "effect list" where
  "frame_onClickLeft = [RouterBack]"

definition urlBase :: jsstr where
  "urlBase = lit ''https://www.gia.edu/report-check?reportno=''"

definition gia_url :: "jsstr \<Rightarrow> jsstr" where
  "gia_url giaNumber = urlBase @ giaNumber"

definition scaned_created :: "effect list" where
  "scaned_created = [SetTitle ''scan.certOwn'']"

end
