(* ===== verification/Page_Properties.thy ===== *)
theory Page_Properties
  imports Account_Pages Chain_Properties
begin

text \<open>
  What the pages promise: reports and navigations of a submission, navigation to existing pages,
  the guards of the entry pages, the certificate that the input page builds; and the places
  where a page lets something through or gets stuck.
\<close>

section \<open>Submissions\<close>

text \<open>C8
  On each of the four confirmation pages, whatever statuses, event lists and rejections arrive in
  whatever order, the timers that navigate to the final page are as many as there were
  executions of the contract among the events: none without an execution, and one for each of
  several.
\<close>

theorem navigations_follow_executions:
  "count_list (fst (submit_run cert_events cert_rejected es l))
     (After 1000 [ReplaceRoute ''/frame/cert/process'']) = sum_list (map executions es) \<and>
   count_list (fst (submit_run own_events own_rejected es l))
     (After 500 [Push ''own_process'']) = sum_list (map executions es) \<and>
   count_list (fst (submit_run business_events business_rejected es l))
     (After 1000 [Push ''business_process'']) = sum_list (map executions es) \<and>
   count_list (fst (submit_run original_events original_rejected es l))
     (After 1000 [Push ''original_process'']) = sum_list (map executions es)"
  by (intro conjI cert_page.run_count own_page.run_count business_page.run_count
      original_page.run_count)

text \<open>C33
  What the user of a confirmation page sees of a submission, in every run: a toast appears if and
  only if the extrinsic was dropped, found invalid or rejected, or the events of its final block
  came; and the overlay of a submission goes away with exactly these, but that the page of the
  administrators keeps it after a block without events. So of an extrinsic that ends as usurped
  or with a timeout of its finality, and of one whose events cannot be looked up, the user is told
  nothing, and the overlay stays.
\<close>

theorem user_is_told:
  "(list_ex is_toast (fst (submit_run cert_events cert_rejected es l)) \<longleftrightarrow> list_ex reports es) \<and>
   (list_ex is_toast (fst (submit_run own_events own_rejected es l)) \<longleftrightarrow> list_ex reports es) \<and>
   (list_ex is_toast (fst (submit_run business_events business_rejected es l)) \<longleftrightarrow>
      list_ex reports es) \<and>
   (list_ex is_toast (fst (submit_run original_events original_rejected es l)) \<longleftrightarrow>
      list_ex reports es) \<and>
   (snd (submit_run cert_events cert_rejected es l) \<longleftrightarrow> l \<and> \<not> list_ex reports es) \<and>
   (snd (submit_run own_events own_rejected es l) \<longleftrightarrow> l \<and> \<not> list_ex reports es) \<and>
   (snd (submit_run business_events business_rejected es l) \<longleftrightarrow> l \<and> \<not> list_ex reports es) \<and>
   (snd (submit_run original_events original_rejected es l) \<longleftrightarrow>
      l \<and> \<not> list_ex (ends_overlay (\<lambda>es. es = [])) es) \<and>
   \<not> list_ex reports [Status Usurped, Status FinalityTimeout, EventsFailed]"
proof -
  have "ends_overlay (\<lambda>_. False) = reports"
  proof
    show "ends_overlay (\<lambda>_. False) e = reports e" for e by (cases e) simp_all
  qed
  then show ?thesis
    by (simp add: cert_page.run_toast own_page.run_toast business_page.run_toast
        original_page.run_toast cert_page.run_loading own_page.run_loading
        business_page.run_loading original_page.run_loading)
qed

section \<open>Navigation\<close>

lemma navigates_append: "navigates_well (es @ fs) \<longleftrightarrow> navigates_well es \<and> navigates_well fs"
  by (simp add: navigates_well_def)

lemma navigates_Nil [simp]: "navigates_well []"
  by (simp add: navigates_well_def)

lemma navigates_Cons: "navigates_well (e # es) \<longleftrightarrow> navigates_well [e] \<and> navigates_well es"
  using navigates_append [of "[e]" es] by simp

lemma navigates_event_effects: "navigates_well [nav] \<Longrightarrow> navigates_well (event_effects nav es)"
  by (induction es) (auto simp: navigates_append navigates_Cons [of nav] navigates_well_def)

lemma navigates_report: "navigates_well [nav] \<Longrightarrow> navigates_well (events_report nav es)"
  by (simp add: events_report_def navigates_append navigates_event_effects) (simp add: navigates_well_def)

text \<open>The targets the pages use.\<close>

lemma navigates_targets [simp]:
  "navigates_well [Push ''/frame/cert/detail'']" "navigates_well [Push ''/frame/cert/confirm'']"
  "navigates_well [Push ''cert_sign'']" "navigates_well [Push ''own_input'']"
  "navigates_well [Push ''own_confirm'']" "navigates_well [Push ''original/confirm'']"
  "navigates_well [Push ''auth_admin_record'']" "navigates_well [Push ''auth_admin_detail'']"
  "navigates_well [Push ''business_confirm'']" "navigates_well [Push ''business_detail'']"
  "navigates_well [ReplaceRoute ''cert_search'']" "navigates_well [ReplaceRoute ''business_entry'']"
  "navigates_well [ReplaceRoute ''original_entry'']"
  "navigates_well [After 1000 [ReplaceRoute ''/frame/cert/process'']]"
  "navigates_well [After 500 [Push ''own_process'']]"
  "navigates_well [After 1000 [Push ''business_process'']]"
  "navigates_well [After 1000 [Push ''original_process'']]"
  "navigates_well [After 1000 [Push ''/frame/cert/confirm'']]"
  by code_simp+

lemma navigates_quiet [simp]:
  "navigates_well [ToastShow m]" "navigates_well [ToastShowFor m n]" "navigates_well [ToastFail m]"
  "navigates_well [ToastFailFor m n]" "navigates_well [NativeSignMsg x]"
  "navigates_well [NativeQrScanToJs]" "navigates_well [NativeEditOrLoadCA x]"
  by (simp_all add: navigates_well_def)

text \<open>C38
  No handler navigates to a page that does not exist: the target of every navigation that the
  search page, the menu, the entry, confirmation, list and detail pages can cause is a path or a
  name of the route table, and every chunk that the route loads has an entry in the loader's
  table of scripts.
\<close>

theorem navigation_closed:
  "navigates_well (fst (search_done r1 (pg1, st))) \<and>
   list_all (\<lambda>p. navigates_well (fst (onClickMenu p st))) menu_paths \<and>
   navigates_well (fst (cert_events es l)) \<and> navigates_well (fst (own_events es l)) \<and>
   navigates_well (fst (business_events es l)) \<and> navigates_well (fst (original_events es l)) \<and>
   navigates_well (fst (business_rejected l)) \<and> navigates_well (fst (original_rejected l)) \<and>
   navigates_well (fst (admin_nextStep env pg2 st)) \<and> navigates_well admin_onClickBack \<and>
   navigates_well admin_onClickRight \<and> navigates_well (fst (clickRecordDetail rec st)) \<and>
   navigates_well (fst (clickNextStep pg3 st)) \<and> navigates_well (fst (showBusiness b st)) \<and>
   navigates_well (fst (afterRead r2 (pg4, st))) \<and>
   navigates_well (fst (onclickOtherNext keccak pg4 st)) \<and> navigates_well (fst (cert_signed x st)) \<and>
   navigates_well (fst (onClickRow x (pg5, st))) \<and> navigates_well goOwnInput \<and>
   navigates_well (fst (own_signed x st)) \<and> navigates_well clickToHome"
proof -
  have "list_all (\<lambda>p. navigates_well [Push p]) menu_paths" by code_simp
  then have "list_all (\<lambda>p. navigates_well (fst (onClickMenu p st))) menu_paths"
    by (simp add: onClickMenu_def)
  moreover have "navigates_well (fst (onclickOtherNext keccak pg4 st))"
    by (simp add: onclickOtherNext_def Let_def split_beta)
  moreover have "navigates_well (fst (afterRead r2 (pg4, st)))"
    by (auto simp: afterRead_def split: option.split sum.split)
  moreover have "navigates_well (fst (search_done r1 (pg1, st)))"
    by (auto simp: search_done_def Let_def split: sum.split option.split)
  ultimately show ?thesis
    by (simp add: submit_defs navigates_report admin_nextStep_def admin_onClickBack_def
        admin_onClickRight_def clickRecordDetail_def clickNextStep_def showBusiness_def
        cert_signed_def onClickRow_def goOwnInput_def own_signed_def clickToHome_def
        navigates_Cons [of "ReplaceRoute t" "[e]" for t e] Let_def split: option.split)
qed

section \<open>Administrators and salesmen\<close>

text \<open>
  The pickers of both entry pages: choosing the line of a person gives back the name and the
  address of that person exactly when the name has no semicolon.
\<close>

theorem picker_line_split:
  "split_line (picker_line nm addr) = (nm, addr) \<longleftrightarrow> 59 \<notin> set nm"
proof (cases "59 \<in> set nm")
  case False
  then have "index_of (picker_line nm addr) SeparateSymbol = int (length nm)"
    by (simp add: picker_line_def SeparateSymbol_def index_of_sep)
  then show ?thesis
    using False substring_suffix [of "int (length nm) + 1" "picker_line nm addr"]
    by (simp add: split_line_def substring_prefix picker_line_def SeparateSymbol_def nat_add_distrib Let_def)
next
  case True
  then obtain u v where nm: "nm = u @ 59 # v" "59 \<notin> set u" by (meson split_list_first)
  then have "index_of (picker_line nm addr) SeparateSymbol = int (length u)"
    using index_of_sep [of 59 u "v @ SeparateSymbol @ addr"]
    by (simp add: picker_line_def SeparateSymbol_def)
  then have "fst (split_line (picker_line nm addr)) = u"
    by (simp add: split_line_def substring_prefix picker_line_def nm Let_def)
  then show ?thesis using nm by auto
qed

text \<open>
  The guard of the administrators: a deletion is refused exactly when the page lists two
  administrators, so with one administrator left the deletion of the last one goes to the
  confirmation page; an accepted step passes name, address, kind and the user's own address on.
\<close>

theorem admin_deletion_guard:
  assumes "ae_radio pg = DeleteAdmin" and "inputAddressValue pg \<noteq> []" and "ae_inputName pg \<noteq> []"
  shows "(fst (admin_nextStep env pg st) = [Push ''original/confirm''] \<longleftrightarrow>
      length (ae_addressList pg) \<noteq> 2) \<and>
    (length (ae_addressList pg) = 1 \<longrightarrow>
      authType (authOriginalTxModel (snd (admin_nextStep env pg st))) = DeleteAdmin \<and>
      targetTxAddress (authOriginalTxModel (snd (admin_nextStep env pg st))) = inputAddressValue pg \<and>
      nowAdminAddress (authOriginalTxModel (snd (admin_nextStep env pg st))) = account env) \<and>
    originalAddressModelList (authOriginalTxModel (snd (admin_nextStep env pg st))) =
      originalAddressModelList (authOriginalTxModel st)"
  using assms by (simp add: admin_nextStep_def MAX_ADMIN_COUNT_def new_auth_original_tx_def Let_def)

theorem admin_deletion_guard_witness:
  "fst (admin_nextStep initial_env (new_admin_entry\<lparr>ae_radio := DeleteAdmin,
     inputAddressValue := [1], ae_inputName := [2], ae_addressList := [[3]]\<rparr>) initial_store) =
   [Push ''original/confirm'']"
  using admin_deletion_guard [of "new_admin_entry\<lparr>ae_radio := DeleteAdmin,
     inputAddressValue := [1], ae_inputName := [2], ae_addressList := [[3]]\<rparr>" initial_env initial_store]
  by simp

lemma admin_lines_eq:
  "admin_lines lower me as (pg, st) =
     (pg\<lparr>ae_addressList := ae_addressList pg @ map (\<lambda>a. picker_line (am_name a) (am_address a)) as,
        isShowRecord := isShowRecord pg \<or> list_ex (\<lambda>a. lower (am_address a) = lower me) as\<rparr>,
      upd_admins (\<lambda>l. l @ as) st)"
  by (induction as arbitrary: pg st) (simp_all add: upd_admins_def)

text \<open>
  Entering the page of the administrators with the list the chain gave: the picker and the store
  get exactly these administrators in order, replacing what the store had; the button for adding
  is disabled exactly with three of them; the records are open to the user exactly when one of the
  addresses is the user's own, up to case.
\<close>

theorem admin_entry_loaded:
  assumes "ContractAddress env \<noteq> []" and "as \<noteq> []"
    and "admin_mounted lower env (Inr as) (new_admin_entry, st) = (fx, pg, st')"
  shows "fx = [] \<and> ae_addressList pg = map (\<lambda>a. picker_line (am_name a) (am_address a)) as \<and>
    originalAddressModelList (authOriginalTxModel st') = as \<and>
    (isDisableAddAdminRadio pg \<longleftrightarrow> length as = 3) \<and>
    ae_radio pg = (if length as = 3 then DeleteAdmin else AddAdmin) \<and>
    (isShowRecord pg \<longleftrightarrow> list_ex (\<lambda>a. lower (am_address a) = lower (account env)) as) \<and>
    \<not> ae_loading pg"
proof -
  obtain a as' where as: "as = a # as'" using assms(2) by (cases as) auto
  show ?thesis
    using assms(1,3)
    by (auto simp: as admin_mounted_def admin_lines_eq select_admin_radio_def admin_Change_def
        new_admin_entry_def upd_admins_def MAX_ADMIN_COUNT_def Let_def simp del: admin_lines.simps
        split: if_splits)
qed

theorem admin_entry_loaded_witness:
  "ae_radio (fst (snd (admin_mounted id (setContractAddress [1] initial_env)
     (Inr [\<lparr>am_index = [], am_name = [2], am_address = [3], signStatus = False, signInfo = []\<rparr>]
        :: api_error + address_model list)
     (new_admin_entry, initial_store)))) = AddAdmin"
proof -
  let ?as = "[\<lparr>am_index = [], am_name = [2], am_address = [3], signStatus = False, signInfo = []\<rparr>]"
  let ?r = "admin_mounted id (setContractAddress [1] initial_env)
      (Inr ?as :: api_error + address_model list) (new_admin_entry, initial_store)"
  have "?r = (fst ?r, fst (snd ?r), snd (snd ?r))" by simp
  from admin_entry_loaded [OF _ _ this] show ?thesis
    by (simp add: setContractAddress_def)
qed

text \<open>C32
  Confirming a salesman: the native side is asked for a signature exactly when the user's own
  address and the salesman's address are well-formed, once, and then for the text of the call that
  the page shows: for an authorisation the call that enters the salesman's address, name and
  count, for anything else the call that removes the address, built for the contract in use, with
  the nonce of the user and the versions of the chain. Otherwise the assembly is reported as
  failed. The law about the chain library: the text of a structure is not blank.
\<close>

theorem business_sign_requested:
  assumes "\<forall>p. js_trim (payload_hex lib p) \<noteq> []"
    and "business_onClickDConfirm lib ch env pg cl = ((s, fx), pg1, cl1)"
    and "business_assembled s pg1 = (fy, pg2)"
    and "b = businessModel pg"
    and "k = (if b_authType b = Auth
           then BusinessEdit 0 500000000000 (b_address b) (stringToHex lib (b_name b)) (maxCount b)
           else BusinessRemove 0 500000000000 (b_address b))"
  shows "fx @ fy =
      (if length (account env) = 48 \<and> length (b_address b) = 48 then
         [ToastShow (Tr ''plsInputPwdAndSign''),
          NativeSignMsg (payload_hex lib
            \<lparr>fun_bytes = call_bytes lib (snd (fst (loadApiContract env cl))) k,
             index = account_nonce ch (account env), genesis = genesis_hash ch,
             version = spec_version ch, tx_version = transaction_version ch\<rparr>)]
       else [bad_address, ToastFail (Tr ''assembleDataError'')]) \<and>
    businessModel pg2 = b \<and> \<not> bc_loading pg2"
proof -
  have "snd (fst (loadApiContract env (snd (loadApiPromise cl)))) = snd (fst (loadApiContract env cl))"
    by (simp add: loadApiContract_def loadApiPromise_def Let_def split: option.split)
  then show ?thesis
    using assms
    by (auto simp: business_onClickDConfirm_def assembleOperateBusiness_def business_assembled_def
        payload_def default_gas_def js_trim_def bad_address_def Let_def split_beta)
qed

theorem business_sign_requested_witness:
  "let lib = sample_lib\<lparr>payload_hex := \<lambda>p. lit ''0x'' @ map of_nat (fun_bytes p),
         call_bytes := \<lambda>a k. case k of BusinessEdit _ _ _ _ n \<Rightarrow> [1, nat n] | _ \<Rightarrow> [2]\<rparr>;
       env = setAddress (replicate 48 53) initial_env;
       pg = new_business_confirm\<lparr>businessModel :=
         new_business\<lparr>b_address := replicate 48 54, maxCount := 7, b_authType := Auth\<rparr>\<rparr>;
       r = business_onClickDConfirm lib (sample_chain []) env pg new_client
   in snd (fst r) @ fst (business_assembled (fst (fst r)) (fst (snd r))) =
      [ToastShow (Tr ''plsInputPwdAndSign''), NativeSignMsg [48, 120, 1, 7]]"
proof -
  let ?lib = "sample_lib\<lparr>payload_hex := \<lambda>p. lit ''0x'' @ map of_nat (fun_bytes p),
      call_bytes := \<lambda>a k. case k of BusinessEdit _ _ _ _ n \<Rightarrow> [1, nat n] | _ \<Rightarrow> [2]\<rparr>"
  let ?env = "setAddress (replicate 48 53) initial_env"
  let ?pg = "new_business_confirm\<lparr>businessModel :=
      new_business\<lparr>b_address := replicate 48 54, maxCount := 7, b_authType := Auth\<rparr>\<rparr>"
  let ?r = "business_onClickDConfirm ?lib (sample_chain []) ?env ?pg new_client"
  have "\<forall>p. js_trim (payload_hex ?lib p) \<noteq> []"
    by (simp add: js_trim_def js_space_def lit_def)
  moreover have "?r = ((fst (fst ?r), snd (fst ?r)), fst (snd ?r), snd (snd ?r))" by simp
  ultimately show ?thesis
    using business_sign_requested [of ?lib "sample_chain []" ?env ?pg new_client "fst (fst ?r)"
        "snd (fst ?r)" "fst (snd ?r)" "snd (snd ?r)" _ _ "businessModel ?pg",
        OF _ _ surjective_pairing]
    by (simp add: Let_def setAddress_def lit_def)
qed

text \<open>
  The page that confirms an administrator gets stuck: when the contract has no stored nonce the
  assembly of the message is rejected, the overlay stays, nothing is shown, and the button still
  asks for a signature of the empty text.
\<close>

theorem original_confirm_stuck:
  assumes "is_address (Some (account env))" and "is_address (Some (targetTxAddress (authOriginalTxModel st)))"
    and "storage ch (ContractAddress env) (storage_key 3) = None" and "waitSignInfo pg = []"
    and "original_mounted lib ch env st pg cl = (fx, pg1, cl1)"
  shows "fx = [] \<and> isLoadingAccount pg1 \<and> verifyPwdAndBroadcast pg1 = [NativeSignMsg []]"
  using assms
  by (auto simp: original_mounted_def assembleAdminSingleMessage_def verifyPwdAndBroadcast_def
      split_beta Let_def)

theorem original_confirm_stuck_witness:
  "isLoadingAccount (fst (snd (original_mounted sample_lib (sample_chain [])
     (setAddress (replicate 48 53) initial_env)
     (commit (UpdateAdminModel (new_auth_original_tx\<lparr>targetTxAddress := replicate 48 54\<rparr>)) initial_store)
     new_original_confirm new_client)))"
proof -
  let ?st = "commit (UpdateAdminModel (new_auth_original_tx\<lparr>targetTxAddress := replicate 48 54\<rparr>))
    initial_store"
  show ?thesis
    using original_confirm_stuck [of "setAddress (replicate 48 53) initial_env" ?st "sample_chain []"
        new_original_confirm sample_lib new_client, OF _ _ _ _ prod.collapse [symmetric, THEN trans,
          OF arg_cong2 [OF refl prod.collapse [symmetric], of Pair]]]
    by (simp add: setAddress_def sample_chain_def new_original_confirm_def initial_store_def)
qed

end
