(* ===== verification/Cert_Page_Properties.thy ===== *)
theory Cert_Page_Properties
  imports Account_Pages Chain_Properties
begin

text \<open>
  What the certificate pages and the account page promise, and where they do not keep it: the
  certificate built from the typed entries, the document that is read and dropped, the card that
  renames the entries it shows, the request to sign nothing, and the counts of the old contract.
\<close>

section \<open>Decimal numbers\<close>

definition digit :: "nat \<Rightarrow> jschar" where
  "digit d = of_nat (48 + d)"

lemma below_10: "d < 10 \<Longrightarrow> d \<in> {0 :: nat, 1, 2, 3, 4, 5, 6, 7, 8, 9}"
  by auto

lemma hex_val_digit: "d < 10 \<Longrightarrow> hex_val (digit d) = Some (of_nat d)"
  using below_10 [of d] by (auto simp: digit_def hex_val_def)

lemma digit_not_space: "d < 10 \<Longrightarrow> \<not> js_space (digit d)"
  using below_10 [of d] by (auto simp: digit_def js_space_def)

lemma digit_not_sign: "d < 10 \<Longrightarrow> digit d \<noteq> 43 \<and> digit d \<noteq> 45 \<and> digit d \<noteq> 88 \<and> digit d \<noteq> 120"
  using below_10 [of d] by (auto simp: digit_def)

lemma dec_nat_digits: "\<forall>c \<in> set (dec_nat n). \<exists>d < 10. c = digit d"
proof (induction n rule: dec_nat.induct)
  case (1 n)
  have d: "\<exists>d < 10. of_nat (48 + n mod 10) = digit d"
    by (intro exI [of _ "n mod 10"]) (simp add: digit_def)
  show ?case
  proof (cases "n < 10")
    case True
    then have "dec_nat n = [digit n]" by (subst dec_nat.simps) (simp add: digit_def)
    then show ?thesis using True by auto
  next
    case False
    then have "dec_nat n = dec_nat (n div 10) @ [of_nat (48 + n mod 10)]" by (subst dec_nat.simps) simp
    then show ?thesis using 1 [OF False] d by auto
  qed
qed

lemma dec_nat_nonempty: "dec_nat n \<noteq> []"
  by (subst dec_nat.simps) simp

lemma dec_nat_value: "foldl (\<lambda>a c. 10 * a + uint (the (hex_val c))) 0 (dec_nat n) = int n"
proof (induction n rule: dec_nat.induct)
  case (1 n)
  have v: "uint (the (hex_val (of_nat (48 + d)))) = int d" if "d < 10" for d
  proof -
    have "uint (the (hex_val (digit d))) = int d"
      using that below_10 [OF that] by (auto simp: hex_val_digit)
    then show ?thesis by (simp add: digit_def)
  qed
  show ?case
  proof (cases "n < 10")
    case True
    then show ?thesis using v [OF True] by (subst dec_nat.simps) simp
  next
    case False
    have "uint (the (hex_val (of_nat (48 + n mod 10)))) = int (n mod 10)" by (rule v) simp
    moreover have "10 * int (n div 10) + int (n mod 10) = int n"
      by (metis mult.commute of_nat_add of_nat_mult of_nat_numeral div_mult_mod_eq)
    ultimately show ?thesis
      using 1 False by (subst dec_nat.simps) simp
  qed
qed

lemma parse_int_dec_nat: "parse_int (dec_nat n) = Some (int n)"
proof -
  have hd: "\<exists>d < 10. hd (dec_nat n) = digit d"
    using dec_nat_digits [of n] dec_nat_nonempty [of n] by simp
  obtain c s where cs: "dec_nat n = c # s" using dec_nat_nonempty [of n] by (cases "dec_nat n") auto
  have c: "\<not> js_space c" "c \<noteq> 45" "c \<noteq> 43"
    using hd cs digit_not_space digit_not_sign by auto
  have "\<not> starts_with (dec_nat n) (lit ''0x'') \<and> \<not> starts_with (dec_nat n) (lit ''0X'')"
  proof (cases s)
    case (Cons d s')
    then have "\<exists>e < 10. d = digit e" using dec_nat_digits [of n] cs by simp
    then have "d \<noteq> 120 \<and> d \<noteq> 88" using digit_not_sign by auto
    then show ?thesis by (simp add: cs Cons starts_with_def lit_def)
  qed (simp add: cs starts_with_def lit_def)
  moreover have "takeWhile (\<lambda>c. \<exists>v \<in> set_option (hex_val c). uint v < 10) (dec_nat n) = dec_nat n"
  proof -
    have "\<exists>v \<in> set_option (hex_val c). uint v < 10" if "c \<in> set (dec_nat n)" for c
    proof -
      obtain d where "d < 10" "c = digit d" using dec_nat_digits [of n] \<open>c \<in> set (dec_nat n)\<close> by blast
      then show ?thesis using below_10 [of d] by (auto simp: hex_val_digit)
    qed
    then show ?thesis by simp
  qed
  ultimately show ?thesis
    using c dec_nat_value [of n]
    by (simp add: parse_int_def digits_value_def cs Let_def)
qed

section \<open>The typed certificate\<close>

definition typed :: "entry \<Rightarrow> bool" where
  "typed e \<longleftrightarrow> js_trim (fst e) \<noteq> [] \<and> js_trim (snd e) \<noteq> []"

definition item_bytes :: "entry \<Rightarrow> nat" where
  "item_bytes e = length (string_to_bytes (fst e)) + length (string_to_bytes (snd e))"

lemma take_items_eq:
  "take_items es acc =
     (fst acc @ filter typed es, snd acc + sum_list (map item_bytes (filter typed es)))"
  by (induction es acc rule: take_items.induct) (auto simp: typed_def item_bytes_def)

text \<open>The life of the input page: typing, adding a line, reading a document, going on.\<close>

inductive entry_page :: "(jsstr \<Rightarrow> jsstr) \<Rightarrow> cert_entry \<Rightarrow> bool" for keccak where
  created: "entry_page keccak cert_entry_created"
| number: "entry_page keccak pg \<Longrightarrow> entry_page keccak (pg\<lparr>giaValue := v\<rparr>)"
| item: "entry_page keccak pg \<Longrightarrow>
    entry_page keccak (pg\<lparr>certObjList := (certObjList pg)[i := e]\<rparr>)"
| more: "entry_page keccak pg \<Longrightarrow> entry_page keccak (snd (addMoreItem pg))"
| read: "entry_page keccak pg \<Longrightarrow> entry_page keccak (fst (snd (afterRead r (pg, st))))"
| go_on: "entry_page keccak pg \<Longrightarrow> entry_page keccak (fst (snd (onclickOtherNext keccak pg st)))"

lemma page_lines: "certObjList (fst (snd (onclickOtherNext keccak pg st))) = certObjList pg"
  "certObjList (fst (snd (afterRead r (pg, st)))) = certObjList pg"
  by (auto simp: onclickOtherNext_def afterRead_def Let_def split_beta split: option.split sum.split)

lemma at_most_11: "entry_page keccak pg \<Longrightarrow> length (certObjList pg) \<le> 11"
proof (induction rule: entry_page.induct)
  case created
  show ?case by (simp add: cert_entry_created_def)
next
  case (more pg)
  then show ?case by (auto simp: addMoreItem_def)
qed (simp_all add: page_lines)

text \<open>The bytes of the text of a certificate: six for the punctuation of each entry, one brace.\<close>

lemma entry_bytes: "length (string_to_bytes (entry_text e)) = item_bytes e + 6"
  by (cases e) (simp add: entry_text_eq item_bytes_def string_to_bytes_append encode_unit_def)

lemma entries_bytes:
  "length (string_to_bytes (concat (map entry_text es))) = sum_list (map (\<lambda>e. item_bytes e + 6) es)"
  by (induction es) (simp_all add: string_to_bytes_append entry_bytes)

lemma text_bytes:
  assumes "objArray (the_cert co) \<noteq> []"
  shows "length (string_to_bytes (assembleJsonInfo co)) =
    1 + sum_list (map (\<lambda>e. item_bytes e + 6) (objArray (the_cert co)))"
proof -
  let ?t = "concat (map entry_text (objArray (the_cert co)))"
  obtain u k v where "objArray (the_cert co) = u @ [(k, v)]"
    using assms by (metis rev_exhaust surj_pair)
  then have "?t = (concat (map entry_text u) @ butlast (entry_text (k, v))) @ [44]"
    by (simp add: entry_text_eq butlast_append)
  then obtain t where t: "?t = t @ [44]" by blast
  then have "assembleJsonInfo co = 123 # t @ [125]"
    unfolding assembleJsonInfo_eq t by (simp add: butlast_append)
  then show ?thesis
    using entries_bytes [of "objArray (the_cert co)"] unfolding t
    by (simp add: string_to_bytes_append encode_unit_def)
qed

lemma next_refused:
  assumes "js_trim (giaValue pg) = [] \<or> 256 < sum_list (map item_bytes (filter typed (certObjList pg)))"
  shows "\<exists>m. onclickOtherNext keccak pg st = ([ToastFail (Tr m)], pg, st)"
  using assms by (cases "js_trim (giaValue pg) = []") (auto simp: onclickOtherNext_def take_items_eq)

text \<open>C7
  The certificate that the input page puts into the store, after whatever was typed, added and read
  there: its number is the one typed in; its last entry is the hash of the text that the stored
  certificate without this entry assembles to, so a reader can check it; it has at most thirteen
  entries; and the limit of 256 bytes bounds the text for the contract, which has at most 354
  bytes beside those of the number and of the hash, neither of which is limited. Where the page
  refuses, neither the page nor the store changes and one reason is shown.
\<close>

theorem typed_certificate:
  assumes "entry_page keccak pg" and "onclickOtherNext keccak pg st = (fx, pg1, st1)"
    and "co = nowCertOwn st1" and "es = objArray (the_cert co)"
  shows "if fx = [Push ''cert_sign''] then
      fst (getId (the_cert co)) = giaValue pg \<and>
      last es = (CertHash, keccak (assembleJsonInfo (co\<lparr>the_cert := (the_cert co)\<lparr>objArray := butlast es\<rparr>\<rparr>))) \<and>
      length es \<le> 13 \<and>
      length (string_to_bytes (assembleJsonInfo co)) \<le>
        354 + length (string_to_bytes (giaValue pg)) + length (string_to_bytes (snd (last es)))
    else pg1 = pg \<and> st1 = st \<and> (\<exists>m. fx = [ToastFail (Tr m)])"
proof (cases "js_trim (giaValue pg) = [] \<or> 256 < sum_list (map item_bytes (filter typed (certObjList pg)))")
  case True
  then show ?thesis using assms(2) next_refused [OF True, of keccak st] by auto
next
  case False
  let ?items = "filter typed (certObjList pg)" and ?number = "(KimId, giaValue pg)"
  define body where "body = (ce_certOwn pg)\<lparr>the_cert := new_cert\<lparr>objArray := ?number # ?items\<rparr>\<rparr>"
  have co: "fx = [Push ''cert_sign'']"
    "co = body\<lparr>the_cert := new_cert\<lparr>objArray := ?number # ?items @ [(CertHash, keccak (assembleJsonInfo body))]\<rparr>\<rparr>"
    using False assms(2,3) by (auto simp: onclickOtherNext_def take_items_eq body_def Let_def)
  have es: "es = ?number # ?items @ [(CertHash, keccak (assembleJsonInfo body))]"
    using assms(4) by (simp add: co(2))
  have few: "length ?items \<le> 11"
    using at_most_11 [OF assms(1)] length_filter_le [of typed "certObjList pg"] by linarith
  have keys: "length (string_to_bytes KimId) = 5" "length (string_to_bytes CertHash) = 8"
    by (simp_all add: KimId_def CertHash_def lit_def encode_unit_def)
  have "sum_list (map (\<lambda>e. item_bytes e + 6) ?items) \<le> 256 + 66"
    using False few by (simp add: sum_list_addf sum_list_triv)
  moreover have "length (string_to_bytes (assembleJsonInfo co)) =
      1 + sum_list (map (\<lambda>e. item_bytes e + 6) es)"
    using text_bytes [of co] es assms(4) by simp
  ultimately have "length (string_to_bytes (assembleJsonInfo co)) \<le>
      354 + length (string_to_bytes (giaValue pg)) + length (string_to_bytes (snd (last es)))"
    using keys by (simp add: es item_bytes_def)
  moreover have "co\<lparr>the_cert := (the_cert co)\<lparr>objArray := butlast es\<rparr>\<rparr> = body"
    by (simp add: co(2) es butlast_append body_def)
  moreover have "fst (getId (the_cert co)) = giaValue pg"
    by (simp add: co(2) getId_def new_cert_def)
  ultimately show ?thesis using few by (simp add: co(1) es)
qed

theorem typed_certificate_witness:
  "length (string_to_bytes (assembleJsonInfo (nowCertOwn (snd (snd (onclickOtherNext (\<lambda>t. [53])
     (cert_entry_created\<lparr>giaValue := [65]\<rparr>) initial_store)))))) \<le> 356"
proof -
  let ?pg = "cert_entry_created\<lparr>giaValue := [65]\<rparr>"
  let ?r = "onclickOtherNext (\<lambda>t. [53]) ?pg initial_store"
  have page: "entry_page (\<lambda>t. [53]) ?pg" by (intro entry_page.number entry_page.created)
  have r: "?r = (fst ?r, fst (snd ?r), snd (snd ?r))" by simp
  have go: "fst ?r = [Push ''cert_sign'']"
    by (simp add: onclickOtherNext_def cert_entry_created_def js_trim_def js_space_def Let_def)
  have stored: "snd (last (objArray (the_cert (nowCertOwn (snd (snd ?r)))))) = [53]"
    by (simp add: onclickOtherNext_def cert_entry_created_def js_trim_def js_space_def Let_def)
  from typed_certificate [OF page r refl refl] go stored show ?thesis
    by (simp add: encode_unit_def)
qed

text \<open>
  A document that was read is lost: whatever its text, the page continues with a certificate
  without entries, so the text that is assembled for the chain is a single brace and its number
  is empty.
\<close>

theorem read_document_lost:
  "fst (afterRead (Some (Inr pdf)) (pg, st)) = [Push ''cert_sign''] \<and>
   assembleJsonInfo (nowCertOwn (snd (snd (afterRead (Some (Inr pdf)) (pg, st))))) = lit ''}'' \<and>
   fst (getId (the_cert (nowCertOwn (snd (snd (afterRead (Some (Inr pdf)) (pg, st))))))) = []"
  by (simp add: afterRead_def assembleJsonInfo_eq new_cert_own_def new_cert_def getId_def lit_def)

section \<open>Showing a certificate\<close>

lemma translate_keys: "\<forall>e \<in> set es. tr (fst e) \<noteq> [] \<Longrightarrow>
    translate_entries tr es = map (\<lambda>(k, v). (tr k, v)) es"
  by (induction tr es rule: translate_entries.induct) auto

text \<open>
  Showing renames: a certificate made from a \<open>Gia\<close> object has its number under \<open>gia\<close>; once a card
  has shown it in a language whose table translates the names of its entries, the certificate in
  the store has the translated names and its number is no longer found.
\<close>

theorem card_renames_entries:
  assumes "gia (gia_data g) \<noteq> []" and "obj_id g = []"
    and "\<forall>e \<in> set (objArray (toCert g)). tr (fst e) \<notin> {[], KimId, GiaId}"
  shows "fst (getId (toCert g)) = gia (gia_data g) \<and>
    objArray (the_cert (snd (certMap tr (new_cert_own\<lparr>the_cert := toCert g\<rparr>)))) =
      map (\<lambda>(k, v). (tr k, v)) (objArray (toCert g)) \<and>
    fst (getId (the_cert (snd (certMap tr (new_cert_own\<lparr>the_cert := toCert g\<rparr>))))) = []"
proof -
  let ?es = "objArray (toCert g)"
  have es: "\<exists>es. ?es = (lit ''gia'', gia (gia_data g)) # es \<and> KimId \<notin> fst ` set ?es"
    using assms(1) by (auto simp: toCert_def push_if_def KimId_def Let_def)
  then have "map_of ?es KimId = None" and "map_of ?es GiaId = Some (gia (gia_data g))"
    by (auto simp: map_of_eq_None_iff GiaId_def)
  then have n: "fst (getId (toCert g)) = gia (gia_data g)"
    using assms(2) by (simp add: getId_def find_entry_map_of) (simp add: toCert_def Let_def)
  have t: "translate_entries tr ?es = map (\<lambda>(k, v). (tr k, v)) ?es"
    using assms(3) by (intro translate_keys) auto
  have "KimId \<notin> fst ` set (map (\<lambda>(k, v). (tr k, v)) ?es)"
    and "GiaId \<notin> fst ` set (map (\<lambda>(k, v). (tr k, v)) ?es)"
    using assms(3) by force+
  then have "map_of (map (\<lambda>(k, v). (tr k, v)) ?es) KimId = None"
    and "map_of (map (\<lambda>(k, v). (tr k, v)) ?es) GiaId = None"
    by (simp_all add: map_of_eq_None_iff)
  then have "fst (getId ((toCert g)\<lparr>objArray := map (\<lambda>(k, v). (tr k, v)) ?es\<rparr>)) = []"
    using assms(2) by (simp add: getId_def find_entry_map_of) (simp add: toCert_def Let_def)
  moreover have "i18n (toCert g)" by (simp add: toCert_def Let_def)
  ultimately show ?thesis using n t by (simp add: certMap_def Let_def)
qed

theorem card_renames_entries_witness:
  "fst (getId (the_cert (snd (certMap (\<lambda>k. 84 # k) (new_cert_own\<lparr>the_cert :=
     toCert (new_gia\<lparr>gia_data := (gia_data new_gia)\<lparr>gia := [1]\<rparr>\<rparr>)\<rparr>))))) = []"
  using card_renames_entries [of "new_gia\<lparr>gia_data := (gia_data new_gia)\<lparr>gia := [1]\<rparr>\<rparr>" "\<lambda>k. 84 # k"]
  by (simp add: new_gia_def toCert_def push_if_def KimId_def GiaId_def lit_def Let_def)

section \<open>Signing\<close>

text \<open>
  The signature page asks for a signature of nothing: when the user's account is set but is not
  an address, the assembly reports the bad address and gives the empty text, and the page hands
  this text to the native side and takes whatever comes back as a successful signature, which the
  confirmation page sends.
\<close>

theorem empty_text_signed:
  assumes "account env \<noteq> []" and "length (account env) \<noteq> 48"
    and "onClickToSign lib ch env pg cl = ((s, fx), pg1, cl1)"
  shows "fst (cert_assembled env s pg1 st) = [NativeSignMsg []] \<and> fx = [bad_address] \<and>
    certSignStatus (attachInfo (nowCertOwn (snd (cert_signed x st)))) = StSuccess \<and>
    fst (cert_onClickDConfirm (snd (cert_signed x st)) l) = x"
  using assms
  by (auto simp: onClickToSign_def assembleAddCertInfo_def cert_assembled_def cert_signed_def
      cert_onClickDConfirm_def upd_attach_def Let_def split_beta)

theorem empty_text_signed_witness:
  "fst (cert_assembled (setAddress [1] initial_env)
     (fst (fst (onClickToSign sample_lib (sample_chain []) (setAddress [1] initial_env)
        \<lparr>cs_certOwn = kim_own, cs_loading = False, cs_firstEnter = True\<rparr> new_client)))
     \<lparr>cs_certOwn = kim_own, cs_loading = False, cs_firstEnter = True\<rparr> initial_store) =
   [NativeSignMsg []]"
proof -
  let ?pg = "\<lparr>cs_certOwn = kim_own, cs_loading = False, cs_firstEnter = True\<rparr>"
  let ?r = "onClickToSign sample_lib (sample_chain []) (setAddress [1] initial_env) ?pg new_client"
  have "?r = ((fst (fst ?r), snd (fst ?r)), fst (snd ?r), snd (snd ?r))" by simp
  then have "fst (cert_assembled (setAddress [1] initial_env) (fst (fst ?r)) (fst (snd ?r)) initial_store) =
      [NativeSignMsg []]"
    by (rule empty_text_signed [THEN conjunct1, rotated 2]) (simp_all add: setAddress_def)
  then show ?thesis by (simp add: cert_assembled_def setAddress_def Let_def)
qed

section \<open>The account page\<close>

text \<open>
  Saving another contract address shows the counts of the old contract: once a contract object
  has been built, the page stores the new address and tells the native side, but the number of
  certificates still available is computed from the storage of the contract it was built for.
\<close>

theorem counts_of_old_contract:
  assumes "isEditableCA pg" and "length (contractAddressValue pg) = 48"
    and "apiContract cl = Some (c, old)"
    and "storage ch old (storage_key 0) = Some u" and "storage ch old (storage_key 1) = Some m"
    and "editOrLoadContractAddress lib ch env pg cl = (fx, env1, pg1, cl1)"
  shows "ContractAddress env1 = contractAddressValue pg \<and>
    fx = [NativeEditOrLoadCA (contractAddressValue pg)] \<and>
    availableCount pg1 = dec_int (Some (int (u8aToBn lib m) - int (u8aToBn lib u))) \<and>
    apiContract cl1 = Some (c, old)"
  using assms
  by (auto simp: editOrLoadContractAddress_def StandardAddressLength_def doLoadChinInfo_def
      loadContractUsedCount_def loadContractMaxCount_def loadMaxCurrentBusinessCount_def
      load_count_def loadApiContract_cached get_contract_value_def setContractAddress_def
      account_stateChange_def parse_int_dec_nat js_minus_def Let_def)

theorem counts_of_old_contract_witness:
  "availableCount (fst (snd (snd (editOrLoadContractAddress sample_lib
     ((sample_chain [])\<lparr>storage := \<lambda>a k. if a = [1] then Some [length k] else None\<rparr>) initial_env
     (new_account_info\<lparr>isEditableCA := True, contractAddressValue := replicate 48 53\<rparr>)
     (new_client\<lparr>apiContract := Some (0, [1])\<rparr>))))) = lit ''0''"
proof -
  let ?ch = "(sample_chain [])\<lparr>storage := \<lambda>a k. if a = [1] then Some [length k] else None\<rparr>"
  let ?pg = "new_account_info\<lparr>isEditableCA := True, contractAddressValue := replicate 48 53\<rparr>"
  let ?cl = "new_client\<lparr>apiContract := Some (0, [1])\<rparr>"
  let ?r = "editOrLoadContractAddress sample_lib ?ch initial_env ?pg ?cl"
  have len: "length (storage_key i) = 66" for i by (simp add: storage_key_def)
  have "?r = (fst ?r, fst (snd ?r), fst (snd (snd ?r)), snd (snd (snd ?r)))" by simp
  then have "availableCount (fst (snd (snd ?r))) =
      dec_int (Some (int (u8aToBn sample_lib [66]) - int (u8aToBn sample_lib [66])))"
    by (rule counts_of_old_contract [of ?pg ?cl 0 "[1]" ?ch "[66]" "[66]", THEN conjunct2, THEN conjunct2,
          THEN conjunct1, rotated 5]) (simp_all add: len)
  then show ?thesis by (simp add: dec_int_def dec_nat.simps lit_def)
qed

end
