(* ===== verification/Flow_Properties.thy ===== *)
theory Flow_Properties
  imports Cert_Page_Properties Native_Properties Chain_Submit Keccak_Hex
begin

text \<open>
  What the pages promise together: a certificate typed in on the input page, signed on the
  signature page and stored by the contract is the one the list shows; and every text the
  confirmation page sends was the answer to a request to sign a certificate.
\<close>

section \<open>From the input page to the list\<close>

definition acceptable :: "cert_entry \<Rightarrow> bool" where
  "acceptable pg \<longleftrightarrow> js_trim (giaValue pg) \<noteq> [] \<and>
     sum_list (map item_bytes (filter typed (certObjList pg))) \<le> 256"

definition typed_entries :: "(jsstr \<Rightarrow> jsstr) \<Rightarrow> cert_entry \<Rightarrow> entry list" where
  "typed_entries keccak pg =
     (let es = (KimId, giaValue pg) # filter typed (certObjList pg)
      in es @ [(CertHash, keccak (assembleJsonInfo
           ((ce_certOwn pg)\<lparr>the_cert := new_cert\<lparr>objArray := es\<rparr>\<rparr>)))])"

lemma next_stores:
  "acceptable pg \<Longrightarrow> nowCertOwn (snd (snd (onclickOtherNext keccak pg st))) =
    (ce_certOwn pg)\<lparr>the_cert := new_cert\<lparr>objArray := typed_entries keccak pg\<rparr>\<rparr>"
  by (simp add: acceptable_def onclickOtherNext_def take_items_eq typed_entries_def Let_def)

lemma next_refuses: "\<not> acceptable pg \<Longrightarrow> snd (onclickOtherNext keccak pg st) = (pg, st)"
  by (auto simp: acceptable_def onclickOtherNext_def take_items_eq Let_def)

lemma typed_number: "fst (getId (new_cert\<lparr>objArray := typed_entries keccak pg\<rparr>)) = giaValue pg"
  by (simp add: typed_entries_def getId_def new_cert_def Let_def)

lemma getId_entries: "objArray (snd (getId c)) = objArray c"
  using getId_frame by simp

lemma assemble_getId:
  "assembleJsonInfo (co\<lparr>the_cert := snd (getId (the_cert co))\<rparr>) = assembleJsonInfo co"
  by (simp add: assembleJsonInfo_def getId_entries)

lemma contract_after_connecting:
  "snd (fst (loadApiContract env (snd (loadApiPromise cl)))) = snd (fst (loadApiContract env cl))"
  by (simp add: loadApiContract_def loadApiPromise_def Let_def split: option.split)

text \<open>The call that the signature page has signed for a certificate.\<close>

definition cert_call :: "chain_lib \<Rightarrow> cert_own \<Rightarrow> contract_call" where
  "cert_call lib co = CertAdd 0 default_gas (stringToHex lib (fst (getId (the_cert co))))
     (stringToHex lib (assembleJsonInfo co))"

lemma onClickToSign_text:
  assumes "is_address (Some (account env))"
  shows "fst (onClickToSign lib ch env sg cl) =
    (payload_hex lib (payload lib ch (account env) (snd (fst (loadApiContract env cl)))
       (cert_call lib (cs_certOwn sg))), [])"
  using assms contract_after_connecting [of env cl] assemble_getId [of "cs_certOwn sg"]
  by (simp add: onClickToSign_def assembleAddCertInfo_def cert_call_def split_beta Let_def)

lemma shown_typed: "typed e \<Longrightarrow> shown e = e"
  by (cases e) (simp add: typed_def shown_def)

lemma shown_entries:
  assumes "acceptable pg" and "js_trim (snd (last (typed_entries keccak pg))) \<noteq> []"
  shows "map shown (typed_entries keccak pg) = typed_entries keccak pg"
proof (rule map_idI)
  fix e assume e: "e \<in> set (typed_entries keccak pg)"
  from assms have "js_trim (snd e) \<noteq> []"
    using e by (auto simp: typed_entries_def acceptable_def typed_def Let_def)
  then show "shown e = e" by (cases e) (simp add: shown_def)
qed

lemma list_cert_typed:
  assumes "acceptable pg" and "js_trim (snd (last (typed_entries keccak pg))) \<noteq> []"
    and "\<forall>e \<in> set (typed_entries keccak pg). plain_entry e"
    and "ordered_keys (typed_entries keccak pg)"
    and "cert_detail r =
      assembleJsonInfo ((ce_certOwn pg)\<lparr>the_cert := new_cert\<lparr>objArray := typed_entries keccak pg\<rparr>\<rparr>)"
  shows "list_cert r = Some \<lparr>the_cert = new_cert\<lparr>objArray := typed_entries keccak pg\<rparr>,
    attachInfo = new_attach\<lparr>inputData := ower r, businessAddress := business_id r\<rparr>\<rparr>"
proof -
  let ?co = "(ce_certOwn pg)\<lparr>the_cert := new_cert\<lparr>objArray := typed_entries keccak pg\<rparr>\<rparr>"
  have "typed_entries keccak pg \<noteq> []" by (simp add: typed_entries_def Let_def)
  then have "good_cert ?co" using assms by (simp add: good_cert_def)
  moreover have "r = chain_record (cert_id r) (business_id r) (ower r) ?co"
    using assms(5) by (simp add: chain_record_def)
  ultimately show ?thesis
    using list_cert_good [of ?co "cert_id r" "business_id r" "ower r"] shown_entries [OF assms(1,2)]
    by simp
qed

text \<open>With any hash that is not blank, and a record that holds the text.\<close>

lemma typed_arrives:
  assumes "acceptable pg" and "js_trim (snd (last (typed_entries keccak pg))) \<noteq> []"
    and "\<forall>e \<in> set (typed_entries keccak pg). plain_entry e"
    and "ordered_keys (typed_entries keccak pg)"
    and "st1 = snd (snd (onclickOtherNext keccak pg st))" and "is_address (Some (account env))"
    and "onClickToSign lib ch env (snd (cert_sign_created st1 sg)) cl = ((s, fx), sg1, cl1)"
    and "t = assembleJsonInfo (nowCertOwn st1)" and "cert_detail r = t" and "is_address (Some caller)"
    and "certList ch' (snd (fst (loadApiContract env' cl'))) caller gas = Some (rs @ r # rs')"
  shows "s = payload_hex lib (payload lib ch (account env) (snd (fst (loadApiContract env cl)))
        (CertAdd 0 default_gas (stringToHex lib (giaValue pg)) (stringToHex lib t))) \<and>
    fst (cert_assembled env s sg1 st1) = [NativeSignMsg s] \<and>
    fst (fst (loadCertList ch' env' caller gas cl')) = List.map_filter list_cert rs @
      \<lparr>the_cert = new_cert\<lparr>objArray := typed_entries keccak pg\<rparr>,
       attachInfo = new_attach\<lparr>inputData := ower r, businessAddress := business_id r\<rparr>\<rparr> #
      List.map_filter list_cert rs' \<and>
    fst (getId (new_cert\<lparr>objArray := typed_entries keccak pg\<rparr>)) = giaValue pg"
proof -
  have now: "nowCertOwn st1 =
      (ce_certOwn pg)\<lparr>the_cert := new_cert\<lparr>objArray := typed_entries keccak pg\<rparr>\<rparr>"
    using assms(1,5) next_stores by simp
  have "s = fst (fst (onClickToSign lib ch env (snd (cert_sign_created st1 sg)) cl))"
    using assms(7) by simp
  also have "\<dots> = payload_hex lib (payload lib ch (account env) (snd (fst (loadApiContract env cl)))
      (cert_call lib (nowCertOwn st1)))"
    using assms(6) by (simp add: onClickToSign_text cert_sign_created_def)
  finally have s: "s = payload_hex lib (payload lib ch (account env)
      (snd (fst (loadApiContract env cl)))
      (CertAdd 0 default_gas (stringToHex lib (giaValue pg)) (stringToHex lib t)))"
    using typed_number [of keccak pg] by (simp add: cert_call_def now assms(8))
  have "list_cert r = Some \<lparr>the_cert = new_cert\<lparr>objArray := typed_entries keccak pg\<rparr>,
      attachInfo = new_attach\<lparr>inputData := ower r, businessAddress := business_id r\<rparr>\<rparr>"
    using assms(8,9) now by (intro list_cert_typed [OF assms(1-4)]) simp
  then show ?thesis
    using s assms(6,10,11) typed_number [of keccak pg]
    by (auto simp: loadCertList_def split_beta Let_def cert_assembled_def is_address_def
        map_filter_def)
qed

text \<open>With the hash and the codecs of the vendored libraries.\<close>

definition typed_body :: "cert_entry \<Rightarrow> entry list" where
  "typed_body pg = (KimId, giaValue pg) # filter typed (certObjList pg)"

lemma typed_entries_body: "\<exists>bs. typed_entries (hash_of compiled encoder) pg =
    typed_body pg @ [(CertHash, u8aToHex bs)]"
  using hash_of_hex by (auto simp: typed_entries_def typed_body_def Let_def)

lemma ascii_hex: "c \<in> set (u8aToHex bs) \<Longrightarrow> c < 128"
  using u8aToHex_chars [of bs] by (auto simp: hex_digits_eq)

lemma hash_entry: "plain_entry (CertHash, u8aToHex bs) \<and> paired_entry (CertHash, u8aToHex bs)"
  using hex_plain [of _ bs] paired_plain [of "u8aToHex bs"] ascii_hex [of _ bs]
  by (auto simp: plain_entry_def paired_entry_def CertHash_def lit_def plain_char_def
      high_surrogate_def low_surrogate_def)

lemma assembled_back:
  assumes "\<forall>e \<in> set (objArray (the_cert co)). paired_entry e"
  shows "hex_to_string True (string_to_hex True (assembleJsonInfo co)) = Inr (assembleJsonInfo co)"
  using hex_text_back [OF assembled_text_paired [OF assms]]
  by (cases "concat (map entry_text (objArray (the_cert co))) = []")
    (simp_all add: unmarked_def assembleJsonInfo_eq del: concat_eq_Nil_conv)

text \<open>C1
  A typed certificate arrives: when the input page accepts what was typed in, the text handed to
  the native side is the one of the call that adds this certificate under its number, for the
  user's account; and when the contract later answers with a record whose detail is what the
  hexadecimal of this call stands for, the list shows, at the place of the record, the number, the
  entries with a name and a value in their order and the hash that the vendored library computed,
  and the number is found again. The hypotheses: names and values need no escape in JSON and have
  no surrogate without partner, the names are distinct and no array indices, and the hexadecimal
  is that of the vendored library, on a platform with \<open>TextEncoder\<close> and \<open>TextDecoder\<close>.
\<close>

theorem typed_to_listed:
  assumes "acceptable pg" and "\<forall>e \<in> set (typed_body pg). plain_entry e \<and> paired_entry e"
    and "keccak = hash_of compiled encoder" and "ordered_keys (typed_entries keccak pg)"
    and "st1 = snd (snd (onclickOtherNext keccak pg st))" and "is_address (Some (account env))"
    and "onClickToSign lib ch env (snd (cert_sign_created st1 sg)) cl = ((s, fx), sg1, cl1)"
    and "t = assembleJsonInfo (nowCertOwn st1)" and "stringToHex lib = string_to_hex True"
    and "hex_to_string True (string_to_hex True t) = Inr (cert_detail r)"
    and "is_address (Some caller)"
    and "certList ch' (snd (fst (loadApiContract env' cl'))) caller gas = Some (rs @ r # rs')"
  shows "s = payload_hex lib (payload lib ch (account env) (snd (fst (loadApiContract env cl)))
        (CertAdd 0 default_gas (string_to_hex True (giaValue pg)) (string_to_hex True t))) \<and>
    fst (cert_assembled env s sg1 st1) = [NativeSignMsg s] \<and>
    fst (fst (loadCertList ch' env' caller gas cl')) = List.map_filter list_cert rs @
      \<lparr>the_cert = new_cert\<lparr>objArray := typed_entries keccak pg\<rparr>,
       attachInfo = new_attach\<lparr>inputData := ower r, businessAddress := business_id r\<rparr>\<rparr> #
      List.map_filter list_cert rs' \<and>
    fst (getId (new_cert\<lparr>objArray := typed_entries keccak pg\<rparr>)) = giaValue pg"
proof -
  obtain bs where es: "typed_entries keccak pg = typed_body pg @ [(CertHash, u8aToHex bs)]"
    using typed_entries_body assms(3) by blast
  have now: "nowCertOwn st1 =
      (ce_certOwn pg)\<lparr>the_cert := new_cert\<lparr>objArray := typed_entries keccak pg\<rparr>\<rparr>"
    using assms(1,5) next_stores by simp
  have entries: "plain_entry e \<and> paired_entry e" if "e \<in> set (typed_entries keccak pg)" for e
    using that assms(2) hash_entry [of bs] by (auto simp: es)
  have detail: "cert_detail r = t"
    using assembled_back [of "nowCertOwn st1"] entries assms(8,10) by (simp add: now)
  have hash: "js_trim (snd (last (typed_entries keccak pg))) \<noteq> []"
    using hex_not_blank by (simp add: es)
  have plain: "\<forall>e \<in> set (typed_entries keccak pg). plain_entry e" using entries by blast
  show ?thesis
    using typed_arrives [OF assms(1) hash plain assms(4-8) detail assms(11,12)] unfolding assms(9) .
qed

definition sample_page :: cert_entry where
  "sample_page = cert_entry_created\<lparr>giaValue := lit ''K1'',
     certObjList := [(lit ''carat'', lit ''2''), (lit ''cut'', [])]\<rparr>"

definition sample_env :: page_env where
  "sample_env = setAddress (replicate 48 53) initial_env"

lemma typed_sample:
  "filter typed (certObjList sample_page) = [(lit ''carat'', lit ''2'')]"
  by (simp add: sample_page_def typed_def js_trim_def js_space_def lit_def)

lemma body_sample: "typed_body sample_page = [(KimId, lit ''K1''), (lit ''carat'', lit ''2'')]"
  unfolding typed_body_def typed_sample by (simp add: sample_page_def)

definition sample_entries :: "entry list" where
  "sample_entries = [(KimId, lit ''K1''), (lit ''carat'', lit ''2''), (CertHash, hash_of None True
     (assembleJsonInfo (sample_own [(KimId, lit ''K1''), (lit ''carat'', lit ''2'')])))]"

lemma entries_sample: "typed_entries (hash_of None True) sample_page = sample_entries"
proof -
  have "assembleJsonInfo ((ce_certOwn sample_page)\<lparr>the_cert := new_cert\<lparr>objArray := typed_body sample_page\<rparr>\<rparr>) =
      assembleJsonInfo (sample_own (typed_body sample_page))"
    by (simp add: assembleJsonInfo_def sample_own_def)
  then show ?thesis
    unfolding sample_entries_def body_sample [symmetric]
    by (simp add: typed_entries_def typed_body_def [symmetric] Let_def body_sample)
qed

lemma acceptable_sample: "acceptable sample_page"
  unfolding acceptable_def typed_sample
  using length_string_to_bytes [of "lit ''carat''"] length_string_to_bytes [of "lit ''2''"]
  by (simp add: sample_page_def item_bytes_def js_trim_def js_space_def)
     (simp add: lit_def js_space_def)

theorem typed_to_listed_witness:
  "map the_cert (fst (fst (loadCertList
     (sample_chain [chain_record [1] [2] [3] (sample_own sample_entries)])
     initial_env (replicate 48 53) list_gas new_client))) =
   [new_cert\<lparr>objArray := sample_entries\<rparr>]"
proof -
  let ?k = "hash_of None True" and ?lib = "sample_lib\<lparr>stringToHex := string_to_hex True\<rparr>"
  let ?st = "snd (snd (onclickOtherNext ?k sample_page initial_store))"
  let ?sg = "\<lparr>cs_certOwn = new_cert_own, cs_loading = False, cs_firstEnter = True\<rparr>"
  let ?t = "assembleJsonInfo (nowCertOwn ?st)"
  let ?r = "chain_record [1] [2] [3] (sample_own sample_entries)"
  let ?s = "onClickToSign ?lib (sample_chain []) sample_env (snd (cert_sign_created ?st ?sg))
    new_client"
  have t: "cert_detail ?r = ?t"
    by (simp add: next_stores acceptable_sample entries_sample chain_record_def sample_own_def
        assembleJsonInfo_def)
  have body: "\<forall>e \<in> set (typed_body sample_page). plain_entry e \<and> paired_entry e"
    unfolding body_sample
    by (simp add: plain_entry_def paired_entry_def plain_char_def KimId_def lit_def
        high_surrogate_def low_surrogate_def)
  have ordered: "ordered_keys (typed_entries ?k sample_page)"
    unfolding entries_sample sample_entries_def
    by (simp add: ordered_keys_def KimId_def CertHash_def lit_def is_index_def
        is_digit16_def)
  have paired: "\<forall>e \<in> set (objArray (the_cert (nowCertOwn ?st))). paired_entry e"
    using body hash_entry typed_entries_body [of None True sample_page]
    by (auto simp: next_stores acceptable_sample)
  have reads: "hex_to_string True (string_to_hex True ?t) = Inr (cert_detail ?r)"
    unfolding t by (rule assembled_back [OF paired])
  have listed: "certList (sample_chain [?r]) (snd (fst (loadApiContract initial_env new_client)))
      (replicate 48 53) list_gas = Some ([] @ ?r # [])"
    by (simp add: sample_chain_def)
  have addr: "is_address (Some (account sample_env))" "is_address (Some (replicate 48 (53 :: jschar)))"
    by (simp_all add: sample_env_def setAddress_def)
  have lib: "stringToHex ?lib = string_to_hex True" by simp
  have "?s = ((fst (fst ?s), snd (fst ?s)), fst (snd ?s), snd (snd ?s))" by simp
  from typed_to_listed [OF acceptable_sample body refl ordered refl addr(1) this refl lib reads addr(2)
      listed]
  have "fst (fst (loadCertList (sample_chain [?r]) initial_env (replicate 48 53) list_gas new_client)) =
      List.map_filter list_cert [] @
      \<lparr>the_cert = new_cert\<lparr>objArray := typed_entries ?k sample_page\<rparr>,
       attachInfo = new_attach\<lparr>inputData := ower ?r, businessAddress := business_id ?r\<rparr>\<rparr> #
      List.map_filter list_cert []"
    by blast
  then show ?thesis
    unfolding entries_sample by (simp add: map_filter_def)
qed

end
