(* ===== verification/Signing_Session.thy ===== *)
theory Signing_Session
  imports Flow_Properties
begin

text \<open>
  A session at the level of the user: certificates come into the store from the input page, from a
  document, a search or the list; texts are assembled on the four pages that ask for signatures,
  the native side answers, and the four confirmation pages send. All of it goes over one bridge
  and, for certificates and notes, over one field of the store. An invariant relates what is sent
  to what was asked and answered.
\<close>

section \<open>The state of a session\<close>

text \<open>
  The four kinds of texts that are signed, the four pages that send, and for each page the kinds
  whose answers it may send: \<open>cert/confirm\<close> and \<open>own/confirm\<close> send the same field of the store.
\<close>

datatype sign_kind = CertText | NoteText | BusinessText | AdminText

datatype send_page = CertPage | NotePage | BusinessPage | AdminPage

fun kinds_of :: "send_page \<Rightarrow> sign_kind list" where
  "kinds_of CertPage = [CertText, NoteText]"
| "kinds_of NotePage = [CertText, NoteText]"
| "kinds_of BusinessPage = [BusinessText]"
| "kinds_of AdminPage = [AdminText]"

text \<open>
  Beside the state of the pages, the client and the bridge a session keeps what happened: every
  value that the certificate in the store has had, the texts that were assembled and not yet
  handed over, the requests for signatures with the promises that wait for them, and what was sent.
\<close>

record issuing =
  now :: store
  signing :: cert_sign
  noting :: own_input
  admin :: original_confirm
  api :: client
  native :: bridge
  seen :: "cert_own list"
  assembled :: "(sign_kind \<times> jsstr) list"
  asked :: "(nat \<times> jsstr \<times> sign_kind) list"
  sent :: "(send_page \<times> jsstr) list"

definition new_issuing :: issuing where
  "new_issuing = \<lparr>now = initial_store,
     signing = \<lparr>cs_certOwn = new_cert_own, cs_loading = False, cs_firstEnter = True\<rparr>,
     noting = \<lparr>inputMessage = [], kimNum = [], oi_firstEnter = True\<rparr>, admin = new_original_confirm,
     api = new_client, native = empty_bridge, seen = [new_cert_own], assembled = [], asked = [],
     sent = []\<rparr>"

definition put :: "store \<Rightarrow> issuing \<Rightarrow> issuing" where
  "put st s = s\<lparr>now := st, seen := nowCertOwn st # seen s\<rparr>"

definition ask :: "sign_kind \<Rightarrow> jsstr \<Rightarrow> bool \<Rightarrow> jsstr \<Rightarrow> issuing \<Rightarrow> issuing" where
  "ask k uid present e s = s\<lparr>native := callNativeSignMsgToJs uid e present (native s),
     asked := (length (replies (native s)), e, k) # asked s\<rparr>"

fun sign_texts :: "effect list \<Rightarrow> jsstr list" where
  "sign_texts [] = []"
| "sign_texts (NativeSignMsg e # fx) = e # sign_texts fx"
| "sign_texts (_ # fx) = sign_texts fx"

text \<open>The request among the effects of a handler; no handler makes more than one.\<close>

definition ask_texts :: "sign_kind \<Rightarrow> jsstr \<Rightarrow> bool \<Rightarrow> effect list \<Rightarrow> issuing \<Rightarrow> issuing" where
  "ask_texts k uid present fx s =
     (case sign_texts fx of [] \<Rightarrow> s | e # _ \<Rightarrow> ask k uid present e s)"

definition take_text :: "sign_kind \<Rightarrow> jsstr \<Rightarrow> issuing \<Rightarrow> issuing" where
  "take_text k e s = s\<lparr>assembled := remove1 (k, e) (assembled s)\<rparr>"

definition deliver :: "send_page \<Rightarrow> jsstr \<Rightarrow> issuing \<Rightarrow> issuing" where
  "deliver pg t s = s\<lparr>sent := (pg, t) # sent s\<rparr>"

section \<open>Steps\<close>

text \<open>
  A certificate object of the list page is one that \<open>loadCertList\<close> or \<open>findCertByGia\<close> made. The
  object is shared with the store once it was put there, so its number may be cached and its
  attachment be one that the store has had since. The same holds of the object of the input page.
\<close>

inductive listed :: "chain_lib \<Rightarrow> cert_own list \<Rightarrow> cert_own \<Rightarrow> bool" for lib earlier where
  from_list: "list_cert r = Some co \<Longrightarrow> listed lib earlier co"
| from_search: "fst (findCertByGia lib ch env own gid gas cl) = Inr (Some co) \<Longrightarrow> listed lib earlier co"
| counted: "listed lib earlier co \<Longrightarrow> listed lib earlier (co\<lparr>the_cert := snd (getId (the_cert co))\<rparr>)"
| shared: "listed lib earlier co \<Longrightarrow> co' \<in> set earlier \<Longrightarrow>
    listed lib earlier (co\<lparr>attachInfo := attachInfo co'\<rparr>)"

text \<open>
  Into the store: the input page is left, a document was read, a search on either page has found
  a certificate, a row is clicked; the number of the certificate in the store is looked up and
  cached, a card shows it; and any change of the other fields of the store. The signature page is
  opened and its button pressed, the continuation runs; likewise the pages of a salesman, of an
  administrator and of the owner's note. Something happens at the bridge; an answer with a text
  is taken by the continuation of the page that asked; a confirmation page sends. The account, the
  chain, the ids and the client's caches may differ from step to step, and a page may be left and
  opened in between in any way.
\<close>

inductive issue_run :: "chain_lib \<Rightarrow> (jsstr \<Rightarrow> jsstr) \<Rightarrow> issuing \<Rightarrow> bool" for lib keccak where
  start: "issue_run lib keccak new_issuing"
| typed_in: "issue_run lib keccak s \<Longrightarrow>
    attachInfo (ce_certOwn pg) \<in> insert new_attach (attachInfo ` set (seen s)) \<Longrightarrow>
    onclickOtherNext keccak pg (now s) = (fx, pg1, st1) \<Longrightarrow> issue_run lib keccak (put st1 s)"
| document: "issue_run lib keccak s \<Longrightarrow> afterRead r (pg, now s) = (fx, pg1, st1) \<Longrightarrow>
    issue_run lib keccak (put st1 s)"
| searched: "issue_run lib keccak s \<Longrightarrow> r = fst (findCertByGia lib ch env own gid gas cl) \<Longrightarrow>
    search_done r (spg, now s) = (fx, spg1, st1) \<Longrightarrow> issue_run lib keccak (put st1 s)"
| searched_cache: "issue_run lib keccak s \<Longrightarrow>
    \<forall>co \<in> set (cacheAllCertList lpg). listed lib (seen s) co \<Longrightarrow>
    searchCert (lpg, now s) = (b, lpg1, st1) \<Longrightarrow> issue_run lib keccak (put st1 s)"
| searched_list: "issue_run lib keccak s \<Longrightarrow> r = fst (findCertByGia lib ch env own gid gas cl) \<Longrightarrow>
    searchCert_done r (lpg, now s) = (fx, lpg1, st1) \<Longrightarrow> issue_run lib keccak (put st1 s)"
| picked: "issue_run lib keccak s \<Longrightarrow> \<forall>co \<in> set (showCertList lpg). listed lib (seen s) co \<Longrightarrow>
    onClickRow n (lpg, now s) = (fx, st1) \<Longrightarrow> issue_run lib keccak (put st1 s)"
| cached_number: "issue_run lib keccak s \<Longrightarrow> co = nowCertOwn (now s) \<Longrightarrow>
    issue_run lib keccak
      (put ((now s)\<lparr>nowCertOwn := co\<lparr>the_cert := snd (getId (the_cert co))\<rparr>\<rparr>) s)"
| drawn: "issue_run lib keccak s \<Longrightarrow>
    issue_run lib keccak (put ((now s)\<lparr>nowCertOwn := snd (certMap tr (nowCertOwn (now s)))\<rparr>) s)"
| elsewhere: "issue_run lib keccak s \<Longrightarrow> nowCertOwn st1 = nowCertOwn (now s) \<Longrightarrow>
    issue_run lib keccak ((put st1 s)\<lparr>api := cl1\<rparr>)"
| opened: "issue_run lib keccak s \<Longrightarrow>
    issue_run lib keccak (s\<lparr>signing := snd (cert_sign_created (now s) (signing s))\<rparr>)"
| pressed: "issue_run lib keccak s \<Longrightarrow>
    onClickToSign lib ch env (signing s) (api s) = ((e, fx), pg1, cl1) \<Longrightarrow>
    issue_run lib keccak (s\<lparr>signing := pg1, api := cl1, assembled := (CertText, e) # assembled s\<rparr>)"
| handed_over: "issue_run lib keccak s \<Longrightarrow> (CertText, e) \<in> set (assembled s) \<Longrightarrow>
    cert_assembled env e (signing s) (now s) = (fx, pg1, st1) \<Longrightarrow>
    issue_run lib keccak
      (ask_texts CertText uid present fx ((put st1 (take_text CertText e s))\<lparr>signing := pg1\<rparr>))"
| business_pressed: "issue_run lib keccak s \<Longrightarrow>
    business_onClickDConfirm lib ch env bpg (api s) = ((e, fx), bpg1, cl1) \<Longrightarrow>
    issue_run lib keccak (s\<lparr>api := cl1, assembled := (BusinessText, e) # assembled s\<rparr>)"
| business_handed: "issue_run lib keccak s \<Longrightarrow> (BusinessText, e) \<in> set (assembled s) \<Longrightarrow>
    business_assembled e bpg = (fx, bpg1) \<Longrightarrow>
    issue_run lib keccak (ask_texts BusinessText uid present fx (take_text BusinessText e s))"
| admin_opened: "issue_run lib keccak s \<Longrightarrow> apg \<in> {new_original_confirm, admin s} \<Longrightarrow>
    original_mounted lib ch env (now s) apg (api s) = (fx, apg1, cl1) \<Longrightarrow>
    issue_run lib keccak (s\<lparr>admin := apg1, api := cl1\<rparr>)"
| admin_pressed: "issue_run lib keccak s \<Longrightarrow>
    issue_run lib keccak (ask_texts AdminText uid present (verifyPwdAndBroadcast (admin s)) s)"
| note_opened: "issue_run lib keccak s \<Longrightarrow> own_input_mounted (now s) npg = (npg1, st1) \<Longrightarrow>
    issue_run lib keccak ((put st1 s)\<lparr>noting := npg1\<rparr>)"
| note_typed: "issue_run lib keccak s \<Longrightarrow>
    issue_run lib keccak (s\<lparr>noting := (noting s)\<lparr>inputMessage := m\<rparr>\<rparr>)"
| note_pressed: "issue_run lib keccak s \<Longrightarrow>
    onClickSelfSign lib ch env (noting s) (now s) (api s) = (fx, st1, cl1) \<Longrightarrow>
    issue_run lib keccak
      ((put st1 s)\<lparr>api := cl1, assembled := map (Pair NoteText) (sign_texts fx) @ assembled s\<rparr>)"
| note_handed: "issue_run lib keccak s \<Longrightarrow> (NoteText, e) \<in> set (assembled s) \<Longrightarrow>
    issue_run lib keccak (ask NoteText uid present e (take_text NoteText e s))"
| bridged: "issue_run lib keccak s \<Longrightarrow> issue_run lib keccak (s\<lparr>native := bridge_step ev (native s)\<rparr>)"
| answered: "issue_run lib keccak s \<Longrightarrow> (p, e, CertText) \<in> set (asked s) \<Longrightarrow>
    replies (native s) ! p = Fulfilled (Some (JStr x)) \<Longrightarrow>
    issue_run lib keccak (put (snd (cert_signed x (now s))) s)"
| note_answered: "issue_run lib keccak s \<Longrightarrow> (p, e, NoteText) \<in> set (asked s) \<Longrightarrow>
    replies (native s) ! p = Fulfilled (Some (JStr x)) \<Longrightarrow>
    issue_run lib keccak (put (snd (own_signed x (now s))) s)"
| business_answered: "issue_run lib keccak s \<Longrightarrow> (p, e, BusinessText) \<in> set (asked s) \<Longrightarrow>
    replies (native s) ! p = Fulfilled (Some (JStr x)) \<Longrightarrow> business_signed x bpg = (t, bpg1) \<Longrightarrow>
    issue_run lib keccak (deliver BusinessPage t s)"
| admin_answered: "issue_run lib keccak s \<Longrightarrow> (p, e, AdminText) \<in> set (asked s) \<Longrightarrow>
    replies (native s) ! p = Fulfilled (Some (JStr x)) \<Longrightarrow> original_signed x (admin s) = (t, apg1) \<Longrightarrow>
    issue_run lib keccak (deliver AdminPage t (s\<lparr>admin := apg1\<rparr>))"
| confirmed: "issue_run lib keccak s \<Longrightarrow> cert_onClickDConfirm (now s) l = (t, l1) \<Longrightarrow>
    issue_run lib keccak (deliver CertPage t s)"
| note_confirmed: "issue_run lib keccak s \<Longrightarrow> own_confirmUpToChain (now s) l = (t, l1) \<Longrightarrow>
    issue_run lib keccak (deliver NotePage t s)"

section \<open>What a text stands for\<close>

text \<open>
  The calls of each kind; those of a certificate or note concern a certificate that was in the
  store (the note page shows an empty number before it was mounted).
\<close>

fun call_for :: "chain_lib \<Rightarrow> cert_own list \<Rightarrow> sign_kind \<Rightarrow> contract_call \<Rightarrow> bool" where
  "call_for lib cs CertText c \<longleftrightarrow> (\<exists>co \<in> set cs. c = cert_call lib co)"
| "call_for lib cs NoteText c \<longleftrightarrow> (\<exists>m cid. c = CertAddOwn 0 default_gas (stringToHex lib cid)
     (stringToHex lib m) \<and> m \<noteq> [] \<and> cid \<in> insert [] ((\<lambda>co. fst (getId (the_cert co))) ` set cs))"
| "call_for lib cs BusinessText c \<longleftrightarrow> (\<exists>a nm n. length a = 48 \<and>
     (c = BusinessEdit 0 default_gas a (stringToHex lib nm) n \<or> c = BusinessRemove 0 default_gas a))"
| "call_for lib cs AdminText c \<longleftrightarrow> (\<exists>n a nm. length a = 48 \<and>
     (c = OriginalEdit 0 default_gas n a (stringToHex lib nm) \<or> c = OriginalRemove 0 default_gas n a))"

text \<open>A text that may be handed to the native side: none, or one of a call of its kind.\<close>

definition signable :: "chain_lib \<Rightarrow> cert_own list \<Rightarrow> sign_kind \<Rightarrow> jsstr \<Rightarrow> bool" where
  "signable lib cs k e \<longleftrightarrow> e = [] \<or>
     (\<exists>ch from a c. length from = 48 \<and> e = payload_hex lib (payload lib ch from a c) \<and>
        call_for lib cs k c)"

definition answer_to ::
  "bridge \<Rightarrow> (nat \<times> jsstr \<times> sign_kind) list \<Rightarrow> sign_kind list \<Rightarrow> jsstr \<Rightarrow> bool" where
  "answer_to b rs ks x \<longleftrightarrow> (\<exists>p e k. (p, e, k) \<in> set rs \<and> k \<in> set ks \<and> p < length (replies b) \<and>
     replies b ! p = Fulfilled (Some (JStr x)))"

text \<open>What a page sends: the answer to a request of its kinds, or nothing was signed.\<close>

definition sendable :: "bridge \<Rightarrow> (nat \<times> jsstr \<times> sign_kind) list \<Rightarrow> send_page \<Rightarrow> jsstr \<Rightarrow> bool" where
  "sendable b rs pg t \<longleftrightarrow>
     answer_to b rs (kinds_of pg) t \<or> pg \<in> {CertPage, NotePage} \<and> t = []"

definition signed_ok :: "bridge \<Rightarrow> (nat \<times> jsstr \<times> sign_kind) list \<Rightarrow> cert_own \<Rightarrow> bool" where
  "signed_ok b rs co \<longleftrightarrow> sendable b rs CertPage (certSignedInfo (attachInfo co))"

section \<open>What the handlers do\<close>

lemma cert_call_cong: "the_cert co = the_cert co' \<Longrightarrow> cert_call lib co = cert_call lib co'"
  by (simp add: cert_call_def assembleJsonInfo_def)

lemma cert_call_getId: "cert_call lib (co\<lparr>the_cert := snd (getId (the_cert co))\<rparr>) = cert_call lib co"
  by (simp add: cert_call_def assemble_getId getId_stable)

lemma list_cert_unsigned: "list_cert r = Some co \<Longrightarrow> certSignedInfo (attachInfo co) = []"
  by (auto simp: list_cert_def new_attach_def split: option.splits)

lemma sign_text_cases:
  assumes "onClickToSign lib ch env pg cl = ((e, fx), pg1, cl1)"
  shows "cs_certOwn pg1 = (cs_certOwn pg)\<lparr>the_cert := snd (getId (the_cert (cs_certOwn pg)))\<rparr>"
    and "e = [] \<or> (length (account env) = 48 \<and> (\<exists>k. e = payload_hex lib
      (payload lib ch (account env) k (cert_call lib (cs_certOwn pg)))))"
proof -
  show "cs_certOwn pg1 = (cs_certOwn pg)\<lparr>the_cert := snd (getId (the_cert (cs_certOwn pg)))\<rparr>"
    using assms by (auto simp: onClickToSign_def split_beta Let_def)
  show "e = [] \<or> (length (account env) = 48 \<and> (\<exists>k. e = payload_hex lib
      (payload lib ch (account env) k (cert_call lib (cs_certOwn pg)))))"
  proof (cases "length (account env) = 48")
    case True
    then show ?thesis using onClickToSign_text [of env lib ch pg cl] assms by auto
  next
    case False
    then show ?thesis
      using assms by (auto simp: onClickToSign_def assembleAddCertInfo_def split_beta Let_def)
  qed
qed

lemma found_unsigned:
  "fst (findCertByGia lib ch env own gid gas cl) = Inr (Some co) \<Longrightarrow> certSignedInfo (attachInfo co) = []"
  by (auto simp: findCertByGia_def new_attach_def Let_def split: option.splits list.splits)

lemma signableI: "length from = 48 \<Longrightarrow> call_for lib cs k c \<Longrightarrow>
    signable lib cs k (payload_hex lib (payload lib ch from a c))"
  unfolding signable_def by blast

lemma call_forI:
  "length a = 48 \<Longrightarrow> call_for lib cs BusinessText (BusinessEdit 0 default_gas a (stringToHex lib nm) i)"
  "length a = 48 \<Longrightarrow> call_for lib cs BusinessText (BusinessRemove 0 default_gas a)"
  "length a = 48 \<Longrightarrow> call_for lib cs AdminText (OriginalEdit 0 default_gas n a (stringToHex lib nm))"
  "length a = 48 \<Longrightarrow> call_for lib cs AdminText (OriginalRemove 0 default_gas n a)"
  "m \<noteq> [] \<Longrightarrow> cid \<in> insert [] ((\<lambda>co. fst (getId (the_cert co))) ` set cs) \<Longrightarrow>
    call_for lib cs NoteText (CertAddOwn 0 default_gas (stringToHex lib cid) (stringToHex lib m))"
  by auto

lemmas sign_intros = signableI call_forI

declare call_for.simps [simp del]

lemma signable_Nil [simp]: "signable lib cs k []"
  by (simp add: signable_def)

lemma business_text_cases:
  assumes "business_onClickDConfirm lib ch env pg cl = ((e, fx), pg1, cl1)"
  shows "signable lib cs BusinessText e"
proof (cases "is_address (Some (account env)) \<and> is_address (Some (b_address (businessModel pg)))")
  case True
  then show ?thesis
    using assms
    by (auto intro!: sign_intros simp: business_onClickDConfirm_def assembleOperateBusiness_def Let_def
        split_beta)
next
  case False
  then show ?thesis
    using assms
    by (auto intro!: sign_intros simp: business_onClickDConfirm_def assembleOperateBusiness_def)
qed

lemma business_sign_texts: "business_assembled e pg = (fx, pg1) \<Longrightarrow> set (sign_texts fx) \<subseteq> {e}"
  by (auto simp: business_assembled_def split: if_splits)

lemma admin_text_cases:
  assumes "original_mounted lib ch env st pg cl = (fx, pg1, cl1)"
    and "signable lib cs AdminText (waitSignInfo pg)"
  shows "signable lib cs AdminText (waitSignInfo pg1)"
proof (cases "is_address (Some (account env)) \<and>
    is_address (Some (targetTxAddress (authOriginalTxModel st)))")
  case True
  then show ?thesis
    using assms
    by (auto intro!: sign_intros simp: original_mounted_def assembleAdminSingleMessage_def Let_def split_beta
        split: option.splits)
next
  case False
  then show ?thesis
    using assms by (auto intro!: sign_intros simp: original_mounted_def assembleAdminSingleMessage_def Let_def)
qed

lemma note_cases:
  assumes "onClickSelfSign lib ch env pg st cl = (fx, st1, cl1)"
    and "kimNum pg \<in> insert [] ((\<lambda>co. fst (getId (the_cert co))) ` set cs)"
  shows "\<forall>e \<in> set (sign_texts fx). signable lib cs NoteText e"
    and "certSignedInfo (attachInfo (nowCertOwn st1)) = certSignedInfo (attachInfo (nowCertOwn st))"
proof -
  show "\<forall>e \<in> set (sign_texts fx). signable lib cs NoteText e"
    using assms
    by (auto intro!: sign_intros simp: onClickSelfSign_def assembleAddCertOwnInfo_def Let_def split_beta
        split: if_splits)
  show "certSignedInfo (attachInfo (nowCertOwn st1)) = certSignedInfo (attachInfo (nowCertOwn st))"
    using assms(1)
    by (auto intro!: sign_intros simp: onClickSelfSign_def upd_attach_def Let_def split_beta split: if_splits)
qed

lemma assembled_cases:
  assumes "cert_assembled env e pg st = (fx, pg1, st1)"
  shows "certSignedInfo (attachInfo (nowCertOwn st1)) = certSignedInfo (attachInfo (nowCertOwn st))"
    and "cs_certOwn pg1 = cs_certOwn pg" and "set (sign_texts fx) \<subseteq> {e}"
  using assms by (auto simp: cert_assembled_def upd_attach_def Let_def split: if_splits)

lemma next_attach:
  assumes "onclickOtherNext keccak pg st = (fx, pg1, st1)"
  shows "nowCertOwn st1 = nowCertOwn st \<or> attachInfo (nowCertOwn st1) = attachInfo (ce_certOwn pg)"
  using assms next_stores [of pg keccak st] next_refuses [of pg keccak st]
  by (cases "acceptable pg") auto

lemma searched_cases:
  assumes "search_done r (pg, st) = (fx, pg1, st1)"
  shows "nowCertOwn st1 = nowCertOwn st \<or> r = Inr (Some (nowCertOwn st1))"
  using assms by (auto simp: search_done_def Let_def split: sum.splits option.splits)

lemma searched_list_cases:
  assumes "searchCert_done r (pg, st) = (fx, pg1, st1)"
  shows "nowCertOwn st1 = nowCertOwn st \<or> r = Inr (Some (nowCertOwn st1))"
  using assms by (auto simp: searchCert_done_def Let_def split: sum.splits option.splits)

lemma search_cache_found: "fst (search_cache q cs) = Some co \<Longrightarrow>
    \<exists>co' \<in> set cs. attachInfo co = attachInfo co'"
proof (induction q cs rule: search_cache.induct)
  case (2 q co' cs)
  then show ?case by (cases "getId (the_cert co')") (auto simp: Let_def split_beta split: if_splits)
qed simp

lemma searched_cache_cases:
  assumes "searchCert (pg, st) = (b, pg1, st1)"
  shows "nowCertOwn st1 = nowCertOwn st \<or>
    (\<exists>co \<in> set (cacheAllCertList pg). attachInfo (nowCertOwn st1) = attachInfo co)"
  using assms search_cache_found [of "certSearchNum pg" "cacheAllCertList pg"]
  by (auto simp: searchCert_def Let_def split_beta split: option.splits)

lemma picked_cases:
  assumes "onClickRow n (pg, st) = (fx, st1)"
  shows "nowCertOwn st1 = nowCertOwn st \<or> nowCertOwn st1 \<in> set (showCertList pg)"
  using assms by (auto simp: onClickRow_def find_Some_iff split: option.splits)

section \<open>The invariant\<close>

lemma signable_more: "signable lib cs k e \<Longrightarrow> set cs \<subseteq> set cs' \<Longrightarrow> signable lib cs' k e"
  unfolding signable_def by (cases k) (fastforce simp: call_for.simps)+

lemma answer_more: "answer_to b rs ks x \<Longrightarrow> answer_to b (r # rs) ks x"
  by (auto simp: answer_to_def)

lemma answer_kept: "answer_to b rs ks x \<Longrightarrow> answer_to (bridge_step ev b) rs ks x"
  using native_bridge.kept [of _ b ev] native_bridge.grows [of b ev]
  by (fastforce simp: answer_to_def)

lemma sendable_kept: "sendable b rs pg t \<Longrightarrow> sendable (bridge_step ev b) rs pg t"
  using answer_kept [of b rs "kinds_of pg" t ev] by (auto simp: sendable_def)

lemma sendable_more: "sendable b rs pg t \<Longrightarrow> sendable b (r # rs) pg t"
  using answer_more [of b rs "kinds_of pg" t r] by (auto simp: sendable_def)

definition issue_inv :: "chain_lib \<Rightarrow> issuing \<Rightarrow> bool" where
  "issue_inv lib s \<longleftrightarrow>
     nowCertOwn (now s) \<in> set (seen s) \<and>
     (\<forall>co \<in> set (seen s). signed_ok (native s) (asked s) co) \<and>
     (\<forall>(pg, t) \<in> set (sent s). sendable (native s) (asked s) pg t) \<and>
     (\<forall>(p, e, k) \<in> set (asked s). p < length (replies (native s)) \<and> signable lib (seen s) k e) \<and>
     (\<forall>(k, e) \<in> set (assembled s). signable lib (seen s) k e) \<and>
     signable lib (seen s) AdminText (waitSignInfo (admin s)) \<and>
     kimNum (noting s) \<in> insert [] ((\<lambda>co. fst (getId (the_cert co))) ` set (seen s)) \<and>
     (\<exists>co \<in> set (seen s). cert_call lib (cs_certOwn (signing s)) = cert_call lib co)"

lemma inv_new: "issue_inv lib new_issuing"
  by (simp add: issue_inv_def new_issuing_def initial_store_def signed_ok_def sendable_def
      new_cert_own_def new_attach_def signable_def new_original_confirm_def)

lemma inv_put:
  assumes inv: "issue_inv lib s" and ok: "signed_ok (native s) (asked s) (nowCertOwn st)"
  shows "issue_inv lib (put st s)"
proof -
  have more: "set (seen s) \<subseteq> set (nowCertOwn st # seen s)" by auto
  show ?thesis
    using inv ok signable_more [OF _ more] unfolding issue_inv_def put_def by auto
qed

lemma inv_now: "issue_inv lib s \<Longrightarrow> signed_ok (native s) (asked s) (nowCertOwn (now s))"
  by (auto simp: issue_inv_def)

text \<open>A certificate with the signature of the one in the store, or with none, may replace it.\<close>

lemma inv_put_same:
  assumes "issue_inv lib s" and "certSignedInfo (attachInfo (nowCertOwn st)) \<in>
    {[], certSignedInfo (attachInfo (nowCertOwn (now s)))}"
  shows "issue_inv lib (put st s)"
  using inv_now [OF assms(1)] assms(2)
  by (intro inv_put [OF assms(1)]) (auto simp: signed_ok_def sendable_def)

lemma inv_ask:
  assumes inv: "issue_inv lib s" and e: "signable lib (seen s) k e"
  shows "issue_inv lib (ask k uid present e s)"
proof -
  let ?b = "callNativeSignMsgToJs uid e present (native s)"
  have b: "?b = bridge_step (Call uid e SignMsgToJs present) (native s)"
    by (simp add: callNativeSignMsgToJs_def)
  have new: "length (replies ?b) = Suc (length (replies (native s)))"
    by (simp add: callNativeSignMsgToJs_def call_def Let_def)
  have "sendable ?b (r # asked s) pg t" if "sendable (native s) (asked s) pg t" for r pg t
    unfolding b by (intro sendable_more sendable_kept that)
  then show ?thesis
    using inv e unfolding issue_inv_def ask_def signed_ok_def by (auto simp: new intro: less_SucI)
qed

lemma inv_ask_texts:
  assumes "issue_inv lib s" and "\<forall>e \<in> set (sign_texts fx). signable lib (seen s) k e"
  shows "issue_inv lib (ask_texts k uid present fx s)"
  using assms by (auto simp: ask_texts_def intro!: inv_ask split: list.split)

lemma inv_take: "issue_inv lib s \<Longrightarrow> issue_inv lib (take_text k e s)"
  unfolding issue_inv_def take_text_def
  by (auto dest: subsetD [OF set_remove1_subset])

lemma inv_deliver:
  "issue_inv lib s \<Longrightarrow> sendable (native s) (asked s) pg t \<Longrightarrow> issue_inv lib (deliver pg t s)"
  by (auto simp: issue_inv_def deliver_def)

lemma inv_taken: "issue_inv lib s \<Longrightarrow> (k, e) \<in> set (assembled s) \<Longrightarrow> signable lib (seen s) k e"
  by (auto simp: issue_inv_def)

text \<open>An answer to a request of a kind may be sent by the pages of that kind.\<close>

lemma inv_answer:
  assumes "issue_inv lib s" and "(p, e, k) \<in> set (asked s)" and "k \<in> set (kinds_of pg)"
    and "replies (native s) ! p = Fulfilled (Some (JStr x))"
  shows "sendable (native s) (asked s) pg x"
  using assms unfolding issue_inv_def sendable_def answer_to_def by fastforce

text \<open>The components that the store and the requests do not touch.\<close>

lemma inv_api: "issue_inv lib (s\<lparr>api := cl\<rparr>) \<longleftrightarrow> issue_inv lib s"
  by (simp add: issue_inv_def)

lemma put_fields [simp]: "seen (put st s) = nowCertOwn st # seen s" "now (put st s) = st"
  "asked (put st s) = asked s" "native (put st s) = native s" "signing (put st s) = signing s"
  "assembled (put st s) = assembled s" "seen (take_text k e s) = seen s" "now (take_text k e s) = now s"
  "api (put st s) = api s" "sent (put st s) = sent s"
  "native (take_text k e s) = native s" "asked (take_text k e s) = asked s"
  by (simp_all add: put_def take_text_def)

lemma inv_assembled:
  assumes "issue_inv lib s" and "\<forall>(k, e) \<in> set xs. signable lib (seen s) k e"
  shows "issue_inv lib (s\<lparr>assembled := xs @ assembled s\<rparr>)"
  using assms by (auto simp: issue_inv_def)

lemma inv_signing:
  assumes "issue_inv lib s"
    and "\<exists>co \<in> set (seen s). cert_call lib (cs_certOwn pg) = cert_call lib co"
  shows "issue_inv lib (s\<lparr>signing := pg\<rparr>)"
  using assms by (simp add: issue_inv_def)

lemma listed_ok:
  assumes "listed lib cs co" and "\<forall>co \<in> set cs. signed_ok b rs co"
  shows "signed_ok b rs co"
  using assms(1)
proof induction
  case (from_list r co)
  then show ?case using list_cert_unsigned by (simp add: signed_ok_def sendable_def)
next
  case (from_search ch env own gid gas cl co)
  then show ?case using found_unsigned by (simp add: signed_ok_def sendable_def)
next
  case (shared co co')
  then show ?case using assms(2) by (simp add: signed_ok_def)
qed (simp add: signed_ok_def)

lemma inv_listed: "issue_inv lib s \<Longrightarrow> listed lib (seen s) co \<Longrightarrow> signed_ok (native s) (asked s) co"
  using listed_ok by (auto simp: issue_inv_def)

lemma inv_put_found:
  assumes "issue_inv lib s" and "nowCertOwn st = nowCertOwn (now s) \<or> r = Inr (Some (nowCertOwn st))"
    and "r = fst (findCertByGia lib ch env own gid gas cl)"
  shows "issue_inv lib (put st s)"
  using assms(2,3) found_unsigned by (intro inv_put_same [OF assms(1)]) auto

lemma run_inv: "issue_run lib keccak s \<Longrightarrow> issue_inv lib s"
proof (induction rule: issue_run.induct)
  case start
  show ?case by (rule inv_new)
next
  case (typed_in s pg fx pg1 st1)
  have "signed_ok (native s) (asked s) (ce_certOwn pg)"
    using typed_in(2,4) by (auto simp: issue_inv_def signed_ok_def sendable_def new_attach_def)
  then show ?case
    using next_attach [OF typed_in(3)] inv_now [OF typed_in(4)]
    by (intro inv_put [OF typed_in(4)]) (auto simp: signed_ok_def)
next
  case (document s r pg fx pg1 st1)
  then show ?case
    by (intro inv_put_same)
      (auto simp: afterRead_def new_cert_own_def new_attach_def split: option.splits sum.splits)
next
  case (searched s r ch env own gid gas cl spg fx spg1 st1)
  then show ?case using searched_cases [OF searched(3)] by (intro inv_put_found)
next
  case (searched_cache s lpg b lpg1 st1)
  show ?case
    using searched_cache_cases [OF searched_cache(3)] searched_cache(2) inv_now [OF searched_cache(4)]
      inv_listed [OF searched_cache(4)]
    by (intro inv_put [OF searched_cache(4)]) (auto simp: signed_ok_def)
next
  case (searched_list s r ch env own gid gas cl lpg fx lpg1 st1)
  then show ?case using searched_list_cases [OF searched_list(3)] by (intro inv_put_found)
next
  case (picked s lpg n fx st1)
  show ?case
    using picked_cases [OF picked(3)] picked(2) inv_now [OF picked(4)] inv_listed [OF picked(4)]
    by (intro inv_put [OF picked(4)]) (auto simp: signed_ok_def)
next
  case (cached_number s co)
  then show ?case by (intro inv_put_same) auto
next
  case (drawn s tr)
  then show ?case by (intro inv_put_same) (auto simp: certMap_def Let_def)
next
  case (elsewhere s st1 cl1)
  then show ?case unfolding inv_api by (intro inv_put_same) auto
next
  case (opened s)
  then show ?case by (intro inv_signing) (auto simp: cert_sign_created_def issue_inv_def)
next
  case (pressed s ch env e fx pg1 cl1)
  note sg = sign_text_cases [OF pressed(2)]
  obtain co where co: "co \<in> set (seen s)" "cert_call lib (cs_certOwn (signing s)) = cert_call lib co"
    using pressed(3) by (auto simp: issue_inv_def)
  then have "signable lib (seen s) CertText e" using sg(2) by (auto intro!: signableI simp: call_for.simps)
  moreover have "\<exists>co \<in> set (seen s). cert_call lib (cs_certOwn pg1) = cert_call lib co"
    using co by (auto simp: sg(1) cert_call_getId)
  ultimately show ?case using pressed(3) by (simp add: issue_inv_def)
next
  case (handed_over s e env fx pg1 st1 uid present)
  note as = assembled_cases [OF handed_over(3)]
  let ?s = "(put st1 (take_text CertText e s))\<lparr>signing := pg1\<rparr>"
  have "signable lib (seen s) CertText e" by (rule inv_taken [OF handed_over(4,2)])
  then have e: "signable lib (seen ?s) CertText e"
    by (rule signable_more) auto
  have "issue_inv lib (put st1 (take_text CertText e s))"
    using as(1) by (intro inv_put_same inv_take handed_over(4)) simp
  moreover have "\<exists>co \<in> set (seen s). cert_call lib (cs_certOwn pg1) = cert_call lib co"
    using handed_over(4) by (simp add: as(2) issue_inv_def)
  ultimately have "issue_inv lib ?s" by (intro inv_signing) auto
  then show ?case using as(3) e by (intro inv_ask_texts) auto
next
  case (business_pressed s ch env bpg e fx bpg1 cl1)
  then show ?case
    using inv_assembled [of lib s "[(BusinessText, e)]"] business_text_cases [OF business_pressed(2)]
    by (simp add: issue_inv_def)
next
  case (business_handed s e bpg fx bpg1 uid present)
  then show ?case
    using business_sign_texts [OF business_handed(3)] inv_taken [OF business_handed(4,2)]
    by (intro inv_ask_texts inv_take) auto
next
  case (admin_opened s apg ch env fx apg1 cl1)
  have "signable lib (seen s) AdminText (waitSignInfo apg)"
    using admin_opened(2,4) by (auto simp: issue_inv_def new_original_confirm_def)
  then show ?case
    using admin_text_cases [OF admin_opened(3)] admin_opened(4) by (simp add: issue_inv_def)
next
  case (admin_pressed s uid present)
  then show ?case
    by (intro inv_ask_texts) (auto simp: verifyPwdAndBroadcast_def issue_inv_def)
next
  case (note_opened s npg npg1 st1)
  have st: "certSignedInfo (attachInfo (nowCertOwn st1)) = certSignedInfo (attachInfo (nowCertOwn (now s)))"
    and "kimNum npg1 = fst (getId (the_cert (nowCertOwn (now s))))"
    using note_opened(2) by (auto simp: own_input_mounted_def split_beta Let_def)
  moreover have "nowCertOwn (now s) \<in> set (seen s)" using note_opened(3) by (simp add: issue_inv_def)
  ultimately show ?case
    using inv_put_same [OF note_opened(3), of st1] by (simp add: issue_inv_def)
next
  case (note_typed s m)
  then show ?case by (simp add: issue_inv_def)
next
  case (note_pressed s ch env fx st1 cl1)
  have "kimNum (noting s) \<in> insert [] ((\<lambda>co. fst (getId (the_cert co))) ` set (seen s))"
    using note_pressed(3) by (simp add: issue_inv_def)
  note nc = note_cases [OF note_pressed(2) this]
  have inv: "issue_inv lib (put st1 s)" using nc(2) by (intro inv_put_same note_pressed(3)) simp
  have "\<forall>e \<in> set (sign_texts fx). signable lib (seen (put st1 s)) NoteText e"
    using nc(1) signable_more [of lib "seen s" NoteText _ "seen (put st1 s)"] by auto
  then show ?case
    using inv_assembled [OF inv, of "map (Pair NoteText) (sign_texts fx)"] by (auto simp: issue_inv_def)
next
  case (note_handed s e uid present)
  then show ?case using inv_taken [OF note_handed(3,2)] by (intro inv_ask inv_take) auto
next
  case (bridged s ev)
  then show ?case
    using sendable_kept native_bridge.grows [of "native s" ev]
    by (fastforce simp: issue_inv_def signed_ok_def)
next
  case (answered s p e x)
  show ?case
    using inv_answer [OF answered(4,2) _ answered(3), of CertPage]
    by (intro inv_put [OF answered(4)]) (simp add: signed_ok_def cert_signed_def upd_attach_def)
next
  case (note_answered s p e x)
  show ?case
    using inv_answer [OF note_answered(4,2) _ note_answered(3), of CertPage]
    by (intro inv_put [OF note_answered(4)]) (simp add: signed_ok_def own_signed_def upd_attach_def)
next
  case (business_answered s p e x bpg t bpg1)
  then show ?case
    using inv_answer [OF business_answered(5,2) _ business_answered(3), of BusinessPage]
    by (intro inv_deliver) (auto simp: business_signed_def)
next
  case (admin_answered s p e x t apg1)
  have "issue_inv lib (s\<lparr>admin := apg1\<rparr>)"
    using admin_answered(4,5) by (auto simp: issue_inv_def original_signed_def)
  then show ?case
    using inv_answer [OF admin_answered(5,2) _ admin_answered(3), of AdminPage] admin_answered(4)
    by (intro inv_deliver) (auto simp: original_signed_def)
next
  case (confirmed s l t l1)
  then show ?case
    using inv_now [OF confirmed(3)]
    by (intro inv_deliver) (auto simp: cert_onClickDConfirm_def signed_ok_def)
next
  case (note_confirmed s l t l1)
  then show ?case
    using inv_now [OF note_confirmed(3)]
    by (intro inv_deliver) (auto simp: own_confirmUpToChain_def signed_ok_def sendable_def)
qed

end
