(* ===== verification/Signing_Properties.thy ===== *)
theory Signing_Properties
  imports Signing_Session
begin

text \<open>What the confirmation pages send, over whole sessions, and a session that sends it late.\<close>

section \<open>Every text that is sent was signed\<close>

text \<open>C9
  Only answered requests are sent. In a session a certificate may come into the store from the
  input page, a document, a search or the list, requests for signatures may be made by the pages
  of a certificate, of a note, of a salesman and of an administrator, in any order, and the native
  side may answer at any time, with a text. A text that a confirmation page sends is then the
  native side's answer to a request that one of its own pages made in this session, where the
  pages of certificates and notes count as one, since they share a field of the store; or it is
  empty, on the two pages of that field, when nothing was signed. And every request was for no text
  at all or for the text of a call of its kind, by a sender with the length of an address: of a
  certificate that was in the store, of a note to the number of such a certificate, of a
  salesman or an administrator. That the text sent by the page of the certificate belongs to the
  certificate of the moment is not promised: the witness sends the signature of a certificate
  while another one is in the store.
\<close>

theorem sent_texts_signed:
  assumes "issue_run lib keccak s" and "(pg, t) \<in> set (sent s)"
  shows "((\<exists>p e k. (p, e, k) \<in> set (asked s) \<and> k \<in> set (kinds_of pg) \<and>
        p < length (replies (native s)) \<and> replies (native s) ! p = Fulfilled (Some (JStr t))) \<or>
      pg \<in> {CertPage, NotePage} \<and> t = []) \<and>
    (\<forall>(p, e, k) \<in> set (asked s). e = [] \<or> (\<exists>ch from a c. length from = 48 \<and>
        e = payload_hex lib (payload lib ch from a c) \<and> call_for lib (seen s) k c))"
proof -
  note inv = run_inv [OF assms(1), unfolded issue_inv_def]
  from inv assms(2) have "sendable (native s) (asked s) pg t" by auto
  moreover have "signable lib (seen s) k e" if "(p, e, k) \<in> set (asked s)" for p e k
    using inv that by auto
  ultimately show ?thesis
    unfolding sendable_def answer_to_def signable_def by blast
qed

section \<open>A late answer\<close>

lemma typed_in_run:
  assumes "issue_run lib keccak s" and "ce_certOwn pg = new_cert_own"
    and "st1 = snd (snd (onclickOtherNext keccak pg (now s)))"
  shows "issue_run lib keccak (put st1 s)"
  using assms by (intro issue_run.typed_in [of lib keccak s pg "fst (onclickOtherNext keccak pg (now s))"
        "fst (snd (onclickOtherNext keccak pg (now s)))"]) (simp_all add: new_cert_own_def)

definition sample_request :: jsstr where
  "sample_request = payload_hex sample_lib (payload sample_lib (sample_chain []) (replicate 48 53)
     (snd (fst (loadApiContract sample_env new_client)))
     (cert_call sample_lib (new_cert_own\<lparr>the_cert := new_cert\<lparr>objArray :=
        typed_entries (\<lambda>_. lit ''ab'') sample_page\<rparr>\<rparr>)))"

lemma first_request:
  "\<exists>s. issue_run sample_lib (\<lambda>_. lit ''ab'') s \<and> asked s = [(0, sample_request, CertText)] \<and> sent s = [] \<and>
     handlers (native s) = [call_name (lit ''a'') \<mapsto> 0] \<and> replies (native s) = [Pending]"
proof -
  let ?k = "\<lambda>_. lit ''ab''"
  have own: "ce_certOwn sample_page = new_cert_own"
    by (simp add: sample_page_def cert_entry_created_def)
  define st1 where "st1 = snd (snd (onclickOtherNext ?k sample_page initial_store))"
  have st1: "nowCertOwn st1 = new_cert_own\<lparr>the_cert := new_cert\<lparr>objArray := typed_entries ?k sample_page\<rparr>\<rparr>"
    by (simp add: st1_def next_stores acceptable_sample own)
  define s1 where "s1 = put st1 new_issuing"
  have 1: "issue_run sample_lib ?k s1"
    unfolding s1_def
    by (rule typed_in_run [OF issue_run.start own]) (simp add: st1_def new_issuing_def)
  define s2 where "s2 = s1\<lparr>signing := snd (cert_sign_created (now s1) (signing s1))\<rparr>"
  have 2: "issue_run sample_lib ?k s2" unfolding s2_def by (rule issue_run.opened [OF 1])
  have "cs_certOwn (signing s2) = nowCertOwn st1" by (simp add: s2_def s1_def cert_sign_created_def)
  then obtain pg3 cl3 where press: "onClickToSign sample_lib (sample_chain []) sample_env (signing s2)
      (api s2) = ((sample_request, []), pg3, cl3)"
    using onClickToSign_text [of sample_env sample_lib "sample_chain []" "signing s2" "api s2"] st1
    by (cases "onClickToSign sample_lib (sample_chain []) sample_env (signing s2) (api s2)")
       (auto simp: s2_def s1_def new_issuing_def sample_env_def setAddress_def sample_request_def)
  define s3 where "s3 = s2\<lparr>signing := pg3, api := cl3, 
      assembled := (CertText, sample_request) # assembled s2\<rparr>"
  have 3: "issue_run sample_lib ?k s3" unfolding s3_def by (rule issue_run.pressed [OF 2 press])
  obtain pg4 st4 where "cert_assembled sample_env sample_request (signing s3) (now s3) =
      ([NativeSignMsg sample_request], pg4, st4)"
    by (simp add: cert_assembled_def sample_env_def setAddress_def Let_def)
  note 4 = issue_run.handed_over [OF 3 _ this, of "lit ''a''" True]
  show ?thesis
    by (rule exI, rule conjI, rule 4)
       (simp_all add: s3_def s2_def s1_def new_issuing_def callNativeSignMsgToJs_def call_def
         new_msg_def empty_bridge_def ask_texts_def ask_def put_def take_text_def Let_def)
qed

lemma sample_answer:
  "json_parse (123 # butlast (concat (map entry_text [(lit ''data'', lit ''S'')])) @ [125]) =
     Some (JObj [(lit ''data'', JStr (lit ''S''))])"
  by (subst json_parse_entries) (simp_all add: members_def plain_entry_def plain_char_def lit_def)

lemma acceptable_sample2: "acceptable (sample_page\<lparr>giaValue := lit ''K2''\<rparr>)"
  using acceptable_sample by (simp add: acceptable_def js_trim_def js_space_def lit_def)

lemma late_answer:
  "\<exists>s. issue_run sample_lib (\<lambda>_. lit ''ab'') s \<and> sent s = [(CertPage, lit ''S'')] \<and>
     asked s = [(0, sample_request, CertText)] \<and>
     fst (getId (the_cert (nowCertOwn (now s)))) = lit ''K2''"
proof -
  let ?k = "\<lambda>_. lit ''ab''" and ?pg = "sample_page\<lparr>giaValue := lit ''K2''\<rparr>"
  obtain s4 where 4: "issue_run sample_lib ?k s4" and q: "asked s4 = [(0, sample_request, CertText)]" "sent s4 = []"
    and h: "handlers (native s4) = [call_name (lit ''a'') \<mapsto> 0]" "replies (native s4) = [Pending]"
    using first_request by blast
  define st5 where "st5 = snd (snd (onclickOtherNext ?k ?pg (now s4)))"
  define s5 where "s5 = put st5 s4"
  have 5: "issue_run sample_lib ?k s5"
    unfolding s5_def
    by (rule typed_in_run [OF 4 _ st5_def]) (simp add: sample_page_def cert_entry_created_def)
  define tx where "tx = 123 # butlast (concat (map entry_text [(lit ''data'', lit ''S'')])) @ [125]"
  define s6 where "s6 = s5\<lparr>native := bridge_step (Reply (call_name (lit ''a'')) tx) (native s5)\<rparr>"
  have 6: "issue_run sample_lib ?k s6" unfolding s6_def by (rule issue_run.bridged [OF 5])
  have r6: "replies (native s6) ! 0 = Fulfilled (Some (JStr (lit ''S'')))"
    using receive_answer [OF _ sample_answer, of "native s5" "call_name (lit ''a'')" 0] h
    by (simp add: s6_def s5_def tx_def outcome_def settle_def props_of_distinct lit_def)
  define s7 where "s7 = put (snd (cert_signed (lit ''S'') (now s6))) s6"
  have 7: "issue_run sample_lib ?k s7"
    unfolding s7_def
    by (rule issue_run.answered [OF 6 _ r6, of sample_request]) (simp add: s6_def s5_def q)
  define s8 where "s8 = deliver CertPage (lit ''S'') s7"
  have "issue_run sample_lib ?k s8"
    unfolding s8_def
    by (rule issue_run.confirmed [OF 7, where l = False])
       (simp add: cert_onClickDConfirm_def s7_def cert_signed_def upd_attach_def)
  moreover have "fst (getId (the_cert (nowCertOwn st5))) = lit ''K2''"
    using typed_number [of ?k ?pg] by (simp add: st5_def next_stores [OF acceptable_sample2])
  ultimately show ?thesis
    using q by (intro exI [of _ s8])
      (simp add: s8_def s7_def s6_def s5_def deliver_def cert_signed_def upd_attach_def)
qed

theorem sent_texts_signed_witness:
  "\<exists>s. issue_run sample_lib (\<lambda>_. lit ''ab'') s \<and> sent s = [(CertPage, lit ''S'')] \<and>
     fst (getId (the_cert (nowCertOwn (now s)))) = lit ''K2'' \<and>
     replies (native s) ! 0 = Fulfilled (Some (JStr (lit ''S'')))"
proof -
  obtain s where s: "issue_run sample_lib (\<lambda>_. lit ''ab'') s" "sent s = [(CertPage, lit ''S'')]"
    "fst (getId (the_cert (nowCertOwn (now s)))) = lit ''K2''" and a: "asked s = [(0, sample_request, CertText)]"
    using late_answer by blast
  have "(CertPage, lit ''S'') \<in> set (sent s)" using s(2) by simp
  from sent_texts_signed [OF s(1) this] a have "replies (native s) ! 0 = Fulfilled (Some (JStr (lit ''S'')))"
    by (auto simp: lit_def)
  with s show ?thesis by blast
qed

end
