(* ===== verification/Lang_Tables.thy ===== *)
theory Lang_Tables
  imports Lang Webpack_Runtime
begin

text \<open>
  The chunks behind the context map of the languages, one line each under
  \<open>app/assets/dist/js\<close>: the four tables, each compiled from its TypeScript and its JavaScript
  source, a second copy of the language module itself (\<open>chunk-2d0b211c\<close>), and five source maps
  that the bundler could not parse and replaced by a module that throws.

  A chunk is the list of the modules it registers, in the form the loader sees them. Of a table
  the names are kept, those of a nested table with the path in front; the texts are left out.
\<close>

section \<open>The chunks\<close>

definition en_ts_chunk :: "(string \<times> mstmt list) list" where
  "en_ts_chunk = [(''0b57'', [Export ''default''])]"

definition en_js_chunk :: "(string \<times> mstmt list) list" where
  "en_js_chunk = [(''5939'', [Export ''default''])]"

definition zh_ts_chunk :: "(string \<times> mstmt list) list" where
  "zh_ts_chunk = [(''0205'', [Export ''default''])]"

definition zh_js_chunk :: "(string \<times> mstmt list) list" where
  "zh_js_chunk = [(''734e'', [Export ''default''])]"

definition ja_ts_chunk :: "(string \<times> mstmt list) list" where
  "ja_ts_chunk = [(''a05d'', [Export ''default''])]"

definition ja_js_chunk :: "(string \<times> mstmt list) list" where
  "ja_js_chunk = [(''ca8f'', [Export ''default''])]"

definition ko_ts_chunk :: "(string \<times> mstmt list) list" where
  "ko_ts_chunk = [(''15c2'', [Export ''default''])]"

definition ko_js_chunk :: "(string \<times> mstmt list) list" where
  "ko_js_chunk = [(''1565'', [Export ''default''])]"

definition parse_failed :: string where
  "parse_failed = ''Module parse failed: Unexpected token (1:10)''"

definition en_map_chunk :: "(string \<times> mstmt list) list" where
  "en_map_chunk = [(''08f9'', [Throw parse_failed])]"

definition ja_map_chunk :: "(string \<times> mstmt list) list" where
  "ja_map_chunk = [(''dc52'', [Throw parse_failed])]"

definition ko_map_chunk :: "(string \<times> mstmt list) list" where
  "ko_map_chunk = [(''5bce8'', [Throw parse_failed])]"

definition zh_map_chunk :: "(string \<times> mstmt list) list" where
  "zh_map_chunk = [(''4c56'', [Throw parse_failed])]"

definition lang_map_chunk :: "(string \<times> mstmt list) list" where
  "lang_map_chunk = [(''28d8'', [Throw parse_failed])]"

text \<open>The second copy of the language module exports first and requires then.\<close>

definition lang_js_chunk :: "(string \<times> mstmt list) list" where
  "lang_js_chunk =
    [(''2316'', [Export ''Langs'', Export ''i18n'', Export ''langInit'', Export ''setLang'',
       Export ''getLang'', Req ''d3b7'', Req ''ac1f'', Req ''3ca3'', Req ''841c'', Req ''2ca0'',
       Req ''ddb0'', Req ''2b3d'', Req ''3c69'', Req ''2b0e'', Req ''a925''])]"

definition chunk_modules :: "(string \<times> (string \<times> mstmt list) list) list" where
  "chunk_modules =
    [(''chunk-2d0ae94a'', en_ts_chunk), (''chunk-2d0c9500'', en_js_chunk),
     (''chunk-2d0a347d'', zh_ts_chunk), (''chunk-2d0d6783'', zh_js_chunk),
     (''chunk-2d2073f4'', ja_ts_chunk), (''chunk-2d221502'', ja_js_chunk),
     (''chunk-2d0aba49'', ko_ts_chunk), (''chunk-2d0ab4d9'', ko_js_chunk),
     (''chunk-2d0a5191'', en_map_chunk), (''chunk-2d229052'', ja_map_chunk),
     (''chunk-749967f3'', ko_map_chunk), (''chunk-2d0cbe86'', zh_map_chunk),
     (''chunk-2d0b3a10'', lang_map_chunk), (''chunk-2d0b211c'', lang_js_chunk)]"

section \<open>The names of the tables\<close>

definition en_keys :: "string list" where
  "en_keys =
    [''nowAccountAddress'', ''contractAddress'', ''otherParamsState'', ''leftAvailableCount'',
     ''maxBusinessmanCount'', ''dataLoading'', ''contractAddressIsNull'', ''caLengthIsWrong'',
     ''plsCheckCaInfo'', ''qrInfoRegistered'', ''businessStepOne'', ''addBusiness'',
     ''deleteBusiness'', ''businessStepTwo'', ''inputUsername'', ''inputAddress'',
     ''authCount'', ''nextStep'', ''operateTypeIsError'', ''verifyAuthCount'',
     ''verifyAddressError'', ''plsConfirmInfo'', ''operationType'', ''businessName'',
     ''businessAddress'', ''pwdSignAndUpToChain'', ''clickVerifyUpToChain'',
     ''assemblingData'', ''assembleDataError'', ''plsInputPwdAndSign'',
     ''unknownErrorPlsRecheck'', ''dataUploading'', ''successUpLoad'', ''failUpLoad'',
     ''emptyResult'', ''operationTypeSelect'', ''addAdmin'', ''deleteAdmin'',
     ''plsChooseAddress'', ''plsChooseOrInputAddress'', ''forbidDeleteAdmin'',
     ''inputNotNull'', ''adminStepOne'', ''adminStepTwo'', ''authTxAdminInfo'',
     ''nowAuthAdminAddress'', ''signAdminName'', ''signAdminAddress'', ''operationStatus'',
     ''messageSigned'', ''targetObj'', ''targetObjAddress'', ''targetObjName'',
     ''authRecord'', ''remainingTimes'', ''noMore'', ''noSearchResult'', ''businessDetail'',
     ''initialAuthTimes'', ''businessList'', ''giaNum'', ''kimNum'', ''kimNumNotEmpty'',
     ''canNotAddMore'', ''notMoreThan'', ''carat'', ''clarity'', ''certificateList'',
     ''dataSearching'', ''certListIsEmpty'', ''giaNumNotExist'', ''errorCertFormat'',
     ''inputCertNum'', ''certAttachInfo'', ''attachInfo'', ''certNotAttachInfo'',
     ''addInfoToChain'', ''chainCert'', ''uploadPdf'', ''certAnalysing'', ''must'',
     ''must_max18'', ''optional'', ''chainCertInfo'', ''businessAddressIsNull'',
     ''signStatus'', ''confirmSignChain'', ''sendToChain'', ''uploading'', ''infoToChain'',
     ''signSuccess'', ''signFailure'', ''signFailureErrorHint'', ''certDetail'',
     ''certToChainProcess'', ''signAddress'', ''signName'', ''upChainState'',
     ''successUpChain'', ''failureUpChain'', ''uploadingChain'', ''backHomePage'',
     ''certNum'', ''inputNineteen'', ''attachInfoToChain'', ''notPermitAddress'',
     ''attachMustNotNull'', ''pwdSign'', ''confirmInfo'', ''languageChoice'', ''dappTitle'',
     ''username'', ''address'', ''uploadCert'', ''finishState'', ''unFinishState'',
     ''ongoingState'', ''txSendToChain'', ''businessMsgTip'', ''save'', ''edit'', ''confirm'',
     ''cancel'', ''delete'', ''complete'', ''loadingTip'', ''name'', ''sign'', ''id'',
     ''time'', ''own'', ''gia'', ''weight'', ''colorGrade'', ''validityLevel'', ''cutGrade'',
     ''hash'', ''inputMsg'', ''scan'', ''search'', ''certificateChain'',
     ''businessAuthorize'', ''managerSetting'', ''businessCancel'', ''unknownType'',
     ''editAdmin'', ''authSuccess'', ''authExpire'', ''authPadding'', ''inputPwdToSign'',
     ''inputName'', ''emptyChainData'', ''kim'', ''accountInfo'', ''searchGiaNum'',
     ''cert_upload'', ''nullCertNum'', ''errorCertNum'', ''chooseAdmin'',
     ''inputNameOrAddress'', ''qrCode'', ''scanSign'', ''scanSigned'', ''signByScan'',
     ''giaCert'', ''otherCert'']"

definition zh_keys :: "string list" where
  "zh_keys =
    [''nowAccountAddress'', ''contractAddress'', ''otherParamsState'', ''leftAvailableCount'',
     ''maxBusinessmanCount'', ''dataLoading'', ''contractAddressIsNull'', ''caLengthIsWrong'',
     ''plsCheckCaInfo'', ''qrInfoRegistered'', ''businessStepOne'', ''addBusiness'',
     ''deleteBusiness'', ''businessStepTwo'', ''inputUsername'', ''inputAddress'',
     ''authCount'', ''nextStep'', ''operateTypeIsError'', ''verifyAddressError'',
     ''verifyAuthCount'', ''plsConfirmInfo'', ''operationType'', ''businessName'',
     ''businessAddress'', ''pwdSignAndUpToChain'', ''clickVerifyUpToChain'',
     ''assemblingData'', ''assembleDataError'', ''plsInputPwdAndSign'',
     ''unknownErrorPlsRecheck'', ''dataUploading'', ''successUpLoad'', ''failUpLoad'',
     ''emptyResult'', ''operationTypeSelect'', ''addAdmin'', ''deleteAdmin'',
     ''plsChooseAddress'', ''plsChooseOrInputAddress'', ''forbidDeleteAdmin'',
     ''inputNotNull'', ''adminStepOne'', ''adminStepTwo'', ''authTxAdminInfo'',
     ''nowAuthAdminAddress'', ''signAdminName'', ''signAdminAddress'', ''operationStatus'',
     ''messageSigned'', ''targetObj'', ''targetObjAddress'', ''targetObjName'',
     ''authRecord'', ''remainingTimes'', ''noMore'', ''noSearchResult'', ''businessDetail'',
     ''initialAuthTimes'', ''businessList'', ''giaNum'', ''kimNum'', ''kimNumNotEmpty'',
     ''canNotAddMore'', ''notMoreThan'', ''carat'', ''clarity'', ''certificateList'',
     ''dataSearching'', ''certListIsEmpty'', ''giaNumNotExist'', ''errorCertFormat'',
     ''inputCertNum'', ''certAttachInfo'', ''attachInfo'', ''certNotAttachInfo'',
     ''addInfoToChain'', ''chainCert'', ''uploadPdf'', ''certAnalysing'', ''must'',
     ''must_max18'', ''optional'', ''chainCertInfo'', ''businessAddressIsNull'',
     ''signStatus'', ''confirmSignChain'', ''sendToChain'', ''uploading'', ''infoToChain'',
     ''signSuccess'', ''signFailure'', ''signFailureErrorHint'', ''certDetail'',
     ''certToChainProcess'', ''signAddress'', ''signName'', ''upChainState'',
     ''successUpChain'', ''failureUpChain'', ''uploadingChain'', ''backHomePage'',
     ''certNum'', ''inputNineteen'', ''attachInfoToChain'', ''notPermitAddress'',
     ''attachMustNotNull'', ''pwdSign'', ''confirmInfo'', ''languageChoice'', ''dappTitle'',
     ''username'', ''address'', ''uploadCert'', ''finishState'', ''unFinishState'',
     ''ongoingState'', ''txSendToChain'', ''businessMsgTip'', ''save'', ''edit'', ''confirm'',
     ''cancel'', ''delete'', ''complete'', ''loadingTip'', ''name'', ''sign'', ''id'',
     ''time'', ''own'', ''gia'', ''weight'', ''colorGrade'', ''validityLevel'', ''cutGrade'',
     ''hash'', ''inputMsg'', ''scan'', ''search'', ''certificateChain'',
     ''businessAuthorize'', ''managerSetting'', ''unknownType'', ''editAdmin'',
     ''authSuccess'', ''authExpire'', ''authPadding'', ''inputPwdToSign'', ''inputName'',
     ''emptyChainData'', ''kim'', ''accountInfo'', ''searchGiaNum'', ''cert_upload'',
     ''nullCertNum'', ''errorCertNum'', ''chooseAdmin'', ''inputNameOrAddress'', ''qrCode'',
     ''scanSign'', ''scanSigned'', ''signByScan'', ''giaCert'', ''otherCert'']"

definition ja_top_keys :: "string list" where
  "ja_top_keys =
    [''languageChoice'', ''dappTitle'', ''title'', ''save'', ''confirm'', ''cancel'',
     ''delete'', ''complete'', ''nextStep'', ''loadingTip'', ''name'', ''address'', ''sign'',
     ''id'', ''time'', ''own'', ''remainingTimes'', ''gia'', ''weight'', ''colorGrade'',
     ''validityLevel'', ''cutGrade'', ''hash'', ''inputMsg'', ''certificateList'', ''scan'',
     ''search'', ''certificateChain'', ''inputCertNum'', ''businessAuthorize'',
     ''businessCancel'', ''businessList'', ''authOriginal'', ''deleteAdmin'', ''authRecord'',
     ''inputPwdToSign'', ''inputAddress'', ''inputName'', ''noMore'', ''signByScan'',
     ''searchGiaNum'', ''accountInfo'', ''qrCode'', ''scanSign'']"

definition ja_nested_keys :: "string list" where
  "ja_nested_keys =
    [''notifyMsg.cancel'', ''notifyMsg.success'', ''notifyMsg.parError'',
     ''notifyMsg.contRepeat'', ''notifyMsg.inputNineteen'', ''notifyMsg.inputSign'',
     ''notifyMsg.inputNotNull'', ''notifyMsg.inputTwoSign'',
     ''notifyMsg.beConsistentWithSigned'', ''notifyMsg.sameOperationInvalid'',
     ''notifyMsg.nullCertNum'', ''notifyMsg.errorCertNum'', ''notifyMsg.isSigned'',
     ''notifyMsg.choiceAuth'', ''process.sign'', ''process.sendToChain'',
     ''process.makeChain'', ''cert.process'', ''cert.search'', ''cert.show'', ''cert.list'',
     ''cert.input_cert'', ''cert.confirm'', ''business.input'', ''business.process'',
     ''business.list'', ''business.sign'', ''business.name'', ''business.address'',
     ''business.businessMsgTip'', ''business.businessProcess'', ''business.stepOne'',
     ''business.stepTwo'', ''business.stepThree'', ''business.businessMsg'',
     ''business.businessProces'', ''ownTitle.input'', ''ownTitle.process'',
     ''ownTitle.confirm'', ''originalTitle.input'', ''originalTitle.process'',
     ''originalTitle.apply'', ''originalTitle.scanSign'', ''originalTitle.choice'',
     ''original.statesList'', ''original.authAddress'', ''original.name'',
     ''original.address'', ''original.status'', ''original.authRequest'',
     ''original.inputAddress'', ''original.choiceOrInput'', ''original.operationType'',
     ''original.operationTypeSelect'', ''original.operationMethod'',
     ''original.modificationMsg'', ''original.addrMsg'', ''original.nowAuthAdminAddress'',
     ''original.signName'', ''original.signAddr'', ''original.signStepOne'',
     ''original.signStepTwo'', ''original.signStepThree'', ''original.originalList'',
     ''original.authObj'', ''original.chainProcess'', ''businessesList.inputName'',
     ''certList.certMsg'', ''certList.addChainContent'', ''certList.chainNotMsg'',
     ''certList.addMsgToChain'', ''certList.inputCert'', ''certToChain.uploadPdf'',
     ''certToChain.uploadCert'', ''certToChain.loading'', ''certToChain.certMsg'',
     ''certToChain.authChoice'', ''certToChain.clickToSign'', ''certToChain.othersToSign'',
     ''certToChain.scanSignedMsg'', ''certToChain.finalConfirm'',
     ''certToChain.clickToChain'', ''certToChain.sendToChain'', ''certToChain.certDetail'',
     ''certToChain.chainProcess'', ''certToChain.signStatus'', ''certToChain.signAddr'',
     ''certToChain.signName'', ''certToChain.chainStatus'', ''owns.giaNum'',
     ''owns.inputMsg'', ''owns.choiceSignMethod'', ''owns.selfSign'', ''owns.othersSign'',
     ''owns.signStatus'', ''owns.nextStep'', ''owns.finalConfirm'', ''owns.confirmSignChain'']"

definition ja_keys :: "string list" where
  "ja_keys = ja_top_keys @ ja_nested_keys"

text \<open>The Korean table has the names of the Japanese one but \<open>authOriginal\<close>, and \<open>addAdmin\<close>.\<close>

definition ko_top_keys :: "string list" where
  "ko_top_keys =
    [''languageChoice'', ''title'', ''dappTitle'', ''save'', ''confirm'', ''cancel'',
     ''delete'', ''complete'', ''nextStep'', ''loadingTip'', ''name'', ''address'', ''sign'',
     ''id'', ''time'', ''own'', ''remainingTimes'', ''gia'', ''weight'', ''colorGrade'',
     ''validityLevel'', ''cutGrade'', ''hash'', ''inputMsg'', ''certificateList'', ''scan'',
     ''search'', ''certificateChain'', ''inputCertNum'', ''businessAuthorize'',
     ''businessCancel'', ''businessList'', ''addAdmin'', ''deleteAdmin'', ''authRecord'',
     ''inputPwdToSign'', ''inputAddress'', ''inputName'', ''noMore'', ''signByScan'',
     ''searchGiaNum'', ''accountInfo'', ''qrCode'', ''scanSign'']"

definition ko_nested_keys :: "string list" where
  "ko_nested_keys =
    [''notifyMsg.cancel'', ''notifyMsg.success'', ''notifyMsg.parError'',
     ''notifyMsg.contRepeat'', ''notifyMsg.inputNineteen'', ''notifyMsg.inputSign'',
     ''notifyMsg.inputNotNull'', ''notifyMsg.inputTwoSign'',
     ''notifyMsg.beConsistentWithSigned'', ''notifyMsg.sameOperationInvalid'',
     ''notifyMsg.nullCertNum'', ''notifyMsg.errorCertNum'', ''notifyMsg.isSigned'',
     ''notifyMsg.choiceAuth'', ''process.sign'', ''process.sendToChain'',
     ''process.makeChain'', ''cert.process'', ''cert.search'', ''cert.show'', ''cert.list'',
     ''cert.input_cert'', ''cert.confirm'', ''business.input'', ''business.process'',
     ''business.list'', ''business.sign'', ''business.name'', ''business.address'',
     ''business.businessMsgTip'', ''business.businessProcess'', ''business.stepOne'',
     ''business.stepTwo'', ''business.stepThree'', ''business.businessMsg'',
     ''business.businessProces'', ''ownTitle.input'', ''ownTitle.process'',
     ''ownTitle.confirm'', ''originalTitle.input'', ''originalTitle.process'',
     ''originalTitle.apply'', ''originalTitle.scanSign'', ''originalTitle.choice'',
     ''original.statesList'', ''original.authAddress'', ''original.name'',
     ''original.address'', ''original.status'', ''original.authRequest'',
     ''original.inputAddress'', ''original.choiceOrInput'', ''original.operationType'',
     ''original.operationTypeSelect'', ''original.operationMethod'',
     ''original.modificationMsg'', ''original.addrMsg'', ''original.nowAuthAdminAddress'',
     ''original.signName'', ''original.signAddr'', ''original.signStepOne'',
     ''original.signStepTwo'', ''original.signStepThree'', ''original.originalList'',
     ''original.authObj'', ''original.chainProcess'', ''businessesList.inputName'',
     ''certList.certMsg'', ''certList.addChainContent'', ''certList.chainNotMsg'',
     ''certList.addMsgToChain'', ''certList.inputCert'', ''certToChain.uploadPdf'',
     ''certToChain.uploadCert'', ''certToChain.loading'', ''certToChain.certMsg'',
     ''certToChain.authChoice'', ''certToChain.clickToSign'', ''certToChain.othersToSign'',
     ''certToChain.scanSignedMsg'', ''certToChain.finalConfirm'',
     ''certToChain.clickToChain'', ''certToChain.sendToChain'', ''certToChain.certDetail'',
     ''certToChain.chainProcess'', ''certToChain.signStatus'', ''certToChain.signAddr'',
     ''certToChain.signName'', ''certToChain.chainStatus'', ''owns.giaNum'',
     ''owns.inputMsg'', ''owns.choiceSignMethod'', ''owns.selfSign'', ''owns.othersSign'',
     ''owns.signStatus'', ''owns.nextStep'', ''owns.finalConfirm'', ''owns.confirmSignChain'']"

definition ko_keys :: "string list" where
  "ko_keys = ko_top_keys @ ko_nested_keys"

definition keys_of :: "lang \<Rightarrow> string list" where
  "keys_of l = (case l of En \<Rightarrow> en_keys | Zh \<Rightarrow> zh_keys | Ja \<Rightarrow> ja_keys | Ko \<Rightarrow> ko_keys)"

text \<open>
  The names of the messages and titles that the modelled page handlers show, but
  \<open>scan.certOwn\<close>, the title of the page for scanned texts.
\<close>

definition page_keys :: "string list" where
  "page_keys =
    [''assembleDataError'', ''attachInfoToChain'', ''attachMustNotNull'',
     ''businessAddressIsNull'', ''caLengthIsWrong'', ''canNotAddMore'', ''certListIsEmpty'',
     ''confirmInfo'', ''contractAddressIsNull'', ''emptyChainData'', ''failUpLoad'',
     ''forbidDeleteAdmin'', ''giaNumNotExist'', ''infoToChain'', ''inputNotNull'',
     ''kimNumNotEmpty'', ''messageSigned'', ''noSearchResult'', ''notMoreThan'',
     ''notPermitAddress'', ''nullCertNum'', ''operateTypeIsError'', ''operationTypeSelect'',
     ''plsCheckCaInfo'', ''plsInputPwdAndSign'', ''qrInfoRegistered'', ''signFailure'',
     ''signFailureErrorHint'', ''signSuccess'', ''successUpLoad'', ''unknownErrorPlsRecheck'',
     ''verifyAddressError'', ''verifyAuthCount'']"

text \<open>What a page shows for a name: the entry of the table, else the name itself.\<close>

definition shows_name :: "lang \<Rightarrow> string \<Rightarrow> bool" where
  "shows_name l k \<longleftrightarrow> k \<notin> set (keys_of l)"

end
