(* ===== verification/Table_Properties.thy ===== *)
theory Table_Properties
  imports Lang_Tables Webpack_Properties Js_Utils
begin

text \<open>
  What the language chunks deliver: every request of the context map finds its chunks and its
  module, the source maps fail once and are silent afterwards, and two of the four languages
  have none of the messages the pages show. With them stand the promises of the small helpers:
  the byte encoder and the uuid.
\<close>

section \<open>Chunks\<close>

text \<open>
  The context map is closed: every chunk that a request names has a script in the loader's table,
  and one of these chunks registers the requested module, except for the language module itself,
  which is part of the entry bundle.
\<close>

theorem context_map_closed:
  "list_all (\<lambda>(req, m, md, cs).
      list_all (\<lambda>c. map_of script_hash c \<noteq> None) cs \<and>
      (if cs = [] then m = ''2c4c''
       else list_ex (\<lambda>c. case map_of chunk_modules c of
              None \<Rightarrow> False | Some ms \<Rightarrow> map_of ms m \<noteq> None) cs)) ad58_table"
  by code_simp

text \<open>
  A source map fails once: requiring the module of one of the five source-map chunks throws the
  error the bundler left there, and requiring it again succeeds with an empty module.
\<close>

theorem source_map_fails_once:
  assumes "ms \<in> {en_map_chunk, ja_map_chunk, ko_map_chunk, zh_map_chunk, lang_map_chunk}"
    and "ms = [(t, b)]" and "factories m = factories m0 ++ map_of ms" and "cache m t = None"
  shows "\<exists>m'. require (Suc (Suc n)) t m = Some (Some (ModuleThrow parse_failed), m') \<and>
    require (Suc n) t m' = Some (None, m') \<and> cache m' t = Some (False, [])"
proof -
  have "b = [Throw parse_failed]"
    using assms(1,2)
    by (auto simp: en_map_chunk_def ja_map_chunk_def ko_map_chunk_def zh_map_chunk_def
        lang_map_chunk_def)
  then have "factories m t = Some [Throw parse_failed]" using assms(2,3) by simp
  then show ?thesis using assms(4) by (simp add: Let_def)
qed

theorem source_map_fails_once_witness:
  "\<exists>m'. require 2 ''08f9'' \<lparr>factories = Map.empty ++ map_of en_map_chunk, cache = (\<lambda>_. None),
      ran = []\<rparr> = Some (Some (ModuleThrow parse_failed), m')"
proof -
  let ?m = "\<lparr>factories = Map.empty ++ map_of en_map_chunk, cache = (\<lambda>_. None), ran = []\<rparr>"
  have "\<exists>m'. require (Suc (Suc 0)) ''08f9'' ?m = Some (Some (ModuleThrow parse_failed), m') \<and>
      require (Suc 0) ''08f9'' m' = Some (None, m') \<and> cache m' ''08f9'' = Some (False, [])"
    by (rule source_map_fails_once [of en_map_chunk _ "[Throw parse_failed]" _
          "\<lparr>factories = Map.empty, cache = (\<lambda>_. None), ran = []\<rparr>"])
       (simp_all only: en_map_chunk_def insertI1 modsys.select_convs)
  then show ?thesis unfolding numeral_2_eq_2 by blast
qed

section \<open>Names\<close>

lemma nth_subset:
  assumes "map ((!) xs) is = ys" and "list_all (\<lambda>i. i < length xs) is"
  shows "set ys \<subseteq> set xs"
  using assms by (auto simp: list_all_iff)

lemma page_keys_en: "set page_keys \<subseteq> set en_keys"
proof (rule nth_subset)
  show "map ((!) en_keys)
     [28, 104, 106, 84, 7, 63, 69, 108, 6, 151, 33, 40, 70, 89, 41, 62, 49, 56, 64, 105, 156,
      18, 35, 8, 29, 9, 91, 92, 90, 32, 30, 20, 19] = page_keys"
    by code_simp
qed code_simp

lemma page_keys_zh: "set page_keys \<subseteq> set zh_keys"
proof (rule nth_subset)
  show "map ((!) zh_keys)
     [28, 104, 106, 84, 7, 63, 69, 108, 6, 150, 33, 40, 70, 89, 41, 62, 49, 56, 64, 105, 155,
      18, 35, 8, 29, 9, 91, 92, 90, 32, 30, 19, 20] = page_keys"
    by code_simp
qed code_simp

lemma no_dot: "list_all (\<lambda>k. CHR ''.'' \<notin> set k) page_keys"
  by code_simp

lemma nested_dot: "list_all (\<lambda>k. CHR ''.'' \<in> set k) (ja_nested_keys @ ko_nested_keys)"
  by code_simp

lemma not_top: "list_all (\<lambda>k. k \<notin> set ja_top_keys \<and> k \<notin> set ko_top_keys) page_keys"
  by code_simp

text \<open>
  Two languages without messages: the English and the Chinese table have every message and title
  that the page handlers show but one, and the Japanese and the Korean table have none of them,
  so that these pages show the bare names.
\<close>

theorem tables_of_messages:
  "filter (shows_name En) page_keys = [] \<and> filter (shows_name Zh) page_keys = [] \<and>
   filter (shows_name Ja) page_keys = page_keys \<and> filter (shows_name Ko) page_keys = page_keys"
proof -
  have "k \<notin> set ja_keys \<and> k \<notin> set ko_keys" if "k \<in> set page_keys" for k
    using that no_dot nested_dot not_top
    by (auto simp: ja_keys_def ko_keys_def list_all_iff)
  then show ?thesis
    using page_keys_en page_keys_zh
    by (auto simp: shows_name_def keys_of_def filter_empty_conv filter_id_conv)
qed

section \<open>Helpers\<close>

text \<open>
  The byte encoder: the bytes are below 256, between one and three for each code unit, they can
  be read back, so that two strings with the same bytes are equal, and encoding commutes with
  concatenation.
\<close>

theorem encoder_roundtrip:
  "decode_bytes (string_to_bytes s) = map unat s \<and>
   list_all (\<lambda>b. b < 256) (string_to_bytes s) \<and>
   length s \<le> length (string_to_bytes s) \<and> length (string_to_bytes s) \<le> 3 * length s \<and>
   (string_to_bytes s = string_to_bytes t \<longleftrightarrow> s = t) \<and>
   string_to_bytes (s @ t) = string_to_bytes s @ string_to_bytes t"
proof -
  have "list_all (\<lambda>b. b < 256) (string_to_bytes s)"
    by (induction s) (auto simp: list_all_iff dest: encode_char_bytes)
  then show ?thesis
    using length_string_to_bytes [of s] string_to_bytes_inj [of s t]
    by (auto simp: decode_string_to_bytes string_to_bytes_append)
qed

text \<open>
  The encoder is not UTF-8 beyond the basic plane: a character outside it is a pair of surrogate
  code units, each of which becomes three bytes, while UTF-8 has four bytes for the character;
  the branch of the encoder for four bytes is never taken.
\<close>

theorem encoder_surrogates:
  assumes "0xD800 \<le> h" and "h \<le> 0xDBFF" and "0xDC00 \<le> l" and "l \<le> 0xDFFF"
  shows "string_to_bytes [h, l] =
     [237, unat h div 64 mod 64 + 128, unat h mod 64 + 128,
      237, unat l div 64 mod 64 + 128, unat l mod 64 + 128] \<and>
    length (encode_unit (unat h)) = 3"
proof -
  have "55296 \<le> unat h" and "unat h \<le> 57343" and "55296 \<le> unat l" and "unat l \<le> 57343"
    using assms by (simp_all add: word_le_nat_alt)
  then have "unat h div 4096 = 13" and "unat l div 4096 = 13" by simp_all
  then show ?thesis
    using \<open>55296 \<le> unat h\<close> \<open>55296 \<le> unat l\<close> by (simp add: encode_char)
qed

theorem encoder_surrogates_witness:
  "string_to_bytes [0xD83D, 0xDE00] = [237, 160, 189, 237, 184, 128]"
  using encoder_surrogates [of "0xD83D" "0xDE00"] by simp

text \<open>C40
  The uuid: whatever the clock reading and the draws of the random numbers, as long as they are
  not negative, the result fits the template: 36 characters, hyphens and the version in their
  places, hexadecimal digits elsewhere and one of four digits for the variant.
\<close>

theorem uuid_fits:
  assumes "0 \<le> e" and "\<forall>i. 0 \<le> r i"
  shows "list_all2 fits_template uuid_template (uuid e r) \<and> length (uuid e r) = 36"
proof -
  have "list_all2 fits_template uuid_template (uuid e r)"
    unfolding uuid_def by (rule uuid_fill_fits [OF assms])
  then show ?thesis using list_all2_lengthD by (force simp: uuid_template_def)
qed

theorem uuid_fits_witness: "length (uuid 1600000000000 (\<lambda>i. 1 / 2)) = 36"
  using uuid_fits [of 1600000000000 "\<lambda>i. 1 / 2"] by simp

end
