(* ===== verification/I18n_Path.thy ===== *)
theory I18n_Path
  imports Cashbox_Prelude
begin

text \<open>
  The key paths of the messages: the parser of \<open>vue-i18n\<close> (module \<open>a925\<close> of
  \<open>chunk-vendors.28fb2c37.js\<close>, functions \<open>dA\<close>, \<open>fA\<close>, \<open>gA\<close>, \<open>lA\<close>, \<open>IA\<close> and the table \<open>uA\<close>). It is an
  automaton with seven states that reads one character at a time and collects the keys; the
  names of its states and actions in comments are those of the constants \<open>W\<close>, \<open>z\<close>, \<open>X\<close>, \<open>$\<close> and
  \<open>AA\<close> to \<open>sA\<close>.
\<close>

section \<open>The table of the automaton\<close>

text \<open>Actions: \<open>W\<close> appends the character, \<open>z\<close> pushes the key, \<open>X\<close> goes deeper, \<open>$\<close> closes a bracket.\<close>

datatype path_action = Append | PushKey | Deeper | CloseBracket

datatype transition = Goto nat "path_action option" | Refuse

text \<open>
  The states 0 to 6; state 7 is the end. A character is read by its type, a row may have an entry
  for the types it does not name, and a type without entry is refused.
\<close>

definition path_states :: "(string \<times> transition) list list" where
  "path_states =
    [[(''ws'', Goto 0 None), (''ident'', Goto 3 (Some Append)), (''['', Goto 4 None),
      (''eof'', Goto 7 None)],
     [(''ws'', Goto 1 None), (''.'', Goto 2 None), (''['', Goto 4 None), (''eof'', Goto 7 None)],
     [(''ws'', Goto 2 None), (''ident'', Goto 3 (Some Append)), (''0'', Goto 3 (Some Append)),
      (''number'', Goto 3 (Some Append))],
     [(''ident'', Goto 3 (Some Append)), (''0'', Goto 3 (Some Append)),
      (''number'', Goto 3 (Some Append)), (''ws'', Goto 1 (Some PushKey)),
      (''.'', Goto 2 (Some PushKey)), (''['', Goto 4 (Some PushKey)),
      (''eof'', Goto 7 (Some PushKey))],
     [([CHR 0x27], Goto 5 (Some Append)), ([CHR 0x22], Goto 6 (Some Append)),
      (''['', Goto 4 (Some Deeper)), ('']'', Goto 1 (Some CloseBracket)), (''eof'', Refuse),
      (''else'', Goto 4 (Some Append))],
     [([CHR 0x27], Goto 4 (Some Append)), (''eof'', Refuse), (''else'', Goto 5 (Some Append))],
     [([CHR 0x22], Goto 4 (Some Append)), (''eof'', Refuse), (''else'', Goto 6 (Some Append))]]"

definition transition_for :: "nat \<Rightarrow> string \<Rightarrow> transition" where
  "transition_for n ty =
     (case map_of (path_states ! n) ty of
        Some t \<Rightarrow> t
      | None \<Rightarrow> (case map_of (path_states ! n) ''else'' of Some t \<Rightarrow> t | None \<Rightarrow> Refuse))"

text \<open>\<open>dA\<close>: the type of a character, or of the end. A blank is not white space here.\<close>

definition char_type :: "jschar option \<Rightarrow> string" where
  "char_type ch =
     (case ch of
        None \<Rightarrow> ''eof''
      | Some c \<Rightarrow>
          if c \<in> {91, 93, 46, 34, 39} then [char_of (unat c)]
          else if c \<in> {95, 36, 45} then ''ident''
          else if c \<in> {9, 10, 13, 160, 65279, 8232, 8233} then ''ws''
          else ''ident'')"

section \<open>Keys in brackets\<close>

definition dec_digit :: "jschar \<Rightarrow> bool" where
  "dec_digit c \<longleftrightarrow> 48 \<le> c \<and> c \<le> 57"

text \<open>\<open>gA\<close>: a literal, with one white space around it at most.\<close>

definition one_space :: "jsstr \<Rightarrow> jsstr" where
  "one_space s = (if s \<noteq> [] \<and> js_space (hd s) then tl s else s)"

definition bare_literal :: "jsstr \<Rightarrow> bool" where
  "bare_literal s \<longleftrightarrow>
     s = lit ''true'' \<or> s = lit ''false'' \<or>
     (let n = (if s \<noteq> [] \<and> hd s = 45 then tl s else s)
      in n \<noteq> [] \<and> list_all (\<lambda>c. dec_digit c \<or> c = 46) n) \<or>
     (2 \<le> length s \<and> hd s = last s \<and> hd s \<in> {34, 39} \<and> hd s \<notin> set (butlast (tl s)))"

definition is_literal :: "jsstr \<Rightarrow> bool" where
  "is_literal s \<longleftrightarrow>
     (let s1 = one_space s
      in bare_literal s1 \<or> bare_literal (rev (one_space (rev s1))) \<or> bare_literal s \<or>
         bare_literal (rev (one_space (rev s))))"

text \<open>\<open>lA\<close>: quotes of one kind around a text are dropped.\<close>

definition strip_quotes :: "jsstr \<Rightarrow> jsstr" where
  "strip_quotes s =
     (if s \<noteq> [] \<and> hd s = last s \<and> hd s \<in> {34, 39} then butlast (tl s) else s)"

text \<open>\<open>!isNaN(A)\<close> for a text that starts with the digit zero.\<close>

definition decimal_rest :: "jsstr \<Rightarrow> bool" where
  "decimal_rest s =
     (let r = dropWhile dec_digit s;
          f = (if r \<noteq> [] \<and> hd r = 46 then dropWhile dec_digit (tl r) else r);
          x = tl f;
          e = (if x \<noteq> [] \<and> hd x \<in> {43, 45} then tl x else x)
      in f = [] \<or> (hd f \<in> {69, 101} \<and> e \<noteq> [] \<and> list_all dec_digit e))"

definition radix_rest :: "jsstr \<Rightarrow> bool" where
  "radix_rest s \<longleftrightarrow>
     (case s of
        z # x # ds \<Rightarrow> ds \<noteq> [] \<and>
          ((x \<in> {88, 120} \<and> list_all (\<lambda>c. dec_digit c \<or> (65 \<le> c \<and> c \<le> 70) \<or> (97 \<le> c \<and> c \<le> 102)) ds) \<or>
           (x \<in> {79, 111} \<and> list_all (\<lambda>c. 48 \<le> c \<and> c \<le> 55) ds) \<or>
           (x \<in> {66, 98} \<and> list_all (\<lambda>c. c = 48 \<or> c = 49) ds))
      | _ \<Rightarrow> False)"

definition zero_number :: "jsstr \<Rightarrow> bool" where
  "zero_number s = (let t = js_trim s in decimal_rest t \<or> radix_rest t)"

text \<open>\<open>fA\<close>: a literal is its value, anything else gets a star in front; a bad number is refused.\<close>

definition sub_key :: "jsstr \<Rightarrow> jsstr option" where
  "sub_key s =
     (let e = js_trim s
      in if s \<noteq> [] \<and> hd s = 48 \<and> \<not> zero_number s then None
         else Some (if is_literal e then strip_quotes e else 42 # e))"

section \<open>The parser\<close>

record path_parser =
  path_state :: nat
  key_text :: "jsstr option"
  bracket_depth :: nat
  path_keys :: "jsstr list"

definition append_key :: "jsstr \<Rightarrow> path_parser \<Rightarrow> path_parser" where
  "append_key r p =
     p\<lparr>key_text := Some (case key_text p of None \<Rightarrow> r | Some t \<Rightarrow> t @ r)\<rparr>"

definition path_act :: "path_action option \<Rightarrow> jsstr \<Rightarrow> path_parser \<Rightarrow> path_parser option" where
  "path_act a r p =
     (case a of
        None \<Rightarrow> Some p
      | Some Append \<Rightarrow> Some (append_key r p)
      | Some PushKey \<Rightarrow>
          Some (case key_text p of
                  None \<Rightarrow> p
                | Some t \<Rightarrow> p\<lparr>path_keys := path_keys p @ [t], key_text := None\<rparr>)
      | Some Deeper \<Rightarrow> Some ((append_key r p)\<lparr>bracket_depth := bracket_depth p + 1\<rparr>)
      | Some CloseBracket \<Rightarrow>
          if 0 < bracket_depth p then
            Some ((append_key r p)\<lparr>bracket_depth := bracket_depth p - 1, path_state := 4\<rparr>)
          else (case key_text p of
                  None \<Rightarrow> None
                | Some t \<Rightarrow>
                    (case sub_key t of
                       None \<Rightarrow> None
                     | Some k \<Rightarrow>
                         Some (p\<lparr>path_keys := path_keys p @ [k], key_text := None\<rparr>))))"

definition path_step :: "jschar option \<Rightarrow> path_parser \<Rightarrow> path_parser option" where
  "path_step ch p =
     (case transition_for (path_state p) (char_type ch) of
        Refuse \<Rightarrow> None
      | Goto n a \<Rightarrow> path_act a (case ch of None \<Rightarrow> [] | Some c \<Rightarrow> [c]) (p\<lparr>path_state := n\<rparr>))"

text \<open>
  The loop of \<open>IA\<close>. In quotes a backslash before the quote is kept together with it. The end of
  the text leads to state 7 or is refused.
\<close>

fun run_path :: "path_parser \<Rightarrow> jsstr \<Rightarrow> jsstr list option" where
  "run_path p [] =
     (case path_step None p of
        None \<Rightarrow> None
      | Some q \<Rightarrow> if path_state q = 7 then Some (path_keys q) else None)"
| "run_path p (c # s) =
     (if c = 92 \<and> s \<noteq> [] \<and> (path_state p = 5 \<and> hd s = 39 \<or> path_state p = 6 \<and> hd s = 34) then
        run_path (append_key [c, hd s] p) (tl s)
      else
        (case path_step (Some c) p of
           None \<Rightarrow> None
         | Some q \<Rightarrow> if path_state q = 7 then Some (path_keys q) else run_path q s))"

definition parse_path :: "jsstr \<Rightarrow> jsstr list option" where
  "parse_path s =
     run_path \<lparr>path_state = 0, key_text = None, bracket_depth = 0, path_keys = []\<rparr> s"

end
