(* ===== verification/I18n.thy ===== *)
theory I18n
  imports I18n_Path Lang
begin

text \<open>
  The look-up of messages: the class of \<open>vue-i18n\<close> (module \<open>a925\<close> of \<open>chunk-vendors.28fb2c37.js\<close>)
  as the language module creates it, with tables of messages and without a root, modifiers, a
  handler of missing messages or a rule of plurals; and \<open>$t\<close> without arguments, as all pages call it.
\<close>

section \<open>Values\<close>

text \<open>
  A message is a text or a nested table. A look-up may also reach what every object has:
  functions of the platform, and objects of the platform or of \<open>vue\<close>, which puts its observer
  into every table that it watches.
\<close>

datatype jsval = Text jsstr | Table "(jsstr \<times> jsval) list" | Func jsstr | Obj jsstr

text \<open>
  The errors that a message can cause, apart from those of the platform's functions: a modifier
  that is called on a value without that method, and a resolution that exhausts the stack.
\<close>

datatype i18n_error = NotAFunction | StackOverflow

text \<open>
  What the look-up needs of the platform: the properties of values that are no tables, the
  result of calling a function with the context of a message, the text of a value, and the case
  conversions of texts, which depend on the locale of the browser.
\<close>

record platform =
  member_of :: "jsval \<Rightarrow> jsstr \<Rightarrow> jsval option"
  call_fun :: "jsval \<Rightarrow> jsval option"
  text_of :: "jsval \<Rightarrow> jsstr"
  upper_case :: "jsstr \<Rightarrow> jsstr"
  lower_case :: "jsstr \<Rightarrow> jsstr"

text \<open>The names that a plain object inherits.\<close>

definition object_functions :: "string list" where
  "object_functions =
    [''constructor'', ''__defineGetter__'', ''__defineSetter__'', ''hasOwnProperty'',
     ''__lookupGetter__'', ''__lookupSetter__'', ''isPrototypeOf'', ''propertyIsEnumerable'',
     ''toString'', ''valueOf'', ''toLocaleString'']"

definition property :: "platform \<Rightarrow> jsval \<Rightarrow> jsstr \<Rightarrow> jsval option" where
  "property pf v k =
     (case v of
        Table t \<Rightarrow>
          (case map_of t k of
             Some x \<Rightarrow> Some x
           | None \<Rightarrow>
               if k = lit ''__ob__'' \<or> k = lit ''__proto__'' then Some (Obj k)
               else if k \<in> lit ` set object_functions then Some (Func k)
               else None)
      | _ \<Rightarrow> member_of pf v k)"

section \<open>Paths\<close>

text \<open>\<open>getPathValue\<close>: nothing for a bad path, and nothing as soon as a step has no value.\<close>

fun walk_path :: "platform \<Rightarrow> jsval \<Rightarrow> jsstr list \<Rightarrow> jsval option" where
  "walk_path pf v [] = Some v"
| "walk_path pf v (k # ks) =
     (case property pf v k of None \<Rightarrow> None | Some x \<Rightarrow> walk_path pf x ks)"

definition get_path_value :: "platform \<Rightarrow> jsval \<Rightarrow> jsstr \<Rightarrow> jsval option" where
  "get_path_value pf v path =
     (case v of
        Text _ \<Rightarrow> None
      | Func _ \<Rightarrow> None
      | _ \<Rightarrow>
          (case parse_path path of
             None \<Rightarrow> None
           | Some ks \<Rightarrow> if ks = [] then None else walk_path pf v ks))"

section \<open>Linked messages\<close>

text \<open>
  A text may refer to other messages by \<open>@:key\<close>, \<open>@.modifier:key\<close> and the forms with the key in
  brackets. \<open>link_at\<close> reads one reference at the start of a text: the whole of it, the modifier
  and the key; \<open>links\<close> finds all of them from left to right (\<open>QA\<close>, \<open>EA\<close> and \<open>pA\<close> of the code).
\<close>

definition small_letter :: "jschar \<Rightarrow> bool" where
  "small_letter c \<longleftrightarrow> 97 \<le> c \<and> c \<le> 122"

definition link_char :: "jschar \<Rightarrow> bool" where
  "link_char c \<longleftrightarrow> small_letter c \<or> (65 \<le> c \<and> c \<le> 90) \<or> dec_digit c \<or> c \<in> {95, 45, 124, 46}"

definition link_modifier :: "jsstr \<Rightarrow> (jsstr \<times> jsstr) option" where
  "link_modifier s =
     (case s of
        [] \<Rightarrow> None
      | c # r \<Rightarrow>
          if c = 58 then Some ([], r)
          else if c = 46 then
            (let m = takeWhile small_letter r; q = dropWhile small_letter r
             in if m \<noteq> [] \<and> q \<noteq> [] \<and> hd q = 58 then Some (m, tl q) else None)
          else None)"

definition link_key :: "jsstr \<Rightarrow> (jsstr \<times> jsstr) option" where
  "link_key s =
     (if takeWhile link_char s \<noteq> [] then Some (takeWhile link_char s, dropWhile link_char s)
      else
        (case s of
           [] \<Rightarrow> None
         | c # r \<Rightarrow>
             (let k = takeWhile link_char r; q = dropWhile link_char r
              in if c = 40 \<and> k \<noteq> [] \<and> q \<noteq> [] \<and> hd q = 41 then Some (k, tl q) else None)))"

definition link_at :: "jsstr \<Rightarrow> (jsstr \<times> jsstr \<times> jsstr \<times> jsstr) option" where
  "link_at s =
     (if s = [] \<or> hd s \<noteq> 64 then None
      else
        (case link_modifier (tl s) of
           None \<Rightarrow> None
         | Some (m, r) \<Rightarrow>
             (case link_key r of
                None \<Rightarrow> None
              | Some (k, q) \<Rightarrow> Some (take (length s - length q) s, m, k, q))))"

lemma link_modifier_shorter: "link_modifier s = Some (m, r) \<Longrightarrow> length r < length s"
  using length_dropWhile_le [of small_letter "tl s"]
  by (cases s) (auto simp: link_modifier_def Let_def less_Suc_eq_le split: if_splits
      intro: order_trans [OF diff_le_self])

lemma link_key_shorter: "link_key s = Some (k, q) \<Longrightarrow> length q \<le> length s"
  using length_dropWhile_le [of link_char s] length_dropWhile_le [of link_char "tl s"]
  by (cases s) (auto simp: link_key_def Let_def split: if_splits
      intro: order_trans [OF diff_le_self])

lemma link_at_shorter: "link_at s = Some (g, m, k, q) \<Longrightarrow> length q < length s"
  using link_modifier_shorter [of "tl s"] link_key_shorter
  by (cases s) (fastforce simp: link_at_def split: option.splits prod.splits if_splits)+

function links :: "jsstr \<Rightarrow> (jsstr \<times> jsstr \<times> jsstr) list" where
  "links s =
     (if s = [] then []
      else case link_at s of
             Some (g, m, k, q) \<Rightarrow> (g, m, k) # links q
           | None \<Rightarrow> links (tl s))"
  by pat_completeness auto

termination
  by (relation "measure length") (auto dest: link_at_shorter)

text \<open>
  \<open>s.replace(g, h)\<close>: the first occurrence of \<open>g\<close>, with the patterns of a replacement text.
\<close>

fun expand :: "jsstr \<Rightarrow> jsstr \<Rightarrow> jsstr \<Rightarrow> jsstr \<Rightarrow> jsstr" where
  "expand a g b [] = []"
| "expand a g b [c] = [c]"
| "expand a g b (c # d # h) =
     (if c = 36 \<and> d = 36 then 36 # expand a g b h
      else if c = 36 \<and> d = 38 then g @ expand a g b h
      else if c = 36 \<and> d = 96 then a @ expand a g b h
      else if c = 36 \<and> d = 39 then b @ expand a g b h
      else c # expand a g b (d # h))"

fun replace_from :: "jsstr \<Rightarrow> jsstr \<Rightarrow> jsstr \<Rightarrow> jsstr \<Rightarrow> jsstr" where
  "replace_from a [] g h = (if g = [] then a @ expand a g [] h else a)"
| "replace_from a (c # s) g h =
     (if starts_with (c # s) g then
        a @ expand a g (drop (length g) (c # s)) h @ drop (length g) (c # s)
      else replace_from (a @ [c]) s g h)"

definition replace_first :: "jsstr \<Rightarrow> jsstr \<Rightarrow> jsstr \<Rightarrow> jsstr" where
  "replace_first s g h = replace_from [] s g h"

text \<open>The modifiers \<open>upper\<close>, \<open>lower\<close> and \<open>capitalize\<close>; a value that is no text has no such methods.\<close>

definition modify :: "platform \<Rightarrow> jsstr \<Rightarrow> jsval \<Rightarrow> i18n_error + jsval" where
  "modify pf m v =
     (if m = lit ''upper'' then
        (case v of Text t \<Rightarrow> Inr (Text (upper_case pf t)) | _ \<Rightarrow> Inl NotAFunction)
      else if m = lit ''lower'' then
        (case v of Text t \<Rightarrow> Inr (Text (lower_case pf t)) | _ \<Rightarrow> Inl NotAFunction)
      else if m = lit ''capitalize'' then
        (case v of
           Text t \<Rightarrow> Inr (Text (upper_case pf (take 1 t) @ drop 1 t))
         | _ \<Rightarrow> Inl NotAFunction)
      else Inr v)"

definition has_link :: "jsstr \<Rightarrow> bool" where
  "has_link s \<longleftrightarrow> index_of s (lit ''@:'') \<ge> 0 \<or> index_of s (lit ''@.'') \<ge> 0"

text \<open>\<open>s = h ? s.replace(g, h) : s\<close>; a function as the second argument of \<open>replace\<close> is called.\<close>

definition put_link :: "platform \<Rightarrow> jsstr \<Rightarrow> jsstr \<Rightarrow> jsval \<Rightarrow> jsstr" where
  "put_link pf s g v =
     (case v of
        Text h \<Rightarrow> if h = [] then s else replace_first s g h
      | _ \<Rightarrow> replace_first s g (text_of pf v))"

section \<open>Interpolation\<close>

text \<open>
  \<open>_interpolate\<close> and \<open>_link\<close>. A list of the keys on the way to a text stops a cycle: a key that is
  on it ends the resolution of the whole text. The fuel is the depth of calls that the stack allows.
\<close>

definition render :: "platform \<Rightarrow> jsval \<Rightarrow> jsval option" where
  "render pf v = (case v of Func _ \<Rightarrow> call_fun pf v | _ \<Rightarrow> Some v)"

definition plain_object :: "jsval \<Rightarrow> bool" where
  "plain_object v = (case v of Table _ \<Rightarrow> True | Obj _ \<Rightarrow> True | _ \<Rightarrow> False)"

definition find_message :: "platform \<Rightarrow> jsval \<Rightarrow> jsstr \<Rightarrow> jsval option" where
  "find_message pf e k =
     (case get_path_value pf e k of
        Some v \<Rightarrow> Some v
      | None \<Rightarrow>
          if plain_object e then
            (case property pf e k of
               Some (Text t) \<Rightarrow> Some (Text t)
             | Some (Func f) \<Rightarrow> Some (Func f)
             | _ \<Rightarrow> None)
          else None)"

function (sequential) interpolate :: "nat \<Rightarrow> platform \<Rightarrow> jsval \<Rightarrow> jsstr \<Rightarrow> jsstr list \<Rightarrow> i18n_error + jsval option"
  and resolve_links :: "nat \<Rightarrow> platform \<Rightarrow> jsval \<Rightarrow> jsstr \<Rightarrow> jsstr list \<Rightarrow>
    (jsstr \<times> jsstr \<times> jsstr) list \<Rightarrow> i18n_error + jsstr" where
  "interpolate n pf e k visited =
     (case find_message pf e k of
        None \<Rightarrow> Inr None
      | Some (Text s) \<Rightarrow>
          if has_link s then
            (case n of
               0 \<Rightarrow> Inl StackOverflow
             | Suc n' \<Rightarrow> map_sum id (\<lambda>t. Some (Text t)) (resolve_links n' pf e s visited (links s)))
          else Inr (Some (Text s))
      | Some v \<Rightarrow> Inr (render pf v))"
| "resolve_links n pf e s visited [] = Inr s"
| "resolve_links n pf e s visited ((g, m, k) # ls) =
     (if k \<in> set visited then Inr s
      else
        (case interpolate n pf e k (visited @ [k]) of
           Inl er \<Rightarrow> Inl er
         | Inr r \<Rightarrow>
             (case modify pf m (case r of None \<Rightarrow> Text k | Some v \<Rightarrow> v) of
                Inl er \<Rightarrow> Inl er
              | Inr v \<Rightarrow> resolve_links n pf e (put_link pf s g v) visited ls)))"
  by pat_completeness auto

termination
  by (relation "inv_image (less_than <*lex*> less_than)
        (\<lambda>x. case x of Inl (n, _) \<Rightarrow> (n, 0) | Inr (n, _, _, _, _, ls) \<Rightarrow> (n, Suc (length ls)))") auto

declare interpolate.simps [simp del]

section \<open>The chain of locales\<close>

text \<open>
  \<open>_appendItemToChain\<close>, \<open>_appendLocaleToChain\<close> and \<open>_appendBlockToChain\<close>: the chain, and whether to go
  on; nothing in place of the truth value stands for a value that is none. The argument \<open>fb\<close> is
  the fallback locale when it is passed on, whose property named like the locale is read.
\<close>

definition truthy_value :: "jsval \<Rightarrow> bool" where
  "truthy_value v = (case v of Text t \<Rightarrow> t \<noteq> [] | _ \<Rightarrow> True)"

definition append_item ::
  "platform \<Rightarrow> jsstr list \<Rightarrow> jsstr \<Rightarrow> jsstr option \<Rightarrow> jsstr list \<times> bool option" where
  "append_item pf ch e fb =
     (if e \<in> set ch then (ch, Some False)
      else if e = [] then (ch, Some True)
      else
        (let e' = filter (\<lambda>c. c \<noteq> 33) e;
             more = (case fb of
                       None \<Rightarrow> Some (last e \<noteq> 33)
                     | Some f \<Rightarrow>
                         (if f = [] then Some (last e \<noteq> 33)
                          else case member_of pf (Text f) e' of
                                 None \<Rightarrow> Some (last e \<noteq> 33)
                               | Some v \<Rightarrow> if truthy_value v then None else Some (last e \<noteq> 33)))
         in (ch @ [e'], more)))"

text \<open>The loop over the prefixes of a locale, longest first.\<close>

function append_prefixes ::
  "platform \<Rightarrow> jsstr list \<Rightarrow> jsstr list \<Rightarrow> jsstr option \<Rightarrow> jsstr list \<times> bool option" where
  "append_prefixes pf ch ps fb =
     (let (ch', more) = append_item pf ch (join_with 45 ps) fb
      in if butlast ps \<noteq> [] \<and> more = Some True then append_prefixes pf ch' (butlast ps) fb
         else (ch', more))"
  by pat_completeness auto

termination
  by (relation "measure (\<lambda>(pf, ch, ps, fb). length ps)", simp)
    (case_tac ps; simp)

definition append_locale ::
  "platform \<Rightarrow> jsstr list \<Rightarrow> jsstr \<Rightarrow> jsstr option \<Rightarrow> jsstr list \<times> bool option" where
  "append_locale pf ch l fb = append_prefixes pf ch (split_at 45 l) fb"

text \<open>
  \<open>_getLocaleChain\<close> with a text as fallback locale; a block of locales has one element here. The
  chains are kept in a cache, which changes nothing as long as the fallback stays.
\<close>

definition locale_chain :: "platform \<Rightarrow> jsstr \<Rightarrow> jsstr \<Rightarrow> jsstr list" where
  "locale_chain pf fb l =
     (if l = [] then []
      else
        (let ch = fst (append_locale pf [] l (Some fb))
         in if fb = [] then ch else fst (append_locale pf ch fb None)))"

section \<open>$t\<close>

text \<open>\<open>_translate\<close>: the first locale of the chain that has the message.\<close>

fun translate_chain ::
  "nat \<Rightarrow> platform \<Rightarrow> jsval \<Rightarrow> jsstr \<Rightarrow> jsstr list \<Rightarrow> i18n_error + jsval option" where
  "translate_chain n pf ms k [] = Inr None"
| "translate_chain n pf ms k (l # ls) =
     (case property pf ms l of
        None \<Rightarrow> translate_chain n pf ms k ls
      | Some e \<Rightarrow>
          (case interpolate n pf e k [k] of
             Inl er \<Rightarrow> Inl er
           | Inr (Some v) \<Rightarrow> Inr (Some v)
           | Inr None \<Rightarrow> translate_chain n pf ms k ls))"

text \<open>The fallback locale that the class takes when it is given none.\<close>

definition default_fallback :: jsstr where
  "default_fallback = lit ''en-US''"

text \<open>\<open>$t(k)\<close> (\<open>_t\<close> and \<open>_warnDefault\<close>): a message that no locale has is its key.\<close>

definition dollar_t ::
  "nat \<Rightarrow> platform \<Rightarrow> jsval \<Rightarrow> jsstr \<Rightarrow> jsstr \<Rightarrow> i18n_error + jsval" where
  "dollar_t n pf ms l k =
     (if k = [] then Inr (Text [])
      else map_sum id (\<lambda>r. case r of None \<Rightarrow> Text k | Some v \<Rightarrow> v)
             (translate_chain n pf ms k (locale_chain pf default_fallback l)))"

end
