(* ===== verification/I18n_Facts.thy ===== *)
theory I18n_Facts
  imports I18n
begin

text \<open>
  Facts about the look-up of messages: the automaton of the paths reads what it is printed from,
  the chain of locales of the four languages, and the resolution of linked messages, which ends
  because no key is resolved within itself.
\<close>

section \<open>Runs of the automaton\<close>

definition plain_key :: "jsstr \<Rightarrow> bool" where
  "plain_key k \<longleftrightarrow> k \<noteq> [] \<and> (\<forall>c \<in> set k. char_type (Some c) = ''ident'')"

definition quotable :: "jsstr \<Rightarrow> bool" where
  "quotable k \<longleftrightarrow> 39 \<notin> set k \<and> (k \<noteq> [] \<longrightarrow> last k \<noteq> 92)"

definition key_text_of :: "path_parser \<Rightarrow> jsstr" where
  "key_text_of p = (case key_text p of None \<Rightarrow> [] | Some t \<Rightarrow> t)"

lemma append_key_eq: "append_key r p = p\<lparr>key_text := Some (key_text_of p @ r)\<rparr>"
  by (simp add: append_key_def key_text_of_def split: option.split)

lemma key_text_of_simps [simp]: "key_text_of (p\<lparr>key_text := Some t\<rparr>) = t"
  "key_text_of (p\<lparr>path_state := n\<rparr>) = key_text_of p"
  by (simp_all add: key_text_of_def)

lemma transitions:
  "transition_for 0 ''ident'' = Goto 3 (Some Append)"
  "transition_for (Suc 0) ''.'' = Goto 2 None" "transition_for (Suc 0) ''['' = Goto 4 None"
  "transition_for (Suc 0) ''eof'' = Goto 7 None"
  "transition_for 2 ''ident'' = Goto 3 (Some Append)"
  "transition_for 3 ''ident'' = Goto 3 (Some Append)"
  "transition_for 3 ''.'' = Goto 2 (Some PushKey)" "transition_for 3 ''['' = Goto 4 (Some PushKey)"
  "transition_for 3 ''eof'' = Goto 7 (Some PushKey)"
  "transition_for 4 [CHR 0x27] = Goto 5 (Some Append)"
  "transition_for 4 '']'' = Goto 1 (Some CloseBracket)"
  "transition_for 5 [CHR 0x27] = Goto 4 (Some Append)"
  by code_simp+

lemma types:
  "char_type None = ''eof''" "char_type (Some 46) = ''.''" "char_type (Some 91) = ''[''"
  "char_type (Some 93) = '']''" "char_type (Some 39) = [CHR 0x27]"
  by code_simp+

text \<open>In quotes every type but the quote and the end takes the same transition.\<close>

lemma in_quotes: "c \<noteq> 39 \<Longrightarrow> transition_for 5 (char_type (Some c)) = Goto 5 (Some Append)"
proof -
  assume c: "c \<noteq> 39"
  have row: "path_states ! 5 = [([CHR 0x27], Goto 4 (Some Append)), (''eof'', Refuse),
      (''else'', Goto 5 (Some Append))]"
    by (simp add: path_states_def)
  have "char_type (Some c) \<in> {[char_of (91 :: nat)], [char_of (93 :: nat)], [char_of (46 :: nat)],
      [char_of (34 :: nat)], ''ident'', ''ws''}"
    using c by (auto simp: char_type_def)
  then show ?thesis
    by (auto simp: transition_for_def row char_of_def)
qed

lemma not_backslash_run: "\<not> (c = 92 \<and> s \<noteq> [] \<and> (path_state p = 5 \<and> hd s = 39 \<or> path_state p = 6 \<and> hd s = 34)) \<Longrightarrow>
    run_path p (c # s) =
      (case path_step (Some c) p of
           None \<Rightarrow> None
         | Some q \<Rightarrow> if path_state q = 7 then Some (path_keys q) else run_path q s)"
  by (subst run_path.simps(2)) (rule if_not_P)

lemma same_state: "path_state p = n \<Longrightarrow> p\<lparr>path_state := n\<rparr> = p"
  by auto

lemma run_ident:
  "\<forall>c \<in> set k. char_type (Some c) = ''ident'' \<Longrightarrow> path_state p = 3 \<Longrightarrow>
    run_path p (k @ s) = run_path (p\<lparr>key_text := Some (key_text_of p @ k)\<rparr>) s \<or> k = []"
proof (induction k arbitrary: p)
  case (Cons c k)
  let ?q = "p\<lparr>key_text := Some (key_text_of p @ [c])\<rparr>"
  have "run_path p (c # k @ s) = run_path ?q (k @ s)"
    using Cons.prems by (subst not_backslash_run)
      (simp_all add: path_step_def transitions path_act_def append_key_eq same_state)
  moreover have "run_path ?q (k @ s) = run_path (?q\<lparr>key_text := Some (key_text_of ?q @ k)\<rparr>) s \<or> k = []"
    using Cons by (intro Cons.IH) simp_all
  ultimately show ?case by (cases k) simp_all
qed simp

lemma run_key:
  assumes "plain_key k" "path_state p \<in> {0, 2}" "key_text p = None"
  shows "run_path p (k @ s) = run_path (p\<lparr>path_state := 3, key_text := Some k\<rparr>) s"
proof -
  obtain c k' where k: "k = c # k'" using assms(1) by (cases k) (simp_all add: plain_key_def)
  let ?q = "p\<lparr>path_state := 3, key_text := Some [c]\<rparr>"
  have "run_path p (c # k' @ s) = run_path ?q (k' @ s)"
    using assms k by (subst not_backslash_run)
      (auto simp: plain_key_def path_step_def transitions path_act_def append_key_eq same_state key_text_of_def)
  moreover have "run_path ?q (k' @ s) = run_path (?q\<lparr>key_text := Some (key_text_of ?q @ k')\<rparr>) s \<or> k' = []"
    using assms(1) k by (intro run_ident) (simp_all add: plain_key_def)
  ultimately show ?thesis using k by (auto simp: key_text_of_def)
qed

lemma run_quoted:
  assumes "39 \<notin> set k" "path_state p = 5" "key_text_of p @ k \<noteq> []" "last (key_text_of p @ k) \<noteq> 92"
  shows "run_path p (k @ 39 # s) = run_path (p\<lparr>path_state := 4, key_text := Some (key_text_of p @ k @ [39])\<rparr>) s"
  using assms
proof (induction k arbitrary: p)
  case Nil
  have "run_path p (39 # s) = run_path (p\<lparr>path_state := 4, key_text := Some (key_text_of p @ [39])\<rparr>) s"
    using Nil.prems(2) by (subst not_backslash_run)
      (simp_all add: path_step_def types transitions path_act_def append_key_eq same_state)
  then show ?case by simp
next
  case (Cons c k)
  let ?q = "p\<lparr>key_text := Some (key_text_of p @ [c])\<rparr>"
  have "\<not> (c = 92 \<and> hd (k @ 39 # s) = 39)" using Cons.prems by (cases k) auto
  then have "run_path p (c # k @ 39 # s) = run_path ?q (k @ 39 # s)"
    using Cons.prems by (subst not_backslash_run)
      (auto simp: path_step_def in_quotes path_act_def append_key_eq same_state)
  also have "\<dots> = run_path (?q\<lparr>path_state := 4, key_text := Some (key_text_of ?q @ k @ [39])\<rparr>) s"
    using Cons.prems by (intro Cons.IH) (auto split: if_splits)
  finally show ?case by simp
qed

lemma sub_key_quoted: "39 \<notin> set k \<Longrightarrow> sub_key (39 # k @ [39]) = Some k"
proof -
  assume k: "39 \<notin> set k"
  have "js_trim (39 # k @ [39]) = 39 # k @ [39]" by (simp add: js_trim_def js_space_def)
  moreover have "bare_literal (39 # k @ [39])" using k by (simp add: bare_literal_def)
  then have "is_literal (39 # k @ [39])" by (simp add: is_literal_def)
  ultimately show ?thesis by (simp add: sub_key_def strip_quotes_def)
qed

text \<open>A key in quotes, after the bracket was read.\<close>

lemma run_bracket:
  assumes "quotable k" "path_state p = 4" "key_text p = None" "bracket_depth p = 0"
  shows "run_path p (39 # k @ 39 # 93 # s) =
    run_path (p\<lparr>path_state := 1, path_keys := path_keys p @ [k]\<rparr>) s"
proof -
  let ?q = "p\<lparr>path_state := 5, key_text := Some [39]\<rparr>"
  have "run_path p (39 # k @ 39 # 93 # s) = run_path ?q (k @ 39 # 93 # s)"
    using assms by (subst not_backslash_run)
      (simp_all add: path_step_def types transitions path_act_def append_key_eq key_text_of_def)
  also have "\<dots> = run_path (?q\<lparr>path_state := 4, key_text := Some (39 # k @ [39])\<rparr>) (93 # s)"
    using assms(1) run_quoted [of k ?q "93 # s"] by (simp add: quotable_def key_text_of_def)
  also have "\<dots> = run_path (p\<lparr>path_state := 1, path_keys := path_keys p @ [k], key_text := None\<rparr>) s"
    using assms(1,4) by (subst not_backslash_run)
      (simp_all add: path_step_def types transitions path_act_def quotable_def sub_key_quoted)
  also have "p\<lparr>path_state := 1, path_keys := path_keys p @ [k], key_text := None\<rparr> =
      p\<lparr>path_state := 1, path_keys := path_keys p @ [k]\<rparr>"
    using assms(3) by simp
  finally show ?thesis .
qed

section \<open>Printing a path\<close>

definition print_key :: "jsstr \<Rightarrow> jsstr" where
  "print_key k = (if plain_key k then 46 # k else [91, 39] @ k @ [39, 93])"

fun print_path :: "jsstr list \<Rightarrow> jsstr" where
  "print_path [] = []"
| "print_path (k # ks) = k @ concat (map print_key ks)"

text \<open>Between two keys: one is pending in state 3, or all are pushed in state 1.\<close>

definition between :: "jsstr list \<Rightarrow> path_parser \<Rightarrow> bool" where
  "between ks p \<longleftrightarrow> bracket_depth p = 0 \<and>
     (path_state p = 3 \<and> (\<exists>t. key_text p = Some t \<and> ks = path_keys p @ [t]) \<or>
      path_state p = 1 \<and> key_text p = None \<and> ks = path_keys p)"

lemma between_step:
  assumes "between ks p"
  shows "path_step (Some 46) p = Some (p\<lparr>key_text := None, path_keys := ks, path_state := 2\<rparr>)"
    and "path_step (Some 91) p = Some (p\<lparr>key_text := None, path_keys := ks, path_state := 4\<rparr>)"
  using assms by (cases p; auto simp: between_def path_step_def types transitions path_act_def)+

lemma run_keys:
  "between ks p \<Longrightarrow> \<forall>k \<in> set ls. plain_key k \<or> quotable k \<Longrightarrow>
    run_path p (concat (map print_key ls)) = Some (ks @ ls)"
proof (induction ls arbitrary: ks p)
  case Nil
  then show ?case
    by (auto simp: between_def path_step_def types transitions path_act_def)
next
  case (Cons k ls)
  define p0 where "p0 = p\<lparr>key_text := None, path_keys := ks\<rparr>"
  have p0: "key_text p0 = None" "bracket_depth p0 = 0" "path_keys p0 = ks"
    using Cons.prems(1) by (simp_all add: p0_def between_def)
  let ?s = "concat (map print_key ls)"
  show ?case
  proof (cases "plain_key k")
    case True
    have "run_path p (46 # k @ ?s) = run_path (p0\<lparr>path_state := 2\<rparr>) (k @ ?s)"
      using Cons.prems(1) by (subst not_backslash_run) (simp_all add: between_step p0_def)
    also have "\<dots> = run_path (p0\<lparr>path_state := 3, key_text := Some k\<rparr>) ?s"
      using run_key [OF True, of "p0\<lparr>path_state := 2\<rparr>" ?s] p0 by simp
    also have "\<dots> = Some ((ks @ [k]) @ ls)"
      using Cons.prems(2) p0 by (intro Cons.IH) (simp_all add: between_def)
    finally show ?thesis using True by (simp add: print_key_def [of k])
  next
    case False
    then have q: "quotable k" using Cons.prems(2) by simp
    have "run_path p (91 # 39 # k @ 39 # 93 # ?s) = run_path (p0\<lparr>path_state := 4\<rparr>) (39 # k @ 39 # 93 # ?s)"
      using Cons.prems(1) by (subst not_backslash_run) (simp_all add: between_step p0_def)
    also have "\<dots> = run_path (p0\<lparr>path_state := 1, path_keys := ks @ [k]\<rparr>) ?s"
      using run_bracket [OF q, of "p0\<lparr>path_state := 4\<rparr>" ?s] p0 by simp
    also have "\<dots> = Some ((ks @ [k]) @ ls)"
      using Cons.prems(2) p0 by (intro Cons.IH) (simp_all add: between_def)
    finally show ?thesis using False by (simp add: print_key_def [of k])
  qed
qed

lemma parse_print:
  assumes "plain_key k" "\<forall>l \<in> set ls. plain_key l \<or> quotable l"
  shows "parse_path (print_path (k # ls)) = Some (k # ls)"
proof -
  let ?p = "\<lparr>path_state = 0, key_text = None, bracket_depth = 0, path_keys = []\<rparr>"
  have "run_path ?p (k @ concat (map print_key ls)) =
      run_path (?p\<lparr>path_state := 3, key_text := Some k\<rparr>) (concat (map print_key ls))"
    using assms(1) by (intro run_key) simp_all
  also have "\<dots> = Some ([k] @ ls)"
    using assms(2) by (intro run_keys) (simp_all add: between_def)
  finally show ?thesis by (simp add: parse_path_def)
qed

lemma parse_plain: "plain_key k \<Longrightarrow> parse_path k = Some [k]"
  using parse_print [of k "[]"] by simp

section \<open>Looking up a plain key\<close>

lemma find_plain: "plain_key k \<Longrightarrow> find_message pf (Table t) k = property pf (Table t) k"
  by (auto simp: find_message_def get_path_value_def parse_plain plain_object_def
      split: option.split)

section \<open>Linked messages end\<close>

text \<open>The texts with links in a value, and the keys that they link to.\<close>

fun linked :: "jsval \<Rightarrow> jsstr set" where
  "linked (Text s) = (if has_link s then {s} else {})"
| "linked (Table t) = (\<Union>x \<in> set t. linked (snd x))"
| "linked _ = {}"

lemma finite_linked: "finite (linked v)"
  by (induction v rule: linked.induct) auto

definition link_keys :: "jsval \<Rightarrow> jsstr set" where
  "link_keys e = (\<Union>s \<in> linked e. (\<lambda>(g, m, k). k) ` set (links s))"

lemma finite_link_keys: "finite (link_keys e)"
  by (simp add: link_keys_def finite_linked)

text \<open>
  What the platform adds to the messages has no linked texts but theirs. The observer of a table
  leads back to the table, so that the whole object of messages is the bound.
\<close>

definition members_within :: "platform \<Rightarrow> jsval \<Rightarrow> bool" where
  "members_within pf ms \<longleftrightarrow> (\<forall>v k x. member_of pf v k = Some x \<longrightarrow> linked x \<subseteq> linked ms)"

lemma linked_property:
  assumes "members_within pf ms" "linked v \<subseteq> linked ms" "property pf v k = Some x"
  shows "linked x \<subseteq> linked ms"
proof (cases v)
  case (Table t)
  then show ?thesis using assms
    by (auto simp: property_def split: option.splits if_splits dest!: map_of_SomeD) force
qed (use assms in \<open>auto simp: property_def members_within_def\<close>)

lemma linked_walk:
  "members_within pf ms \<Longrightarrow> linked v \<subseteq> linked ms \<Longrightarrow> walk_path pf v ks = Some x \<Longrightarrow>
    linked x \<subseteq> linked ms"
  by (induction ks arbitrary: v) (auto split: option.splits dest: linked_property)

lemma find_from:
  "find_message pf e k = Some x \<Longrightarrow> (\<exists>ks. walk_path pf e ks = Some x) \<or> property pf e k = Some x"
  by (auto simp: find_message_def get_path_value_def split: option.splits jsval.splits if_splits)

lemma linked_find:
  assumes "members_within pf ms" "linked e \<subseteq> linked ms" "find_message pf e k = Some x"
  shows "linked x \<subseteq> linked ms"
  using find_from [OF assms(3)] linked_walk [OF assms(1,2)] linked_property [OF assms(1,2)] by blast

lemma found_link_keys:
  assumes "members_within pf ms" "linked e \<subseteq> linked ms" "find_message pf e k = Some (Text s)"
    "has_link s" "(g, m, k') \<in> set (links s)"
  shows "k' \<in> link_keys ms"
proof -
  have "s \<in> linked ms" using linked_find [OF assms(1-3)] assms(4) by simp
  moreover have "k' \<in> (\<lambda>(g, m, k). k) ` set (links s)" by (rule image_eqI [OF _ assms(5)]) simp
  ultimately show ?thesis unfolding link_keys_def by blast
qed

lemma fewer_keys:
  assumes "k \<in> link_keys ms" "k \<notin> set vs"
  shows "card (link_keys ms - set (vs @ [k])) < card (link_keys ms - set vs)"
  using assms by (intro psubset_card_mono) (auto simp: finite_link_keys)

text \<open>Enough stack for the keys not yet on the way: no overflow, and more of it changes nothing.\<close>

lemma links_within:
  assumes "\<And>k. k \<in> link_keys ms \<Longrightarrow> k \<notin> set vs \<Longrightarrow>
      interpolate n pf e k (vs @ [k]) \<noteq> Inl StackOverflow \<and>
      interpolate (Suc n) pf e k (vs @ [k]) = interpolate n pf e k (vs @ [k])"
  shows "\<forall>(g, m, k) \<in> set ls. k \<in> link_keys ms \<Longrightarrow>
    resolve_links n pf e s vs ls \<noteq> Inl StackOverflow \<and>
    resolve_links (Suc n) pf e s vs ls = resolve_links n pf e s vs ls"
proof (induction ls arbitrary: s)
  case (Cons l ls)
  obtain g m k where l: "l = (g, m, k)" by (cases l)
  then have k: "k \<in> link_keys ms" using Cons.prems by simp
  have "modify pf m v \<noteq> Inl StackOverflow" for v
    by (simp add: modify_def split: jsval.split)
  then show ?case
    using Cons k assms [OF k] l by (auto split: sum.splits)
qed simp

lemma interpolate_enough:
  assumes "members_within pf ms" "linked e \<subseteq> linked ms"
  shows "card (link_keys ms - set vs) < n \<Longrightarrow>
    interpolate n pf e k vs \<noteq> Inl StackOverflow \<and>
    interpolate (Suc n) pf e k vs = interpolate n pf e k vs"
proof (induction n arbitrary: k vs)
  case (Suc n)
  show ?case
  proof (cases "\<exists>s. find_message pf e k = Some (Text s) \<and> has_link s")
    case True
    then obtain s where s: "find_message pf e k = Some (Text s)" "has_link s" by blast
    have "resolve_links n pf e s vs (links s) \<noteq> Inl StackOverflow \<and>
        resolve_links (Suc n) pf e s vs (links s) = resolve_links n pf e s vs (links s)"
    proof (rule links_within)
      fix k' assume "k' \<in> link_keys ms" "k' \<notin> set vs"
      from fewer_keys [OF this] Suc.prems
      show "interpolate n pf e k' (vs @ [k']) \<noteq> Inl StackOverflow \<and>
          interpolate (Suc n) pf e k' (vs @ [k']) = interpolate n pf e k' (vs @ [k'])"
        by (intro Suc.IH) simp
    qed (use found_link_keys [OF assms s] in auto)
    then show ?thesis using s
      by (cases "resolve_links n pf e s vs (links s)") (simp_all add: interpolate.simps)
  qed (auto simp: interpolate.simps split: option.split jsval.split)
qed simp

lemma translate_enough:
  assumes "members_within pf ms" "card (link_keys ms) < n"
  shows "translate_chain n pf ms k ls \<noteq> Inl StackOverflow \<and>
    translate_chain (Suc n) pf ms k ls = translate_chain n pf ms k ls"
proof (induction ls)
  case (Cons l ls)
  show ?case
  proof (cases "property pf ms l")
    case (Some e)
    have "card (link_keys ms - set [k]) < n"
      using assms(2) by (rule le_less_trans [rotated]) (auto intro: card_mono finite_link_keys)
    then have "interpolate n pf e k [k] \<noteq> Inl StackOverflow \<and>
        interpolate (Suc n) pf e k [k] = interpolate n pf e k [k]"
      by (rule interpolate_enough [OF assms(1) linked_property [OF assms(1) order_refl Some]])
    then show ?thesis using Cons Some by (auto split: sum.split option.split)
  qed (use Cons in simp)
qed simp

section \<open>Chains of locales\<close>

text \<open>The text \<open>en-US\<close> has no property named like a language.\<close>

definition bare_fallback :: "platform \<Rightarrow> bool" where
  "bare_fallback pf \<longleftrightarrow> (\<forall>l. member_of pf (Text default_fallback) (lang_text l) = None)"

lemma chain_of_lang:
  assumes "bare_fallback pf"
  shows "locale_chain pf default_fallback (lang_text l) =
    (if l = En then [lit ''en'', lit ''en-US''] else [lang_text l, lit ''en-US'', lit ''en''])"
proof -
  have "member_of pf (Text (lit ''en-US'')) (lit ''en'') = None"
    "member_of pf (Text (lit ''en-US'')) (lit ''zh'') = None"
    "member_of pf (Text (lit ''en-US'')) (lit ''ja'') = None"
    "member_of pf (Text (lit ''en-US'')) (lit ''ko'') = None"
    using assms [unfolded bare_fallback_def, rule_format, of En]
      assms [unfolded bare_fallback_def, rule_format, of Zh]
      assms [unfolded bare_fallback_def, rule_format, of Ja]
      assms [unfolded bare_fallback_def, rule_format, of Ko]
    by (simp_all add: lang_text_def default_fallback_def)
  then show ?thesis
    by (cases l) (simp_all add: locale_chain_def append_locale_def append_item_def lang_text_def
      default_fallback_def lit_def Let_def append_prefixes.simps)
qed

section \<open>Tables without links\<close>

text \<open>A value of texts without the sign that starts a link, in tables of any depth.\<close>

definition no_link_sign :: "jsstr \<Rightarrow> bool" where
  "no_link_sign s \<longleftrightarrow> 64 \<notin> set s"

fun link_free :: "jsval \<Rightarrow> bool" where
  "link_free (Text s) = no_link_sign s"
| "link_free (Table t) = list_all (\<lambda>x. link_free (snd x)) t"
| "link_free _ = False"

lemma no_link_sign_lit [simp]: "no_link_sign (lit s) \<longleftrightarrow> CHR 0x40 \<notin> set s"
proof -
  have "(64 :: jschar) = of_char (CHR 0x40)" by simp
  then show ?thesis
    by (simp only: no_link_sign_def lit_def set_map inj_image_mem_iff [OF inj_of_char_jschar])
qed

lemma no_link_sign_list [simp]: "no_link_sign []" "no_link_sign (c # s) \<longleftrightarrow> c \<noteq> 64 \<and> no_link_sign s"
  by (auto simp: no_link_sign_def)

lemma index_from_hd: "index_from i s (c # p) \<ge> 0 \<Longrightarrow> c \<in> set s"
  by (induction s arbitrary: i) (auto simp: starts_with_def split: if_splits)

lemma no_sign_no_link: "no_link_sign s \<Longrightarrow> \<not> has_link s"
  using index_from_hd [of 0 s 64] by (auto simp: has_link_def index_of_def no_link_sign_def lit_def)

lemma link_free_linked: "link_free v \<Longrightarrow> linked v = {}"
  by (induction v rule: link_free.induct) (auto simp: no_sign_no_link list_all_iff)

definition inherited :: "jsstr \<Rightarrow> bool" where
  "inherited k \<longleftrightarrow> k \<in> {lit ''__ob__'', lit ''__proto__''} \<union> lit ` set object_functions"

lemma property_own: "\<not> inherited k \<Longrightarrow> property pf (Table t) k = map_of t k"
  by (auto simp: property_def inherited_def split: option.split)

lemma interpolate_plain:
  assumes "plain_key k" "\<not> inherited k" "link_free (Table t)"
  shows "interpolate n pf (Table t) k vs = Inr (map_of t k)"
proof -
  have f: "find_message pf (Table t) k = map_of t k"
    using assms by (simp add: find_plain property_own)
  have "link_free v" if "map_of t k = Some v" for v
    using assms(3) map_of_SomeD [OF that] by (force simp: list_all_iff)
  then show ?thesis
    by (cases "map_of t k") (auto simp: interpolate.simps f render_def no_sign_no_link
        split: jsval.split)
qed

end
