(* ===== verification/Lang_Messages.thy ===== *)
theory Lang_Messages
  imports I18n Lang_Tables
begin

text \<open>
  The texts of the four languages, as the chunks \<open>chunk-2d0ae94a\<close> (English), \<open>chunk-2d0a347d\<close>
  (Chinese), \<open>chunk-2d2073f4\<close> (filed under Japanese) and \<open>chunk-2d0aba49\<close> (filed under Korean) define
  them under \<open>app/assets/dist/js\<close>; the chunks compiled from the JavaScript sources hold the same
  texts. A text beyond ASCII is a list of code units. The Japanese and the Korean texts are
  Chinese in the source.
\<close>

definition table_of :: "(string \<times> jsval) list \<Rightarrow> (jsstr \<times> jsval) list" where
  "table_of t = map (\<lambda>(k, v). (lit k, v)) t"

definition nested :: "(string \<times> jsval) list \<Rightarrow> jsval" where
  "nested t = Table (table_of t)"

section \<open>English\<close>

definition en_table :: "(string \<times> jsval) list" where
  "en_table =
    [(''nowAccountAddress'', Text (lit ''Current address'')),
     (''contractAddress'', Text (lit ''Contract address'')),
     (''otherParamsState'', Text (lit ''Other parameters introduction'')),
     (''leftAvailableCount'', Text (lit ''Remaining available contract'')),
     (''maxBusinessmanCount'', Text (lit ''Max businessman number'')),
     (''dataLoading'', Text (lit ''Data loading...'')),
     (''contractAddressIsNull'', Text (lit ''Contract address is null, please configure it first'')),
     (''caLengthIsWrong'', Text (lit ''Contract address length error'')),
     (''plsCheckCaInfo'', Text (lit ''Failed to obtain data, please check your contract address'')),
     (''qrInfoRegistered'', Text (lit ''QR Code already registered'')),
     (''businessStepOne'', Text (lit ''First step: Set operation type'')),
     (''addBusiness'', Text (lit ''Add businessman'')),
     (''deleteBusiness'', Text (lit ''Delete businessman'')),
     (''businessStepTwo'', Text (lit ''Second step: Set businessman info'')),
     (''inputUsername'', Text (lit ''Please type user name'')),
     (''inputAddress'', Text (lit ''Please input address'')),
     (''authCount'', Text (lit ''auth times'')),
     (''nextStep'', Text (lit ''Next step'')),
     (''operateTypeIsError'', Text (lit ''Operation type error, please check your option'')),
     (''verifyAuthCount'', Text (lit ''Businessman authorization times must be above 0'')),
     (''verifyAddressError'', Text (lit ''Failed to input address verification'')),
     (''plsConfirmInfo'', Text (lit ''Please confirm operation info'')),
     (''operationType'', Text (lit ''Operation Type'')),
     (''businessName'', Text (lit ''Businessman name'')),
     (''businessAddress'', Text (lit ''Businessman address'')),
     (''pwdSignAndUpToChain'', Text (lit ''signature'')),
     (''clickVerifyUpToChain'', Text (lit ''sign and verify'')),
     (''assemblingData'', Text (lit ''Assembling data signature...'')),
     (''assembleDataError'', Text (lit ''Assembling data error, please check your input parameters '')),
     (''plsInputPwdAndSign'', Text (lit ''Please input password and continue verification, it will be on chain automatically when finished'')),
     (''unknownErrorPlsRecheck'', Text (lit ''Unknown error occured, please exit and check your network '')),
     (''dataUploading'', Text (lit ''Data uploading...'')),
     (''successUpLoad'', Text (lit ''Data on chain finished, you can search transaction status on browser'')),
     (''failUpLoad'', Text (lit ''Failed to put data on chain, please check your network or retry it'')),
     (''emptyResult'', Text [0x4E, 0x6F, 0x20, 0x64, 0x61, 0x74, 0x61, 0x20, 0x72, 0x65, 0x63,
       0x6F, 0x72, 0x64, 0x20, 0x6F, 0x6E, 0x20, 0x63, 0x68, 0x61, 0x69, 0x6E, 0x20, 0xFF01]),
     (''operationTypeSelect'', Text (lit ''Operation type selection'')),
     (''addAdmin'', Text (lit ''Add admin'')),
     (''deleteAdmin'', Text (lit ''Delete admin'')),
     (''plsChooseAddress'', Text (lit ''Please select address'')),
     (''plsChooseOrInputAddress'', Text (lit ''Please select or input address '')),
     (''forbidDeleteAdmin'', Text (lit ''Note: Only 2 admins now, you cannot delete admin anymore'')),
     (''inputNotNull'', Text (lit ''Name and address cannot be empty'')),
     (''adminStepOne'', Text (lit ''First step: please confim following info'')),
     (''adminStepTwo'', Text (lit ''Second step: input password signature, it will be on chain automatically when finished'')),
     (''authTxAdminInfo'', Text (lit ''Authorize admin info'')),
     (''nowAuthAdminAddress'', Text (lit ''Authorize admin address'')),
     (''signAdminName'', Text (lit ''Admin name'')),
     (''signAdminAddress'', Text (lit ''Admin address'')),
     (''operationStatus'', Text (lit ''Operation Status Info'')),
     (''messageSigned'', Text (lit ''Message signature'')),
     (''targetObj'', Text (lit ''Operation target'')),
     (''targetObjAddress'', Text (lit ''Address info'')),
     (''targetObjName'', Text (lit ''Operation target name'')),
     (''authRecord'', Text (lit ''authorized record'')),
     (''remainingTimes'', Text (lit ''left times'')),
     (''noMore'', Text (lit ''No more'')),
     (''noSearchResult'', Text (lit ''No search result'')),
     (''businessDetail'', Text (lit ''Businessman detailed info'')),
     (''initialAuthTimes'', Text (lit ''Initial authorization times'')),
     (''businessList'', Text (lit ''Worker List'')),
     (''giaNum'', Text (lit ''Gia number'')),
     (''kimNum'', Text (lit ''Kim number'')),
     (''kimNumNotEmpty'', Text (lit ''Kim number cannot be empty'')),
     (''canNotAddMore'', Text (lit ''Can not add more'')),
     (''notMoreThan'', Text (lit ''Data can not more than 256,pls cut down data'')),
     (''carat'', Text (lit ''Carat'')),
     (''clarity'', Text (lit ''Clarity'')),
     (''certificateList'', Text (lit ''Certificate list'')),
     (''dataSearching'', Text (lit ''Data searching'')),
     (''certListIsEmpty'', Text (lit ''Certificate list is empty'')),
     (''giaNumNotExist'', Text (lit ''Your gia number do not exit on chain'')),
     (''errorCertFormat'', Text (lit ''Error in certificate format result'')),
     (''inputCertNum'', Text (lit ''Please input certificate number'')),
     (''certAttachInfo'', Text (lit ''Attached certificate info'')),
     (''attachInfo'', Text (lit ''Attached info'')),
     (''certNotAttachInfo'', Text (lit ''No data on certificate now, you can add info on chain'')),
     (''addInfoToChain'', Text (lit ''Add info on chain'')),
     (''chainCert'', Text (lit ''On chain certificate'')),
     (''uploadPdf'', Text (lit ''Tap to upload gia certificate(pdf format)'')),
     (''certAnalysing'', Text (lit ''Analysing certificate info...'')),
     (''must'', Text (lit ''Compulsory'')),
     (''must_max18'', Text (lit ''Compulsory(18 limited)'')),
     (''optional'', Text (lit ''Optional'')),
     (''chainCertInfo'', Text (lit ''On chain certificate info'')),
     (''businessAddressIsNull'', Text (lit ''Businessman info is empty, please confirm businessman address'')),
     (''signStatus'', Text (lit ''Signature status'')),
     (''confirmSignChain'', Text (lit ''Data verification complete, tap to send it on chain'')),
     (''sendToChain'', Text (lit ''Send it on chain '')),
     (''uploading'', Text (lit ''Uploading...'')),
     (''infoToChain'', Text (lit ''Data on chain '')),
     (''signSuccess'', Text (lit ''Signature succeeded'')),
     (''signFailure'', Text (lit ''Signature failed'')),
     (''signFailureErrorHint'', Text (lit ''Certificate signature failed! Please check related data and upload certificate again'')),
     (''certDetail'', Text (lit ''Certificate detail'')),
     (''certToChainProcess'', Text (lit ''Certificate on chain status'')),
     (''signAddress'', Text (lit ''Signature address'')),
     (''signName'', Text (lit ''Signature name'')),
     (''upChainState'', Text (lit ''On chain status'')),
     (''successUpChain'', Text (lit ''On chain succeeded'')),
     (''failureUpChain'', Text (lit ''On chain failed'')),
     (''uploadingChain'', Text (lit ''Uploading on chain'')),
     (''backHomePage'', Text (lit ''Tap to return homepage'')),
     (''certNum'', Text (lit ''Certificate number'')),
     (''inputNineteen'', Text (lit ''Add onchain info, no more than 60 digits'')),
     (''attachInfoToChain'', Text (lit ''Attached info on chain '')),
     (''notPermitAddress'', Text (lit ''Current wallet address, cannot be used for this signature'')),
     (''attachMustNotNull'', Text (lit ''Attached info on chain certificate cannot be empty'')),
     (''pwdSign'', Text (lit ''Please input password to sign message'')),
     (''confirmInfo'', Text (lit ''Confirm Information'')),
     (''languageChoice'', Text [0x4C, 0x61, 0x6E, 0x67, 0x75, 0x61, 0x67, 0x65, 0x2F, 0x8BED,
       0x8A00]),
     (''dappTitle'', Text (lit ''Diamond DApp'')),
     (''username'', Text (lit ''Name'')),
     (''address'', Text (lit ''Address'')),
     (''uploadCert'', Text (lit ''Upload Certificate'')),
     (''finishState'', Text (lit ''finish'')),
     (''unFinishState'', Text (lit ''unfinished'')),
     (''ongoingState'', Text (lit ''ongoing'')),
     (''txSendToChain'', Text (lit ''send to chain'')),
     (''businessMsgTip'', Text (lit ''business information'')),
     (''save'', Text (lit ''Save'')),
     (''edit'', Text (lit ''edit'')),
     (''confirm'', Text (lit ''Confirm'')),
     (''cancel'', Text (lit ''Cancel'')),
     (''delete'', Text (lit ''Delete'')),
     (''complete'', Text (lit ''Complete'')),
     (''loadingTip'', Text (lit ''Loading...'')),
     (''name'', Text (lit ''Name'')),
     (''sign'', Text (lit ''Sign'')),
     (''id'', Text (lit ''ID'')),
     (''time'', Text (lit ''Time'')),
     (''own'', Text (lit ''Own'')),
     (''gia'', Text (lit ''GIA'')),
     (''weight'', Text (lit ''Weight'')),
     (''colorGrade'', Text (lit ''Color Grade'')),
     (''validityLevel'', Text (lit ''Validity Level'')),
     (''cutGrade'', Text (lit ''Cut Grade'')),
     (''hash'', Text (lit ''HASH'')),
     (''inputMsg'', Text (lit ''input message'')),
     (''scan'', Text (lit ''Scan'')),
     (''search'', Text (lit ''Search'')),
     (''certificateChain'', Text (lit ''Upload Cert'')),
     (''businessAuthorize'', Text (lit ''Worker Setting'')),
     (''managerSetting'', Text (lit ''Admin Setting'')),
     (''businessCancel'', Text (lit ''Business Cancel'')),
     (''unknownType'', Text (lit ''unknown type'')),
     (''editAdmin'', Text (lit ''edit admin'')),
     (''authSuccess'', Text (lit ''Authorized  successful'')),
     (''authExpire'', Text (lit ''Authorized expired'')),
     (''authPadding'', Text (lit ''Authorized unsuccessful'')),
     (''inputPwdToSign'', Text (lit ''Please enter a password to sign'')),
     (''inputName'', Text (lit ''please enter user name'')),
     (''emptyChainData'', Text [0x4F, 0x6E, 0x43, 0x68, 0x61, 0x69, 0x6E, 0x20, 0x64, 0x61, 0x74,
       0x61, 0x20, 0x69, 0x73, 0x20, 0x65, 0x6D, 0x70, 0x74, 0x79, 0xFF01]),
     (''kim'', Text (lit ''Kim'')),
     (''accountInfo'', Text (lit ''Account Info'')),
     (''searchGiaNum'', Text (lit ''please input diamond gia number'')),
     (''cert_upload'', Text (lit ''upload certificate'')),
     (''nullCertNum'', Text [0x43, 0x65, 0x72, 0x74, 0x69, 0x66, 0x69, 0x63, 0x61, 0x74, 0x65,
       0x20, 0x6E, 0x75, 0x6D, 0x62, 0x65, 0x72, 0x20, 0x69, 0x6E, 0x70, 0x75, 0x74, 0x20, 0x69,
       0x73, 0x20, 0x65, 0x6D, 0x70, 0x74, 0x79, 0xFF01]),
     (''errorCertNum'', Text [0x54, 0x68, 0x65, 0x20, 0x63, 0x65, 0x72, 0x74, 0x69, 0x66, 0x69,
       0x63, 0x61, 0x74, 0x65, 0x20, 0x6E, 0x75, 0x6D, 0x62, 0x65, 0x72, 0x20, 0x69, 0x73, 0x20,
       0x69, 0x6E, 0x63, 0x6F, 0x72, 0x72, 0x65, 0x63, 0x74, 0x6C, 0x79, 0xFF01]),
     (''chooseAdmin'', Text (lit ''Choose Admin'')),
     (''inputNameOrAddress'', Text (lit ''Please input username or address'')),
     (''qrCode'', Text (lit ''QR code'')),
     (''scanSign'', Text (lit ''Scan signature'')),
     (''scanSigned'', Text (lit ''Please scan the signed QR code'')),
     (''signByScan'', Text (lit ''Please scan the code for signature'')),
     (''giaCert'', Text (lit ''Gia Cert'')),
     (''otherCert'', Text (lit ''Other Cert''))]"

section \<open>Chinese\<close>

definition zh_table :: "(string \<times> jsval) list" where
  "zh_table =
    [(''nowAccountAddress'', Text [0x5F53, 0x524D, 0x8D26, 0x6237, 0x5730, 0x5740]),
     (''contractAddress'', Text [0x5408, 0x7EA6, 0x5730, 0x5740]),
     (''otherParamsState'', Text [0x5176, 0x4ED6, 0x53C2, 0x6570, 0x8BF4, 0x660E]),
     (''leftAvailableCount'', Text [0x5408, 0x7EA6, 0x5269, 0x4F59, 0x53EF, 0x8C03, 0x7528,
       0x6B21, 0x6570]),
     (''maxBusinessmanCount'', Text [0x6700, 0x591A, 0x5141, 0x8BB8, 0x4E1A, 0x52A1, 0x5458,
       0x4E2A, 0x6570]),
     (''dataLoading'', Text [0x6570, 0x636E, 0x52A0, 0x8F7D, 0x4E2D, 0x2E, 0x2E, 0x2E]),
     (''contractAddressIsNull'', Text [0x5408, 0x7EA6, 0x5730, 0x5740, 0x4E3A, 0x7A7A, 0xFF0C,
       0x8BF7, 0x5148, 0x914D, 0x7F6E, 0x20, 0x5408, 0x7EA6, 0x5730, 0x5740]),
     (''caLengthIsWrong'', Text [0x5408, 0x7EA6, 0x5730, 0x5740, 0x20, 0x957F, 0x5EA6, 0x4E0D,
       0x7B26, 0x5408, 0x683C, 0x5F0F]),
     (''plsCheckCaInfo'', Text [0x83B7, 0x53D6, 0x6570, 0x636E, 0x5931, 0x8D25, 0xFF0C, 0x8BF7,
       0x68C0, 0x67E5, 0x60A8, 0x7684, 0x5408, 0x7EA6, 0x5730, 0x5740, 0x4FE1, 0x606F]),
     (''qrInfoRegistered'', Text [0x4E8C, 0x7EF4, 0x7801, 0x4FE1, 0x606F, 0x5DF2, 0x5F55, 0x5165,
       0x21]),
     (''businessStepOne'', Text [0x6B65, 0x9AA4, 0x4E00, 0x3A, 0x20, 0x8BBE, 0x7F6E, 0x64CD,
       0x4F5C, 0x7C7B, 0x578B]),
     (''addBusiness'', Text [0x589E, 0x52A0, 0x4E1A, 0x52A1, 0x5458]),
     (''deleteBusiness'', Text [0x5220, 0x9664, 0x4E1A, 0x52A1, 0x5458]),
     (''businessStepTwo'', Text [0x6B65, 0x9AA4, 0x4E8C, 0x3A, 0x20, 0x8BBE, 0x7F6E, 0x4E1A,
       0x52A1, 0x5458, 0x4FE1, 0x606F]),
     (''inputUsername'', Text [0x8BF7, 0x8F93, 0x5165, 0x7528, 0x6237, 0x540D]),
     (''inputAddress'', Text [0x8BF7, 0x8F93, 0x5165, 0x5730, 0x5740]),
     (''authCount'', Text [0x6388, 0x6743, 0x6B21, 0x6570]),
     (''nextStep'', Text [0x4E0B, 0x4E00, 0x6B65]),
     (''operateTypeIsError'', Text [0x64CD, 0x4F5C, 0x7C7B, 0x578B, 0x9009, 0x62E9, 0x6709,
       0x8BEF, 0xFF0C, 0x8BF7, 0x91CD, 0x65B0, 0x68C0, 0x67E5, 0x60A8, 0x7684, 0x9009, 0x62E9]),
     (''verifyAddressError'', Text [0x8F93, 0x5165, 0x5730, 0x5740, 0x9A8C, 0x8BC1, 0x5931,
       0x8D25, 0x21]),
     (''verifyAuthCount'', Text [0x4E1A, 0x52A1, 0x5458, 0x6388, 0x6743, 0x6B21, 0x6570, 0xFF0C,
       0x5FC5, 0x987B, 0x5927, 0x7EA6, 0x30, 0x21]),
     (''plsConfirmInfo'', Text [0x8BF7, 0x786E, 0x8BA4, 0x64CD, 0x4F5C, 0x4FE1, 0x606F]),
     (''operationType'', Text [0x64CD, 0x4F5C, 0x7C7B, 0x578B]),
     (''businessName'', Text [0x4E1A, 0x52A1, 0x5458, 0x540D, 0x79F0]),
     (''businessAddress'', Text [0x4E1A, 0x52A1, 0x5458, 0x5730, 0x5740]),
     (''pwdSignAndUpToChain'', Text [0x7B7E, 0x540D, 0x4E0A, 0x94FE]),
     (''clickVerifyUpToChain'', Text [0x70B9, 0x51FB, 0x9A8C, 0x8BC1, 0x4E0A, 0x94FE]),
     (''assemblingData'', Text [0x62FC, 0x63A5, 0x7B7E, 0x540D, 0x6570, 0x636E, 0x4E2D, 0x2E,
       0x2E, 0x2E]),
     (''assembleDataError'', Text [0x62FC, 0x88C5, 0x6570, 0x636E, 0x51FA, 0x73B0, 0x9519,
       0x8BEF, 0xFF0C, 0x8BF7, 0x91CD, 0x65B0, 0x68C0, 0x67E5, 0x60A8, 0x5F55, 0x5165, 0x7684,
       0x53C2, 0x6570]),
     (''plsInputPwdAndSign'', Text [0x8BF7, 0x8F93, 0x5165, 0x8BE5, 0x8D26, 0x6237, 0x5BC6,
       0x7801, 0x7EE7, 0x7EED, 0x7B7E, 0x540D, 0x9A8C, 0x8BC1, 0xFF0C, 0x5B8C, 0x6210, 0x540E,
       0x5C06, 0x81EA, 0x52A8, 0x6267, 0x884C, 0x4E0A, 0x94FE]),
     (''unknownErrorPlsRecheck'', Text [0x64CD, 0x4F5C, 0x51FA, 0x73B0, 0x672A, 0x77E5, 0x9519,
       0x8BEF, 0xFF0C, 0x8BF7, 0x91CD, 0x65B0, 0x9000, 0x51FA, 0x68C0, 0x67E5, 0x60A8, 0x7684,
       0x76F8, 0x5173, 0x53C2, 0x6570, 0x548C, 0x7F51, 0x7EDC]),
     (''dataUploading'', Text [0x4FE1, 0x606F, 0x4E0A, 0x94FE, 0x8FDB, 0x884C, 0x4E2D, 0x2E,
       0x2E, 0x2E]),
     (''successUpLoad'', Text [0x4FE1, 0x606F, 0x4E0A, 0x94FE, 0x5DF2, 0x5B8C, 0x6210, 0xFF0C,
       0x53EF, 0x5728, 0x6D4F, 0x89C8, 0x5668, 0x67E5, 0x8BE2, 0x4EA4, 0x6613, 0x72B6, 0x6001,
       0x2E, 0x2E, 0x2E]),
     (''failUpLoad'', Text [0x4FE1, 0x606F, 0x4E0A, 0x94FE, 0x5931, 0x8D25, 0xFF0C, 0x94FE,
       0x4E0A, 0x8C03, 0x7528, 0x51FA, 0x73B0, 0x95EE, 0x9898, 0xFF0C, 0x8BF7, 0x68C0, 0x67E5,
       0x4F60, 0x7684, 0x7F51, 0x7EDC, 0x6216, 0x91CD, 0x65B0, 0x5C1D, 0x8BD5, 0xFF01]),
     (''emptyResult'', Text [0x94FE, 0x4E0A, 0x8BE5, 0x6570, 0x636E, 0x7ED3, 0x679C, 0x4E3A,
       0x7A7A, 0xFF01]),
     (''operationTypeSelect'', Text [0x64CD, 0x4F5C, 0x7C7B, 0x578B, 0x9009, 0x62E9]),
     (''addAdmin'', Text [0x589E, 0x52A0, 0x7BA1, 0x7406, 0x5458]),
     (''deleteAdmin'', Text [0x5220, 0x9664, 0x7BA1, 0x7406, 0x5458]),
     (''plsChooseAddress'', Text [0x8BF7, 0x9009, 0x62E9, 0x5730, 0x5740]),
     (''plsChooseOrInputAddress'', Text [0x8BF7, 0x9009, 0x62E9, 0x6216, 0x8F93, 0x5165, 0x5730,
       0x5740]),
     (''forbidDeleteAdmin'', Text [0x63D0, 0x793A, 0xFF1A, 0x76EE, 0x524D, 0x53EA, 0x6709,
       0x4E24, 0x4E2A, 0x7BA1, 0x7406, 0x5458, 0xFF0C, 0x4E0D, 0x80FD, 0x518D, 0x5220, 0x9664,
       0x4E86]),
     (''inputNotNull'', Text [0x540D, 0x5B57, 0x548C, 0x5730, 0x5740, 0x5185, 0x5BB9, 0x4E0D,
       0x80FD, 0x4E3A, 0x7A7A]),
     (''adminStepOne'', Text [0x6B65, 0x9AA4, 0x4E00, 0x3A, 0x20, 0x8BF7, 0x786E, 0x8BA4, 0x5982,
       0x4E0B, 0x4FEE, 0x6539, 0x4FE1, 0x606F]),
     (''adminStepTwo'', Text [0x6B65, 0x9AA4, 0x4E8C, 0x3A, 0x20, 0x8F93, 0x5165, 0x5BC6, 0x7801,
       0x7B7E, 0x540D, 0xFF0C, 0x5B8C, 0x6210, 0x540E, 0x81EA, 0x52A8, 0x8FDB, 0x884C, 0x4FE1,
       0x606F, 0x4E0A, 0x94FE]),
     (''authTxAdminInfo'', Text [0x6388, 0x6743, 0x7BA1, 0x7406, 0x5458, 0x7684, 0x4FE1, 0x606F]),
     (''nowAuthAdminAddress'', Text [0x6388, 0x6743, 0x7BA1, 0x7406, 0x5458, 0x5730, 0x5740]),
     (''signAdminName'', Text [0x7BA1, 0x7406, 0x5458, 0x59D3, 0x540D]),
     (''signAdminAddress'', Text [0x7BA1, 0x7406, 0x5458, 0x5730, 0x5740]),
     (''operationStatus'', Text [0x64CD, 0x4F5C, 0x72B6, 0x6001, 0x4FE1, 0x606F]),
     (''messageSigned'', Text [0x4FE1, 0x606F, 0x7B7E, 0x540D]),
     (''targetObj'', Text [0x64CD, 0x4F5C, 0x5BF9, 0x8C61]),
     (''targetObjAddress'', Text [0x5730, 0x5740, 0x4FE1, 0x606F]),
     (''targetObjName'', Text [0x64CD, 0x4F5C, 0x5BF9, 0x8C61, 0x7528, 0x6237, 0x540D]),
     (''authRecord'', Text [0x6388, 0x6743, 0x8BB0, 0x5F55]),
     (''remainingTimes'', Text [0x53EF, 0x6388, 0x6743, 0x6B21, 0x6570]),
     (''noMore'', Text [0x6CA1, 0x6709, 0x66F4, 0x591A, 0x4E86]),
     (''noSearchResult'', Text [0x4E0D, 0x5B58, 0x5728, 0x641C, 0x7D22, 0x7ED3, 0x679C]),
     (''businessDetail'', Text [0x4E1A, 0x52A1, 0x5458, 0x8BE6, 0x7EC6, 0x4FE1, 0x606F]),
     (''initialAuthTimes'', Text [0x521D, 0x59CB, 0x6388, 0x6743, 0x6B21, 0x6570]),
     (''businessList'', Text [0x4E1A, 0x52A1, 0x5458, 0x5217, 0x8868]),
     (''giaNum'', Text [0x67, 0x69, 0x61, 0x7F16, 0x53F7]),
     (''kimNum'', Text [0x6B, 0x69, 0x6D, 0x7F16, 0x53F7]),
     (''kimNumNotEmpty'', Text [0x6B, 0x69, 0x6D, 0x7F16, 0x53F7, 0x4E0D, 0x80FD, 0x4E3A, 0x7A7A]),
     (''canNotAddMore'', Text [0x4E0D, 0x80FD, 0x518D, 0x6DFB, 0x52A0, 0x4E86]),
     (''notMoreThan'', Text [0x6570, 0x636E, 0x5185, 0x5BB9, 0x4E0D, 0x80FD, 0x8D85, 0x8FC7,
       0x32, 0x35, 0x36, 0x4F4D, 0x2C, 0x8BF7, 0x7CBE, 0x7B80, 0x60A8, 0x7684, 0x5185, 0x5BB9]),
     (''carat'', Text [0x91CD, 0x91CF]),
     (''clarity'', Text [0x900F, 0x660E, 0x5EA6]),
     (''certificateList'', Text [0x94FE, 0x8BC1, 0x4E66, 0x5217, 0x8868]),
     (''dataSearching'', Text [0x6570, 0x636E, 0x641C, 0x7D22, 0x4E2D, 0x2E, 0x2E, 0x2E]),
     (''certListIsEmpty'', Text [0x8BC1, 0x4E66, 0x5217, 0x8868, 0x4E3A, 0x7A7A, 0x21]),
     (''giaNumNotExist'', Text [0x60A8, 0x8F93, 0x5165, 0x7684, 0x67, 0x69, 0x61, 0x7F16, 0x53F7,
       0xFF0C, 0x94FE, 0x4E0A, 0x67E5, 0x8BE2, 0x4E0D, 0x5B58, 0x5728]),
     (''errorCertFormat'', Text [0x8FD4, 0x56DE, 0x8BC1, 0x4E66, 0x7ED3, 0x679C, 0x683C, 0x5F0F,
       0x6709, 0x8BEF, 0xFF01]),
     (''inputCertNum'', Text [0x8BF7, 0x8F93, 0x5165, 0x8BC1, 0x4E66, 0x7F16, 0x53F7]),
     (''certAttachInfo'', Text [0x8BC1, 0x4E66, 0x9644, 0x52A0, 0x4FE1, 0x606F]),
     (''attachInfo'', Text [0x9644, 0x52A0, 0x4FE1, 0x606F]),
     (''certNotAttachInfo'', Text [0x8BC1, 0x4E66, 0x4E0A, 0x6682, 0x65E0, 0x4FE1, 0x606F,
       0xFF0C, 0x53EF, 0x6DFB, 0x52A0, 0x4FE1, 0x606F, 0x4E0A, 0x94FE]),
     (''addInfoToChain'', Text [0x6DFB, 0x52A0, 0x4FE1, 0x606F, 0x4E0A, 0x94FE]),
     (''chainCert'', Text [0x94FE, 0x8BC1, 0x4E66]),
     (''uploadPdf'', Text [0x70B9, 0x51FB, 0x9009, 0x62E9, 0x4E0A, 0x4F20, 0x67, 0x69, 0x61,
       0x8BC1, 0x4E66, 0xFF08, 0x70, 0x64, 0x66, 0x6587, 0x4EF6, 0x683C, 0x5F0F, 0xFF09]),
     (''certAnalysing'', Text [0x89E3, 0x6790, 0x8BC1, 0x4E66, 0x4FE1, 0x606F, 0x4E2D, 0x2E,
       0x2E, 0x2E]),
     (''must'', Text [0x5FC5, 0x586B]),
     (''must_max18'', Text [0x5FC5, 0x586B, 0x28, 0x6700, 0x591A, 0x31, 0x38, 0x4F4D, 0x82F1,
       0x6587, 0x2B, 0x6570, 0x5B57, 0x29]),
     (''optional'', Text [0x53EF, 0x9009, 0x586B]),
     (''chainCertInfo'', Text [0x94FE, 0x8BC1, 0x4E66, 0x4FE1, 0x606F]),
     (''businessAddressIsNull'', Text [0x4E1A, 0x52A1, 0x5458, 0x4FE1, 0x606F, 0x4E3A, 0x7A7A,
       0xFF0C, 0x8BF7, 0x786E, 0x8BA4, 0x63D0, 0x4EA4, 0x8BC1, 0x4E66, 0x7684, 0x4E1A, 0x52A1,
       0x5458, 0x5730, 0x5740, 0x4FE1, 0x606F, 0x21]),
     (''signStatus'', Text [0x7B7E, 0x540D, 0x8FDB, 0x5EA6]),
     (''confirmSignChain'', Text [0x4FE1, 0x606F, 0x786E, 0x8BA4, 0x5B8C, 0x6210, 0xFF0C, 0x70B9,
       0x51FB, 0x53D1, 0x9001, 0x4E0A, 0x94FE]),
     (''sendToChain'', Text [0x53D1, 0x9001, 0x4E0A, 0x94FE]),
     (''uploading'', Text [0x4FE1, 0x606F, 0x4E0A, 0x94FE, 0x8FDB, 0x884C, 0x4E2D, 0x2E, 0x2E,
       0x2E]),
     (''infoToChain'', Text [0x4FE1, 0x606F, 0x4E0A, 0x94FE]),
     (''signSuccess'', Text [0x7B7E, 0x540D, 0x6210, 0x529F]),
     (''signFailure'', Text [0x7B7E, 0x540D, 0x5931, 0x8D25]),
     (''signFailureErrorHint'', Text [0x8BC1, 0x4E66, 0x7B7E, 0x540D, 0x5931, 0x8D25, 0xFF01,
       0x5EFA, 0x8BAE, 0x60A8, 0x68C0, 0x67E5, 0x76F8, 0x5173, 0x6570, 0x636E, 0x2C, 0x91CD,
       0x65B0, 0x6267, 0x884C, 0x63D0, 0x4EA4, 0x8BC1, 0x4E66]),
     (''certDetail'', Text [0x8BC1, 0x4E66, 0x8BE6, 0x60C5]),
     (''certToChainProcess'', Text [0x8BC1, 0x4E66, 0x4E0A, 0x94FE, 0x8FDB, 0x5EA6]),
     (''signAddress'', Text [0x7B7E, 0x540D, 0x5730, 0x5740]),
     (''signName'', Text [0x7B7E, 0x540D, 0x7528, 0x6237, 0x540D]),
     (''upChainState'', Text [0x4E0A, 0x94FE, 0x8FDB, 0x5EA6]),
     (''successUpChain'', Text [0x4E0A, 0x94FE, 0x6210, 0x529F]),
     (''failureUpChain'', Text [0x4E0A, 0x94FE, 0x5931, 0x8D25]),
     (''uploadingChain'', Text [0x4E0A, 0x94FE, 0x8FDB, 0x884C, 0x4E2D]),
     (''backHomePage'', Text [0x70B9, 0x51FB, 0x8FD4, 0x56DE, 0x20, 0x4E3B, 0x9875]),
     (''certNum'', Text [0x8BC1, 0x4E66, 0x7F16, 0x53F7]),
     (''inputNineteen'', Text [0x6DFB, 0x52A0, 0x4E0A, 0x94FE, 0x4FE1, 0x606F, 0xFF0C, 0x4E0D,
       0x8D85, 0x8FC7, 0x36, 0x30, 0x4E2A, 0x5B57, 0x7B26]),
     (''attachInfoToChain'', Text [0x9644, 0x5C5E, 0x4FE1, 0x606F, 0x4E0A, 0x94FE]),
     (''notPermitAddress'', Text [0x5F53, 0x524D, 0x94B1, 0x5305, 0x7684, 0x5730, 0x5740, 0xFF0C,
       0x4E0D, 0x80FD, 0x7528, 0x4E8E, 0x6B64, 0x6761, 0x7B7E, 0x540D]),
     (''attachMustNotNull'', Text [0x6DFB, 0x52A0, 0x5230, 0x94FE, 0x8BC1, 0x4E66, 0x7684,
       0x9644, 0x52A0, 0x4FE1, 0x606F, 0xFF0C, 0x4E0D, 0x80FD, 0x4E3A, 0x7A7A]),
     (''pwdSign'', Text [0x8F93, 0x5165, 0x5BC6, 0x7801, 0x7B7E, 0x540D]),
     (''confirmInfo'', Text [0x4FE1, 0x606F, 0x786E, 0x8BA4]),
     (''languageChoice'', Text [0x8BED, 0x8A00, 0x2F, 0x6C, 0x61, 0x6E, 0x67, 0x75, 0x61, 0x67,
       0x65]),
     (''dappTitle'', Text [0x94BB, 0x77F3, 0x44, 0x41, 0x70, 0x70]),
     (''username'', Text [0x7528, 0x6237, 0x540D]),
     (''address'', Text [0x5730, 0x5740]),
     (''uploadCert'', Text [0x4E0A, 0x4F20, 0x8BC1, 0x4E66, 0x6587, 0x4EF6]),
     (''finishState'', Text [0x5B8C, 0x6210]),
     (''unFinishState'', Text [0x672A, 0x5B8C, 0x6210]),
     (''ongoingState'', Text [0x8FDB, 0x884C, 0x4E2D, 0x2E, 0x2E, 0x2E]),
     (''txSendToChain'', Text [0x53D1, 0x9001, 0x4E0A, 0x8FDE]),
     (''businessMsgTip'', Text [0x4E1A, 0x52A1, 0x4FE1, 0x606F]),
     (''save'', Text [0x4FDD, 0x5B58]),
     (''edit'', Text [0x7F16, 0x8F91]),
     (''confirm'', Text [0x786E, 0x8BA4]),
     (''cancel'', Text [0x53D6, 0x6D88]),
     (''delete'', Text [0x5220, 0x9664]),
     (''complete'', Text [0x5B8C, 0x6210]),
     (''loadingTip'', Text [0x52A0, 0x8F7D, 0x4E2D, 0x2E, 0x2E, 0x2E]),
     (''name'', Text [0x540D, 0x5B57]),
     (''sign'', Text [0x7B7E, 0x540D]),
     (''id'', Text (lit ''ID'')),
     (''time'', Text [0x65F6, 0x95F4]),
     (''own'', Text [0x62E5, 0x6709]),
     (''gia'', Text (lit ''GIA'')),
     (''weight'', Text [0x91CD, 0x91CF]),
     (''colorGrade'', Text [0x989C, 0x8272, 0x7B49, 0x7EA7]),
     (''validityLevel'', Text [0x6548, 0x5EA6, 0x7B49, 0x7EA7]),
     (''cutGrade'', Text [0x5207, 0x5DE5, 0x7B49, 0x7EA7]),
     (''hash'', Text (lit ''HASH'')),
     (''inputMsg'', Text [0x8F93, 0x5165, 0x4FE1, 0x606F]),
     (''scan'', Text [0x626B, 0x4E00, 0x626B]),
     (''search'', Text [0x641C, 0x7D22]),
     (''certificateChain'', Text [0x4F20, 0x8BC1, 0x4E66, 0x4E0A, 0x94FE]),
     (''businessAuthorize'', Text [0x4E1A, 0x52A1, 0x5458, 0x8BBE, 0x7F6E]),
     (''managerSetting'', Text [0x7BA1, 0x7406, 0x5458, 0x8BBE, 0x7F6E]),
     (''unknownType'', Text [0x672A, 0x77E5, 0x7C7B, 0x578B]),
     (''editAdmin'', Text [0x7F16, 0x8F91, 0x7BA1, 0x7406, 0x5458]),
     (''authSuccess'', Text [0x6388, 0x6743, 0x5B8C, 0x6210]),
     (''authExpire'', Text [0x6388, 0x6743, 0x5DF2, 0x8FC7, 0x671F]),
     (''authPadding'', Text [0x6388, 0x6743, 0x672A, 0x5B8C, 0x6210]),
     (''inputPwdToSign'', Text [0x8BF7, 0x8F93, 0x5165, 0x5BC6, 0x7801, 0x8FDB, 0x884C, 0x7B7E,
       0x540D]),
     (''inputName'', Text [0x8BF7, 0x8F93, 0x5165, 0x7528, 0x6237, 0x540D]),
     (''emptyChainData'', Text [0x94FE, 0x4E0A, 0x8BE5, 0x6570, 0x636E, 0x7ED3, 0x679C, 0x4E3A,
       0x7A7A, 0xFF01]),
     (''kim'', Text (lit ''Kim'')),
     (''accountInfo'', Text [0x8D26, 0x6237, 0x4FE1, 0x606F]),
     (''searchGiaNum'', Text [0x8BF7, 0x8F93, 0x5165, 0x641C, 0x7D22, 0x94BB, 0x77F3, 0x7F16,
       0x53F7]),
     (''cert_upload'', Text [0x8BC1, 0x4E66, 0x4E0A, 0x4F20]),
     (''nullCertNum'', Text [0x8BC1, 0x4E66, 0x53F7, 0x8F93, 0x5165, 0x4E3A, 0x7A7A, 0xFF01]),
     (''errorCertNum'', Text [0x8BC1, 0x4E66, 0x53F7, 0x8F93, 0x5165, 0x6709, 0x8BEF, 0xFF01]),
     (''chooseAdmin'', Text [0x7BA1, 0x7406, 0x5458, 0x9009, 0x62E9]),
     (''inputNameOrAddress'', Text [0x8BF7, 0x8F93, 0x5165, 0x7528, 0x6237, 0x540D, 0x6216,
       0x5730, 0x5740]),
     (''qrCode'', Text [0x4E8C, 0x7EF4, 0x7801]),
     (''scanSign'', Text [0x626B, 0x63CF, 0x7B7E, 0x540D]),
     (''scanSigned'', Text [0x8BF7, 0x626B, 0x63CF, 0x7B7E, 0x540D, 0x540E, 0x7684, 0x4E8C,
       0x7EF4, 0x7801]),
     (''signByScan'', Text [0x8BF7, 0x626B, 0x7801, 0x8FDB, 0x884C, 0x7B7E, 0x540D]),
     (''giaCert'', Text [0x67, 0x69, 0x61, 0x8BC1, 0x4E66]),
     (''otherCert'', Text [0x5176, 0x4ED6])]"

section \<open>Japanese\<close>

definition ja_notifyMsg :: "(string \<times> jsval) list" where
  "ja_notifyMsg =
    [(''cancel'', Text [0x53D6, 0x6D88]), (''success'', Text [0x6210, 0x529F]), (''parError'',
     Text [0x53C2, 0x6570, 0x9519, 0x8BEF]), (''contRepeat'', Text [0x4B, 0x65, 0x79, 0x4E0D,
     0x80FD, 0x91CD, 0x590D]), (''inputNineteen'', Text [0x8BF7, 0x8F93, 0x5165, 0x6587, 0x5B57,
     0x4E14, 0x4E0D, 0x64CD, 0x8FC7, 0x31, 0x39, 0x4E2A]), (''inputSign'', Text [0x8BF7, 0x8F93,
     0x5165, 0x7B7E, 0x540D]), (''inputNotNull'', Text [0x540D, 0x5B57, 0x548C, 0x5730, 0x5740,
     0x8F93, 0x5165, 0x4E0D, 0x80FD, 0x4E3A, 0x7A7A]), (''inputTwoSign'', Text [0x8BF7, 0x5B8C,
     0x6210, 0x81F3, 0x5C11, 0x4E24, 0x4E2A, 0x7B7E, 0x540D]), (''beConsistentWithSigned'', Text
     [0x540D, 0x5B57, 0x5730, 0x5740, 0x4E0E, 0x6388, 0x6743, 0x9009, 0x62E9, 0x5E94, 0x4FDD,
     0x6301, 0x4E0E, 0x5DF2, 0x7B7E, 0x540D, 0x7684, 0x8F93, 0x5165, 0x4E00, 0x81F4, 0xFF01]),
     (''sameOperationInvalid'', Text [0x540D, 0x5B57, 0x5730, 0x5740, 0x8F93, 0x5165, 0x4E00,
     0x81F4, 0xFF0C, 0x64CD, 0x4F5C, 0x65E0, 0x6548, 0xFF01]), (''nullCertNum'', Text [0x8BC1,
     0x4E66, 0x53F7, 0x8F93, 0x5165, 0x4E3A, 0x7A7A, 0xFF01]), (''errorCertNum'', Text [0x8BC1,
     0x4E66, 0x53F7, 0x8F93, 0x5165, 0x6709, 0x8BEF, 0xFF01]), (''isSigned'', Text [0x6B64,
     0x5730, 0x5740, 0x5DF2, 0x7B7E, 0x540D]), (''choiceAuth'', Text [0x8BF7, 0x9009, 0x62E9,
     0x6388, 0x6743, 0x6216, 0x53D6, 0x6D88])]"

definition ja_process :: "(string \<times> jsval) list" where
  "ja_process =
    [(''sign'', Text [0x7B7E, 0x540D]), (''sendToChain'', Text [0x53D1, 0x9001, 0x4E0A, 0x8FDE]),
     (''makeChain'', Text [0x4E0A, 0x94FE])]"

definition ja_cert :: "(string \<times> jsval) list" where
  "ja_cert =
    [(''process'', Text [0x8FC7, 0x7A0B]), (''search'', Text [0x67E5, 0x627E, 0x8BC1, 0x4E66]),
     (''show'', Text [0x94FE, 0x8BC1, 0x4E66]), (''list'', Text [0x8BC1, 0x4E66, 0x5217, 0x8868]),
     (''input_cert'', Text [0x8BC1, 0x4E66, 0x8F93, 0x5165]), (''confirm'', Text [0x4FE1, 0x606F,
     0x786E, 0x8BA4])]"

definition ja_business :: "(string \<times> jsval) list" where
  "ja_business =
    [(''input'', Text [0x4E1A, 0x52A1, 0x64CD, 0x4F5C]), (''process'', Text [0x4E1A, 0x52A1,
     0x8FC7, 0x7A0B]), (''list'', Text [0x4E1A, 0x52A1, 0x5217, 0x8868]), (''sign'', Text [0x4E1A,
     0x52A1, 0x7B7E, 0x540D]), (''name'', Text [0x540D, 0x5B57, 0xFF1A]), (''address'', Text
     [0x5730, 0x5740, 0xFF1A]), (''businessMsgTip'', Text [0x4E1A, 0x52A1, 0x4FE1, 0x606F,
     0xFF1A]), (''businessProcess'', Text [0x4E1A, 0x52A1, 0x8FC7, 0x7A0B, 0xFF1A]), (''stepOne'',
     Text [0x73, 0x74, 0x65, 0x70, 0x31, 0x3A, 0x8BF7, 0x786E, 0x8BA4, 0x5982, 0x4E0B, 0x7533,
     0x8BF7, 0x4FE1, 0x606F]), (''stepTwo'', Text [0x73, 0x74, 0x65, 0x70, 0x32, 0xFF1A, 0x4F7F,
     0x7528, 0x6388, 0x6743, 0x5730, 0x5740, 0x8FDB, 0x884C, 0x7B7E, 0x540D]), (''stepThree'',
     Text [0x73, 0x74, 0x65, 0x70, 0x33, 0x3A, 0x626B, 0x7801, 0x83B7, 0x53D6, 0x6388, 0x6743,
     0x5730, 0x5740, 0x7B7E, 0x540D, 0x540E, 0x4FE1, 0x606F]), (''businessMsg'', Text [0x4E1A,
     0x52A1, 0x4FE1, 0x606F]), (''businessProces'', Text [0x4E1A, 0x52A1, 0x8FC7, 0x7A0B])]"

definition ja_ownTitle :: "(string \<times> jsval) list" where
  "ja_ownTitle =
    [(''input'', Text [0x62E5, 0x6709, 0x4E0A, 0x94FE]), (''process'', Text [0x4E0A, 0x94FE,
     0x8FC7, 0x7A0B]), (''confirm'', Text [0x4FE1, 0x606F, 0x786E, 0x8BA4])]"

definition ja_originalTitle :: "(string \<times> jsval) list" where
  "ja_originalTitle =
    [(''input'', Text [0x6388, 0x6743, 0x539F, 0x59CB]), (''process'', Text [0x8FC7, 0x7A0B]),
     (''apply'', Text [0x539F, 0x59CB, 0x5730, 0x5740, 0x7B7E, 0x540D]), (''scanSign'', Text
     [0x626B, 0x7801, 0x7B7E, 0x540D]), (''choice'', Text [0x9009, 0x62E9])]"

definition ja_original :: "(string \<times> jsval) list" where
  "ja_original =
    [(''statesList'', Text [0x6388, 0x6743, 0x72B6, 0x6001, 0x5217, 0x8868]), (''authAddress'',
     Text [0x6388, 0x6743, 0x5730, 0x5740]), (''name'', Text [0x7528, 0x6237, 0x540D]),
     (''address'', Text [0x5730, 0x5740]), (''status'', Text [0x6388, 0x6743, 0x72B6, 0x6001,
     0xFF1A]), (''authRequest'', Text [0x53D1, 0x8D77, 0x6388, 0x6743, 0x8BF7, 0x6C42]),
     (''inputAddress'', Text [0x8BF7, 0x8F93, 0x5165, 0x5730, 0x5740]), (''choiceOrInput'', Text
     [0x9009, 0x62E9, 0x6216, 0x8F93, 0x5165, 0x5730, 0x5740]), (''operationType'', Text [0x64CD,
     0x4F5C, 0x7C7B, 0x578B]), (''operationTypeSelect'', Text [0x64CD, 0x4F5C, 0x7C7B, 0x578B,
     0x9009, 0x62E9]), (''operationMethod'', Text [0x64CD, 0x4F5C, 0x7C7B, 0x578B]),
     (''modificationMsg'', Text [0x64CD, 0x4F5C, 0x5BF9, 0x8C61, 0x4FE1, 0x606F]), (''addrMsg'',
     Text [0x539F, 0x59CB, 0x5730, 0x5740, 0x4FE1, 0x606F, 0xFF1A]), (''nowAuthAdminAddress'',
     Text [0x6388, 0x6743, 0x7BA1, 0x7406, 0x5458, 0x5730, 0x5740]), (''signName'', Text [0x539F,
     0x59CB, 0x7B7E, 0x540D, 0x59D3, 0x540D]), (''signAddr'', Text [0x539F, 0x59CB, 0x7B7E,
     0x540D, 0x5730, 0x5740]), (''signStepOne'', Text [0x73, 0x74, 0x65, 0x70, 0x31, 0x3A, 0x8BF7,
     0x786E, 0x8BA4, 0x5982, 0x4E0B, 0x4FEE, 0x6539, 0x4FE1, 0x606F]), (''signStepTwo'', Text
     [0x73, 0x74, 0x65, 0x70, 0x32, 0x3A, 0x8F93, 0x5165, 0x5BC6, 0x7801, 0x7B7E, 0x540D, 0xFF0C,
     0x5B8C, 0x6210, 0x540E, 0x81EA, 0x52A8, 0x8FDB, 0x884C, 0x4FE1, 0x606F, 0x4E0A, 0x94FE]),
     (''signStepThree'', Text [0x73, 0x74, 0x65, 0x70, 0x33, 0x3A, 0x626B, 0x7801, 0x83B7, 0x53D6,
     0x7B7E, 0x540D, 0x4FE1, 0x606F, 0x540E, 0x7684, 0x4E8C, 0x7EF4, 0x7801]), (''originalList'',
     Text [0x539F, 0x59CB, 0x5217, 0x8868, 0xFF1A]), (''authObj'', Text [0x6388, 0x6743, 0x5BF9,
     0x8C61, 0xFF1A]), (''chainProcess'', Text [0x4E0A, 0x94FE, 0x8FC7, 0x7A0B, 0xFF1A])]"

definition ja_businessesList :: "(string \<times> jsval) list" where
  "ja_businessesList =
    [(''inputName'', Text [0x8BF7, 0x8F93, 0x5165, 0x540D, 0x5B57])]"

definition ja_certList :: "(string \<times> jsval) list" where
  "ja_certList =
    [(''certMsg'', Text [0x94FE, 0x8BC1, 0x4E66, 0x4FE1, 0x606F, 0xFF1A]), (''addChainContent'',
     Text [0x8BC1, 0x4E66, 0x94FE, 0x4E0A, 0x9644, 0x52A0, 0x5185, 0x5BB9, 0xFF1A]),
     (''chainNotMsg'', Text [0x94FE, 0x4E0A, 0x6682, 0x65E0, 0x4FE1, 0x606F, 0xFF0C, 0x53EF,
     0x6DFB, 0x52A0, 0x4FE1, 0x606F, 0x4E0A, 0x94FE]), (''addMsgToChain'', Text [0x6DFB, 0x52A0,
     0x4FE1, 0x606F, 0x4E0A, 0x94FE]), (''inputCert'', Text [0x8BF7, 0x8F93, 0x5165, 0x641C,
     0x7D22, 0x49, 0x44])]"

definition ja_certToChain :: "(string \<times> jsval) list" where
  "ja_certToChain =
    [(''uploadPdf'', Text [0x70B9, 0x51FB, 0x4E0A, 0x4F20, 0x9009, 0x62E9, 0x70, 0x64, 0x66,
     0x6587, 0x4EF6]), (''uploadCert'', Text [0x4E0A, 0x4F20, 0x8BC1, 0x4E66, 0x6587, 0x4EF6]),
     (''loading'', Text [0x52A0, 0x8F7D, 0x4E2D, 0x2E, 0x2E, 0x2E]), (''certMsg'', Text [0x8BC1,
     0x4E66, 0x4FE1, 0x606F, 0x5982, 0x4E0B, 0xFF1A]), (''authChoice'', Text [0x6388, 0x6743,
     0x65B9, 0x5F0F, 0x9009, 0x62E9, 0xFF1A]), (''clickToSign'', Text [0x70B9, 0x51FB, 0x7B7E,
     0x540D]), (''othersToSign'', Text [0x5176, 0x4ED6, 0x8D26, 0x6237, 0x7B7E, 0x540D]),
     (''scanSignedMsg'', Text [0x626B, 0x63CF, 0x7B7E, 0x540D, 0x540E, 0x4FE1, 0x606F]),
     (''finalConfirm'', Text [0x6700, 0x540E, 0x786E, 0x8BA4, 0x4E0A, 0x94FE, 0x7684, 0x4FE1,
     0x606F]), (''clickToChain'', Text [0x70B9, 0x51FB, 0x786E, 0x8BA4, 0x4E0A, 0x94FE]),
     (''sendToChain'', Text [0x53D1, 0x9001, 0x4E0A, 0x94FE]), (''certDetail'', Text [0x8BC1,
     0x4E66, 0x8BE6, 0x60C5, 0xFF1A]), (''chainProcess'', Text [0x8BC1, 0x4E66, 0x4E0A, 0x94FE,
     0x8FDB, 0x5EA6, 0xFF1A]), (''signStatus'', Text [0x7B7E, 0x540D, 0x72B6, 0x6001, 0xFF1A]),
     (''signAddr'', Text [0x7B7E, 0x540D, 0x5730, 0x5740, 0xFF1A]), (''signName'', Text [0x7B7E,
     0x540D, 0x59D3, 0x540D, 0xFF1A]), (''chainStatus'', Text [0x4E0A, 0x94FE, 0x72B6, 0x6001])]"

definition ja_owns :: "(string \<times> jsval) list" where
  "ja_owns =
    [(''giaNum'', Text [0x47, 0x49, 0x41, 0x7F16, 0x53F7, 0xFF1A]), (''inputMsg'', Text [0x8BF7,
     0x8F93, 0x5165, 0x4E0A, 0x94FE, 0x4FE1, 0x606F]), (''choiceSignMethod'', Text [0x4E0A,
     0x94FE, 0x4FE1, 0x606F, 0x7B7E, 0x540D, 0x65B9, 0x5F0F, 0x9009, 0x62E9, 0xFF1A]),
     (''selfSign'', Text [0x8D26, 0x6237, 0x5BC6, 0x7801, 0x7B7E, 0x540D]), (''othersSign'', Text
     [0x5176, 0x4ED6, 0x8D26, 0x6237, 0x7B7E, 0x540D]), (''signStatus'', Text [0x7B7E, 0x540D,
     0x72B6, 0x6001, 0xFF1A]), (''nextStep'', Text [0x4E0B, 0x4E00, 0x6B65]), (''finalConfirm'',
     Text [0x8BF7, 0x6700, 0x540E, 0x786E, 0x8BA4, 0x4FE1, 0x606F]), (''confirmSignChain'', Text
     [0x786E, 0x8BA4, 0x4FE1, 0x606F, 0xFF0C, 0x7B7E, 0x540D, 0x5373, 0x53EF, 0x4E0A, 0x94FE])]"

definition ja_table :: "(string \<times> jsval) list" where
  "ja_table =
    [(''languageChoice'', Text [0x9009, 0x62E9, 0x8BED, 0x8A00]), (''dappTitle'', Text [0x94BB,
     0x77F3, 0x44, 0x41, 0x70, 0x70]), (''title'', Text (lit ''Diamond'')), (''save'', Text
     [0x4FDD, 0x5B58]), (''confirm'', Text [0x786E, 0x8BA4]), (''cancel'', Text [0x53D6, 0x6D88]),
     (''delete'', Text [0x5220, 0x9664]), (''complete'', Text [0x5B8C, 0x6210]), (''nextStep'',
     Text [0x4E0B, 0x4E00, 0x6B65]), (''loadingTip'', Text [0x52A0, 0x8F7D, 0x4E2D, 0x2E, 0x2E,
     0x2E]), (''name'', Text [0x540D, 0x5B57]), (''address'', Text [0x5730, 0x5740]), (''sign'',
     Text [0x7B7E, 0x540D]), (''id'', Text (lit ''ID'')), (''time'', Text [0x65F6, 0x95F4]),
     (''own'', Text [0x62E5, 0x6709]), (''remainingTimes'', Text [0x4F59, 0x4E0B, 0x6B21,
     0x6570]), (''gia'', Text (lit ''GIA'')), (''weight'', Text [0x91CD, 0x91CF]),
     (''colorGrade'', Text [0x989C, 0x8272, 0x7B49, 0x7EA7]), (''validityLevel'', Text [0x6548,
     0x5EA6, 0x7B49, 0x7EA7]), (''cutGrade'', Text [0x5207, 0x5DE5, 0x7B49, 0x7EA7]), (''hash'',
     Text (lit ''HASH'')), (''inputMsg'', Text [0x8F93, 0x5165, 0x4FE1, 0x606F]),
     (''certificateList'', Text [0x94FE, 0x8BC1, 0x4E66, 0x8868]), (''scan'', Text [0x626B,
     0x4E00, 0x626B]), (''search'', Text [0x641C, 0x7D22]), (''certificateChain'', Text [0x8BC1,
     0x4E66, 0x4E0A, 0x94FE]), (''inputCertNum'', Text [0x8BF7, 0x8F93, 0x5165, 0x8BC1, 0x4E66,
     0x7F16, 0x53F7]), (''businessAuthorize'', Text [0x6388, 0x6743, 0x4E1A, 0x52A1]),
     (''businessCancel'', Text [0x53D6, 0x6D88, 0x4E1A, 0x52A1]), (''businessList'', Text [0x4E1A,
     0x52A1, 0x5217, 0x8868]), (''authOriginal'', Text [0x589E, 0x52A0, 0x7BA1, 0x7406, 0x5458]),
     (''deleteAdmin'', Text [0x53D6, 0x6D88, 0x539F, 0x59CB]), (''authRecord'', Text [0x6388,
     0x6743, 0x8BB0, 0x5F55]), (''inputPwdToSign'', Text [0x8BF7, 0x8F93, 0x5165, 0x5BC6, 0x7801,
     0x8FDB, 0x884C, 0x7B7E, 0x540D]), (''inputAddress'', Text [0x8BF7, 0x8F93, 0x5165, 0x5730,
     0x5740]), (''inputName'', Text [0x8BF7, 0x8F93, 0x5165, 0x7528, 0x6237, 0x540D]),
     (''noMore'', Text [0x6CA1, 0x6709, 0x66F4, 0x591A, 0x4E86]), (''signByScan'', Text [0x8BF7,
     0x626B, 0x7801, 0x8FDB, 0x884C, 0x7B7E, 0x540D]), (''searchGiaNum'', Text [0x8BF7, 0x8F93,
     0x5165, 0x641C, 0x7D22, 0x94BB, 0x77F3, 0x7F16, 0x53F7]), (''accountInfo'', Text [0x8D26,
     0x6237, 0x4FE1, 0x606F]), (''qrCode'', Text [0x4E8C, 0x7EF4, 0x7801]), (''scanSign'', Text
     [0x626B, 0x63CF, 0x7B7E, 0x540D]), (''notifyMsg'', nested ja_notifyMsg), (''process'', nested
     ja_process), (''cert'', nested ja_cert), (''business'', nested ja_business), (''ownTitle'',
     nested ja_ownTitle), (''originalTitle'', nested ja_originalTitle), (''original'', nested
     ja_original), (''businessesList'', nested ja_businessesList), (''certList'', nested
     ja_certList), (''certToChain'', nested ja_certToChain), (''owns'', nested ja_owns)]"

section \<open>Korean\<close>

definition ko_table :: "(string \<times> jsval) list" where
  "ko_table =
    [(''languageChoice'', Text [0x9009, 0x62E9, 0x8BED, 0x8A00]), (''title'', Text (lit
     ''Diamond'')), (''dappTitle'', Text [0x94BB, 0x77F3, 0x44, 0x41, 0x70, 0x70]), (''save'',
     Text [0x4FDD, 0x5B58]), (''confirm'', Text [0x786E, 0x8BA4]), (''cancel'', Text [0x53D6,
     0x6D88]), (''delete'', Text [0x5220, 0x9664]), (''complete'', Text [0x5B8C, 0x6210]),
     (''nextStep'', Text [0x4E0B, 0x4E00, 0x6B65]), (''loadingTip'', Text [0x52A0, 0x8F7D, 0x4E2D,
     0x2E, 0x2E, 0x2E]), (''name'', Text [0x540D, 0x5B57]), (''address'', Text [0x5730, 0x5740]),
     (''sign'', Text [0x7B7E, 0x540D]), (''id'', Text (lit ''ID'')), (''time'', Text [0x65F6,
     0x95F4]), (''own'', Text [0x62E5, 0x6709]), (''remainingTimes'', Text [0x4F59, 0x4E0B,
     0x6B21, 0x6570]), (''gia'', Text (lit ''GIA'')), (''weight'', Text [0x91CD, 0x91CF]),
     (''colorGrade'', Text [0x989C, 0x8272, 0x7B49, 0x7EA7]), (''validityLevel'', Text [0x6548,
     0x5EA6, 0x7B49, 0x7EA7]), (''cutGrade'', Text [0x5207, 0x5DE5, 0x7B49, 0x7EA7]), (''hash'',
     Text (lit ''HASH'')), (''inputMsg'', Text [0x8F93, 0x5165, 0x4FE1, 0x606F]),
     (''certificateList'', Text [0x94FE, 0x8BC1, 0x4E66, 0x8868]), (''scan'', Text [0x626B,
     0x4E00, 0x626B]), (''search'', Text [0x641C, 0x7D22]), (''certificateChain'', Text [0x8BC1,
     0x4E66, 0x4E0A, 0x94FE]), (''inputCertNum'', Text [0x8BF7, 0x8F93, 0x5165, 0x8BC1, 0x4E66,
     0x7F16, 0x53F7]), (''businessAuthorize'', Text [0x6388, 0x6743, 0x4E1A, 0x52A1]),
     (''businessCancel'', Text [0x53D6, 0x6D88, 0x4E1A, 0x52A1]), (''businessList'', Text [0x4E1A,
     0x52A1, 0x5217, 0x8868]), (''addAdmin'', Text [0x589E, 0x52A0, 0x7BA1, 0x7406, 0x5458]),
     (''deleteAdmin'', Text [0x53D6, 0x6D88, 0x539F, 0x59CB]), (''authRecord'', Text [0x6388,
     0x6743, 0x8BB0, 0x5F55]), (''inputPwdToSign'', Text [0x8BF7, 0x8F93, 0x5165, 0x5BC6, 0x7801,
     0x8FDB, 0x884C, 0x7B7E, 0x540D]), (''inputAddress'', Text [0x8BF7, 0x8F93, 0x5165, 0x5730,
     0x5740]), (''inputName'', Text [0x8BF7, 0x8F93, 0x5165, 0x7528, 0x6237, 0x540D]),
     (''noMore'', Text [0x6CA1, 0x6709, 0x66F4, 0x591A, 0x4E86]), (''signByScan'', Text [0x8BF7,
     0x626B, 0x7801, 0x8FDB, 0x884C, 0x7B7E, 0x540D]), (''searchGiaNum'', Text [0x8BF7, 0x8F93,
     0x5165, 0x641C, 0x7D22, 0x94BB, 0x77F3, 0x7F16, 0x53F7]), (''accountInfo'', Text [0x8D26,
     0x6237, 0x4FE1, 0x606F]), (''qrCode'', Text [0x4E8C, 0x7EF4, 0x7801]), (''scanSign'', Text
     [0x626B, 0x63CF, 0x7B7E, 0x540D]), (''notifyMsg'', nested ja_notifyMsg), (''process'', nested
     ja_process), (''cert'', nested ja_cert), (''business'', nested ja_business), (''ownTitle'',
     nested ja_ownTitle), (''originalTitle'', nested ja_originalTitle), (''original'', nested
     ja_original), (''businessesList'', nested ja_businessesList), (''certList'', nested
     ja_certList), (''certToChain'', nested ja_certToChain), (''owns'', nested ja_owns)]"

definition table_for :: "lang \<Rightarrow> (string \<times> jsval) list" where
  "table_for l = (case l of En \<Rightarrow> en_table | Zh \<Rightarrow> zh_table | Ja \<Rightarrow> ja_table | Ko \<Rightarrow> ko_table)"

section \<open>The keys of the pages\<close>

text \<open>
  The keys that handlers and templates of the pages pass to \<open>$t\<close> as literal texts, in the order
  of the English table; the one call with a computed key is that of the card, which translates the names
  of the entries of a certificate.
\<close>

definition shown_keys :: "string list" where
  "shown_keys =
    [''nowAccountAddress'', ''contractAddress'', ''otherParamsState'', ''leftAvailableCount'',
     ''maxBusinessmanCount'', ''dataLoading'', ''contractAddressIsNull'', ''caLengthIsWrong'',
     ''plsCheckCaInfo'', ''qrInfoRegistered'', ''businessStepOne'', ''addBusiness'',
     ''deleteBusiness'', ''businessStepTwo'', ''inputUsername'', ''inputAddress'',
     ''authCount'', ''nextStep'', ''operateTypeIsError'', ''verifyAuthCount'',
     ''verifyAddressError'', ''plsConfirmInfo'', ''operationType'', ''businessName'',
     ''businessAddress'', ''pwdSignAndUpToChain'', ''clickVerifyUpToChain'', ''assemblingData'',
     ''assembleDataError'', ''plsInputPwdAndSign'', ''unknownErrorPlsRecheck'',
     ''dataUploading'', ''successUpLoad'', ''failUpLoad'', ''operationTypeSelect'',
     ''addAdmin'', ''deleteAdmin'', ''plsChooseAddress'', ''plsChooseOrInputAddress'',
     ''forbidDeleteAdmin'', ''inputNotNull'', ''adminStepOne'', ''adminStepTwo'',
     ''authTxAdminInfo'', ''nowAuthAdminAddress'', ''signAdminName'', ''signAdminAddress'',
     ''operationStatus'', ''messageSigned'', ''targetObj'', ''targetObjAddress'',
     ''targetObjName'', ''authRecord'', ''remainingTimes'', ''noMore'', ''noSearchResult'',
     ''businessDetail'', ''initialAuthTimes'', ''businessList'', ''giaNum'', ''kimNum'',
     ''kimNumNotEmpty'', ''canNotAddMore'', ''notMoreThan'', ''certificateList'',
     ''dataSearching'', ''certListIsEmpty'', ''giaNumNotExist'', ''errorCertFormat'',
     ''inputCertNum'', ''certAttachInfo'', ''attachInfo'', ''certNotAttachInfo'',
     ''addInfoToChain'', ''chainCert'', ''must_max18'', ''optional'', ''chainCertInfo'',
     ''businessAddressIsNull'', ''signStatus'', ''confirmSignChain'', ''sendToChain'',
     ''uploading'', ''infoToChain'', ''signSuccess'', ''signFailure'', ''signFailureErrorHint'',
     ''certDetail'', ''certToChainProcess'', ''signAddress'', ''upChainState'',
     ''successUpChain'', ''failureUpChain'', ''uploadingChain'', ''backHomePage'', ''certNum'',
     ''inputNineteen'', ''attachInfoToChain'', ''notPermitAddress'', ''attachMustNotNull'',
     ''pwdSign'', ''confirmInfo'', ''languageChoice'', ''dappTitle'', ''username'', ''address'',
     ''finishState'', ''ongoingState'', ''txSendToChain'', ''businessMsgTip'', ''save'',
     ''edit'', ''gia'', ''scan'', ''search'', ''certificateChain'', ''businessAuthorize'',
     ''managerSetting'', ''unknownType'', ''editAdmin'', ''authSuccess'', ''authExpire'',
     ''authPadding'', ''inputName'', ''emptyChainData'', ''accountInfo'', ''searchGiaNum'',
     ''cert_upload'', ''nullCertNum'', ''errorCertNum'', ''chooseAdmin'',
     ''inputNameOrAddress'', ''signByScan'', ''scan.certOwn'']"

section \<open>The object of messages\<close>

text \<open>The table that a module exports.\<close>

definition module_table :: "string \<Rightarrow> jsval" where
  "module_table m =
     (case map_of [(''0b57'', en_table), (''0205'', zh_table), (''a05d'', ja_table),
                   (''15c2'', ko_table)] m of
        None \<Rightarrow> Obj (lit m)
      | Some t \<Rightarrow> nested t)"

text \<open>The object \<open>o\<close> of the module \<open>2c4c\<close>: a language whose table did not arrive has an empty one.\<close>

definition messages_object :: "lang_state \<Rightarrow> jsval" where
  "messages_object s =
     Table (map (\<lambda>l. (lang_text l,
                      case messages s l of None \<Rightarrow> Table [] | Some m \<Rightarrow> module_table m))
              [En, Zh, Ja, Ko])"

text \<open>What a page shows for a key.\<close>

definition page_text :: "nat \<Rightarrow> platform \<Rightarrow> lang_state \<Rightarrow> jsstr \<Rightarrow> i18n_error + jsval" where
  "page_text n pf s k = dollar_t n pf (messages_object s) (i18n_locale s) k"

end
