(* ===== verification/I18n_Tables.thy ===== *)
theory I18n_Tables
  imports I18n_Facts Lang_Messages Js_Utils "HOL-Library.Sublist"
begin

text \<open>
  Facts about the texts of the four languages: they have no links, the keys of the pages are in
  the English and in the Chinese table, and what a page shows for a key that is a name.
\<close>

section \<open>The tables\<close>

lemma tables_link_free:
  "link_free (nested en_table)" "link_free (nested zh_table)" "link_free (nested ja_table)"
  "link_free (nested ko_table)"
  by (simp_all add: en_table_def zh_table_def ja_table_def ko_table_def nested_def table_of_def
      ja_notifyMsg_def ja_process_def ja_cert_def ja_business_def ja_ownTitle_def
      ja_originalTitle_def ja_original_def ja_businessesList_def ja_certList_def
      ja_certToChain_def ja_owns_def)

lemma link_free_table: "link_free (Table (table_of (table_for l)))"
  using tables_link_free by (cases l) (simp_all add: table_for_def nested_def)

lemma module_table_lang: "module_table (table_module l) = Table (table_of (table_for l))"
  by (cases l) (simp_all add: module_table_def table_module_def table_for_def nested_def)

lemma map_of_table: "map_of (table_of t) (lit k) = map_of t k"
  by (induction t) (auto simp: table_of_def)

lemma table_keys: "map fst en_table = en_keys" "map fst zh_table = zh_keys"
  by (simp_all add: en_table_def en_keys_def zh_table_def zh_keys_def)

text \<open>The texts of a table at its top level: those with a name that is shown are no tables and not empty.\<close>

fun shown_text :: "jsval \<Rightarrow> bool" where
  "shown_text (Text s) = (s \<noteq> [])"
| "shown_text _ = False"

lemma shown_texts: "list_all (\<lambda>x. shown_text (snd x)) en_table" "list_all (\<lambda>x. shown_text (snd x)) zh_table"
  by (simp_all add: en_table_def zh_table_def)

section \<open>The object of messages\<close>

text \<open>The language whose table is in a slot: in that of Japanese it may be the Chinese one.\<close>

definition held :: "lang_state \<Rightarrow> lang \<Rightarrow> lang" where
  "held s l = (if l = Ja \<and> messages s Ja = Some (table_module Zh) then Zh else l)"

lemma held_same [simp]: "l \<noteq> Ja \<Longrightarrow> held s l = l"
  by (simp add: held_def)

lemma held_ok:
  assumes "tables_ok s" shows "held s l = l"
proof -
  have "table_module Zh \<noteq> table_module Ja" by (simp add: table_module_def)
  then have "messages s Ja \<noteq> Some (table_module Zh)" using assms unfolding tables_ok_def by blast
  then show ?thesis by (simp add: held_def)
qed

lemma message_slot:
  assumes "slots_ok s"
  shows "property pf (messages_object s) (lang_text l) =
    Some (Table (if messages s l = None then [] else table_of (table_for (held s l))))"
proof -
  have "messages s l = Some m \<Longrightarrow> m = table_module (held s l)" for m
    using assms by (auto simp: slots_ok_def held_def)
  then show ?thesis
    by (cases l; cases "messages s l")
       (simp_all add: messages_object_def property_def module_table_lang)
qed

lemma no_such_slot: "property pf (messages_object s) (lit ''en-US'') = None"
  by (simp add: messages_object_def property_def lang_text_def object_functions_def)

text \<open>The message that the slot of a language has for a key, if a table arrived there.\<close>

definition message_in :: "lang_state \<Rightarrow> lang \<Rightarrow> jsstr \<Rightarrow> jsval option" where
  "message_in s l k =
     (if messages s l = None then None else map_of (table_of (table_for (held s l))) k)"

lemma interpolate_slot:
  assumes "plain_key k" "\<not> inherited k"
  shows "interpolate n pf (Table (if messages s l = None then [] else table_of (table_for (held s l)))) k vs =
    Inr (message_in s l k)"
  using interpolate_plain [OF assms] link_free_table [of "held s l"] by (simp add: message_in_def)

lemma page_text_eq:
  assumes "bare_fallback pf" "slots_ok s" "i18n_locale s = lang_text l" "plain_key k" "\<not> inherited k"
  shows "page_text n pf s k = Inr (case message_in s l k of Some v \<Rightarrow> v
    | None \<Rightarrow> (case message_in s En k of Some v \<Rightarrow> v | None \<Rightarrow> Text k))"
proof -
  have en: "lit ''en'' = lang_text En" by (simp add: lang_text_def)
  have "k \<noteq> []" using assms(4) by (simp add: plain_key_def)
  then show ?thesis
    by (cases "l = En") (simp_all add: page_text_def dollar_t_def assms(3) chain_of_lang [OF assms(1)]
        en no_such_slot message_slot [OF assms(2)] interpolate_slot [OF assms(4,5)] split: option.split)
qed

section \<open>The keys of the pages\<close>

lemma shown_keys_en: "subseq (butlast shown_keys) en_keys"
  by code_simp

lemma shown_keys_zh: "subseq (filter (\<lambda>k. k \<noteq> ''verifyAuthCount'') (butlast shown_keys)) zh_keys"
  by code_simp

lemma zh_verifyAuthCount: "list_ex (\<lambda>k. k = ''verifyAuthCount'') zh_keys"
  by code_simp

lemma shown_keys_split: "shown_keys = butlast shown_keys @ [''scan.certOwn'']"
proof -
  have "last shown_keys = ''scan.certOwn'' \<and> shown_keys \<noteq> []" by code_simp
  then show ?thesis using append_butlast_last_id [of shown_keys] by simp
qed

lemma subseq_subset: "subseq xs ys \<Longrightarrow> set xs \<subseteq> set ys"
  by (auto dest: list_emb_set)

lemma label_in_table:
  assumes "k \<in> set (butlast shown_keys)" "l \<in> {En, Zh}"
  shows "\<exists>t. t \<noteq> [] \<and> map_of (table_for l) k = Some (Text t)"
proof -
  have "k \<in> set (map fst (table_for l))"
    using assms subseq_subset [OF shown_keys_en] subseq_subset [OF shown_keys_zh] zh_verifyAuthCount
    by (auto simp: table_for_def table_keys list_ex_iff simp del: set_map)
  then obtain v where v: "map_of (table_for l) k = Some v"
    by (metis map_of_eq_None_iff not_Some_eq set_map)
  then have "shown_text v"
    using shown_texts assms(2) map_of_SomeD [OF v] by (force simp: table_for_def list_all_iff)
  then show ?thesis using v by (cases v) auto
qed

lemma char_code: "(of_char c :: jschar) = of_char d \<longleftrightarrow> c = d"
  using inj_of_char_jschar by (simp add: inj_eq)

lemma char_small: "unat (of_char c :: jschar) < 256"
proof -
  have "(of_char c :: nat) mod 256 < 256" by simp
  then show ?thesis by simp
qed
text \<open>A name that is read as one key and that no object inherits.\<close>

definition separators :: string where
  "separators = ''[].'' @ [CHR 0x22, CHR 0x27, CHR 0x09, CHR 0x0A, CHR 0x0D, CHR 0xA0]"

lemma char_ident: "c \<notin> set separators \<Longrightarrow> char_type (Some (of_char c)) = ''ident''"
proof -
  assume s: "c \<notin> set separators"
  have n: "(91 :: jschar) = of_char (CHR 0x5B)" "(93 :: jschar) = of_char (CHR 0x5D)"
      "(46 :: jschar) = of_char (CHR 0x2E)" "(34 :: jschar) = of_char (CHR 0x22)"
      "(39 :: jschar) = of_char (CHR 0x27)" "(9 :: jschar) = of_char (CHR 0x09)"
      "(10 :: jschar) = of_char (CHR 0x0A)" "(13 :: jschar) = of_char (CHR 0x0D)"
      "(160 :: jschar) = of_char (CHR 0xA0)" by simp_all
  have "(of_char c :: jschar) \<notin> {91, 93, 46, 34, 39}" "(of_char c :: jschar) \<notin> {9, 10, 13, 160}"
    unfolding n insert_iff char_code using s by (simp_all add: separators_def)
  moreover have "(of_char c :: jschar) \<noteq> of_nat (n + 256)" if "n + 256 < 65536" for n
  proof
    assume "(of_char c :: jschar) = of_nat (n + 256)"
    then have "unat (of_char c :: jschar) = n + 256" using that by (simp add: unat_of_nat del: of_nat_add)
    then show False using char_small [of c] by simp
  qed
  from this [of 65023] this [of 7976] this [of 7977]
  have "(of_char c :: jschar) \<notin> {65279, 8232, 8233}" by simp
  ultimately show ?thesis by (simp add: char_type_def)
qed

definition name_key :: "string \<Rightarrow> bool" where
  "name_key k \<longleftrightarrow> k \<noteq> [] \<and> list_all (\<lambda>c. c \<notin> set separators) k \<and>
     k \<notin> set (''__ob__'' # ''__proto__'' # object_functions)"

lemma name_key_plain: "name_key k \<Longrightarrow> plain_key (lit k) \<and> \<not> inherited (lit k)"
proof
  assume n: "name_key k"
  then show "plain_key (lit k)" by (auto simp: name_key_def plain_key_def lit_def list_all_iff char_ident)
  show "\<not> inherited (lit k)" using n by (auto simp: name_key_def inherited_def)
qed

lemma shown_keys_names: "list_all name_key (butlast shown_keys)"
  by code_simp

lemma scan_keys:
  "filter (\<lambda>k. k \<in> {''scan'', ''scan.certOwn''}) en_keys = [''scan'']"
  "filter (\<lambda>k. k \<in> {''scan'', ''scan.certOwn''}) zh_keys = [''scan'']"
  by code_simp+

lemma one_found:
  assumes "filter (\<lambda>k. k \<in> {a, b}) (map fst t) = [a]" "a \<noteq> b"
    "list_all (\<lambda>x. shown_text (snd x)) t"
  shows "(\<exists>u. map_of t a = Some (Text u)) \<and> map_of t b = None"
proof -
  have k: "{a, b} \<inter> set (map fst t) = {a}"
    using arg_cong [OF assms(1), of set] by auto
  have n: "b \<notin> set (map fst t)" using k assms(2) by auto
  have "a \<in> set (map fst t)" using k by blast
  then obtain v where v: "map_of t a = Some v"
    by (cases "map_of t a") (auto simp: map_of_eq_None_iff)
  have "shown_text v" using assms(3) map_of_SomeD [OF v] by (force simp: list_all_iff)
  moreover have "map_of t b = None" using n by (simp add: map_of_eq_None_iff)
  ultimately show ?thesis using v by (cases v) auto
qed

lemma scan_texts:
  "(\<exists>u. map_of (table_for l) ''scan'' = Some (Text u)) \<and> map_of (table_for l) ''scan.certOwn'' = None"
proof (cases l)
  case En
  show ?thesis unfolding En table_for_def lang.case
    by (rule one_found) (simp only: table_keys scan_keys, simp, rule shown_texts)
next
  case Zh
  show ?thesis unfolding Zh table_for_def lang.case
    by (rule one_found) (simp only: table_keys scan_keys, simp, rule shown_texts)
qed (simp_all add: table_for_def ja_table_def ko_table_def)

text \<open>The title \<open>scan.certOwn\<close> is in no table, and \<open>scan\<close> is a text in each.\<close>

lemma certOwn_path: "parse_path (lit ''scan.certOwn'') = Some [lit ''scan'', lit ''certOwn'']"
  by code_simp

lemma interpolate_certOwn:
  assumes "\<And>u. member_of pf (Text u) (lit ''certOwn'') = None"
    "map_of t (lit ''scan.certOwn'') = None"
    "map_of t (lit ''scan'') = None \<or> (\<exists>u. map_of t (lit ''scan'') = Some (Text u))"
  shows "interpolate n pf (Table t) (lit ''scan.certOwn'') vs = Inr None"
proof -
  have "\<not> inherited (lit ''scan'')" "\<not> inherited (lit ''scan.certOwn'')"
    by (simp_all add: inherited_def object_functions_def)
  moreover have "property pf (Text u) (lit ''certOwn'') = None" for u
    by (simp add: property_def assms(1))
  ultimately have "find_message pf (Table t) (lit ''scan.certOwn'') = None"
    using assms(2,3) by (auto simp: find_message_def get_path_value_def certOwn_path property_own
        split: option.split)
  then show ?thesis by (simp add: interpolate.simps)
qed

lemma interpolate_certOwn_slot:
  assumes "\<And>u. member_of pf (Text u) (lit ''certOwn'') = None"
  shows "interpolate n pf (Table (if messages s l = None then [] else table_of (table_for (held s l))))
    (lit ''scan.certOwn'') vs = Inr None"
  using scan_texts [of "held s l"] by (intro interpolate_certOwn assms) (auto simp: map_of_table)

lemma certOwn_shown:
  assumes "\<And>u. member_of pf (Text u) (lit ''certOwn'') = None" "bare_fallback pf" "slots_ok s"
    "i18n_locale s = lang_text l"
  shows "page_text n pf s (lit ''scan.certOwn'') = Inr (Text (lit ''scan.certOwn''))"
proof -
  have en: "lit ''en'' = lang_text En" by (simp add: lang_text_def)
  show ?thesis
    by (cases "l = En") (simp_all add: page_text_def dollar_t_def assms(4) chain_of_lang [OF assms(2)]
        en no_such_slot message_slot [OF assms(3)] interpolate_certOwn_slot [OF assms(1)])
qed

lemma label_eq:
  assumes "bare_fallback pf" "slots_ok s" "i18n_locale s = lang_text l" "k \<in> set (butlast shown_keys)"
    "messages s l \<noteq> None"
  shows "page_text n pf s (lit k) = Inr (case map_of (table_for (held s l)) k of Some v \<Rightarrow> v
    | None \<Rightarrow> (case message_in s En (lit k) of Some v \<Rightarrow> v | None \<Rightarrow> Text (lit k)))"
proof -
  have "plain_key (lit k) \<and> \<not> inherited (lit k)"
    using shown_keys_names assms(4) by (intro name_key_plain) (simp add: list_all_iff)
  then show ?thesis
    using page_text_eq [OF assms(1-3)] assms(5) by (simp add: message_in_def map_of_table)
qed

definition ja_names :: "string list" where
  "ja_names =
    [''languageChoice'', ''dappTitle'', ''title'', ''save'', ''confirm'', ''cancel'',
     ''delete'', ''complete'', ''nextStep'', ''loadingTip'', ''name'', ''address'', ''sign'',
     ''id'', ''time'', ''own'', ''remainingTimes'', ''gia'', ''weight'', ''colorGrade'',
     ''validityLevel'', ''cutGrade'', ''hash'', ''inputMsg'', ''certificateList'', ''scan'',
     ''search'', ''certificateChain'', ''inputCertNum'', ''businessAuthorize'',
     ''businessCancel'', ''businessList'', ''authOriginal'', ''deleteAdmin'', ''authRecord'',
     ''inputPwdToSign'', ''inputAddress'', ''inputName'', ''noMore'', ''signByScan'',
     ''searchGiaNum'', ''accountInfo'', ''qrCode'', ''scanSign'', ''notifyMsg'', ''process'',
     ''cert'', ''business'', ''ownTitle'', ''originalTitle'', ''original'', ''businessesList'',
     ''certList'', ''certToChain'', ''owns'']"

definition ko_names :: "string list" where
  "ko_names =
    [''languageChoice'', ''title'', ''dappTitle'', ''save'', ''confirm'', ''cancel'',
     ''delete'', ''complete'', ''nextStep'', ''loadingTip'', ''name'', ''address'', ''sign'',
     ''id'', ''time'', ''own'', ''remainingTimes'', ''gia'', ''weight'', ''colorGrade'',
     ''validityLevel'', ''cutGrade'', ''hash'', ''inputMsg'', ''certificateList'', ''scan'',
     ''search'', ''certificateChain'', ''inputCertNum'', ''businessAuthorize'',
     ''businessCancel'', ''businessList'', ''addAdmin'', ''deleteAdmin'', ''authRecord'',
     ''inputPwdToSign'', ''inputAddress'', ''inputName'', ''noMore'', ''signByScan'',
     ''searchGiaNum'', ''accountInfo'', ''qrCode'', ''scanSign'', ''notifyMsg'', ''process'',
     ''cert'', ''business'', ''ownTitle'', ''originalTitle'', ''original'', ''businessesList'',
     ''certList'', ''certToChain'', ''owns'']"

lemma other_texts:
  "list_all (\<lambda>(k, v). v \<noteq> Text (lit k)) ja_table" "list_all (\<lambda>(k, v). v \<noteq> Text (lit k)) ko_table"
  by (simp_all add: ja_table_def ko_table_def nested_def lit_def)

lemma table_names: "map fst ja_table = ja_names" "map fst ko_table = ko_names"
  by (simp_all add: ja_table_def ko_table_def ja_names_def ko_names_def)

lemma missing_labels:
  "length (filter (\<lambda>k. k \<notin> fst ` set ja_table) (butlast shown_keys)) = 111"
  "length (filter (\<lambda>k. k \<notin> fst ` set ko_table) (butlast shown_keys)) = 110"
proof -
  have f: "fst ` set ja_table = set ja_names" "fst ` set ko_table = set ko_names"
    by (metis list.set_map table_names)+
  show "length (filter (\<lambda>k. k \<notin> fst ` set ja_table) (butlast shown_keys)) = 111"
    unfolding f by code_simp
  show "length (filter (\<lambda>k. k \<notin> fst ` set ko_table) (butlast shown_keys)) = 110"
    unfolding f by code_simp
qed

section \<open>The names of a report\<close>

text \<open>
  The names of the entries of a certificate that was made from a report of the institute. None is
  translated to nothing, nor to the two names under which a certificate is numbered.
\<close>

definition gia_names :: "string list" where
  "gia_names = [''gia'', ''carat'', ''color'', ''clarity'', ''cut'', ''hash'']"

definition card_value :: "jsval \<Rightarrow> bool" where
  "card_value v \<longleftrightarrow> v \<notin> {Text [], Text KimId, Text GiaId}"

lemma card_value_lit [simp]: "card_value (Text (lit s)) \<longleftrightarrow> s \<notin> {[], ''kimId'', ''gia''}"
  by (simp add: card_value_def KimId_def GiaId_def)

lemma card_value_wide [simp]: "256 \<le> c \<Longrightarrow> card_value (Text (c # s))"
  by (auto simp: card_value_def KimId_def GiaId_def lit_def)

lemma card_values:
  "list_all (\<lambda>(k, v). k \<in> set gia_names \<longrightarrow> card_value v) en_table"
  "list_all (\<lambda>(k, v). k \<in> set gia_names \<longrightarrow> card_value v) zh_table"
  "list_all (\<lambda>(k, v). k \<in> set gia_names \<longrightarrow> card_value v) ja_table"
  "list_all (\<lambda>(k, v). k \<in> set gia_names \<longrightarrow> card_value v) ko_table"
  unfolding gia_names_def
     apply (simp add: en_table_def)
    apply (simp add: zh_table_def)
   apply (simp_all add: ja_table_def ko_table_def)
  done
lemma gia_in_tables:
  "''gia'' \<in> set en_keys" "''gia'' \<in> set zh_keys"  "''gia'' \<in> set ja_names" "''gia'' \<in> set ko_names"
  by code_simp+

lemma gia_translated: "map_of (table_for l) ''gia'' \<noteq> None"
proof -
  have "''gia'' \<in> set (map fst (table_for l))"
    using gia_in_tables by (cases l) (simp_all add: table_for_def table_keys table_names del: set_map)
  then show ?thesis by (simp add: map_of_eq_None_iff)
qed

lemma card_value_table:
  assumes "k \<in> set gia_names" "map_of (table_for l) k = Some v"
  shows "card_value v"
  using card_values assms(1) map_of_SomeD [OF assms(2)]
  by (cases l) (force simp: table_for_def list_all_iff)+

lemma gia_names_plain: "k \<in> set gia_names \<Longrightarrow> name_key k"
proof -
  have "list_all name_key gia_names" by code_simp
  then show "k \<in> set gia_names \<Longrightarrow> name_key k" by (simp add: list_all_iff)
qed

lemma card_text:
  assumes "bare_fallback pf" "slots_ok s" "i18n_locale s = lang_text l" "messages s l \<noteq> None"
    "k \<in> set gia_names"
  shows "\<exists>v. page_text n pf s (lit k) = Inr v \<and> card_value v"
proof -
  have p: "page_text n pf s (lit k) = Inr (case map_of (table_for (held s l)) k of Some v \<Rightarrow> v
    | None \<Rightarrow> (case message_in s En (lit k) of Some v \<Rightarrow> v | None \<Rightarrow> Text (lit k)))"
    using page_text_eq [OF assms(1-3)] name_key_plain [OF gia_names_plain [OF assms(5)]] assms(4)
    by (simp add: message_in_def map_of_table)
  have "card_value (Text (lit k))" if "map_of (table_for (held s l)) k = None"
    using that assms(5) gia_translated [of "held s l"] by (auto simp: gia_names_def)
  moreover have "card_value v" if "message_in s En (lit k) = Some v" for v
    using that card_value_table [OF assms(5), of En]
    by (auto simp: message_in_def map_of_table split: if_splits)
  ultimately show ?thesis
    using p card_value_table [OF assms(5), of "held s l"] by (auto split: option.split)
qed

section \<open>Inherited names\<close>

text \<open>No table has a message named like a method of objects.\<close>

lemma no_method_keys:
  "list_all (\<lambda>f. f \<notin> set en_keys) object_functions" "list_all (\<lambda>f. f \<notin> set zh_keys) object_functions"
  "list_all (\<lambda>f. f \<notin> set ja_names) object_functions" "list_all (\<lambda>f. f \<notin> set ko_names) object_functions"
     apply (simp add: object_functions_def en_keys_def)
    apply (simp add: object_functions_def zh_keys_def)
   apply (simp_all add: object_functions_def ja_names_def ko_names_def)
  done

lemma no_method_names: "list_all (\<lambda>f. map_of (table_for l) f = None) object_functions"
proof -
  have "list_all (\<lambda>f. f \<notin> set (map fst (table_for l))) object_functions"
    using no_method_keys
    by (cases l) (simp_all add: table_for_def table_keys table_names del: set_map)
  then show ?thesis by (simp add: map_of_eq_None_iff)
qed

end
