(* ===== verification/I18n_Properties.thy ===== *)
theory I18n_Properties
  imports I18n_Tables Cert_Page_Properties
begin

text \<open>
  What the pages say: paths are read back, linked messages end, and the tables of the four
  languages together with the states of the language module decide the text of every key. The
  platform is a parameter; what is needed of it is stated with each property.
\<close>

section \<open>Properties\<close>

text \<open>C29
  Paths are read back: when the first key of a path is a name, and every other key is a name or a
  text without a single quote and without a backslash at its end, parsing the printed path, with
  names after a dot and other keys in quotes and brackets, gives the keys.
\<close>

theorem path_roundtrip:
  assumes "plain_key k" "\<forall>l \<in> set ls. plain_key l \<or> quotable l"
  shows "parse_path (print_path (k # ls)) = Some (k # ls)"
  using assms by (rule parse_print)

theorem path_roundtrip_witness:
  "parse_path (print_path [lit ''scan'', lit ''a.b [1]'', lit ''own'']) =
    Some [lit ''scan'', lit ''a.b [1]'', lit ''own'']"
  by (rule path_roundtrip) (simp_all add: plain_key_def char_type_def quotable_def lit_def)

text \<open>C28
  Linked messages end: whatever the tables contain, cyclic references included, looking up a text
  never exhausts a stack that has room for one call more than the messages have linked keys, and
  more room does not change the result.
\<close>

theorem linked_messages_end:
  assumes "members_within pf ms"
  shows "\<exists>r. r \<noteq> Inl StackOverflow \<and> (\<forall>n > card (link_keys ms). dollar_t n pf ms l k = r)"
proof (intro exI conjI allI impI)
  let ?N = "Suc (card (link_keys ms))"
  let ?t = "\<lambda>n. translate_chain n pf ms k (locale_chain pf default_fallback l)"
  show "dollar_t ?N pf ms l k \<noteq> Inl StackOverflow"
    using translate_enough [OF assms, of ?N k] by (cases "?t ?N") (auto simp: dollar_t_def)
  fix n assume "card (link_keys ms) < n"
  then have "?t n = ?t ?N"
  proof (induction n)
    case (Suc n)
    then show ?case using translate_enough [OF assms, of n k]
      by (cases "card (link_keys ms) < n") (auto simp: less_Suc_eq)
  qed simp
  then show "dollar_t n pf ms l k = dollar_t ?N pf ms l k" by (simp add: dollar_t_def)
qed

text \<open>A platform whose values have no properties of their own, for examples.\<close>

definition bare_platform :: platform where
  "bare_platform =
    \<lparr>member_of = (\<lambda>v k. None), call_fun = (\<lambda>v. Some (Text (lit ''[object Undefined]''))),
     text_of = (\<lambda>v. lit ''[object Object]''), upper_case = (\<lambda>s. s), lower_case = (\<lambda>s. s)\<rparr>"

lemma bare_platform_simps [simp]: "member_of bare_platform v k = None" "bare_fallback bare_platform"
  "members_within bare_platform ms"
  by (simp_all add: bare_platform_def bare_fallback_def members_within_def)

theorem linked_messages_end_witness:
  "\<exists>r. r \<noteq> Inl StackOverflow \<and>
    (\<forall>n > card (link_keys (Table [(lit ''en'', nested [(''a'', Text (lit ''x @:b'')), (''b'', Text (lit ''@:a y''))])])).
      dollar_t n bare_platform
        (Table [(lit ''en'', nested [(''a'', Text (lit ''x @:b'')), (''b'', Text (lit ''@:a y''))])])
        (lit ''en'') (lit ''a'') = r)"
  by (rule linked_messages_end) simp

text \<open>C27
  What a page shows: from the opening of the page on, after any sequence of operations of the
  language module, with loads ending in any order or failing, the text of a key that is a name
  and that objects do not inherit is the message of the table in the slot of the current language,
  else that of the English slot, if a table has arrived there, else the key itself; the depth of
  the stack plays no part in it. The table in a slot is that of its own language, but that the
  slot of Japanese may have the Chinese one once Chinese was chosen in the session.
\<close>

theorem what_pages_show:
  assumes "bare_fallback pf" "fresh_page s0" "s = fold lang_exec ops s0"
    and "i18n_locale s = lang_text l" "plain_key k" "\<not> inherited k"
  shows "page_text n pf s k =
      Inr (case message_in s l k of Some v \<Rightarrow> v
        | None \<Rightarrow> (case message_in s En k of Some v \<Rightarrow> v | None \<Rightarrow> Text k)) \<and>
    (held s l = l \<or> l = Ja \<and> held s l = Zh \<and> Set (Some (lang_text Zh)) \<in> set ops)"
proof -
  have "held s l = l" if "Set (Some (lang_text Zh)) \<notin> set ops"
    unfolding assms(3) by (intro held_ok tables_ok_fold fresh_tables assms(2) that)
  moreover have "held s l = l \<or> l = Ja \<and> held s l = Zh" by (simp add: held_def)
  ultimately show ?thesis
    using page_text_eq [OF assms(1) session_slots [OF assms(2,3)] assms(4-6)]
    by blast
qed

definition fresh_session :: "jsstr option \<Rightarrow> lang_state" where
  "fresh_session st =
    \<lparr>stored = st, query_lang = None, current = None, i18n_locale = lang_text En,
     messages = (\<lambda>_. None), vant = None, pending = []\<rparr>"

lemma fresh_ok [simp]: "fresh_page (fresh_session st)" "tables_ok (fresh_session st)"
  by (simp_all add: fresh_session_def fresh_page_def tables_ok_def)

definition settled_session :: "lang \<Rightarrow> lang_state" where
  "settled_session l = fold lang_exec [Init, Finish 0] (fresh_session (Some (lang_text l)))"

lemma settled_slots [simp]: "slots_ok (settled_session l)"
  unfolding settled_session_def by (rule session_slots [OF fresh_ok(1) refl])

lemma settled_session_simps [simp]:
  "tables_ok (settled_session l)" "i18n_locale (settled_session l) = lang_text l"
  "messages (settled_session l) l' = (if l' = l then Some (table_module l) else None)"
proof -
  show "tables_ok (settled_session l)"
    unfolding settled_session_def by (rule tables_ok_fold) simp_all
  show "i18n_locale (settled_session l) = lang_text l"
    "messages (settled_session l) l' = (if l' = l then Some (table_module l) else None)"
    by (simp_all add: settled_session_def fresh_session_def langInit_eq start_load_def finish_load_def
        ad58_lang_lit Let_def)
qed

theorem what_pages_show_witness:
  "let s = fold lang_exec [Set (Some (lang_text Zh)), Finish 0, Finish 0, Set (Some (lang_text Ja))]
      (fresh_session None)
   in page_text 0 bare_platform s (lit ''search'') =
     Inr (the (map_of (table_of zh_table) (lit ''search'')))"
proof -
  let ?ops = "[Set (Some (lang_text Zh)), Finish 0, Finish 0, Set (Some (lang_text Ja))]"
  let ?s = "fold lang_exec ?ops (fresh_session None)"
  have k: "plain_key (lit ''search'') \<and> \<not> inherited (lit ''search'')"
    by (rule name_key_plain) (simp add: name_key_def separators_def object_functions_def)
  have s: "i18n_locale ?s = lang_text Ja" "messages ?s Ja = Some (table_module Zh)"
    by (simp_all add: setLang_def start_load_def finish_load_def fresh_session_def ad58_lang_lit
        Let_def)
  have "''search'' \<in> set (map fst zh_table)" unfolding table_keys by code_simp
  then obtain v where "map_of zh_table ''search'' = Some v"
    by (metis map_of_eq_None_iff not_Some_eq set_map)
  then show ?thesis
    using what_pages_show [of bare_platform "fresh_session None" ?s ?ops Ja "lit ''search''" 0] k s
    by (simp only: Let_def) (simp add: message_in_def held_def map_of_table table_for_def)
qed

text \<open>C30
  Every label has a text: in any session, once the table of the chosen language has arrived,
  English or Chinese, by a choice in the session or by the setting at its start,
  each of the 134 keys that the pages look up is shown as a non-empty text of the table of this
  language, except for the title of the page for scanned texts, which is shown as its key
  \<open>scan.certOwn\<close>.
\<close>

theorem every_label_has_text:
  assumes "bare_fallback pf" "\<And>u. member_of pf (Text u) (lit ''certOwn'') = None"
    and "fresh_page s0" "s = fold lang_exec ops s0" "i18n_locale s = lang_text l" "l \<in> {En, Zh}"
    and "messages s l \<noteq> None" "k \<in> set shown_keys"
  shows "if k = ''scan.certOwn'' then page_text n pf s (lit k) = Inr (Text (lit k))
    else \<exists>t. t \<noteq> [] \<and> map_of (table_for l) k = Some (Text t) \<and> page_text n pf s (lit k) = Inr (Text t)"
proof (cases "k = ''scan.certOwn''")
  case True
  then show ?thesis
    using certOwn_shown [OF assms(2,1) session_slots [OF assms(3,4)] assms(5)]
    by simp
next
  case False
  then have k: "k \<in> set (butlast shown_keys)" using assms(8) by (subst (asm) shown_keys_split) simp
  have "held s l = l" using assms(6) by auto
  then show ?thesis
    using False label_in_table [OF k assms(6)]
      label_eq [OF assms(1) session_slots [OF assms(3,4)] assms(5) k assms(7)]
    by auto
qed

theorem every_label_has_text_witness:
  "let s = fold lang_exec [Set (Some (lang_text Zh)), Finish 0] (fresh_session None)
   in \<exists>t. t \<noteq> [] \<and> map_of zh_table ''search'' = Some (Text t) \<and>
     page_text 0 bare_platform s (lit ''search'') = Inr (Text t)"
proof -
  let ?ops = "[Set (Some (lang_text Zh)), Finish 0]"
  let ?s = "fold lang_exec ?ops (fresh_session None)"
  have k: "''search'' \<in> set shown_keys" by (simp add: shown_keys_def)
  have s: "i18n_locale ?s = lang_text Zh" "messages ?s Zh \<noteq> None"
    by (simp_all add: setLang_def start_load_def finish_load_def fresh_session_def ad58_lang_lit
        Let_def)
  show ?thesis
    using every_label_has_text [of bare_platform "fresh_session None" ?s ?ops Zh "''search''" 0] k s
    by (simp only: Let_def) (simp add: table_for_def)
qed

text \<open>C31
  Japanese and Korean pages speak in keys: when only the table of the language has arrived, 112 of
  the 134 keys that the pages look up have no text in a Japanese session, and 111 in a Korean one:
  the pages show the keys themselves.
\<close>

theorem labels_without_text:
  assumes "bare_fallback pf" "\<And>u. member_of pf (Text u) (lit ''certOwn'') = None" "tables_ok s"
    "i18n_locale s = lang_text l" "l \<in> {Ja, Ko}" "messages s l \<noteq> None" "messages s En = None"
  shows "length (filter (\<lambda>k. page_text n pf s (lit k) = Inr (Text (lit k))) shown_keys) =
    (if l = Ja then 112 else 111)"
proof -
  note slots = tables_slots [OF assms(3)] and held = held_ok [OF assms(3)]
  have other: "v \<noteq> Text (lit k)" if "map_of (table_for l) k = Some v" for k v
    using other_texts map_of_SomeD [OF that] assms(5) by (force simp: table_for_def list_all_iff)
  have "page_text n pf s (lit k) = Inr (Text (lit k)) \<longleftrightarrow> k \<notin> fst ` set (table_for l)"
    if "k \<in> set (butlast shown_keys)" for k
    using other [of k] label_eq [OF assms(1) slots assms(4) that assms(6), of n] assms(7)
    by (cases "map_of (table_for l) k") (simp_all add: message_in_def held flip: map_of_eq_None_iff)
  then have "filter (\<lambda>k. page_text n pf s (lit k) = Inr (Text (lit k))) (butlast shown_keys) =
      filter (\<lambda>k. k \<notin> fst ` set (table_for l)) (butlast shown_keys)"
    by (rule filter_cong [OF refl])
  moreover have "length (filter (\<lambda>k. k \<notin> fst ` set (table_for l)) (butlast shown_keys)) =
      (if l = Ja then 111 else 110)"
    using missing_labels assms(5) by (auto simp: table_for_def)
  ultimately show ?thesis
    using certOwn_shown [OF assms(2,1) slots assms(4)] by (subst shown_keys_split) simp
qed

theorem labels_without_text_witness:
  "length (filter (\<lambda>k. page_text 0 bare_platform (settled_session Ja) (lit k) = Inr (Text (lit k))) shown_keys) =
    112"
  using labels_without_text [of bare_platform "settled_session Ja" Ja 0] by simp

text \<open>The names of the entries that \<open>toCert\<close> makes.\<close>

lemma toCert_names: "e \<in> set (objArray (toCert g)) \<Longrightarrow> \<exists>k \<in> set gia_names. fst e = lit k"
  by (auto simp: toCert_def push_if_def gia_names_def Let_def split: if_splits)

text \<open>C39
  A card loses the number of its stone, unless it was looked up before: in any session, in a
  language whose slot has a table, take a certificate that was made from a report without an id of
  its own, as the constructor makes it, and let a card show it with the names of its entries
  translated by the look-up of messages. If the number was not looked up before, the certificate
  in the store no longer has it afterwards; if it was, the certificate has kept it in its field
  and still gives it.
\<close>

theorem card_loses_number:
  assumes "bare_fallback pf" "fresh_page s0" "s = fold lang_exec ops s0" "i18n_locale s = lang_text l"
    and "messages s l \<noteq> None" "gia (gia_data g) \<noteq> []" "obj_id g = []"
    and "\<forall>e \<in> set (objArray (toCert g)). page_text n pf s (fst e) = Inr (Text (tr (fst e)))"
    and "shown_card = (\<lambda>c. the_cert (snd (certMap tr (new_cert_own\<lparr>the_cert := c\<rparr>))))"
  shows "fst (getId (shown_card (toCert g))) = [] \<and>
    fst (getId (shown_card (snd (getId (toCert g))))) = gia (gia_data g)"
proof -
  have "tr (fst e) \<notin> {[], KimId, GiaId}" if e: "e \<in> set (objArray (toCert g))" for e
  proof -
    obtain k where k: "k \<in> set gia_names" "fst e = lit k" using toCert_names [OF e] by blast
    then have "card_value (Text (tr (fst e)))"
      using card_text [OF assms(1) session_slots [OF assms(2,3)] assms(4,5) k(1), of n]
        assms(8) e by auto
    then show ?thesis by (simp add: card_value_def)
  qed
  then have renamed: "fst (getId (toCert g)) = gia (gia_data g)" "fst (getId (shown_card (toCert g))) = []"
    using card_renames_entries [OF assms(6,7), of tr] by (simp_all add: assms(9))
  have id: "obj_id (snd (getId (toCert g))) = gia (gia_data g)"
    using renamed(1) assms(6) by (auto simp: getId_def split: option.splits if_splits)
  have "obj_id (shown_card c) = obj_id c" for c by (simp add: assms(9) certMap_def Let_def)
  then show ?thesis using renamed(2) id assms(6) by (simp add: getId_def)
qed

theorem card_loses_number_witness:
  "fst (getId (the_cert (snd (certMap (\<lambda>k. if k = lit ''gia'' then lit ''GIA'' else k) (new_cert_own\<lparr>the_cert :=
     toCert (new_gia\<lparr>gia_data := (gia_data new_gia)\<lparr>gia := [49]\<rparr>\<rparr>)\<rparr>))))) = []"
proof -
  have p: "plain_key (lit ''gia'') \<and> \<not> inherited (lit ''gia'')"
    by (intro name_key_plain gia_names_plain) (simp add: gia_names_def)
  have "map_of ja_table ''gia'' = Some (Text (lit ''GIA''))" by (simp add: ja_table_def)
  then have "page_text 0 bare_platform (settled_session Ja) (lit ''gia'') = Inr (Text (lit ''GIA''))"
    using page_text_eq [of bare_platform "settled_session Ja" Ja "lit ''gia''" 0] p
      held_ok [of "settled_session Ja" Ja]
    by (simp add: message_in_def map_of_table table_for_def)
  then show ?thesis
    using card_loses_number [OF _ fresh_ok(1) settled_session_def, of bare_platform Ja Ja
        "new_gia\<lparr>gia_data := (gia_data new_gia)\<lparr>gia := [49]\<rparr>\<rparr>" 0 "\<lambda>k. if k = lit ''gia'' then lit ''GIA'' else k",
        OF _ _ _ _ _ _ refl]
    by (simp add: new_gia_def toCert_def push_if_def Let_def)
qed

text \<open>
  Names that every object inherits are not shown: when an entry of a certificate is named like a
  method of objects, such as \<open>constructor\<close>, the look-up finds the method before any message or
  fallback, calls it, and shows what it returns, in every language and whatever has been loaded.
\<close>

theorem inherited_names_called:
  assumes "bare_fallback pf" "slots_ok s" "i18n_locale s = lang_text l" "f \<in> set object_functions"
    and "call_fun pf (Func (lit f)) = Some v"
  shows "page_text n pf s (lit f) = Inr v"
proof -
  have plain: "plain_key (lit f)"
  proof -
    have "list_all (\<lambda>f. name_key (f @ ''!'')) object_functions" by code_simp
    then have "name_key (f @ ''!'')" using assms(4) by (simp add: list_all_iff)
    then have "plain_key (lit (f @ ''!''))" by (rule name_key_plain [THEN conjunct1])
    moreover have "f \<noteq> []" using assms(4) by (auto simp: object_functions_def)
    ultimately show ?thesis by (auto simp: plain_key_def lit_def)
  qed
  define t where "t = (if messages s l = None then [] else table_of (table_for (held s l)))"
  have slot: "property pf (messages_object s) (lang_text l) = Some (Table t)"
    unfolding t_def by (rule message_slot [OF assms(2)])
  have "map_of t (lit f) = None"
    using no_method_names assms(4) by (simp add: t_def map_of_table list_all_iff)
  then have "property pf (Table t) (lit f) = Some (Func (lit f))"
    using assms(4) by (auto simp: property_def object_functions_def)
  then have "interpolate n pf (Table t) (lit f) [lit f] = Inr (Some v)"
    using assms(5) by (simp add: interpolate.simps find_plain [OF plain] render_def)
  moreover have "lit f \<noteq> []" using plain by (simp add: plain_key_def)
  moreover obtain ls where "locale_chain pf default_fallback (lang_text l) = lang_text l # ls"
    using chain_of_lang [OF assms(1), of l] by (cases l) (auto simp: lang_text_def)
  ultimately show ?thesis by (simp add: page_text_def dollar_t_def assms(3) slot)
qed

theorem inherited_names_called_witness:
  "page_text 0 bare_platform (settled_session Zh) (lit ''toString'') =
    Inr (Text (lit ''[object Undefined]''))"
  by (rule inherited_names_called [of _ _ Zh]) (simp_all add: object_functions_def, simp add: bare_platform_def)

end
