(* ===== verification/Router_Match.thy ===== *)
theory Router_Match
  imports App_Shell
begin

text \<open>
  The router, part one: from the table of routes to the records of the router and from a text or
  a name to a route; functions \<open>v\<close>, \<open>S\<close>, \<open>k\<close>, \<open>AA\<close>, \<open>cA\<close>, \<open>gA\<close>, \<open>dA\<close>, \<open>lA\<close>, \<open>fA\<close>, \<open>I\<close>, \<open>E\<close> and \<open>re\<close> of
  \<open>vue-router\<close> (module \<open>8c4f\<close> of \<open>chunk-vendors.28fb2c37.js\<close>), for tables without parameters,
  redirections and guards, as the table of module \<open>cd49\<close> is.

  What the browser and the options of the router provide is a parameter: the text that the
  address bar makes of a fragment, and how queries are read, written and compared.
\<close>

record 'q router_env =
  fragment :: "jsstr \<Rightarrow> jsstr"
  parse_query :: "jsstr \<Rightarrow> 'q"
  stringify_query :: "'q \<Rightarrow> jsstr"
  same_query :: "'q \<Rightarrow> 'q \<Rightarrow> bool"

section \<open>Records of routes\<close>

text \<open>The code of a page: the chunks to load and the module. The search page needs no chunk.\<close>

type_synonym page_code = "string list \<times> string"

datatype route_config =
  RouteConfig (config_path: string) (config_name: "string option") (config_code: "page_code option")
    (config_children: "route_config list") (config_aliases: "string list")

datatype route_record =
  RouteRecord (record_path: string) (record_name: "string option") (record_code: "page_code option")
    (record_parent: "route_record option") (match_as: "string option")

record route_map =
  path_list :: "string list"
  path_map :: "(string \<times> route_record) list"
  name_map :: "(string \<times> route_record) list"

text \<open>\<open>k\<close>: two slashes become one, from left to right.\<close>

fun clean_path :: "string \<Rightarrow> string" where
  "clean_path (c # d # s) =
     (if c = CHR ''/'' \<and> d = CHR ''/'' then CHR ''/'' # clean_path s else c # clean_path (d # s))"
| "clean_path s = s"

text \<open>\<open>dA\<close>: a slash at the end is dropped, and a child has the path of its parent in front.\<close>

definition full_path :: "string \<Rightarrow> route_record option \<Rightarrow> string" where
  "full_path p par =
     (let q = (if p \<noteq> [] \<and> last p = CHR ''/'' then butlast p else p)
      in if q \<noteq> [] \<and> hd q = CHR ''/'' then q
         else (case par of None \<Rightarrow> q | Some r \<Rightarrow> clean_path (record_path r @ ''/'' @ q)))"

lemma size_child: "(c :: route_config) \<in> set cs \<Longrightarrow> size c < Suc (size_list size cs)"
  by (induction cs) auto

lemma alias_smaller: "d \<in> set ds \<Longrightarrow> (0 :: nat) < (if ds = [] then 0 else 1)"
  by auto

text \<open>
  \<open>gA\<close>: the children come before their parent, an alias after it as a record without a page of
  its own. A path or a name that is there already is kept.
\<close>

function add_route ::
  "route_record option \<Rightarrow> string option \<Rightarrow> route_config \<Rightarrow> route_map \<Rightarrow> route_map" where
  "add_route par as (RouteConfig p nm code children aliases) mp =
     (let rec = RouteRecord (full_path p par) nm code par as;
          mp1 = fold (\<lambda>c m. add_route (Some rec)
                  (map_option (\<lambda>a. clean_path (a @ ''/'' @ config_path c)) as) c m) children mp;
          mp2 = (if map_of (path_map mp1) (record_path rec) = None
                 then mp1\<lparr>path_list := path_list mp1 @ [record_path rec],
                          path_map := path_map mp1 @ [(record_path rec, rec)]\<rparr>
                 else mp1);
          mp3 = fold (\<lambda>d m. add_route par (Some (if record_path rec = [] then ''/'' else record_path rec))
                  (RouteConfig d None None children []) m) aliases mp2
      in case nm of
           None \<Rightarrow> mp3
         | Some n \<Rightarrow>
             if n \<noteq> [] \<and> map_of (name_map mp3) n = None
             then mp3\<lparr>name_map := name_map mp3 @ [(n, rec)]\<rparr> else mp3)"
  by pat_completeness auto

termination
proof (relation "measure (\<lambda>(par, as, c, mp). 2 * size c + (if config_aliases c = [] then 0 else 1))", goal_cases)
  case (2 par as p nm code children aliases mp x c m)
  then show ?case using size_child [OF 2(2)] by simp
next
  case (3 par as p nm code children aliases mp x xa xb d m)
  show ?case using 3(4) by auto
qed simp

text \<open>\<open>cA\<close>: all routes in order, those for every path last.\<close>

definition create_route_map :: "route_config list \<Rightarrow> route_map" where
  "create_route_map cs =
     (let mp = fold (add_route None None) cs \<lparr>path_list = [], path_map = [], name_map = []\<rparr>
      in mp\<lparr>path_list := filter (\<lambda>p. p \<noteq> ''*'') (path_list mp) @ filter (\<lambda>p. p = ''*'') (path_list mp)\<rparr>)"

section \<open>The table of the application\<close>

definition app_routes :: "route_config list" where
  "app_routes =
    [RouteConfig ''/'' (Some ''cert_search'') (Some ([], ''cd49'')) [] [''/search''],
     RouteConfig ''/original/entry'' (Some ''original_entry'') (Some ([''chunk-17145e97''], ''da53'')) [] [],
     RouteConfig ''/frame'' (Some ''frame'') (Some ([''chunk-7ca391f8''], ''1bd6''))
       (map (\<lambda>(p, nm, cs, m). RouteConfig p (Some nm) (Some (cs, m)) [] []) frame_routes) [],
     RouteConfig ''/scaned'' (Some ''scaned'') (Some ([''chunk-2d0be08d''], ''2f14'')) [] []]"

definition app_map :: route_map where
  "app_map = create_route_map app_routes"

section \<open>Locations\<close>

text \<open>A page navigates to a text or to the name of a route.\<close>

datatype target = ToPath jsstr | ToName string

datatype 'q location = NamedLoc string | PathLoc jsstr 'q jsstr

text \<open>\<open>S\<close>: path, query and hash of a text.\<close>

definition split_location :: "jsstr \<Rightarrow> jsstr \<times> jsstr \<times> jsstr" where
  "split_location s =
     (let h = dropWhile (\<lambda>c. c \<noteq> 35) s; rest = takeWhile (\<lambda>c. c \<noteq> 35) s
      in (takeWhile (\<lambda>c. c \<noteq> 63) rest, drop 1 (dropWhile (\<lambda>c. c \<noteq> 63) rest), h))"

text \<open>\<open>v\<close>: a path without a slash in front continues the current one, less its last segment.\<close>

definition resolve_path :: "jsstr \<Rightarrow> jsstr \<Rightarrow> jsstr" where
  "resolve_path r cur =
     (if r \<noteq> [] \<and> hd r = 47 then r
      else if r \<noteq> [] \<and> (hd r = 63 \<or> hd r = 35) then cur @ r
      else
        (let n = fold (\<lambda>a n. if a = [46, 46] then butlast n else if a \<noteq> [46] then n @ [a] else n)
                   (split_at 47 r) (butlast (split_at 47 cur))
         in join_with 47 (if n \<noteq> [] \<and> hd n = [] then n else [] # n)))"

section \<open>Routes\<close>

record 'q page_route =
  rt_name :: "string option"
  rt_path :: jsstr
  rt_hash :: jsstr
  rt_query :: 'q
  rt_full :: jsstr
  rt_matched :: "route_record list"

text \<open>\<open>C\<close>: a record with its parents, the outermost first.\<close>

fun with_parents :: "route_record \<Rightarrow> route_record list" where
  "with_parents (RouteRecord p nm code par as) =
     (case par of None \<Rightarrow> [] | Some r \<Rightarrow> with_parents r) @ [RouteRecord p nm code par as]"

text \<open>\<open>I\<close>: a route; an empty path is the root.\<close>

definition create_route ::
  "'q router_env \<Rightarrow> route_record option \<Rightarrow> string option \<Rightarrow> jsstr \<Rightarrow> 'q \<Rightarrow> jsstr \<Rightarrow> 'q page_route" where
  "create_route env r nm path q h =
     (let path' = (if path = [] then [47] else path)
      in \<lparr>rt_name = (case nm of Some n \<Rightarrow> Some n | None \<Rightarrow> Option.bind r record_name),
          rt_path = path', rt_hash = h, rt_query = q,
          rt_full = path' @ stringify_query env q @ h,
          rt_matched = (case r of None \<Rightarrow> [] | Some r \<Rightarrow> with_parents r)\<rparr>)"

definition empty_query :: "'q router_env \<Rightarrow> 'q" where
  "empty_query env = parse_query env []"

text \<open>
  \<open>lA\<close>: the expression made of a path without parameters accepts it in capital or small letters,
  with or without a slash at the end.
\<close>

definition fold_case :: "jschar \<Rightarrow> jschar" where
  "fold_case c = (if 97 \<le> c \<and> c \<le> 122 then c - 32 else c)"

definition path_matches :: "string \<Rightarrow> jsstr \<Rightarrow> bool" where
  "path_matches p s =
     (let q = map fold_case (lit (if p \<noteq> [] \<and> last p = CHR ''/'' then butlast p else p));
          t = map fold_case s
      in t = q \<or> t = q @ [47])"

definition find_path :: "route_map \<Rightarrow> jsstr \<Rightarrow> route_record option" where
  "find_path mp s =
     Option.bind (List.find (\<lambda>p. path_matches p s) (path_list mp)) (map_of (path_map mp))"

text \<open>
  \<open>c\<close> and \<open>u\<close>: an alias stands for the record that its path leads to; the fuel counts the aliases
  that follow each other.
\<close>

fun real_record :: "nat \<Rightarrow> route_map \<Rightarrow> route_record \<Rightarrow> route_record option" where
  "real_record n mp r =
     (case match_as r of
        None \<Rightarrow> Some r
      | Some q \<Rightarrow>
          (case n of
             0 \<Rightarrow> None
           | Suc n' \<Rightarrow>
               (case find_path mp (lit q) of
                  None \<Rightarrow> None
                | Some r' \<Rightarrow> real_record n' mp r')))"

declare real_record.simps [simp del]

text \<open>\<open>AA\<close>: the location that a target means at the current route.\<close>

definition normalize :: "'q router_env \<Rightarrow> target \<Rightarrow> 'q page_route \<Rightarrow> 'q location" where
  "normalize env t cur =
     (case t of
        ToName n \<Rightarrow> NamedLoc n
      | ToPath s \<Rightarrow>
          (let (p, q, h) = split_location s
           in PathLoc (if p \<noteq> [] then resolve_path p (rt_path cur) else rt_path cur)
                (parse_query env q) h))"

text \<open>\<open>a\<close>, the match function of the router.\<close>

definition match_target :: "'q router_env \<Rightarrow> route_map \<Rightarrow> target \<Rightarrow> 'q page_route \<Rightarrow> 'q page_route" where
  "match_target env mp t cur =
     (case normalize env t cur of
        NamedLoc n \<Rightarrow>
          (case map_of (name_map mp) n of
             None \<Rightarrow> create_route env None (Some n) [] (empty_query env) []
           | Some r \<Rightarrow>
               create_route env (real_record (length (path_list mp)) mp r) (Some n)
                 (lit (record_path r)) (empty_query env) [])
      | PathLoc p q h \<Rightarrow>
          (case (if p = [] then None else find_path mp p) of
             None \<Rightarrow> create_route env None None p q h
           | Some r \<Rightarrow>
               create_route env (real_record (length (path_list mp)) mp r) None p q h))"

text \<open>\<open>B\<close>: the route before the first navigation, which is no route of the table.\<close>

definition start_route :: "'q router_env \<Rightarrow> 'q page_route" where
  "start_route env = create_route env None None [47] (empty_query env) []"

text \<open>\<open>E\<close>: two routes lead to the same place; paths may differ in a slash at the end.\<close>

definition drop_slash :: "jsstr \<Rightarrow> jsstr" where
  "drop_slash s = (if s \<noteq> [] \<and> last s = 47 then butlast s else s)"

definition same_route :: "'q router_env \<Rightarrow> 'q page_route \<Rightarrow> 'q page_route \<Rightarrow> bool" where
  "same_route env a b \<longleftrightarrow>
     drop_slash (rt_path a) = drop_slash (rt_path b) \<and> rt_hash a = rt_hash b \<and>
     same_query env (rt_query a) (rt_query b)"

text \<open>\<open>re\<close>: the records that a navigation enters are those after the common ones.\<close>

fun activated :: "route_record list \<Rightarrow> route_record list \<Rightarrow> route_record list" where
  "activated (a # as) (b # bs) = (if a = b then activated as bs else b # bs)"
| "activated _ bs = bs"

end
