(* ===== verification/Router_History.thy ===== *)
theory Router_History
  imports Router_Match
begin

text \<open>
  The router, part two: navigations and the history of the window; the classes \<open>ee\<close> and \<open>de\<close>
  (the history in the hash) and the functions \<open>VA\<close>, \<open>HA\<close>, \<open>Ie\<close>, \<open>he\<close>, \<open>Ce\<close>, \<open>Qe\<close> of \<open>vue-router\<close>
  (module \<open>8c4f\<close> of \<open>chunk-vendors.28fb2c37.js\<close>). The application has one guard, which lets every
  navigation pass, and its pages have none.

  A navigation is known by its number. The code of a page is loaded when a navigation enters it
  for the first time; the loads end in any order, or fail, while other navigations start.
\<close>

section \<open>State\<close>

datatype nav_kind = PushNav | ReplaceNav | PopNav

text \<open>
  A navigation: its route, what becomes of the history, the pages whose code it waits for, the
  counter \<open>i\<close> of \<open>VA\<close> and whether a load failed (\<open>o\<close> of \<open>VA\<close>).
\<close>

record 'q nav =
  nav_route :: "'q page_route"
  nav_kind :: nav_kind
  nav_loads :: "route_record list"
  nav_missing :: nat
  nav_failed :: bool

text \<open>
  The history object, and of the window the fragments of the entries of its session history and
  the position in it. \<open>at_start\<close>: the current route is still \<open>B\<close>, the one before all navigations.
  \<open>listening\<close>: the listener for moves in the history is registered. \<open>loaded\<close>: the records whose
  page has been put in place of the function that loads it.
\<close>

record 'q router =
  navs :: "'q nav list"
  pending_nav :: "nat option"
  current_route :: "'q page_route"
  at_start :: bool
  listening :: bool
  loaded :: "route_record list"
  entries :: "jsstr list"
  position :: nat

section \<open>The hash\<close>

text \<open>\<open>he\<close>, \<open>Ce\<close>, \<open>Qe\<close>: read the fragment, push an entry, replace the entry.\<close>

definition get_hash :: "'q router \<Rightarrow> jsstr" where
  "get_hash s = entries s ! position s"

definition push_hash :: "'q router_env \<Rightarrow> jsstr \<Rightarrow> 'q router \<Rightarrow> 'q router" where
  "push_hash env x s =
     s\<lparr>entries := take (Suc (position s)) (entries s) @ [fragment env x],
       position := Suc (position s)\<rparr>"

definition replace_hash :: "'q router_env \<Rightarrow> jsstr \<Rightarrow> 'q router \<Rightarrow> 'q router" where
  "replace_hash env x s = s\<lparr>entries := (entries s)[position s := fragment env x]\<rparr>"

text \<open>\<open>ensureURL\<close>: the hash is that of the current route, by a new entry or in place.\<close>

definition ensure_url :: "'q router_env \<Rightarrow> bool \<Rightarrow> 'q router \<Rightarrow> 'q router" where
  "ensure_url env new s =
     (let full = rt_full (current_route s)
      in if get_hash s \<noteq> full then
           (if new then push_hash env full s else replace_hash env full s)
         else s)"

section \<open>Transitions\<close>

text \<open>
  The listener is registered when the first navigation, which the start of the router makes, has
  ended in any way.
\<close>

definition nav_ended :: "nat \<Rightarrow> 'q router \<Rightarrow> 'q router" where
  "nav_ended n s = (if n = 0 then s\<lparr>listening := True\<rparr> else s)"

text \<open>
  The end of the queue of guards: a navigation that is not the last one to have started is
  cancelled; else its route becomes the current one and its hash goes into the history.
\<close>

definition finish_nav :: "'q router_env \<Rightarrow> nat \<Rightarrow> 'q router \<Rightarrow> 'q router" where
  "finish_nav env n s =
     (if pending_nav s \<noteq> Some n then nav_ended n s
      else
        (let v = navs s ! n;
             s1 = s\<lparr>pending_nav := None, current_route := nav_route v, at_start := False\<rparr>;
             s2 = (case nav_kind v of
                     PushNav \<Rightarrow> push_hash env (rt_full (nav_route v)) s1
                   | ReplaceNav \<Rightarrow> replace_hash env (rt_full (nav_route v)) s1
                   | PopNav \<Rightarrow> s1)
         in ensure_url env False (nav_ended n s2)))"

text \<open>The search page is part of the entry bundle; the other pages are functions that load chunks.\<close>

definition lazy_page :: "route_record \<Rightarrow> bool" where
  "lazy_page r \<longleftrightarrow> (case record_code r of None \<Rightarrow> False | Some (cs, m) \<Rightarrow> cs \<noteq> [])"

text \<open>The test for a navigation to where the user is: the same route and the same last record.\<close>

definition redundant :: "'q router_env \<Rightarrow> 'q page_route \<Rightarrow> 'q router \<Rightarrow> bool" where
  "redundant env a s \<longleftrightarrow>
     \<not> at_start s \<and> same_route env a (current_route s) \<and>
     length (rt_matched a) = length (rt_matched (current_route s)) \<and>
     (rt_matched a = [] \<or> last (rt_matched a) = last (rt_matched (current_route s)))"

text \<open>\<open>transitionTo\<close> and \<open>confirmTransition\<close>, up to the loads of pages.\<close>

definition start_nav ::
  "'q router_env \<Rightarrow> route_map \<Rightarrow> nav_kind \<Rightarrow> target \<Rightarrow> 'q router \<Rightarrow> 'q router" where
  "start_nav env mp kind t s =
     (let a = match_target env mp t (current_route s);
          n = length (navs s);
          ls = (if redundant env a s then []
                else filter (\<lambda>r. lazy_page r \<and> r \<notin> set (loaded s))
                       (activated (rt_matched (current_route s)) (rt_matched a)));
          s1 = s\<lparr>pending_nav := Some n,
                 navs := navs s @ [\<lparr>nav_route = a, nav_kind = kind, nav_loads = ls,
                                    nav_missing = length ls, nav_failed = False\<rparr>]\<rparr>
      in if redundant env a s then ensure_url env False (nav_ended n s1)
         else if ls = [] then finish_nav env n s1
         else s1)"

text \<open>
  The page of a record has arrived for a navigation (\<open>u\<close> of \<open>VA\<close>). A load counts once, and the
  last one continues the navigation.
\<close>

definition page_arrived :: "'q router_env \<Rightarrow> nat \<Rightarrow> route_record \<Rightarrow> 'q router \<Rightarrow> 'q router" where
  "page_arrived env n r s =
     (if n < length (navs s) \<and> r \<in> set (nav_loads (navs s ! n)) then
        (let v = navs s ! n;
             s1 = s\<lparr>loaded := r # loaded s,
                    navs := (navs s)[n := v\<lparr>nav_loads := remove1 r (nav_loads v),
                                            nav_missing := nav_missing v - 1\<rparr>]\<rparr>
         in if nav_missing v - 1 = 0 then finish_nav env n s1 else s1)
      else s)"

text \<open>
  A load has failed (\<open>c\<close> of \<open>VA\<close>): the first failure ends the navigation, puts the hash back to the
  current route by a new entry, and leaves the pending route as it is.
\<close>

definition page_failed :: "'q router_env \<Rightarrow> nat \<Rightarrow> route_record \<Rightarrow> 'q router \<Rightarrow> 'q router" where
  "page_failed env n r s =
     (if n < length (navs s) \<and> r \<in> set (nav_loads (navs s ! n)) then
        (let v = navs s ! n;
             s1 = s\<lparr>navs := (navs s)[n := v\<lparr>nav_loads := remove1 r (nav_loads v),
                                            nav_failed := True\<rparr>]\<rparr>
         in if nav_failed v then s1 else nav_ended n (ensure_url env True s1))
      else s)"

section \<open>Moves in the history\<close>

text \<open>
  \<open>Ie\<close> and the listener: a hash without a slash in front gets one, and nothing else happens.
\<close>

definition popstate :: "'q router_env \<Rightarrow> route_map \<Rightarrow> 'q router \<Rightarrow> 'q router" where
  "popstate env mp s =
     (if \<not> listening s then s
      else if get_hash s \<noteq> [] \<and> hd (get_hash s) = 47 then
        start_nav env mp PopNav (ToPath (get_hash s)) s
      else replace_hash env (47 # get_hash s) s)"

text \<open>\<open>go\<close>, also by the buttons of the window: a move beyond the ends does nothing.\<close>

definition traverse :: "'q router_env \<Rightarrow> route_map \<Rightarrow> int \<Rightarrow> 'q router \<Rightarrow> 'q router" where
  "traverse env mp d s =
     (let p = int (position s) + d
      in if d \<noteq> 0 \<and> 0 \<le> p \<and> p < int (length (entries s))
         then popstate env mp (s\<lparr>position := nat p\<rparr>) else s)"

text \<open>The user edits the hash: the window makes an entry unless the hash is the same.\<close>

definition typed_hash :: "'q router_env \<Rightarrow> route_map \<Rightarrow> jsstr \<Rightarrow> 'q router \<Rightarrow> 'q router" where
  "typed_hash env mp x s =
     (if fragment env x = get_hash s then popstate env mp s
      else popstate env mp (push_hash env x s))"

section \<open>The router\<close>

datatype router_event =
    PushTo target
  | ReplaceTo target
  | Traverse int
  | TypedHash jsstr
  | PageArrived nat route_record
  | PageFailed nat route_record

fun router_step :: "'q router_env \<Rightarrow> route_map \<Rightarrow> router_event \<Rightarrow> 'q router \<Rightarrow> 'q router" where
  "router_step env mp (PushTo t) s = start_nav env mp PushNav t s"
| "router_step env mp (ReplaceTo t) s = start_nav env mp ReplaceNav t s"
| "router_step env mp (Traverse d) s = traverse env mp d s"
| "router_step env mp (TypedHash x) s = typed_hash env mp x s"
| "router_step env mp (PageArrived n r) s = page_arrived env n r s"
| "router_step env mp (PageFailed n r) s = page_failed env n r s"

text \<open>
  What the effects of a page mean for the router: a target that starts with a slash is a path, any
  other the name of a route.
\<close>

definition target_of :: "string \<Rightarrow> target" where
  "target_of t = (if t \<noteq> [] \<and> hd t = CHR ''/'' then ToPath (lit t) else ToName t)"

fun effect_event :: "effect \<Rightarrow> router_event option" where
  "effect_event (Push t) = Some (PushTo (target_of t))"
| "effect_event (ReplaceRoute t) = Some (ReplaceTo (target_of t))"
| "effect_event RouterBack = Some (Traverse (-1))"
| "effect_event _ = None"

text \<open>The constructor and \<open>init\<close>: a slash in front of the hash, then the first navigation.\<close>

definition open_router :: "'q router_env \<Rightarrow> route_map \<Rightarrow> jsstr \<Rightarrow> 'q router" where
  "open_router env mp h =
     (let s0 = \<lparr>navs = [], pending_nav = None, current_route = start_route env, at_start = True,
                listening = False, loaded = [], entries = [h], position = 0\<rparr>;
          s1 = (if h \<noteq> [] \<and> hd h = 47 then s0 else replace_hash env (47 # h) s0)
      in start_nav env mp PopNav (ToPath (get_hash s1)) s1)"

end
