(* ===== verification/Router_Facts.thy ===== *)
theory Router_Facts
  imports Router_History
begin

text \<open>
  Facts about the router: the invariant of its navigations, and the agreement of the hash with the
  page that is shown.
\<close>

section \<open>The parts of a step\<close>

lemma hash_simps [simp]:
  "navs (push_hash env x s) = navs s" "pending_nav (push_hash env x s) = pending_nav s"
  "current_route (push_hash env x s) = current_route s" "at_start (push_hash env x s) = at_start s"
  "listening (push_hash env x s) = listening s" "loaded (push_hash env x s) = loaded s"
  "position (push_hash env x s) = Suc (position s)"
  "navs (replace_hash env x s) = navs s" "pending_nav (replace_hash env x s) = pending_nav s"
  "current_route (replace_hash env x s) = current_route s"
  "at_start (replace_hash env x s) = at_start s" "listening (replace_hash env x s) = listening s"
  "loaded (replace_hash env x s) = loaded s" "position (replace_hash env x s) = position s"
  by (simp_all add: push_hash_def replace_hash_def)

lemma ensure_simps [simp]:
  "navs (ensure_url env b s) = navs s" "pending_nav (ensure_url env b s) = pending_nav s"
  "current_route (ensure_url env b s) = current_route s" "at_start (ensure_url env b s) = at_start s"
  "listening (ensure_url env b s) = listening s" "loaded (ensure_url env b s) = loaded s"
  by (simp_all add: ensure_url_def Let_def)

lemma ended_simps [simp]:
  "navs (nav_ended n s) = navs s" "pending_nav (nav_ended n s) = pending_nav s"
  "current_route (nav_ended n s) = current_route s" "at_start (nav_ended n s) = at_start s"
  "loaded (nav_ended n s) = loaded s" "entries (nav_ended n s) = entries s"
  "position (nav_ended n s) = position s" "listening (nav_ended n s) = (n = 0 \<or> listening s)"
  by (simp_all add: nav_ended_def)

section \<open>The history stays within its bounds\<close>

definition in_bounds :: "'q router \<Rightarrow> bool" where
  "in_bounds s \<longleftrightarrow> position s < length (entries s)"

lemma push_bounds: "in_bounds s \<Longrightarrow> in_bounds (push_hash env x s) \<and>
    length (entries (push_hash env x s)) \<le> Suc (length (entries s))"
  by (simp add: in_bounds_def push_hash_def)

lemma replace_bounds [simp]: "in_bounds (replace_hash env x s) \<longleftrightarrow> in_bounds s"
  "length (entries (replace_hash env x s)) = length (entries s)"
  by (simp_all add: in_bounds_def replace_hash_def)

text \<open>After a push the hash need only be put right in place, so a step adds one entry at most.\<close>

definition one_more :: "'q router \<Rightarrow> 'q router \<Rightarrow> bool" where
  "one_more s t \<longleftrightarrow> in_bounds t \<and> length (entries t) \<le> Suc (length (entries s))"

lemma one_more_same [simp]: "entries t = entries s \<Longrightarrow> position t = position s \<Longrightarrow> in_bounds s \<Longrightarrow> one_more s t"
  by (simp add: one_more_def in_bounds_def)

lemma one_more_ensure [simp]: "one_more s t \<Longrightarrow> one_more s (ensure_url env False t)"
  by (simp add: one_more_def ensure_url_def Let_def)

lemma one_more_ended [simp]: "one_more s (nav_ended n t) \<longleftrightarrow> one_more s t"
  by (simp add: one_more_def in_bounds_def)

lemma one_more_finish: "in_bounds s \<Longrightarrow> entries t = entries s \<Longrightarrow> position t = position s \<Longrightarrow>
    one_more s (finish_nav env n t)"
  by (auto simp: finish_nav_def Let_def one_more_def in_bounds_def push_hash_def replace_hash_def
      ensure_url_def nav_ended_def split: nav_kind.split)

lemma one_more_start: "in_bounds s \<Longrightarrow> one_more s (start_nav env mp k t s)"
  by (auto simp: start_nav_def Let_def intro: one_more_finish)

lemma finish_pop_length: "in_bounds s \<Longrightarrow> nav_kind (navs s ! n) = PopNav \<Longrightarrow>
    in_bounds (finish_nav env n s) \<and> length (entries (finish_nav env n s)) = length (entries s)"
  by (auto simp: finish_nav_def Let_def in_bounds_def ensure_url_def nav_ended_def replace_hash_def)

lemma start_pop_length: "in_bounds s \<Longrightarrow>
    in_bounds (start_nav env mp PopNav t s) \<and>
    length (entries (start_nav env mp PopNav t s)) = length (entries s)"
proof -
  assume "in_bounds s"
  then show ?thesis
    by (auto simp: start_nav_def Let_def ensure_url_def nav_ended_def in_bounds_def replace_hash_def
        finish_nav_def)
qed

lemma popstate_length: "in_bounds s \<Longrightarrow>
    in_bounds (popstate env mp s) \<and> length (entries (popstate env mp s)) = length (entries s)"
  by (simp add: popstate_def start_pop_length)

lemma one_more_step: "in_bounds s \<Longrightarrow> one_more s (router_step env mp e s)"
proof (cases e)
  case (Traverse d)
  assume b: "in_bounds s"
  show ?thesis
    using popstate_length [of "s\<lparr>position := nat (int (position s) + d)\<rparr>" env mp] b Traverse
    by (auto simp: traverse_def Let_def one_more_def in_bounds_def nat_less_iff)
next
  case (TypedHash x)
  assume b: "in_bounds s"
  show ?thesis
    using popstate_length [of s env mp] popstate_length [of "push_hash env x s" env mp]
      push_bounds [OF b, of env x] b TypedHash
    by (auto simp: typed_hash_def one_more_def)
next
  case (PageFailed n r)
  assume "in_bounds s"
  then show ?thesis using PageFailed
    by (auto simp: page_failed_def Let_def one_more_def in_bounds_def ensure_url_def push_hash_def
        get_hash_def nav_ended_def)
qed (auto simp: one_more_start page_arrived_def Let_def intro: one_more_finish)

text \<open>Only some events can add an entry at all.\<close>

fun may_add :: "router_event \<Rightarrow> 'q router \<Rightarrow> bool" where
  "may_add (PushTo t) s \<longleftrightarrow> True"
| "may_add (ReplaceTo t) s \<longleftrightarrow> False"
| "may_add (Traverse d) s \<longleftrightarrow> False"
| "may_add (TypedHash x) s \<longleftrightarrow> True"
| "may_add (PageArrived n r) s \<longleftrightarrow> pending_nav s = Some n \<and> nav_kind (navs s ! n) = PushNav"
| "may_add (PageFailed n r) s \<longleftrightarrow> True"

lemma finish_length:
  "pending_nav s = Some n \<longrightarrow> nav_kind (navs s ! n) \<noteq> PushNav \<Longrightarrow>
   length (entries (finish_nav env n s)) = length (entries s)"
  by (auto simp: finish_nav_def Let_def ensure_url_def nav_ended_def replace_hash_def
      split: nav_kind.split)

lemma start_length: "k \<noteq> PushNav \<Longrightarrow> length (entries (start_nav env mp k t s)) = length (entries s)"
  by (simp add: start_nav_def Let_def finish_length) (simp add: ensure_url_def Let_def)

lemma quiet_length:
  assumes "in_bounds s" "\<not> may_add e s"
  shows "length (entries (router_step env mp e s)) = length (entries s)"
proof (cases e)
  case (Traverse d)
  then show ?thesis
    using assms(1) popstate_length [of "s\<lparr>position := nat (int (position s) + d)\<rparr>" env mp]
    by (auto simp: traverse_def Let_def in_bounds_def nat_less_iff)
next
  case (PageArrived n r)
  then show ?thesis
    using assms(2) by (auto simp: page_arrived_def Let_def finish_length)
qed (use assms(2) in \<open>simp_all add: start_length\<close>)

section \<open>The code of the pages\<close>

definition code_loaded :: "'q router \<Rightarrow> route_record list \<Rightarrow> bool" where
  "code_loaded s rs \<longleftrightarrow> (\<forall>r \<in> set rs. lazy_page r \<longrightarrow> r \<in> set (loaded s))"

definition nav_ok :: "route_record list \<Rightarrow> 'q nav \<Rightarrow> bool" where
  "nav_ok ld v \<longleftrightarrow>
     (if nav_failed v then length (nav_loads v) < nav_missing v
      else length (nav_loads v) = nav_missing v \<and>
        (nav_loads v \<noteq> [] \<longrightarrow>
          (\<forall>r \<in> set (rt_matched (nav_route v)). lazy_page r \<longrightarrow> r \<in> set ld \<or> r \<in> set (nav_loads v))))"

definition router_ok :: "'q router \<Rightarrow> bool" where
  "router_ok s \<longleftrightarrow>
     (\<forall>n. pending_nav s = Some n \<longrightarrow> Suc n = length (navs s)) \<and>
     (\<forall>v \<in> set (navs s). nav_ok (loaded s) v) \<and>
     code_loaded s (rt_matched (current_route s))"

lemma all_update: "\<forall>v \<in> set xs. P v \<Longrightarrow> P w \<Longrightarrow> \<forall>v \<in> set (xs[n := w]). P v"
  using set_update_subset_insert [of xs n w] by blast

lemma remove1_single: "r \<in> set ls \<Longrightarrow> length ls = 1 \<Longrightarrow> ls = [r]"
  by (cases ls) auto

lemma remove1_shorter: "r \<in> set ls \<Longrightarrow> Suc (length (remove1 r ls)) = length ls"
  by (induction ls) auto

lemma activated_cover: "r \<in> set bs \<Longrightarrow> r \<in> set as \<or> r \<in> set (activated as bs)"
  by (induction as bs rule: activated.induct) auto

lemma router_ok_cong:
  "navs t = navs s \<Longrightarrow> pending_nav t = pending_nav s \<Longrightarrow> current_route t = current_route s \<Longrightarrow>
    loaded t = loaded s \<Longrightarrow> router_ok t = router_ok s"
  by (simp add: router_ok_def code_loaded_def)

lemma router_ok_parts [simp]:
  "router_ok (push_hash env x s) = router_ok s" "router_ok (replace_hash env x s) = router_ok s"
  "router_ok (ensure_url env b s) = router_ok s" "router_ok (nav_ended n s) = router_ok s"
  "router_ok (s\<lparr>position := p\<rparr>) = router_ok s"
  by (rule router_ok_cong; simp)+

lemma finish_simps [simp]:
  "navs (finish_nav env n s) = navs s" "loaded (finish_nav env n s) = loaded s"
  "pending_nav (finish_nav env n s) = (if pending_nav s = Some n then None else pending_nav s)"
  "current_route (finish_nav env n s) =
    (if pending_nav s = Some n then nav_route (navs s ! n) else current_route s)"
  by (auto simp: finish_nav_def Let_def split: nav_kind.split)

lemma router_ok_finish:
  assumes "router_ok s" "code_loaded s (rt_matched (nav_route (navs s ! n)))"
  shows "router_ok (finish_nav env n s)"
  using assms by (auto simp: router_ok_def code_loaded_def)

lemma nav_ok_more: "nav_ok ld v \<Longrightarrow> nav_ok (r # ld) v"
  by (auto simp: nav_ok_def)

lemma router_ok_start:
  assumes "router_ok s"
  shows "router_ok (start_nav env mp k t s)"
proof -
  define a where "a = match_target env mp t (current_route s)"
  define ls where "ls = (if redundant env a s then []
      else filter (\<lambda>r. lazy_page r \<and> r \<notin> set (loaded s))
        (activated (rt_matched (current_route s)) (rt_matched a)))"
  define s1 where "s1 = s\<lparr>pending_nav := Some (length (navs s)),
      navs := navs s @ [\<lparr>nav_route = a, nav_kind = k, nav_loads = ls,
        nav_missing = length ls, nav_failed = False\<rparr>]\<rparr>"
  have cover: "lazy_page r \<longrightarrow> r \<in> set (loaded s) \<or> r \<in> set ls"
    if "\<not> redundant env a s" "r \<in> set (rt_matched a)" for r
    using that assms activated_cover [OF that(2), of "rt_matched (current_route s)"]
    by (auto simp: ls_def router_ok_def code_loaded_def)
  then have ok: "router_ok s1"
    using assms by (auto simp: router_ok_def s1_def nav_ok_def code_loaded_def ls_def)
  have st: "start_nav env mp k t s =
      (if redundant env a s then ensure_url env False (nav_ended (length (navs s)) s1)
       else if ls = [] then finish_nav env (length (navs s)) s1 else s1)"
    by (simp add: start_nav_def a_def ls_def s1_def Let_def)
  have "code_loaded s1 (rt_matched (nav_route (navs s1 ! length (navs s))))"
    if "\<not> redundant env a s" "ls = []"
    using cover that by (auto simp: code_loaded_def s1_def)
  then show ?thesis using ok by (auto simp: st intro: router_ok_finish)
qed

lemma router_ok_arrived:
  assumes "router_ok s" shows "router_ok (page_arrived env n r s)"
proof (cases "n < length (navs s) \<and> r \<in> set (nav_loads (navs s ! n))")
  case True
  define v where "v = navs s ! n"
  define w where "w = v\<lparr>nav_loads := remove1 r (nav_loads v), nav_missing := nav_missing v - 1\<rparr>"
  define s1 where "s1 = s\<lparr>loaded := r # loaded s, navs := (navs s)[n := w]\<rparr>"
  have v: "nav_ok (loaded s) v" "r \<in> set (nav_loads v)" using True assms by (auto simp: router_ok_def v_def)
  have w: "nav_ok (r # loaded s) w"
    using v remove1_shorter [OF v(2)] by (auto simp: nav_ok_def w_def)
  have "\<forall>v \<in> set (navs s). nav_ok (r # loaded s) v"
    using assms by (simp add: router_ok_def nav_ok_more)
  from all_update [OF this w] have ok: "router_ok s1"
    using assms by (simp add: router_ok_def s1_def code_loaded_def)
  have "code_loaded s1 (rt_matched (nav_route (navs s1 ! n)))" if "nav_missing v - 1 = 0"
  proof -
    have f: "\<not> nav_failed v" using v that remove1_shorter [OF v(2)] by (auto simp: nav_ok_def)
    then have "nav_loads v = [r]"
      using v(1) that remove1_shorter [OF v(2)] by (intro remove1_single v(2)) (simp add: nav_ok_def)
    then show ?thesis using f using v(1) True by (auto simp: nav_ok_def code_loaded_def s1_def w_def)
  qed
  moreover have "page_arrived env n r s = (if nav_missing v - 1 = 0 then finish_nav env n s1 else s1)"
    using True by (simp add: page_arrived_def v_def w_def s1_def Let_def)
  ultimately show ?thesis using ok by (simp add: router_ok_finish)
qed (use assms in \<open>auto simp: page_arrived_def\<close>)

lemma router_ok_failed:
  assumes "router_ok s" shows "router_ok (page_failed env n r s)"
proof (cases "n < length (navs s) \<and> r \<in> set (nav_loads (navs s ! n))")
  case True
  define v where "v = navs s ! n"
  define w where "w = v\<lparr>nav_loads := remove1 r (nav_loads v), nav_failed := True\<rparr>"
  have v: "nav_ok (loaded s) v" "r \<in> set (nav_loads v)" using True assms by (auto simp: router_ok_def v_def)
  then have "nav_ok (loaded s) w"
    using remove1_shorter [OF v(2)] by (auto simp: nav_ok_def w_def split: if_splits)
  moreover have "\<forall>v \<in> set (navs s). nav_ok (loaded s) v" using assms by (simp add: router_ok_def)
  ultimately have "router_ok (s\<lparr>navs := (navs s)[n := w]\<rparr>)"
    using assms all_update by (simp add: router_ok_def code_loaded_def)
  then show ?thesis using True by (simp add: page_failed_def Let_def v_def w_def)
qed (use assms in \<open>auto simp: page_failed_def\<close>)

lemma router_ok_popstate: "router_ok s \<Longrightarrow> router_ok (popstate env mp s)"
  by (simp add: popstate_def router_ok_start)

lemma router_ok_step: "router_ok s \<Longrightarrow> router_ok (router_step env mp e s)"
  by (cases e) (auto simp: router_ok_start router_ok_arrived router_ok_failed traverse_def
      typed_hash_def Let_def intro: router_ok_popstate)

lemma router_ok_open: "router_ok (open_router env mp h)"
proof -
  have "router_ok \<lparr>navs = [], pending_nav = None, current_route = start_route env, at_start = True,
      listening = False, loaded = [], entries = [h], position = 0\<rparr>"
    by (simp add: router_ok_def code_loaded_def start_route_def create_route_def)
  then show ?thesis by (simp add: open_router_def Let_def router_ok_start)
qed

lemma router_ok_run: "router_ok s \<Longrightarrow> router_ok (fold (router_step env mp) es s)"
  by (induction es arbitrary: s) (simp_all add: router_ok_step)

lemma in_bounds_open: "in_bounds (open_router env mp h) \<and> length (entries (open_router env mp h)) = 1"
  unfolding open_router_def Let_def
  by (subst start_pop_length; simp add: in_bounds_def replace_hash_def)
     (simp add: start_pop_length in_bounds_def replace_hash_def)

lemma bounds_run:
  "in_bounds s \<Longrightarrow> in_bounds (fold (router_step env mp) es s) \<and>
    length (entries (fold (router_step env mp) es s)) \<le> length (entries s) + length es"
proof (induction es arbitrary: s)
  case (Cons e es)
  from one_more_step [OF Cons.prems, of env mp e]
  have b: "in_bounds (router_step env mp e s)"
    "length (entries (router_step env mp e s)) \<le> Suc (length (entries s))"
    by (simp_all add: one_more_def)
  show ?case using Cons.IH [OF b(1)] b(2) by simp
qed simp

section \<open>The hash of the window\<close>

definition slashed :: "jsstr \<Rightarrow> bool" where
  "slashed x \<longleftrightarrow> (\<exists>y. x = 47 # y)"

text \<open>
  The address bar keeps the slash in front of a fragment, and a text that it has written is not
  changed again.
\<close>

definition env_ok :: "'q router_env \<Rightarrow> bool" where
  "env_ok env \<longleftrightarrow> (\<forall>x. fragment env (fragment env x) = fragment env x) \<and>
     (\<forall>x. slashed x \<longrightarrow> slashed (fragment env x))"

definition map_ok :: "route_map \<Rightarrow> bool" where
  "map_ok mp \<longleftrightarrow> list_all (\<lambda>(n, r). record_path r = [] \<or> hd (record_path r) = CHR ''/'') (name_map mp)"

lemma slashed_Cons [simp]: "slashed (c # s) \<longleftrightarrow> c = 47"
  by (auto simp: slashed_def)

lemma not_slashed_Nil [simp]: "\<not> slashed []"
  by (simp add: slashed_def)

lemma slashed_append: "slashed x \<Longrightarrow> slashed (x @ y)"
  by (auto simp: slashed_def)

lemma slashed_hd: "slashed x \<longleftrightarrow> x \<noteq> [] \<and> hd x = 47"
  by (cases x) auto

lemma join_root: "join_with 47 ([] # ps) = [] \<or> slashed (join_with 47 ([] # ps))"
  by (cases ps) auto

lemma slashed_resolve:
  assumes "r \<noteq> []" "hd r \<noteq> 63" "hd r \<noteq> 35"
  shows "resolve_path r cur = [] \<or> slashed (resolve_path r cur)"
proof (cases "hd r = 47")
  case False
  define n where "n = fold (\<lambda>a n. if a = [46, 46] then butlast n else if a \<noteq> [46] then n @ [a] else n)
      (split_at 47 r) (butlast (split_at 47 cur))"
  obtain ps where "(if n \<noteq> [] \<and> hd n = [] then n else [] # n) = [] # ps"
    by (cases n; cases "hd n = []") auto
  moreover have "resolve_path r cur = join_with 47 (if n \<noteq> [] \<and> hd n = [] then n else [] # n)"
    using assms False by (simp add: resolve_path_def n_def)
  ultimately show ?thesis using join_root [of ps] by simp
qed (use assms in \<open>simp add: resolve_path_def slashed_hd\<close>)

lemma slashed_create:
  "p = [] \<or> slashed p \<Longrightarrow> slashed (rt_path (create_route env r nm p q h)) \<and>
    slashed (rt_full (create_route env r nm p q h))"
  by (auto simp: create_route_def Let_def slashed_append)

lemma split_location_hd:
  assumes "split_location s = (p, q, h)" "p \<noteq> []"
  shows "hd p \<noteq> 63 \<and> hd p \<noteq> 35"
proof -
  have "set p \<subseteq> {c. c \<noteq> 63} \<inter> {c. c \<noteq> 35}"
    using assms(1) by (auto simp: split_location_def Let_def dest: set_takeWhileD)
  then show ?thesis using assms(2) by (cases p) auto
qed

lemma slashed_match:
  assumes "map_ok mp" "slashed (rt_path cur)"
  shows "slashed (rt_path (match_target env mp t cur)) \<and> slashed (rt_full (match_target env mp t cur))"
proof (cases t)
  case (ToName n)
  have "lit (record_path r) = [] \<or> slashed (lit (record_path r))"
    if "map_of (name_map mp) n = Some r" for r
  proof -
    have "record_path r = [] \<or> hd (record_path r) = CHR ''/''"
      using assms(1) map_of_SomeD [OF that] by (fastforce simp: map_ok_def list_all_iff)
    then show ?thesis by (cases "record_path r") (auto simp: lit_def)
  qed
  then show ?thesis
    using ToName by (auto simp: match_target_def normalize_def slashed_create split: option.split)
next
  case (ToPath s)
  obtain p q h where l: "split_location s = (p, q, h)" by (cases "split_location s") auto
  let ?p = "if p \<noteq> [] then resolve_path p (rt_path cur) else rt_path cur"
  have "?p = [] \<or> slashed ?p"
    using assms(2) slashed_resolve split_location_hd [OF l] by auto
  then show ?thesis
    using ToPath l by (auto simp: match_target_def normalize_def slashed_create split: option.split)
qed

definition idle :: "'q router \<Rightarrow> bool" where
  "idle s \<longleftrightarrow> (case pending_nav s of None \<Rightarrow> True
     | Some n \<Rightarrow> nav_loads (navs s ! n) = [] \<or> nav_failed (navs s ! n))"

definition url_pre :: "'q router_env \<Rightarrow> 'q router \<Rightarrow> bool" where
  "url_pre env s \<longleftrightarrow> listening s \<and> \<not> at_start s \<and> in_bounds s \<and>
     (\<forall>e \<in> set (entries s). slashed e \<and> fragment env e = e) \<and>
     slashed (rt_path (current_route s)) \<and> slashed (rt_full (current_route s)) \<and>
     (\<forall>v \<in> set (navs s). slashed (rt_path (nav_route v)) \<and> slashed (rt_full (nav_route v)))"

definition url_agrees :: "'q router_env \<Rightarrow> 'q router \<Rightarrow> bool" where
  "url_agrees env s \<longleftrightarrow> get_hash s = fragment env (rt_full (current_route s))"

definition url_ok :: "'q router_env \<Rightarrow> 'q router \<Rightarrow> bool" where
  "url_ok env s \<longleftrightarrow> url_pre env s \<and> (idle s \<longrightarrow> url_agrees env s)"

lemma hash_in_entries: "in_bounds s \<Longrightarrow> get_hash s \<in> set (entries s)"
  by (simp add: in_bounds_def get_hash_def)

lemma url_pre_push:
  assumes "env_ok env" "url_pre env s" "slashed x"
  shows "url_pre env (push_hash env x s)" "get_hash (push_hash env x s) = fragment env x"
  using assms
  by (auto simp: url_pre_def env_ok_def push_hash_def in_bounds_def get_hash_def nth_append
      dest: in_set_takeD)

lemma url_pre_replace:
  assumes "env_ok env" "url_pre env s" "slashed x"
  shows "url_pre env (replace_hash env x s)" "get_hash (replace_hash env x s) = fragment env x"
proof -
  have "\<forall>e \<in> set ((entries s)[position s := fragment env x]). slashed e \<and> fragment env e = e"
    using assms by (intro all_update) (simp_all add: url_pre_def env_ok_def)
  then have "\<forall>e \<in> set (entries (replace_hash env x s)). slashed e \<and> fragment env e = e"
    by (simp add: replace_hash_def)
  then show "url_pre env (replace_hash env x s)" using assms(2) by (auto simp: url_pre_def)
  show "get_hash (replace_hash env x s) = fragment env x"
    using assms(2) by (simp add: url_pre_def replace_hash_def in_bounds_def get_hash_def)
qed

lemma url_pre_ended: "url_pre env s \<Longrightarrow> url_pre env (nav_ended n s)"
  by (simp add: url_pre_def in_bounds_def)

lemma url_pre_ensure:
  assumes "env_ok env" "url_pre env s"
  shows "url_pre env (ensure_url env b s)" "url_agrees env (ensure_url env b s)"
proof -
  have f: "slashed (rt_full (current_route s))" using assms(2) by (simp add: url_pre_def)
  show "url_pre env (ensure_url env b s)"
    using url_pre_push(1) [OF assms f] url_pre_replace(1) [OF assms f] assms(2)
    by (simp add: ensure_url_def Let_def)
  have "fragment env (get_hash s) = get_hash s"
    using assms(2) hash_in_entries by (auto simp: url_pre_def)
  then show "url_agrees env (ensure_url env b s)"
    using url_pre_push(2) [OF assms f] url_pre_replace(2) [OF assms f]
    by (auto simp: url_agrees_def ensure_url_def Let_def)
qed

lemma url_finish:
  assumes "env_ok env" "url_pre env s" "n < length (navs s)" "pending_nav s \<noteq> Some n \<longrightarrow> url_ok env s"
  shows "url_ok env (finish_nav env n s)"
proof (cases "pending_nav s = Some n")
  case True
  define v where "v = navs s ! n"
  define s1 where "s1 = s\<lparr>pending_nav := None, current_route := nav_route v, at_start := False\<rparr>"
  have v: "slashed (rt_path (nav_route v))" "slashed (rt_full (nav_route v))"
    using assms(2,3) by (auto simp: url_pre_def v_def)
  then have s1: "url_pre env s1" using assms(2) by (auto simp: url_pre_def s1_def in_bounds_def)
  define s2 where "s2 = (case nav_kind v of
      PushNav \<Rightarrow> push_hash env (rt_full (nav_route v)) s1
    | ReplaceNav \<Rightarrow> replace_hash env (rt_full (nav_route v)) s1 | PopNav \<Rightarrow> s1)"
  have "url_pre env s2"
    using url_pre_push(1) [OF assms(1) s1 v(2)] url_pre_replace(1) [OF assms(1) s1 v(2)] s1
    by (simp add: s2_def split: nav_kind.split)
  then have "url_pre env (nav_ended n s2)" by (rule url_pre_ended)
  from url_pre_ensure [OF assms(1) this]
  moreover have "finish_nav env n s = ensure_url env False (nav_ended n s2)"
    unfolding finish_nav_def Let_def s2_def s1_def v_def using True by simp
  ultimately show ?thesis by (simp add: url_ok_def)
next
  case False
  then show ?thesis using assms(4)
    by (simp add: finish_nav_def url_ok_def url_pre_ended url_agrees_def get_hash_def idle_def
        split: option.splits)
qed

lemma url_start:
  assumes "env_ok env" "map_ok mp" "url_pre env s"
  shows "url_ok env (start_nav env mp k t s)"
proof -
  define a where "a = match_target env mp t (current_route s)"
  define ls where "ls = (if redundant env a s then []
      else filter (\<lambda>r. lazy_page r \<and> r \<notin> set (loaded s))
        (activated (rt_matched (current_route s)) (rt_matched a)))"
  define s1 where "s1 = s\<lparr>pending_nav := Some (length (navs s)),
      navs := navs s @ [\<lparr>nav_route = a, nav_kind = k, nav_loads = ls,
        nav_missing = length ls, nav_failed = False\<rparr>]\<rparr>"
  have "slashed (rt_path a) \<and> slashed (rt_full a)"
    unfolding a_def using assms(2,3) by (intro slashed_match) (simp_all add: url_pre_def)
  then have s1: "url_pre env s1" using assms(3) by (auto simp: url_pre_def s1_def in_bounds_def)
  have st: "start_nav env mp k t s =
      (if redundant env a s then ensure_url env False (nav_ended (length (navs s)) s1)
       else if ls = [] then finish_nav env (length (navs s)) s1 else s1)"
    by (simp add: start_nav_def a_def ls_def s1_def Let_def)
  have "url_ok env (finish_nav env (length (navs s)) s1)"
    using s1 by (intro url_finish assms(1)) (simp_all add: s1_def)
  moreover have "url_ok env (ensure_url env False (nav_ended (length (navs s)) s1))"
    using url_pre_ensure [OF assms(1) url_pre_ended [OF s1]] by (simp add: url_ok_def)
  moreover have "ls \<noteq> [] \<Longrightarrow> url_ok env s1"
    using s1 by (simp add: url_ok_def idle_def s1_def nth_append)
  ultimately show ?thesis by (simp add: st)
qed

lemma url_popstate:
  assumes "env_ok env" "map_ok mp" "url_pre env s"
  shows "url_ok env (popstate env mp s)"
proof -
  have "slashed (get_hash s)" using assms(3) hash_in_entries by (auto simp: url_pre_def)
  moreover have "listening s" using assms(3) by (simp add: url_pre_def)
  ultimately show ?thesis using url_start [OF assms] by (simp add: popstate_def slashed_hd)
qed

lemma url_arrived:
  assumes "env_ok env" "url_ok env s" "router_ok s"
  shows "url_ok env (page_arrived env n r s)"
proof (cases "n < length (navs s) \<and> r \<in> set (nav_loads (navs s ! n))")
  case True
  define v where "v = navs s ! n"
  define w where "w = v\<lparr>nav_loads := remove1 r (nav_loads v), nav_missing := nav_missing v - 1\<rparr>"
  define s1 where "s1 = s\<lparr>loaded := r # loaded s, navs := (navs s)[n := w]\<rparr>"
  have eq: "page_arrived env n r s = (if nav_missing v - 1 = 0 then finish_nav env n s1 else s1)"
    using True by (simp add: page_arrived_def v_def w_def s1_def Let_def)
  have "\<forall>v \<in> set ((navs s)[n := w]). slashed (rt_path (nav_route v)) \<and> slashed (rt_full (nav_route v))"
    using assms(2) True by (intro all_update) (auto simp: url_ok_def url_pre_def w_def v_def)
  then have s1: "url_pre env s1" using assms(2) by (auto simp: url_ok_def url_pre_def s1_def in_bounds_def)
  have agrees: "url_agrees env s1 = url_agrees env s" by (simp add: url_agrees_def s1_def get_hash_def)
  show ?thesis
  proof (cases "nav_missing v - 1 = 0")
    case last: True
    have "url_ok env s1" if "pending_nav s1 \<noteq> Some n"
      using that assms(2) s1 agrees True
      by (auto simp: url_ok_def idle_def s1_def split: option.splits)
    then show ?thesis using eq last s1 True by (auto simp: s1_def intro!: url_finish assms(1))
  next
    case False
    have "nav_ok (loaded s) v" "r \<in> set (nav_loads v)" using True assms(3) by (auto simp: router_ok_def v_def)
    then have "nav_loads w = [] \<Longrightarrow> nav_failed w"
      using False remove1_shorter [of r "nav_loads v"] by (auto simp: nav_ok_def w_def split: if_splits)
    then have "idle s1 \<Longrightarrow> idle s"
      using True by (auto simp: idle_def s1_def nth_list_update w_def v_def split: option.splits if_splits)
    then show ?thesis using eq False s1 agrees assms(2) by (auto simp: url_ok_def)
  qed
qed (use assms in \<open>auto simp: page_arrived_def\<close>)

lemma url_failed:
  assumes "env_ok env" "url_ok env s" "router_ok s"
  shows "url_ok env (page_failed env n r s)"
proof (cases "n < length (navs s) \<and> r \<in> set (nav_loads (navs s ! n))")
  case True
  define v where "v = navs s ! n"
  define w where "w = v\<lparr>nav_loads := remove1 r (nav_loads v), nav_failed := True\<rparr>"
  define s1 where "s1 = s\<lparr>navs := (navs s)[n := w]\<rparr>"
  have eq: "page_failed env n r s =
      (if nav_failed v then s1 else nav_ended n (ensure_url env True s1))"
    using True by (simp add: page_failed_def v_def w_def s1_def Let_def)
  have "\<forall>v \<in> set ((navs s)[n := w]). slashed (rt_path (nav_route v)) \<and> slashed (rt_full (nav_route v))"
    using assms(2) True by (intro all_update) (auto simp: url_ok_def url_pre_def w_def v_def)
  then have s1: "url_pre env s1" using assms(2) by (auto simp: url_ok_def url_pre_def s1_def in_bounds_def)
  have agrees: "url_agrees env s1 = url_agrees env s" by (simp add: url_agrees_def s1_def get_hash_def)
  have "idle s1 \<Longrightarrow> idle s" if "nav_failed v"
    using True that by (auto simp: idle_def s1_def nth_list_update w_def v_def split: option.splits if_splits)
  moreover have "url_ok env (nav_ended n (ensure_url env True s1))"
    using url_pre_ensure [OF assms(1) s1, of True] url_pre_ended
    by (simp add: url_ok_def url_agrees_def get_hash_def)
  ultimately show ?thesis using eq s1 agrees assms(2) by (auto simp: url_ok_def)
qed (use assms in \<open>auto simp: page_failed_def\<close>)

definition slashed_event :: "router_event \<Rightarrow> bool" where
  "slashed_event e = (case e of TypedHash x \<Rightarrow> slashed x | _ \<Rightarrow> True)"

lemma url_step:
  assumes "env_ok env" "map_ok mp" "url_ok env s" "router_ok s" "slashed_event e"
  shows "url_ok env (router_step env mp e s)"
proof (cases e)
  case (Traverse d)
  have "url_pre env (s\<lparr>position := nat p\<rparr>)" if "0 \<le> p" "p < int (length (entries s))" for p
    using assms(3) that by (auto simp: url_ok_def url_pre_def in_bounds_def nat_less_iff)
  then show ?thesis using Traverse url_popstate [OF assms(1,2)] assms(3) by (simp add: traverse_def Let_def)
next
  case (TypedHash x)
  then have "slashed x" using assms(5) by (simp add: slashed_event_def)
  then have "url_pre env (push_hash env x s)"
    using assms(3) by (intro url_pre_push(1) assms(1)) (simp_all add: url_ok_def)
  then show ?thesis using TypedHash url_popstate [OF assms(1,2)] assms(3)
    by (simp add: typed_hash_def url_ok_def)
next
  case (PageArrived n r)
  then show ?thesis using url_arrived [OF assms(1,3,4)] by simp
next
  case (PageFailed n r)
  then show ?thesis using url_failed [OF assms(1,3,4)] by simp
qed (use url_start [OF assms(1,2)] assms(3) in \<open>simp_all add: url_ok_def\<close>)

lemma url_run:
  assumes "env_ok env" "map_ok mp"
  shows "url_ok env s \<Longrightarrow> router_ok s \<Longrightarrow> list_all slashed_event es \<Longrightarrow>
    url_ok env (fold (router_step env mp) es s)"
  by (induction es arbitrary: s) (simp_all add: url_step [OF assms] router_ok_step)

section \<open>Each page is waited for once\<close>

lemma distinct_parents: "distinct (with_parents r)"
proof -
  have small: "x \<in> set (with_parents r) \<Longrightarrow> size x \<le> size r" for x r
    by (induction r rule: with_parents.induct) (auto split: option.splits)
  show ?thesis
    by (induction r rule: with_parents.induct) (auto split: option.splits dest: small)
qed

lemma distinct_activated: "distinct bs \<Longrightarrow> distinct (activated as bs)"
  by (induction as bs rule: activated.induct) auto

lemma distinct_matched: "distinct (rt_matched (match_target env mp t cur))"
  by (auto simp: match_target_def create_route_def Let_def distinct_parents
      split: location.split option.split)

end
