(* ===== verification/Router_Table.thy ===== *)
theory Router_Table
  imports Router_Facts
begin

text \<open>
  Facts about the table of the application: the records that the router makes of it, and where a
  text or a name leads.
\<close>

text \<open>The code of a route: all chunks, from the outermost page to the innermost, and the last module.\<close>

definition code_of :: "route_record list \<Rightarrow> page_code option" where
  "code_of rs =
     (if rs = [] then None
      else map_option (\<lambda>c. (concat (map (\<lambda>r. case record_code r of None \<Rightarrow> [] | Some c \<Rightarrow> fst c) rs), snd c))
             (record_code (last rs)))"

definition page_of :: "'q page_route \<Rightarrow> page_code option" where
  "page_of a = code_of (rt_matched a)"

definition strip_slash :: "string \<Rightarrow> string" where
  "strip_slash p = (if p \<noteq> [] \<and> last p = CHR ''/'' then butlast p else p)"

definition path_key :: "string \<Rightarrow> jsstr" where
  "path_key p = map fold_case (lit (strip_slash p))"

definition text_key :: "jsstr \<Rightarrow> jsstr" where
  "text_key s = drop_slash (map fold_case s)"

lemma matches_key:
  assumes "\<not> (path_key p \<noteq> [] \<and> last (path_key p) = 47)"
  shows "path_matches p s \<longleftrightarrow> text_key s = path_key p"
proof -
  have "path_matches p s \<longleftrightarrow> map fold_case s = path_key p \<or> map fold_case s = path_key p @ [47]"
    by (simp add: path_matches_def path_key_def strip_slash_def Let_def)
  also have "\<dots> \<longleftrightarrow> text_key s = path_key p"
    using assms by (cases "map fold_case s" rule: rev_cases; cases "path_key p" rule: rev_cases)
      (auto simp: text_key_def drop_slash_def)
  finally show ?thesis .
qed

lemma find_unique:
  "distinct (map f xs) \<Longrightarrow> List.find (\<lambda>x. u = f x) xs = Some x \<longleftrightarrow> x \<in> set xs \<and> u = f x"
  by (induction xs) auto

lemma find_none: "List.find P xs = None \<longleftrightarrow> (\<forall>x \<in> set xs. \<not> P x)"
  by (induction xs) auto

section \<open>Keys\<close>

text \<open>A path and a text have the same key when they agree up to capital letters and a slash at the end.\<close>

lemma unat_fold_case:
  "unat (fold_case c) = (if 97 \<le> unat c \<and> unat c \<le> 122 then unat c - 32 else unat c)"
  by (auto simp: fold_case_def word_le_nat_alt unat_sub)

lemma fold_case_slash [simp]: "fold_case c = 47 \<longleftrightarrow> c = 47"
  by (auto simp: word_unat_eq_iff unat_fold_case split: if_splits)

lemma of_char_known [simp]:
  "of_char c = (47 :: jschar) \<longleftrightarrow> c = CHR ''/''" "of_char c = (35 :: jschar) \<longleftrightarrow> c = CHR ''#''"
  "of_char c = (63 :: jschar) \<longleftrightarrow> c = CHR ''?''"
proof -
  have "(of_char (CHR ''/'') :: jschar) = 47" "(of_char (CHR ''#'') :: jschar) = 35"
    "(of_char (CHR ''?'') :: jschar) = 63"
    by simp_all
  then show "of_char c = (47 :: jschar) \<longleftrightarrow> c = CHR ''/''" "of_char c = (35 :: jschar) \<longleftrightarrow> c = CHR ''#''"
    "of_char c = (63 :: jschar) \<longleftrightarrow> c = CHR ''?''"
    using inj_of_char_jschar by (metis injD)+
qed

lemma key_of_text: "text_key (lit p) = path_key p"
  by (cases p rule: rev_cases) (auto simp: text_key_def drop_slash_def path_key_def strip_slash_def lit_def)

lemma key_end: "path_key p = [] \<or> last (path_key p) \<noteq> 47 \<longleftrightarrow>
    strip_slash p = [] \<or> last (strip_slash p) \<noteq> CHR ''/''"
  by (cases "strip_slash p" rule: rev_cases) (auto simp: path_key_def lit_def)

definition small :: "char \<Rightarrow> bool" where
  "small c \<longleftrightarrow> c = CHR ''_'' \<or> digit7 c \<or> digit5 c \<or> \<not> digit6 c"

lemma small_nat: "small c \<Longrightarrow> \<not> (65 \<le> (of_char c :: nat) \<and> of_char c \<le> (90 :: nat))"
  by (cases c) (auto simp: small_def of_char_def split: if_splits)

lemma fold_nat:
  fixes m n :: nat
  assumes "\<not> (65 \<le> m \<and> m \<le> 90)" "\<not> (65 \<le> n \<and> n \<le> 90)"
    and "(if 97 \<le> m \<and> m \<le> 122 then m - 32 else m) = (if 97 \<le> n \<and> n \<le> 122 then n - 32 else n)"
  shows "m = n"
  using assms by (cases "97 \<le> m \<and> m \<le> 122"; cases "97 \<le> n \<and> n \<le> 122") auto

lemma small_inj:
  assumes "small c" "small d"
  shows "fold_case (of_char c) = fold_case (of_char d) \<longleftrightarrow> c = d"
proof
  assume "fold_case (of_char c) = fold_case (of_char d)"
  then have e: "unat (fold_case (of_char c)) = unat (fold_case (of_char d))" by simp
  have "(of_char c :: nat) = of_char d"
    by (rule fold_nat [OF small_nat [OF assms(1)] small_nat [OF assms(2)] e [unfolded unat_fold_case unat_of_char_jschar]])
  then show "c = d" by simp
qed simp

lemma small_path: "list_all small p \<Longrightarrow> list_all small (strip_slash p)"
  by (auto simp: list_all_iff strip_slash_def dest: in_set_butlastD)

lemma key_eq:
  assumes "list_all small p" "list_all small q"
  shows "path_key p = path_key q \<longleftrightarrow> strip_slash p = strip_slash q"
proof -
  have "inj_on (\<lambda>c. fold_case (of_char c)) {c. small c}" by (auto simp: inj_on_def small_inj)
  then have "map (\<lambda>c. fold_case (of_char c)) u = map (\<lambda>c. fold_case (of_char c)) v \<longleftrightarrow> u = v"
    if "list_all small u" "list_all small v" for u v
    using that by (intro inj_on_map_eq_map) (auto simp: list_all_iff intro: inj_on_subset)
  then show ?thesis using small_path assms by (simp add: path_key_def lit_def comp_def)
qed

section \<open>The table\<close>

lemma table_texts:
  "list_all (\<lambda>r. fst r \<noteq> [] \<and> hd (fst r) = CHR ''/'') all_routes"
  "list_all (\<lambda>r. strip_slash (fst r) = [] \<or> last (strip_slash (fst r)) \<noteq> CHR ''/'') all_routes"
  "list_all (\<lambda>r. list_all (\<lambda>c. c \<noteq> CHR ''#'' \<and> c \<noteq> CHR ''?'') (fst r)) all_routes"
  "list_all (\<lambda>r. list_all small (fst r)) all_routes"
  "distinct (map (\<lambda>r. strip_slash (fst r)) all_routes)"
  by code_simp+

lemma table_small: "r \<in> set all_routes \<Longrightarrow> list_all small (fst r)"
  using table_texts(4) by (simp add: list_all_iff)

lemma route_keys: "distinct (map (\<lambda>r. path_key (fst r)) all_routes)"
  using table_texts(5) key_eq [OF table_small table_small] by (auto simp: distinct_map inj_on_def)

lemma key_ends: "r \<in> set all_routes \<Longrightarrow> path_key (fst r) = [] \<or> last (path_key (fst r)) \<noteq> 47"
  using table_texts(2) unfolding key_end by (simp add: list_all_iff)

lemma path_key_strip: "r \<in> set all_routes \<Longrightarrow> path_key (strip_slash (fst r)) = path_key (fst r)"
  using table_texts(2) by (auto simp: list_all_iff path_key_def strip_slash_def)

text \<open>What the router makes of the table, written out for the evaluations that follow.\<close>

definition frame_record :: route_record where
  "frame_record = RouteRecord ''/frame'' (Some ''frame'') (Some ([''chunk-7ca391f8''], ''1bd6'')) None None"

definition frame_children :: "route_record list" where
  "frame_children = map (\<lambda>(p, nm, cs, m).
     RouteRecord (''/frame/'' @ p) (Some nm) (Some (cs, m)) (Some frame_record) None) frame_routes"

definition table_records :: "route_record list" where
  "table_records =
    [RouteRecord [] (Some ''cert_search'') (Some ([], ''cd49'')) None None,
     RouteRecord ''/search'' None None None (Some ''/''),
     RouteRecord ''/original/entry'' (Some ''original_entry'') (Some ([''chunk-17145e97''], ''da53'')) None None] @
    frame_children @
    [frame_record, RouteRecord ''/scaned'' (Some ''scaned'') (Some ([''chunk-2d0be08d''], ''2f14'')) None None]"

definition put_record :: "route_record \<Rightarrow> route_map \<Rightarrow> route_map" where
  "put_record r mp =
     \<lparr>path_list = path_list mp @ [record_path r], path_map = path_map mp @ [(record_path r, r)],
      name_map = name_map mp @ (case record_name r of None \<Rightarrow> [] | Some n \<Rightarrow> [(n, r)])\<rparr>"

definition table_map :: route_map where
  "table_map = fold put_record table_records \<lparr>path_list = [], path_map = [], name_map = []\<rparr>"

text \<open>Routes without children whose paths and names are new.\<close>

lemma add_leaf:
  assumes "map_of (path_map mp) (full_path p par) = None" "nm \<noteq> []" "map_of (name_map mp) nm = None"
  shows "add_route par None (RouteConfig p (Some nm) code [] []) mp =
    put_record (RouteRecord (full_path p par) (Some nm) code par None) mp"
  using assms by (cases mp) (simp add: put_record_def Let_def)

lemma add_leaves:
  assumes "distinct (map (\<lambda>x. full_path (fst x) par) xs)" "distinct (map (fst \<circ> snd) xs)"
    and "\<forall>x \<in> set xs. map_of (path_map mp) (full_path (fst x) par) = None \<and> fst (snd x) \<noteq> [] \<and>
      map_of (name_map mp) (fst (snd x)) = None"
  shows "fold (add_route par None) (map (\<lambda>(p, nm, cs, m). RouteConfig p (Some nm) (Some (cs, m)) [] []) xs) mp =
    fold put_record (map (\<lambda>(p, nm, cs, m). RouteRecord (full_path p par) (Some nm) (Some (cs, m)) par None) xs) mp"
  using assms
proof (induction xs arbitrary: mp)
  case (Cons x xs)
  obtain p nm cs m where x: "x = (p, nm, cs, m)" by (cases x)
  let ?r = "RouteRecord (full_path p par) (Some nm) (Some (cs, m)) par None"
  have "add_route par None (RouteConfig p (Some nm) (Some (cs, m)) [] []) mp = put_record ?r mp"
    by (rule add_leaf) (use Cons.prems(3) x in simp_all)
  moreover have "\<forall>y \<in> set xs. map_of (path_map (put_record ?r mp)) (full_path (fst y) par) = None \<and>
      fst (snd y) \<noteq> [] \<and> map_of (name_map (put_record ?r mp)) (fst (snd y)) = None"
    using Cons.prems x by (auto simp: put_record_def map_add_def image_iff)
  ultimately show ?case using Cons.IH [of "put_record ?r mp"] Cons.prems(1,2) x by simp
qed simp

lemma fold_put:
  "path_list (fold put_record rs mp) = path_list mp @ map record_path rs"
  "path_map (fold put_record rs mp) = path_map mp @ map (\<lambda>r. (record_path r, r)) rs"
  "name_map (fold put_record rs mp) =
    name_map mp @ concat (map (\<lambda>r. case record_name r of None \<Rightarrow> [] | Some n \<Rightarrow> [(n, r)]) rs)"
  by (induction rs arbitrary: mp) (simp_all add: put_record_def)

lemma fold_put_keys:
  "fst ` set (path_map (fold put_record rs mp)) = fst ` set (path_map mp) \<union> record_path ` set rs"
  "fst ` set (name_map (fold put_record rs mp)) =
    fst ` set (name_map mp) \<union> {n. \<exists>r \<in> set rs. record_name r = Some n}"
  by (force simp: fold_put image_iff split: option.splits)+

text \<open>A route whose children have been added before it.\<close>

lemma add_parent:
  fixes par p nm code
  defines "rec \<equiv> RouteRecord (full_path p par) (Some nm) code par None"
  assumes "fold (add_route (Some rec) None) cs mp = fold put_record rs mp" "nm \<noteq> []"
    and "full_path p par \<notin> fst ` set (path_map mp) \<union> record_path ` set rs"
    and "nm \<notin> fst ` set (name_map mp) \<union> {n. \<exists>r \<in> set rs. record_name r = Some n}"
  shows "add_route par None (RouteConfig p (Some nm) code cs []) mp = fold put_record (rs @ [rec]) mp"
proof -
  have "map_of (path_map (fold put_record rs mp)) (full_path p par) = None"
    using assms(4) by (simp add: map_of_eq_None_iff fold_put_keys)
  moreover have "map_of (name_map (fold put_record rs mp)) nm = None"
    using assms(5) by (simp add: map_of_eq_None_iff fold_put_keys)
  ultimately show ?thesis
    using assms(2,3) by (simp add: rec_def Let_def) (simp add: put_record_def)
qed

lemma frame_paths:
  "list_all (\<lambda>x. full_path (fst x) (Some frame_record) = ''/frame/'' @ fst x) frame_routes"
  "distinct (map fst frame_routes)" "distinct (map (fst \<circ> snd) frame_routes)"
  "list_all (\<lambda>x. fst (snd x) \<noteq> [] \<and> fst (snd x) \<notin> set [''cert_search'', ''original_entry'', ''frame'', ''scaned'']) frame_routes"
  "list_all (\<lambda>r. record_path r \<noteq> ''*'') table_records"
  by code_simp+

lemma app_map_table [code]: "app_map = table_map"
proof -
  have children: "map (\<lambda>(p, nm, cs, m). RouteRecord (full_path p (Some frame_record)) (Some nm) (Some (cs, m)) (Some frame_record) None) frame_routes
      = frame_children"
    using frame_paths(1) by (auto simp: frame_children_def list_all_iff)
  have full: "map (\<lambda>x. full_path (fst x) (Some frame_record)) frame_routes = map (\<lambda>x. ''/frame/'' @ fst x) frame_routes"
    using frame_paths(1) by (auto simp: list_all_iff)
  have "distinct (map (\<lambda>x. ''/frame/'' @ fst x) frame_routes)"
    using frame_paths(2) by (simp add: distinct_map inj_on_def)
  note leaves = add_leaves [of "Some frame_record" frame_routes, unfolded full, OF this frame_paths(3), unfolded children]
  let ?empty = "\<lparr>path_list = [], path_map = [], name_map = []\<rparr>"
  let ?scan = "RouteRecord ''/scaned'' (Some ''scaned'') (Some ([''chunk-2d0be08d''], ''2f14'')) None None"
  define mp where "mp = fold put_record (take 3 table_records) ?empty"
  have start: "add_route None None (RouteConfig ''/original/entry'' (Some ''original_entry'') (Some ([''chunk-17145e97''], ''da53'')) [] [])
      (add_route None None (RouteConfig ''/'' (Some ''cert_search'') (Some ([], ''cd49'')) [] [''/search'']) ?empty) = mp"
    unfolding mp_def by code_simp
  have mp: "map fst (path_map mp) = ['''', ''/search'', ''/original/entry'']"
      "map fst (name_map mp) = [''cert_search'', ''original_entry'']"
    by (simp_all add: mp_def table_records_def put_record_def)
  have names: "n \<notin> set [''cert_search'', ''original_entry'', ''frame'', ''scaned'']"
    if "r \<in> set frame_children" "record_name r = Some n" for r n
    using that frame_paths(4) by (auto simp: frame_children_def list_all_iff)
  have paths: "\<exists>p. record_path r = ''/frame/'' @ p" if "r \<in> set frame_children" for r
    using that by (auto simp: frame_children_def)
  have known: "fst ` set (path_map mp) = set ['''', ''/search'', ''/original/entry'']"
      "fst ` set (name_map mp) = set [''cert_search'', ''original_entry'']"
    using arg_cong [OF mp(1), of set] arg_cong [OF mp(2), of set] by (simp_all only: set_map)
  have leaf: "fold (add_route (Some frame_record) None)
      (map (\<lambda>(p, nm, cs, m). RouteConfig p (Some nm) (Some (cs, m)) [] []) frame_routes) mp = fold put_record frame_children mp"
  proof (rule leaves, rule ballI)
    fix x assume x: "x \<in> set frame_routes"
    then have "full_path (fst x) (Some frame_record) = ''/frame/'' @ fst x" "fst (snd x) \<noteq> []"
        "fst (snd x) \<notin> set [''cert_search'', ''original_entry'']"
      using frame_paths(1,4) by (simp_all add: list_all_iff)
    then show "map_of (path_map mp) (full_path (fst x) (Some frame_record)) = None \<and> fst (snd x) \<noteq> [] \<and>
        map_of (name_map mp) (fst (snd x)) = None"
      by (simp add: map_of_eq_None_iff known)
  qed
  have child: "record_path r \<noteq> ''/frame'' \<and> record_path r \<noteq> ''/scaned'' \<and>
      record_name r \<noteq> Some ''frame'' \<and> record_name r \<noteq> Some ''scaned''"
    if "r \<in> set frame_children" for r
  proof -
    note r = that
    obtain p where "record_path r = ''/frame/'' @ p" using paths [OF r] by blast
    then show ?thesis using names [OF r, of "''frame''"] names [OF r, of "''scaned''"] by auto
  qed
  have full: "full_path ''/frame'' None = ''/frame''" "full_path ''/scaned'' None = ''/scaned''"
    by (simp_all add: full_path_def)
  have frame: "add_route None None (RouteConfig ''/frame'' (Some ''frame'') (Some ([''chunk-7ca391f8''], ''1bd6''))
      (map (\<lambda>(p, nm, cs, m). RouteConfig p (Some nm) (Some (cs, m)) [] []) frame_routes) []) mp =
      fold put_record (frame_children @ [frame_record]) mp"
  proof (rule add_parent [of "''/frame''" None "''frame''" "Some ([''chunk-7ca391f8''], ''1bd6'')", unfolded full,
        folded frame_record_def, OF leaf])
    show "''/frame'' \<notin> fst ` set (path_map mp) \<union> record_path ` set frame_children"
      unfolding known using child by force
    show "''frame'' \<notin> fst ` set (name_map mp) \<union> {n. \<exists>r \<in> set frame_children. record_name r = Some n}"
      unfolding known using child by force
  qed simp
  let ?mp = "fold put_record (frame_children @ [frame_record]) mp"
  have r: "r \<in> set (frame_children @ [frame_record]) \<Longrightarrow> record_path r \<noteq> ''/scaned'' \<and> record_name r \<noteq> Some ''scaned''" for r
    using child by (auto simp: frame_record_def)
  have "map_of (path_map ?mp) ''/scaned'' = None"
    unfolding map_of_eq_None_iff fold_put_keys known using r by force
  moreover have "map_of (name_map ?mp) ''scaned'' = None"
    unfolding map_of_eq_None_iff fold_put_keys known using r by force
  ultimately have scan: "add_route None None (RouteConfig ''/scaned'' (Some ''scaned'') (Some ([''chunk-2d0be08d''], ''2f14'')) [] []) ?mp =
      put_record ?scan ?mp"
    using add_leaf [of ?mp "''/scaned''" None "''scaned''"] full by simp
  have "fold (add_route None None) app_routes ?empty = table_map"
    unfolding app_routes_def fold.simps o_def id_def start frame scan
    by (simp add: table_map_def mp_def table_records_def)
  moreover have "filter (\<lambda>p. p \<noteq> ''*'') (path_list table_map) = path_list table_map"
      "filter (\<lambda>p. p = ''*'') (path_list table_map) = []"
    using frame_paths(5) by (auto simp: table_map_def fold_put list_all_iff filter_empty_conv intro!: filter_True)
  ultimately show ?thesis by (simp add: app_map_def create_route_map_def Let_def)
qed

lemma table_paths:
  "list_all (\<lambda>r. strip_slash (fst r) \<in> set (path_list app_map)) all_routes"
  "list_all (\<lambda>p. list_ex (\<lambda>r. strip_slash (fst r) = p) all_routes) (path_list app_map)"
  by code_simp+

lemma route_paths:
  "let mp = app_map; n = length (path_list mp) in
   list_all (\<lambda>(p, nm, cs, m). case map_of (path_map mp) (strip_slash p) of
       None \<Rightarrow> False
     | Some r \<Rightarrow> (case real_record n mp r of
         None \<Rightarrow> False | Some r \<Rightarrow> code_of (with_parents r) = Some (cs, m))) all_routes"
  by code_simp

lemma route_names:
  "let mp = app_map in
   list_all (\<lambda>(p, nm, cs, m). case map_of (name_map mp) nm of
       None \<Rightarrow> False
     | Some r \<Rightarrow> match_as r = None \<and> code_of (with_parents r) = Some (cs, m)) all_routes"
  by code_simp

lemma app_map_ok: "map_ok app_map"
  by code_simp

text \<open>A text leads to the route of the table that it matches, and nowhere else.\<close>

lemma listed_path:
  assumes "q \<in> set (path_list app_map)"
  obtains r where "r \<in> set all_routes" "q = strip_slash (fst r)" "path_key q = path_key (fst r)"
    "\<not> (path_key q \<noteq> [] \<and> last (path_key q) = 47)"
proof -
  obtain r where r: "r \<in> set all_routes" "q = strip_slash (fst r)"
    using table_paths(2) assms by (auto simp: list_all_iff list_ex_iff)
  moreover have "path_key q = path_key (fst r)" using path_key_strip r by simp
  moreover have "path_key (fst r) = [] \<or> last (path_key (fst r)) \<noteq> 47"
    using key_ends r(1) by simp
  ultimately show ?thesis using that by metis
qed

lemma find_listed:
  assumes "(p, nm, cs, m) \<in> set all_routes" "text_key s = path_key p"
  shows "\<exists>r. find_path app_map s = Some r \<and>
    (\<exists>r'. real_record (length (path_list app_map)) app_map r = Some r' \<and>
      code_of (with_parents r') = Some (cs, m))"
proof -
  have in_list: "strip_slash p \<in> set (path_list app_map)"
    using table_paths(1) assms(1) by (auto simp: list_all_iff)
  have key: "path_key (strip_slash p) = path_key p"
    using path_key_strip [OF assms(1)] by simp
  have "List.find (\<lambda>p. path_matches p s) (path_list app_map) = Some (strip_slash p)"
  proof (cases "List.find (\<lambda>p. path_matches p s) (path_list app_map)")
    case None
    then have "\<not> path_matches (strip_slash p) s" using in_list by (simp add: find_none)
    then show ?thesis using in_list assms(2) key by (elim listed_path) (simp add: matches_key)
  next
    case (Some q)
    then have q: "q \<in> set (path_list app_map)" "path_matches q s"
      by (auto simp: find_Some_iff)
    then obtain r where r: "r \<in> set all_routes" "q = strip_slash (fst r)" "path_key q = path_key (fst r)"
        "\<not> (path_key q \<noteq> [] \<and> last (path_key q) = 47)"
      by (elim listed_path)
    have "path_key (fst r) = path_key (fst (p, nm, cs, m))"
      using q(2) r(3,4) assms(2) by (simp add: matches_key)
    then have "r = (p, nm, cs, m)"
      using route_keys r(1) assms(1) by (meson distinct_map inj_onD)
    then show ?thesis using Some r(2) by simp
  qed
  then show ?thesis
    using route_paths assms(1)
    by (fastforce simp: find_path_def Let_def list_all_iff split: option.splits)
qed

lemma find_unlisted:
  assumes "\<And>r. r \<in> set all_routes \<Longrightarrow> text_key s \<noteq> path_key (fst r)"
  shows "find_path app_map s = None"
proof -
  have "\<not> path_matches q s" if q: "q \<in> set (path_list app_map)" for q
    using q by (rule listed_path) (use assms in \<open>simp add: matches_key\<close>)
  then have "List.find (\<lambda>p. path_matches p s) (path_list app_map) = None" by (simp add: find_none)
  then show ?thesis by (simp add: find_path_def)
qed

end
