(* ===== verification/Router_Properties.thy ===== *)
theory Router_Properties
  imports Router_Table
begin

text \<open>
  What the router guarantees: the history stays within its bounds, a page is shown only when its
  code is there, the hash is that of the page that is shown, the last navigation wins, and the
  table of the application leads where its pages mean to go. What is needed of the browser is
  \<open>env_ok\<close>.
\<close>

section \<open>The last navigation\<close>

definition awaiting :: "nat \<Rightarrow> 'q page_route \<Rightarrow> route_record list \<Rightarrow> 'q router \<Rightarrow> bool" where
  "awaiting n a ls s \<longleftrightarrow> pending_nav s = Some n \<and> n < length (navs s) \<and>
     nav_route (navs s ! n) = a \<and> \<not> nav_failed (navs s ! n) \<and> nav_loads (navs s ! n) = ls \<and>
     nav_missing (navs s ! n) = length ls"

text \<open>An event of a load that does not end navigation \<open>n\<close> with a failure.\<close>

definition load_event :: "nat \<Rightarrow> router_event \<Rightarrow> bool" where
  "load_event n e = (case e of PageArrived m r \<Rightarrow> True | PageFailed m r \<Rightarrow> m \<noteq> n | _ \<Rightarrow> False)"

lemma settled_step:
  assumes "pending_nav s = None" "load_event n e"
  shows "pending_nav (router_step env mp e s) = None \<and>
    current_route (router_step env mp e s) = current_route s"
  using assms by (cases e) (auto simp: load_event_def page_arrived_def page_failed_def Let_def)

lemma settled_run:
  assumes "list_all (load_event n) es"
  shows "pending_nav s = None \<Longrightarrow> pending_nav (fold (router_step env mp) es s) = None \<and>
    current_route (fold (router_step env mp) es s) = current_route s"
  using assms
proof (induction es arbitrary: s)
  case (Cons e es)
  then show ?case using settled_step [of s n e env mp] by simp
qed simp

lemma awaiting_arrived:
  assumes "awaiting n a ls s" "r \<in> set ls"
  shows "if length ls = 1 then pending_nav (page_arrived env n r s) = None \<and>
      current_route (page_arrived env n r s) = a
    else awaiting n a (remove1 r ls) (page_arrived env n r s)"
  using assms remove1_shorter [OF assms(2)]
  by (auto simp: awaiting_def page_arrived_def Let_def)

lemma awaiting_other:
  assumes "awaiting n a ls s" "load_event n e" "\<And>r. r \<in> set ls \<Longrightarrow> e \<noteq> PageArrived n r"
  shows "awaiting n a ls (router_step env mp e s)"
proof (cases e)
  case (PageArrived m r)
  have "\<not> (m = n \<and> r \<in> set ls)" using assms(3) PageArrived by auto
  then show ?thesis using PageArrived assms(1)
    by (auto simp: awaiting_def page_arrived_def Let_def finish_nav_def)
next
  case (PageFailed m r)
  then show ?thesis using assms(1,2)
    by (auto simp: awaiting_def page_failed_def load_event_def Let_def)
qed (use assms(2) in \<open>simp_all add: load_event_def\<close>)

lemma awaiting_run:
  "awaiting n a ls s \<Longrightarrow> ls \<noteq> [] \<Longrightarrow> distinct ls \<Longrightarrow> list_all (load_event n) es \<Longrightarrow>
    \<forall>r \<in> set ls. PageArrived n r \<in> set es \<Longrightarrow>
    pending_nav (fold (router_step env mp) es s) = None \<and>
    current_route (fold (router_step env mp) es s) = a"
proof (induction es arbitrary: ls s)
  case Nil
  then show ?case by (cases ls) auto
next
  case (Cons e es)
  show ?case
  proof (cases "\<exists>r \<in> set ls. e = PageArrived n r")
    case True
    then obtain r where r: "r \<in> set ls" "e = PageArrived n r" by blast
    note arrived = awaiting_arrived [OF Cons.prems(1) r(1), of env]
    show ?thesis
    proof (cases "length ls = 1")
      case True
      then show ?thesis using arrived settled_run [of n es "page_arrived env n r s"] Cons.prems(4) r(2)
        by simp
    next
      case False
      have "remove1 r ls \<noteq> []" using False remove1_shorter [OF r(1)] by auto
      moreover have "\<forall>r' \<in> set (remove1 r ls). PageArrived n r' \<in> set es"
        using Cons.prems(3,5) r(2) by auto
      ultimately show ?thesis
        using arrived False Cons.IH [of "remove1 r ls" "page_arrived env n r s"] Cons.prems r(2)
        by simp
    qed
  next
    case False
    have "awaiting n a ls (router_step env mp e s)"
      using False Cons.prems(1,4) by (intro awaiting_other) auto
    moreover have "\<forall>r \<in> set ls. PageArrived n r \<in> set es" using Cons.prems(5) False by auto
    ultimately show ?thesis using Cons.IH [of ls "router_step env mp e s"] Cons.prems by simp
  qed
qed

text \<open>What a navigation that is not redundant waits for.\<close>

definition loads_of :: "'q router_env \<Rightarrow> route_map \<Rightarrow> target \<Rightarrow> 'q router \<Rightarrow> route_record list" where
  "loads_of env mp t s =
     filter (\<lambda>r. lazy_page r \<and> r \<notin> set (loaded s))
       (activated (rt_matched (current_route s)) (rt_matched (match_target env mp t (current_route s))))"

definition started :: "'q router_env \<Rightarrow> route_map \<Rightarrow> nav_kind \<Rightarrow> target \<Rightarrow> 'q router \<Rightarrow> 'q router" where
  "started env mp k t s =
     s\<lparr>pending_nav := Some (length (navs s)),
       navs := navs s @ [\<lparr>nav_route = match_target env mp t (current_route s), nav_kind = k,
         nav_loads = loads_of env mp t s, nav_missing = length (loads_of env mp t s),
         nav_failed = False\<rparr>]\<rparr>"

lemma start_nav_eq:
  "\<not> redundant env (match_target env mp t (current_route s)) s \<Longrightarrow> start_nav env mp k t s =
    (if loads_of env mp t s = [] then finish_nav env (length (navs s)) (started env mp k t s)
     else started env mp k t s)"
  by (simp add: start_nav_def Let_def loads_of_def started_def)

lemma start_awaits:
  assumes "\<not> redundant env (match_target env mp t (current_route s)) s"
  shows "if loads_of env mp t s = [] then
      pending_nav (start_nav env mp k t s) = None \<and>
      current_route (start_nav env mp k t s) = match_target env mp t (current_route s)
    else awaiting (length (navs s)) (match_target env mp t (current_route s)) (loads_of env mp t s)
      (start_nav env mp k t s)"
  using assms by (simp add: start_nav_eq awaiting_def started_def nth_append)

lemma distinct_loads: "distinct (loads_of env mp t s)"
  by (simp add: loads_of_def distinct_activated distinct_matched)

lemma split_plain: "35 \<notin> set s \<Longrightarrow> 63 \<notin> set s \<Longrightarrow> split_location s = (s, [], [])"
proof -
  assume a: "35 \<notin> set s" "63 \<notin> set s"
  have "takeWhile (\<lambda>c. c \<noteq> 35) s = s" "dropWhile (\<lambda>c. c \<noteq> 35) s = []"
    "takeWhile (\<lambda>c. c \<noteq> 63) s = s" "dropWhile (\<lambda>c. c \<noteq> 63) s = []"
    using a by (auto simp: takeWhile_eq_all_conv dropWhile_eq_Nil_conv)
  then show ?thesis unfolding split_location_def Let_def by (simp only:) simp
qed

section \<open>An example\<close>

text \<open>An address bar that changes nothing, and no queries, for examples.\<close>

definition plain_env :: "unit router_env" where
  "plain_env = \<lparr>fragment = (\<lambda>x. x), parse_query = (\<lambda>_. ()), stringify_query = (\<lambda>_. []),
     same_query = (\<lambda>_ _. True)\<rparr>"

lemma plain_env_ok [simp]: "env_ok plain_env" "fragment plain_env x = x"
  by (simp_all add: env_ok_def plain_env_def)

text \<open>The application opened at its search page, and a navigation from there.\<close>

definition home :: "unit router" where
  "home = open_router plain_env app_map []"

definition scan_page :: target where
  "scan_page = ToName ''scaned''"

definition scan_record :: route_record where
  "scan_record = RouteRecord ''/scaned'' (Some ''scaned'') (Some ([''chunk-2d0be08d''], ''2f14'')) None None"

definition home_route :: "unit page_route" where
  "home_route = \<lparr>rt_name = Some ''cert_search'', rt_path = [47], rt_hash = [], rt_query = (), rt_full = [47],
     rt_matched = [RouteRecord [] (Some ''cert_search'') (Some ([], ''cd49'')) None None]\<rparr>"

lemma home_state [code]:
  "home = \<lparr>navs = [\<lparr>nav_route = home_route, nav_kind = PopNav, nav_loads = [], nav_missing = 0, nav_failed = False\<rparr>],
     pending_nav = None, current_route = home_route, at_start = False, listening = True, loaded = [],
     entries = [[47]], position = 0\<rparr>"
  unfolding home_def by code_simp

lemma scan_nav:
  "pending_nav (start_nav plain_env app_map PushNav scan_page home) = Some 1"
  "length (navs (start_nav plain_env app_map PushNav scan_page home)) = 2"
  "nav_loads (navs (start_nav plain_env app_map PushNav scan_page home) ! 1) = [scan_record]"
  "nav_missing (navs (start_nav plain_env app_map PushNav scan_page home) ! 1) = 1"
  "rt_matched (nav_route (navs (start_nav plain_env app_map PushNav scan_page home) ! 1)) = [scan_record]"
  by code_simp+

lemma home_facts:
  "\<not> redundant plain_env (match_target plain_env app_map scan_page (current_route home)) home"
  "loads_of plain_env app_map scan_page home = [scan_record]"
  by code_simp+

lemma home_simps [simp]:
  "listening home" "\<not> redundant plain_env (match_target plain_env app_map scan_page (current_route home)) home"
  "loads_of plain_env app_map scan_page home \<noteq> []" "length (navs home) = Suc 0" "in_bounds home"
  using home_facts by (simp_all add: home_state in_bounds_def)

lemma open_length: "length (navs (open_router env mp h)) = 1"
  by (simp add: open_router_def start_nav_def Let_def)

lemma navs_start: "length (navs (start_nav env mp k t s)) = Suc (length (navs s))"
  by (simp add: start_nav_def Let_def)

section \<open>Properties\<close>

text \<open>C24
  The history stays within its bounds: whatever the user, the pages and the network have done, the
  position in the history of the window is that of an entry, and the next event adds one entry at
  most; it adds none when it is a replacement, a move in the history, or the arrival of a page
  that does not belong to a pending navigation by which a page pushes its target.
\<close>

theorem history_in_bounds:
  assumes "s = fold (router_step env mp) es (open_router env mp h)"
  shows "position s < length (entries s) \<and>
   length (entries (router_step env mp e s)) \<le> length (entries s) + (if may_add e s then 1 else 0)"
proof -
  have "in_bounds s"
    using bounds_run [of "open_router env mp h" env mp es] in_bounds_open [of env mp h]
    by (simp add: assms)
  then show ?thesis
    using one_more_step [of s env mp e] quiet_length [of s e env mp]
    by (auto simp: in_bounds_def one_more_def)
qed

theorem history_in_bounds_witness:
  "length (entries (router_step plain_env app_map (ReplaceTo scan_page) home)) \<le> 1"
proof -
  have "home = fold (router_step plain_env app_map) [] (open_router plain_env app_map [])"
    by (simp add: home_def)
  from history_in_bounds [OF this, of "ReplaceTo scan_page"] show ?thesis
    by (simp add: home_state)
qed

text \<open>
  No page without its code: in every state that the router can reach, the code of each page on the
  screen, the frame included, has been loaded, also when loads overtake each other, fail, or belong to
  navigations that were given up.
\<close>

theorem shown_pages_loaded:
  "set (filter lazy_page
     (rt_matched (current_route (fold (router_step env mp) es (open_router env mp h))))) \<subseteq>
   set (loaded (fold (router_step env mp) es (open_router env mp h)))"
  using router_ok_run [OF router_ok_open, of env mp es env mp h]
  by (auto simp: router_ok_def code_loaded_def)

text \<open>An arrived target, for the next property and for those of the pages.\<close>

lemma winning:
  assumes "\<not> redundant env (match_target env mp t (current_route s)) s"
    and "list_all (load_event (length (navs s))) es"
    and "\<forall>r \<in> set (loads_of env mp t s). PageArrived (length (navs s)) r \<in> set es"
  shows "current_route (fold (router_step env mp) es (start_nav env mp k t s)) =
      match_target env mp t (current_route s) \<and>
    pending_nav (fold (router_step env mp) es (start_nav env mp k t s)) = None"
proof (cases "loads_of env mp t s = []")
  case True
  then show ?thesis
    using start_awaits [OF assms(1), of k] settled_run [OF assms(2), of "start_nav env mp k t s" env mp]
    by simp
next
  case False
  then have "awaiting (length (navs s)) (match_target env mp t (current_route s)) (loads_of env mp t s)
      (start_nav env mp k t s)"
    using start_awaits [OF assms(1), of k] by simp
  from awaiting_run [OF this False distinct_loads assms(2,3)] show ?thesis by simp
qed

text \<open>C18
  The last navigation wins: when a page asks for a target that is not where the user is, and then
  the code it needs arrives, in whatever order and mixed with arrivals and failures of the loads
  of earlier navigations, the target is shown in the end and no navigation is pending.
\<close>

theorem last_navigation_wins:
  assumes "\<not> redundant env (match_target env mp t (current_route s)) s"
    and "list_all (load_event (length (navs s))) es"
    and "\<forall>r \<in> set (loads_of env mp t s). PageArrived (length (navs s)) r \<in> set es"
  shows "current_route (fold (router_step env mp) es (start_nav env mp k t s)) =
      match_target env mp t (current_route s) \<and>
    pending_nav (fold (router_step env mp) es (start_nav env mp k t s)) = None"
  using assms by (rule winning)

theorem last_navigation_wins_witness:
  "current_route (fold (router_step plain_env app_map)
     (PageFailed 0 (RouteRecord [] None None None None) #
        map (PageArrived 1) (loads_of plain_env app_map scan_page home))
     (start_nav plain_env app_map PushNav scan_page home)) =
   match_target plain_env app_map scan_page (current_route home)"
proof -
  let ?es = "PageFailed 0 (RouteRecord [] None None None None) #
      map (PageArrived 1) (loads_of plain_env app_map scan_page home)"
  have "list_all (load_event (length (navs home))) ?es" by (simp add: list_all_iff load_event_def)
  moreover have "\<forall>r \<in> set (loads_of plain_env app_map scan_page home).
      PageArrived (length (navs home)) r \<in> set ?es"
    by simp
  ultimately show ?thesis using last_navigation_wins [OF home_simps(2)] by blast
qed

text \<open>C23
  A navigation that was overtaken has no effect: when the code of a page arrives for a navigation
  after which another one has started, the page on the screen, the hash and the history stay.
\<close>

theorem overtaken_without_effect:
  assumes "Suc n < length (navs (fold (router_step env mp) es (open_router env mp h)))"
  shows "current_route (page_arrived env n r (fold (router_step env mp) es (open_router env mp h))) =
      current_route (fold (router_step env mp) es (open_router env mp h)) \<and>
    entries (page_arrived env n r (fold (router_step env mp) es (open_router env mp h))) =
      entries (fold (router_step env mp) es (open_router env mp h)) \<and>
    position (page_arrived env n r (fold (router_step env mp) es (open_router env mp h))) =
      position (fold (router_step env mp) es (open_router env mp h))"
proof -
  let ?s = "fold (router_step env mp) es (open_router env mp h)"
  have "pending_nav ?s \<noteq> Some n"
    using router_ok_run [OF router_ok_open, of env mp es env mp h] assms by (auto simp: router_ok_def)
  then show ?thesis by (simp add: page_arrived_def Let_def finish_nav_def)
qed

theorem overtaken_without_effect_witness:
  "current_route (page_arrived plain_env 0 (RouteRecord [] None None None None)
     (fold (router_step plain_env app_map) [PushTo scan_page] (open_router plain_env app_map []))) =
   current_route (fold (router_step plain_env app_map) [PushTo scan_page] (open_router plain_env app_map []))"
proof -
  have "Suc 0 < length (navs (fold (router_step plain_env app_map) [PushTo scan_page]
      (open_router plain_env app_map [])))"
    by (simp add: navs_start open_length)
  from overtaken_without_effect [OF this] show ?thesis by blast
qed

lemma open_url_ok:
  assumes "env_ok env" "map_ok mp" "fragment env h = h" "listening (open_router env mp h)"
  shows "url_ok env (open_router env mp h)"
proof -
  define s0 where "s0 = \<lparr>navs = [], pending_nav = None, current_route = start_route env, at_start = True,
      listening = False, loaded = [], entries = [h], position = 0\<rparr>"
  define s1 where "s1 = (if h \<noteq> [] \<and> hd h = 47 then s0 else replace_hash env (47 # h) s0)"
  define a where "a = match_target env mp (ToPath (get_hash s1)) (current_route s1)"
  have s1: "navs s1 = []" "at_start s1" "\<not> listening s1" "position s1 = 0" "loaded s1 = []"
      "current_route s1 = start_route env"
    by (simp_all add: s1_def s0_def)
  have entry: "\<exists>e. entries s1 = [e] \<and> slashed e \<and> fragment env e = e"
    using assms(1,3) by (auto simp: s1_def s0_def replace_hash_def slashed_hd env_ok_def)
  have "slashed (rt_path (start_route env))" by (simp add: start_route_def create_route_def)
  then have a: "slashed (rt_path a) \<and> slashed (rt_full a)"
    unfolding a_def by (intro slashed_match assms(2)) (simp add: s1(6))
  have op: "open_router env mp h = start_nav env mp PopNav (ToPath (get_hash s1)) s1"
    by (simp add: open_router_def Let_def s1_def s0_def)
  have not_red: "\<not> redundant env (match_target env mp (ToPath (get_hash s1)) (current_route s1)) s1"
    by (simp add: redundant_def s1(2))
  note start = start_nav_eq [OF not_red, of PopNav, folded op]
  have no_loads: "loads_of env mp (ToPath (get_hash s1)) s1 = []"
    using assms(4) s1(3) by (cases "loads_of env mp (ToPath (get_hash s1)) s1 = []")
      (simp_all add: start, simp add: started_def)
  define v where "v = \<lparr>nav_route = a, nav_kind = PopNav, nav_loads = [], nav_missing = 0, nav_failed = False\<rparr>"
  define s2 where "s2 = s1\<lparr>pending_nav := None, current_route := a, at_start := False, listening := True,
      navs := [v]\<rparr>"
  have "open_router env mp h = finish_nav env 0 (started env mp PopNav (ToPath (get_hash s1)) s1)"
    using start no_loads s1(1) by simp
  also have "\<dots> = ensure_url env False s2"
    using no_loads s1(1)
    by (cases s1) (simp add: finish_nav_def Let_def started_def nav_ended_def a_def v_def s2_def)
  finally have "open_router env mp h = ensure_url env False s2" .
  moreover have "url_pre env s2"
    using entry a s1(4) by (auto simp: url_pre_def s2_def in_bounds_def v_def)
  ultimately show ?thesis using url_pre_ensure [OF assms(1)] by (simp add: url_ok_def)
qed

text \<open>C17
  The hash is that of the page: when the application is opened at a page that needs no further
  code, as the search page is, then whatever follows, moves in the history and failed loads
  included, as long as the texts typed into the address bar begin with a slash, the hash is that
  of the page on the screen whenever no navigation waits for code.
\<close>

theorem hash_of_page:
  assumes "env_ok env" "fragment env h = h" "listening (open_router env app_map h)"
    and "list_all slashed_event es" "idle (fold (router_step env app_map) es (open_router env app_map h))"
  shows "get_hash (fold (router_step env app_map) es (open_router env app_map h)) =
    fragment env (rt_full (current_route (fold (router_step env app_map) es (open_router env app_map h))))"
  using url_run [OF assms(1) app_map_ok open_url_ok [OF assms(1) app_map_ok assms(2,3)]
      router_ok_open assms(4)] assms(5)
  by (simp add: url_ok_def url_agrees_def)

theorem hash_of_page_witness:
  "get_hash (fold (router_step plain_env app_map) [Traverse (-1), TypedHash (lit ''/'')] (open_router plain_env app_map [])) =
    fragment plain_env (rt_full (current_route
      (fold (router_step plain_env app_map) [Traverse (-1), TypedHash (lit ''/'')] (open_router plain_env app_map []))))"
proof (rule hash_of_page)
  show "listening (open_router plain_env app_map [])" using home_simps(1) by (simp add: home_def)
  show "list_all slashed_event [Traverse (-1), TypedHash (lit ''/'')]"
    by (simp add: slashed_event_def slashed_hd) (simp add: lit_def)
  show "idle (fold (router_step plain_env app_map) [Traverse (-1), TypedHash (lit ''/'')]
      (open_router plain_env app_map []))"
    unfolding home_def [symmetric] by code_simp
qed simp_all

lemma path_route:
  assumes "slashed s" "35 \<notin> set s" "63 \<notin> set s"
  shows "page_of (match_target env app_map (ToPath s) cur) =
    map_option (\<lambda>(p, nm, c). c) (List.find (\<lambda>r. text_key s = path_key (fst r)) all_routes)"
proof -
  have "split_location s = (s, [], [])" using assms(2,3) by (rule split_plain)
  moreover have "s \<noteq> []" "resolve_path s x = s" for x
    using assms(1) by (auto simp: slashed_def resolve_path_def)
  ultimately have m: "match_target env app_map (ToPath s) cur =
      (case find_path app_map s of
         None \<Rightarrow> create_route env None None s (parse_query env []) []
       | Some r \<Rightarrow> create_route env (real_record (length (path_list app_map)) app_map r) None s
           (parse_query env []) [])"
    by (simp add: match_target_def normalize_def)
  show ?thesis
  proof (cases "List.find (\<lambda>r. text_key s = path_key (fst r)) all_routes")
    case None
    then have "find_path app_map s = None" by (intro find_unlisted) (simp add: find_none)
    then show ?thesis using None by (simp add: m page_of_def code_of_def create_route_def Let_def)
  next
    case (Some r)
    obtain p nm cs md where r: "r = (p, nm, cs, md)" by (cases r)
    have "r \<in> set all_routes" "text_key s = path_key (fst r)"
      using Some by (auto simp: find_Some_iff)
    then show ?thesis
      using find_listed [of p nm cs md s] Some r
      by (auto simp: m page_of_def create_route_def Let_def)
  qed
qed

text \<open>C22
  The table leads where the pages mean to go: a path that begins with a slash leads to the route of
  the table that it equals up to small and capital letters and a slash at the end, with the chunks
  and the module of that route; any other path leads to no page.
\<close>

theorem paths_lead_to_pages:
  assumes "slashed s" "35 \<notin> set s" "63 \<notin> set s"
  shows "page_of (match_target env app_map (ToPath s) cur) =
    map_option (\<lambda>(p, nm, c). c) (List.find (\<lambda>r. text_key s = path_key (fst r)) all_routes)"
  using assms by (rule path_route)

theorem paths_lead_to_pages_witness:
  "page_of (match_target plain_env app_map (ToPath (lit ''/Frame/cert/List/'')) (start_route plain_env)) =
    Some ([''chunk-7ca391f8'', ''chunk-417fe318''], ''76e2'')"
proof -
  have "page_of (match_target plain_env app_map (ToPath (lit ''/Frame/cert/List/'')) (start_route plain_env)) =
      map_option (\<lambda>(p, nm, c). c)
        (List.find (\<lambda>r. text_key (lit ''/Frame/cert/List/'') = path_key (fst r)) all_routes)"
    by (rule paths_lead_to_pages) (simp_all add: lit_def)
  also have "\<dots> = Some ([''chunk-7ca391f8'', ''chunk-417fe318''], ''76e2'')" by code_simp
  finally show ?thesis .
qed














text \<open>C26
  A hash that no route matches shows nothing: the table has no route for other paths, so once the
  router listens, typing a path that is not in the table leaves the screen without any page, at
  once and without a message.
\<close>

theorem unknown_path_blank:
  assumes "listening s" "in_bounds s" "fragment env x = x" "slashed x" "35 \<notin> set x" "63 \<notin> set x"
    and "\<forall>r \<in> set all_routes. text_key x \<noteq> path_key (fst r)"
  shows "rt_matched (current_route (router_step env app_map (TypedHash x) s)) = []"
proof -
  have none: "find_path app_map x = None" using assms(7) by (intro find_unlisted) simp
  have x: "x \<noteq> []" "hd x = 47" "resolve_path x y = x" for y
    using assms(4) by (auto simp: slashed_def resolve_path_def)
  have m: "rt_matched (match_target env app_map (ToPath x) cur) = []" for cur
    using x none by (simp add: match_target_def normalize_def split_plain [OF assms(5,6)]
        create_route_def Let_def)
  have blank: "rt_matched (current_route (start_nav env app_map PopNav (ToPath x) s')) = []" for s'
  proof (cases "redundant env (match_target env app_map (ToPath x) (current_route s')) s'")
    case True
    then have "rt_matched (current_route s') = []" by (simp add: redundant_def m)
    then show ?thesis using True by (simp add: start_nav_def Let_def)
  next
    case False
    then have "loads_of env app_map (ToPath x) s' = []"
      using m by (cases "rt_matched (current_route s')") (simp_all add: loads_of_def)
    then show ?thesis using start_awaits [OF False, of PopNav] m by simp
  qed
  have "get_hash (push_hash env x s) = x"
    using assms(2,3) by (simp add: get_hash_def push_hash_def in_bounds_def nth_append)
  then show ?thesis using assms(1,3) x blank by (auto simp: typed_hash_def popstate_def)
qed

lemma help_unlisted: "\<forall>r \<in> set all_routes. text_key (lit ''/help'') \<noteq> path_key (fst r)"
proof
  fix r assume r: "r \<in> set all_routes"
  have s: "list_all (\<lambda>r. strip_slash (fst r) \<noteq> ''/help'') all_routes" "list_all small ''/help''"
    "strip_slash ''/help'' = ''/help''"
    by code_simp+
  then have "strip_slash ''/help'' \<noteq> strip_slash (fst r)" using r by (simp only: list_all_iff) auto
  then show "text_key (lit ''/help'') \<noteq> path_key (fst r)"
    unfolding key_of_text using key_eq [OF s(2) table_small [OF r]] by simp
qed

theorem unknown_path_blank_witness:
  "rt_matched (current_route (router_step plain_env app_map (TypedHash (lit ''/help'')) home)) = []"
  by (rule unknown_path_blank [OF _ _ _ _ _ _ help_unlisted]) (simp_all add: lit_def)

text \<open>
  A hash typed without a slash goes out of step with the page: the router puts a slash in front of
  it and starts no navigation, so the page stays although the hash names another one.
\<close>

theorem typed_without_slash:
  assumes "listening s" "in_bounds s" "\<not> slashed (fragment env x)"
  shows "current_route (router_step env mp (TypedHash x) s) = current_route s \<and>
    navs (router_step env mp (TypedHash x) s) = navs s \<and>
    get_hash (router_step env mp (TypedHash x) s) = fragment env (47 # fragment env x)"
proof -
  have h: "get_hash (push_hash env x s) = fragment env x"
    using assms(2) by (simp add: get_hash_def push_hash_def in_bounds_def nth_append)
  have r: "get_hash (replace_hash env y t) = fragment env y" if "in_bounds t" for y t
    using that by (simp add: get_hash_def replace_hash_def in_bounds_def)
  have "in_bounds (push_hash env x s)" using push_bounds [OF assms(2)] by blast
  then show ?thesis
    using assms h r [of s] r [of "push_hash env x s"]
    by (auto simp: typed_hash_def popstate_def slashed_hd)
qed

theorem typed_without_slash_witness:
  "get_hash (router_step plain_env app_map (TypedHash (lit ''scaned'')) home) = lit ''/scaned'' \<and>
   current_route (router_step plain_env app_map (TypedHash (lit ''scaned'')) home) = current_route home"
  using typed_without_slash [of home plain_env "lit ''scaned''" app_map]
  by (simp add: slashed_hd) (simp add: lit_def)

text \<open>A navigation that waits for a page keeps waiting until that page reports.\<close>

definition still_waits ::
  "nat \<Rightarrow> 'q page_route \<Rightarrow> route_record \<Rightarrow> 'q router \<Rightarrow> 'q router \<Rightarrow> bool" where
  "still_waits n a r s0 s \<longleftrightarrow> (\<exists>ls. awaiting n a ls s \<and> distinct ls \<and> r \<in> set ls) \<and>
     current_route s = current_route s0 \<and> at_start s = at_start s0 \<and>
     set (loaded s0) \<subseteq> set (loaded s) \<and> r \<notin> set (loaded s)"

lemma others_keep:
  assumes "pending_nav s = Some n" "nav_missing (navs s ! n) > 1" "load_event n e"
  shows "current_route (router_step env mp e s) = current_route s \<and>
    at_start (router_step env mp e s) = at_start s"
  using assms
  by (cases e) (auto simp: load_event_def page_arrived_def page_failed_def finish_nav_def Let_def)

lemma single_keeps:
  assumes "pending_nav s = Some n" "load_event n e" "\<forall>q \<in> set (nav_loads (navs s ! n)). e \<noteq> PageArrived n q"
  shows "current_route (router_step env mp e s) = current_route s \<and>
    at_start (router_step env mp e s) = at_start s"
  using assms
  by (cases e) (auto simp: load_event_def page_arrived_def page_failed_def finish_nav_def Let_def)

lemma loaded_kept: "set (loaded s) \<subseteq> set (loaded (router_step env mp e s))"
  "load_event n e \<Longrightarrow> \<forall>m. e \<noteq> PageArrived m r \<Longrightarrow> r \<notin> set (loaded s) \<Longrightarrow>
    r \<notin> set (loaded (router_step env mp e s))"
  by (cases e; auto simp: load_event_def page_arrived_def page_failed_def start_nav_def traverse_def
      typed_hash_def popstate_def Let_def)+

lemma still_waits_step:
  assumes "still_waits n a r s0 s" "load_event n e" "\<forall>m. e \<noteq> PageArrived m r"
  shows "still_waits n a r s0 (router_step env mp e s)"
proof -
  obtain ls where ls: "awaiting n a ls s" "distinct ls" "r \<in> set ls"
    using assms(1) by (auto simp: still_waits_def)
  have p: "pending_nav s = Some n" "nav_missing (navs s ! n) = length ls" "nav_loads (navs s ! n) = ls"
    using ls(1) by (simp_all add: awaiting_def)
  have "\<exists>ls. awaiting n a ls (router_step env mp e s) \<and> distinct ls \<and> r \<in> set ls \<and>
      current_route (router_step env mp e s) = current_route s \<and>
      at_start (router_step env mp e s) = at_start s"
  proof (cases "\<exists>q \<in> set ls. e = PageArrived n q")
    case True
    then obtain q where q: "q \<in> set ls" "e = PageArrived n q" "q \<noteq> r" using assms(3) by blast
    have "r \<in> set (remove1 q ls)" using ls(3) q(3) by simp
    then have "length ls > 1"
      using remove1_shorter [OF q(1)] by (cases "remove1 q ls") auto
    then show ?thesis
      using awaiting_arrived [OF ls(1) q(1), of env] ls q others_keep [OF p(1) _ assms(2), of env mp] p(2)
      by (intro exI [of _ "remove1 q ls"]) auto
  next
    case False
    then show ?thesis
      using awaiting_other [OF ls(1) assms(2), of env mp] ls single_keeps [OF p(1) assms(2), of env mp] p(3)
      by (intro exI [of _ ls]) auto
  qed
  then show ?thesis
    using assms loaded_kept(1) [of s env mp e] loaded_kept(2) [OF assms(2,3), of s env mp]
    by (auto simp: still_waits_def)
qed

lemma still_waits_run:
  "still_waits n a r s0 s \<Longrightarrow> list_all (load_event n) es \<Longrightarrow> \<forall>m. PageArrived m r \<notin> set es \<Longrightarrow>
    still_waits n a r s0 (fold (router_step env mp) es s)"
proof (induction es arbitrary: s)
  case (Cons e es)
  then have "still_waits n a r s0 (router_step env mp e s)" by (intro still_waits_step) auto
  then show ?case using Cons.IH Cons.prems by simp
qed simp

lemma still_waits_start:
  assumes "\<not> redundant env (match_target env mp t (current_route s)) s" "r \<in> set (loads_of env mp t s)"
  shows "still_waits (length (navs s)) (match_target env mp t (current_route s)) r s
    (start_nav env mp k t s)"
proof -
  have ne: "loads_of env mp t s \<noteq> []" using assms(2) by auto
  then have "start_nav env mp k t s = started env mp k t s" by (simp add: start_nav_eq [OF assms(1)])
  moreover have "r \<notin> set (loaded s)" using assms(2) by (simp add: loads_of_def)
  ultimately show ?thesis
    using start_awaits [OF assms(1), of k] ne assms(2) distinct_loads [of env mp t s]
    by (auto simp: still_waits_def started_def)
qed

text \<open>C25
  A failed page can be asked for again: while a navigation waits, other loads may end in any way and
  pages of this navigation may arrive; when then the load of one of its pages fails, the page on
  the screen is still the one from before, and a further navigation to the same target waits for
  just those of its pages that have not arrived by then, the failed one included; once these have
  arrived for it, it shows the target.
\<close>

theorem failed_page_retried:
  assumes "\<not> redundant env (match_target env mp t (current_route s)) s" "r \<in> set (loads_of env mp t s)"
    and "list_all (load_event (length (navs s))) es" "\<forall>m. PageArrived m r \<notin> set es"
    and "s1 = page_failed env (length (navs s)) r (fold (router_step env mp) es (start_nav env mp k t s))"
    and "missing = filter (\<lambda>q. q \<notin> set (loaded s1)) (loads_of env mp t s)"
    and "list_all (load_event (length (navs s1))) fs"
    and "\<forall>q \<in> set missing. PageArrived (length (navs s1)) q \<in> set fs"
  shows "current_route s1 = current_route s \<and>
    nav_loads (navs (start_nav env mp k' t s1) ! length (navs s1)) = missing \<and> r \<in> set missing \<and>
    current_route (fold (router_step env mp) fs (start_nav env mp k' t s1)) =
      match_target env mp t (current_route s)"
proof -
  let ?s = "fold (router_step env mp) es (start_nav env mp k t s)"
  have w: "still_waits (length (navs s)) (match_target env mp t (current_route s)) r s ?s"
    by (intro still_waits_run still_waits_start assms)
  then have kept: "current_route s1 = current_route s" "at_start s1 = at_start s"
    "set (loaded s) \<subseteq> set (loaded s1)" "r \<notin> set (loaded s1)"
    by (auto simp: assms(5) still_waits_def page_failed_def Let_def)
  have loads: "loads_of env mp t s1 = missing"
    using kept(3) by (auto simp: assms(6) loads_of_def kept(1) intro: filter_cong)
  have r: "r \<in> set missing" using assms(2) kept(4) by (simp add: assms(6))
  have not: "\<not> redundant env (match_target env mp t (current_route s1)) s1"
    using assms(1) by (simp add: redundant_def kept)
  have "missing \<noteq> []" using r by auto
  then have "nav_loads (navs (start_nav env mp k' t s1) ! length (navs s1)) = missing"
    using start_awaits [OF not, of k'] loads by (simp add: awaiting_def)
  then show ?thesis
    using winning [OF not assms(7), of k'] assms(8) loads r kept(1) by simp
qed

theorem failed_page_retried_witness:
  "current_route (fold (router_step plain_env app_map) [PageArrived 2 scan_record]
     (start_nav plain_env app_map PushNav scan_page
       (page_failed plain_env 1 scan_record (start_nav plain_env app_map PushNav scan_page home)))) =
   match_target plain_env app_map scan_page (current_route home)"
proof -
  let ?s1 = "page_failed plain_env 1 scan_record (start_nav plain_env app_map PushNav scan_page home)"
  have n: "length (navs ?s1) = 2"
    using scan_nav(2) by (simp add: page_failed_def Let_def)
  have "list_all (load_event (length (navs ?s1))) [PageArrived 2 scan_record]"
    by (simp add: load_event_def)
  moreover have "\<forall>q \<in> set (filter (\<lambda>q. q \<notin> set (loaded ?s1)) (loads_of plain_env app_map scan_page home)).
      PageArrived (length (navs ?s1)) q \<in> set [PageArrived 2 scan_record]"
    by (simp add: home_facts n [simplified])
  ultimately show ?thesis
    using failed_page_retried [of plain_env app_map scan_page home scan_record "[]" ?s1 PushNav _
        "[PageArrived 2 scan_record]" PushNav, OF home_simps(2) _ _ _ _ refl]
    by (simp add: home_facts)
qed

end
