(* ===== verification/Page_Loads.thy ===== *)
theory Page_Loads
  imports Router_Facts Webpack_Properties
begin

text \<open>
  Where the router and the loader meet. The page of a route is a function that asks the loader for
  its chunks, \<open>Promise.all\<close> over \<open>n.e\<close>, and then requires its module (module \<open>cd49\<close> of
  \<open>app/assets/dist/js/app.c2d43b15.js\<close>); the router calls it when a navigation enters the page
  and goes on in the continuation (\<open>VA\<close> of \<open>vue-router\<close>).

  A session is a run of both: navigations, events of the browser for the loader, and continuations,
  in any order. The invariant ties the two states together: each page that a navigation waits for
  has a load under way, and each load knows the promises of the chunks that it waits for.
\<close>

section \<open>Sessions\<close>

text \<open>
  A load under way: the number of its navigation, the record of the page and the promises that its
  \<open>Promise.all\<close> waits for.
\<close>

record 'q app_session =
  code :: loader
  nav_state :: "'q router"
  page_loads :: "(nat \<times> route_record \<times> nat list) list"

fun ensure_all :: "string list \<Rightarrow> loader \<Rightarrow> nat list \<times> loader" where
  "ensure_all [] l = ([], l)"
| "ensure_all (c # cs) l =
     (let (ps, l1) = ensure c l; (qs, l2) = ensure_all cs l1 in (ps @ qs, l2))"

definition load_page :: "nat \<Rightarrow> route_record \<Rightarrow> 'q app_session \<Rightarrow> 'q app_session" where
  "load_page k r a =
     (case record_code r of
        None \<Rightarrow> a
      | Some (cs, m) \<Rightarrow>
          (let (ps, l) = ensure_all cs (code a)
           in a\<lparr>code := l, page_loads := page_loads a @ [(k, r, ps)]\<rparr>))"

text \<open>The loads of the navigations with number \<open>k\<close> and above, in their order.\<close>

definition load_from :: "nat \<Rightarrow> 'q app_session \<Rightarrow> 'q app_session" where
  "load_from k a =
     (let vs = navs (nav_state a)
      in fold (\<lambda>i. fold (load_page i) (nav_loads (vs ! i))) [k ..< length vs] a)"

definition open_session :: "'q router_env \<Rightarrow> route_map \<Rightarrow> jsstr \<Rightarrow> loader \<Rightarrow> 'q app_session" where
  "open_session env mp h l =
     load_from 0 \<lparr>code = l, nav_state = open_router env mp h, page_loads = []\<rparr>"

definition navigate :: "'q router_env \<Rightarrow> route_map \<Rightarrow> router_event \<Rightarrow> 'q app_session \<Rightarrow> 'q app_session" where
  "navigate env mp e a =
     load_from (length (navs (nav_state a))) (a\<lparr>nav_state := router_step env mp e (nav_state a)\<rparr>)"

text \<open>
  The outcome of a load: a rejected promise fails the page; when all are fulfilled the module is
  required, and the page fails if that throws. The continuation of the load at position \<open>i\<close> tells
  the router.
\<close>

definition rejected :: "('v, 'e) pstate \<Rightarrow> bool" where
  "rejected x \<longleftrightarrow> (case x of Rejected _ \<Rightarrow> True | _ \<Rightarrow> False)"

definition fulfilled :: "('v, 'e) pstate \<Rightarrow> bool" where
  "fulfilled x \<longleftrightarrow> (case x of Fulfilled _ \<Rightarrow> True | _ \<Rightarrow> False)"

definition drop_load :: "nat \<Rightarrow> 'q app_session \<Rightarrow> 'q app_session" where
  "drop_load i a = a\<lparr>page_loads := take i (page_loads a) @ drop (Suc i) (page_loads a)\<rparr>"

definition load_outcome :: "nat \<Rightarrow> loader \<Rightarrow> route_record \<Rightarrow> nat list \<Rightarrow> (bool \<times> modsys) option" where
  "load_outcome n l r ps =
     (if list_ex (\<lambda>p. rejected (states l ! p)) ps then Some (False, mods l)
      else if list_all (\<lambda>p. fulfilled (states l ! p)) ps then
        (case record_code r of
           None \<Rightarrow> None
         | Some (cs, m) \<Rightarrow>
             (case require n m (mods l) of
                None \<Rightarrow> None
              | Some (x, ms) \<Rightarrow> Some (x = None, ms)))
      else None)"

definition page_load_done :: "'q router_env \<Rightarrow> nat \<Rightarrow> nat \<Rightarrow> 'q app_session \<Rightarrow> 'q app_session" where
  "page_load_done env n i a =
     (if i < length (page_loads a) then
        (let (k, r, ps) = page_loads a ! i
         in case load_outcome n (code a) r ps of
              None \<Rightarrow> a
            | Some (arrived, ms) \<Rightarrow>
                (drop_load i a)\<lparr>code := (code a)\<lparr>mods := ms\<rparr>,
                  nav_state := (if arrived then page_arrived env k r (nav_state a)
                                else page_failed env k r (nav_state a))\<rparr>)
      else a)"

text \<open>What users and pages do; the other events of the router come from its loads.\<close>

definition user_event :: "router_event \<Rightarrow> bool" where
  "user_event e \<longleftrightarrow> (case e of PageArrived k r \<Rightarrow> False | PageFailed k r \<Rightarrow> False | _ \<Rightarrow> True)"

inductive session :: "'q router_env \<Rightarrow> route_map \<Rightarrow> nat \<Rightarrow> 'q app_session \<Rightarrow> bool"
  for env mp n where
  opened: "session env mp n (open_session env mp h (fold (step n) evs (boot fs)))"
| navigated: "session env mp n a \<Longrightarrow> user_event e \<Longrightarrow> session env mp n (navigate env mp e a)"
| browsed: "session env mp n a \<Longrightarrow> session env mp n (a\<lparr>code := step n ev (code a)\<rparr>)"
| continued: "session env mp n a \<Longrightarrow> session env mp n (page_load_done env n i a)"

section \<open>Chunks of a page\<close>

text \<open>Every chunk of the page is there, is loading for one of the promises, or has failed for one.\<close>

definition covers :: "loader \<Rightarrow> string list \<Rightarrow> nat list \<Rightarrow> bool" where
  "covers l cs ps \<longleftrightarrow> (\<forall>p \<in> set ps. p < length (states l)) \<and>
     (\<forall>c \<in> set cs. scripts l c = Loaded \<or>
        (\<exists>p \<in> set ps. scripts l c = Loading p \<or> rejected (states l ! p)))"

definition code_present :: "loader \<Rightarrow> string list \<Rightarrow> string \<Rightarrow> bool" where
  "code_present l cs m \<longleftrightarrow> (\<forall>c \<in> set cs. scripts l c = Loaded) \<and> cache (mods l) m \<noteq> None"

lemma rejected_simps [simp]: "rejected (Rejected x)" "\<not> rejected Pending" "\<not> rejected (Fulfilled v)"
  "fulfilled (Fulfilled v)" "\<not> fulfilled Pending" "\<not> fulfilled (Rejected x)"
  by (simp_all add: rejected_def fulfilled_def)

lemma loading_arrive:
  assumes "loader_ok l" "scripts l c = Loading p"
  shows "scripts (arrive es l) c = Loaded \<or> scripts (arrive es l) c = Loading p"
  using assms(2) by (simp add: scripts_arrive)

lemma loading_step:
  assumes "loader_ok l" "scripts l c = Loading p"
  shows "scripts (step n ev l) c = Loaded \<or> scripts (step n ev l) c = Loading p \<or>
    rejected (states (step n ev l) ! p)"
  using assms loading_pending [OF assms]
  by (cases ev)
     (auto simp: ensure_defs script_event_def link_load_def link_error_def style_microtask_def
        jsonp_def scripts_arrive settle_at split: script_state.split style_state.split bool.split)

lemma rejected_step:
  assumes "p < length (states l)" "rejected (states l ! p)"
  shows "rejected (states (step n ev l) ! p)"
  using step_kept [OF assms(1), of n ev] assms(2) by (cases "states l ! p") simp_all

lemma covers_step:
  assumes "loader_ok l" "covers l cs ps"
  shows "covers (step n ev l) cs ps"
  unfolding covers_def
proof (intro conjI ballI)
  fix p assume "p \<in> set ps"
  then show "p < length (states (step n ev l))"
    using assms(2) step_grows [of l n ev] by (auto simp: covers_def)
next
  fix c assume "c \<in> set cs"
  then consider "scripts l c = Loaded" | p where "p \<in> set ps" "scripts l c = Loading p"
    | p where "p \<in> set ps" "p < length (states l)" "rejected (states l ! p)"
    using assms(2) by (auto simp: covers_def)
  then show "scripts (step n ev l) c = Loaded \<or>
      (\<exists>p \<in> set ps. scripts (step n ev l) c = Loading p \<or> rejected (states (step n ev l) ! p))"
  proof cases
    case 1
    then show ?thesis by (simp add: scripts_stay)
  next
    case 2
    then show ?thesis using loading_step [OF assms(1), of c p n ev] by blast
  next
    case 3
    then show ?thesis using rejected_step [of p l n ev] by blast
  qed
qed

lemma covers_run: "loader_ok l \<Longrightarrow> covers l cs ps \<Longrightarrow> covers (fold (step n) evs l) cs ps"
  by (induction evs arbitrary: l) (simp_all add: covers_step loader_ok_step)

lemma ensure_all_run: "snd (ensure_all cs l) = fold (step n) (map Ensure cs) l"
  by (induction cs arbitrary: l) (auto simp: Let_def split: prod.split, metis snd_conv)

lemma style_promises:
  assumes "loader_ok l"
  shows "\<forall>p \<in> set (fst (ensure_style c l)). p < length (states (snd (ensure_style c l)))"
proof (cases "styles l c")
  case (StyleLoading p b)
  then show ?thesis
    using assms matched_pending [of "waits l" "states l" "Inr c" p]
    by (simp add: ensure_style_def loader_ok_def waits_at)
qed (simp_all add: ensure_style_def new_promise_def Let_def)

lemma script_promises:
  assumes "loader_ok l"
  shows "\<forall>p \<in> set (fst (ensure_script c l)). p < length (states (snd (ensure_script c l)))"
    "scripts (snd (ensure_script c l)) c = Loaded \<or>
      (\<exists>p \<in> set (fst (ensure_script c l)). scripts (snd (ensure_script c l)) c = Loading p)"
  using assms loading_pending(1) [OF assms, of c]
  by (auto simp: ensure_script_def new_promise_def Let_def split: script_state.split)

lemma script_grows: "length (states l) \<le> length (states (snd (ensure_script c l)))"
  by (simp add: ensure_script_def new_promise_def Let_def split: script_state.split)

lemma covers_ensure:
  assumes "loader_ok l"
  shows "covers (snd (ensure c l)) [c] (fst (ensure c l))"
proof -
  define l1 where "l1 = snd (ensure_style c l)"
  have l1: "loader_ok l1" using loader_ok_style [OF assms] by (simp add: l1_def)
  have e: "fst (ensure c l) = fst (ensure_style c l) @ fst (ensure_script c l1)"
    "snd (ensure c l) = snd (ensure_script c l1)"
    by (simp_all add: ensure_def Let_def split_beta l1_def)
  have "\<forall>p \<in> set (fst (ensure_style c l)). p < length (states (snd (ensure_script c l1)))"
    using style_promises [OF assms, of c] script_grows [of l1 c] by (auto simp: l1_def)
  then show ?thesis
    using script_promises [OF l1, of c] unfolding covers_def e by auto
qed

lemma covers_more: "covers l cs ps \<Longrightarrow> covers l ds qs \<Longrightarrow> covers l (cs @ ds) (ps @ qs)"
  by (auto simp: covers_def)

lemma covers_ensure_all: "loader_ok l \<Longrightarrow> covers (snd (ensure_all cs l)) cs (fst (ensure_all cs l))"
proof (induction cs arbitrary: l)
  case (Cons c cs)
  let ?l = "snd (ensure c l)"
  have ok: "loader_ok ?l" using Cons.prems by (rule loader_ok_ensure)
  have "covers (snd (ensure_all cs ?l)) [c] (fst (ensure c l))"
    using covers_run [OF ok covers_ensure [OF Cons.prems], of 0 "map Ensure cs"]
    by (simp add: ensure_all_run [of _ _ 0])
  from covers_more [OF this Cons.IH [OF ok]] show ?case by (simp add: Let_def split_beta)
qed (simp add: covers_def)

text \<open>When all promises are fulfilled the chunks are there.\<close>

lemma covers_done:
  assumes "loader_ok l" "covers l cs ps" "list_all (\<lambda>p. fulfilled (states l ! p)) ps" "c \<in> set cs"
  shows "scripts l c = Loaded"
proof -
  have "\<not> rejected (states l ! p) \<and> states l ! p \<noteq> Pending" if "p \<in> set ps" for p
    using assms(3) that by (cases "states l ! p") (auto simp: list_all_iff)
  then show ?thesis using assms(2,4) loading_pending(2) [OF assms(1), of c] by (auto simp: covers_def)
qed

section \<open>Modules of a page\<close>

lemma extends_cached: "extends m m' \<Longrightarrow> cache m t \<noteq> None \<Longrightarrow> cache m' t \<noteq> None"
  by (auto simp: extends_def simp del: not_None_eq)

lemma cache_check_deferred:
  "cache (mods l) m \<noteq> None \<Longrightarrow> cache (mods (check_deferred n ds l)) m \<noteq> None"
proof (induction n ds l rule: check_deferred.induct)
  case (3 n entry deps ds l)
  have "cache ms m \<noteq> None" if "require n entry (mods l) = Some (x, ms)" for x ms
    using extends_cached [OF require_extends(1) [OF that]] 3(3) by simp
  then show ?case using 3 by (auto simp: Let_def split: option.split)
qed simp_all

lemma mods_arrive [simp]: "mods (arrive es l) = mods l"
  by (induction es l rule: arrive.induct) (auto split: script_state.split)

lemma cache_step: "cache (mods l) m \<noteq> None \<Longrightarrow> cache (mods (step n ev l)) m \<noteq> None"
proof (cases ev)
  case (Jsonp es new ds)
  assume "cache (mods l) m \<noteq> None"
  then show ?thesis
    using cache_check_deferred [of "(arrive es (l\<lparr>mods := (mods l)\<lparr>factories := factories (mods l) ++ map_of new\<rparr>\<rparr>))
      \<lparr>deferred := deferred l @ ds\<rparr>"] Jsonp
    by (simp add: jsonp_def Let_def)
qed (auto simp: ensure_defs script_event_def link_load_def link_error_def style_microtask_def
      split: script_state.split style_state.split bool.split)

lemma present_step: "code_present l cs m \<Longrightarrow> code_present (step n ev l) cs m"
  using cache_step [of l m n ev] by (simp add: code_present_def scripts_stay)

lemma present_run: "code_present l cs m \<Longrightarrow> code_present (fold (step n) evs l) cs m"
  by (induction evs arbitrary: l) (simp_all add: present_step)

lemma require_cached: "require n t m = Some (r, m') \<Longrightarrow> cache m' t \<noteq> None"
proof (cases n)
  case (Suc k)
  assume r: "require n t m = Some (r, m')"
  show ?thesis
  proof (cases "cache m t = None \<and> factories m t \<noteq> None")
    case True
    then obtain b where "run_body k t b (m\<lparr>cache := (cache m)(t \<mapsto> (False, [])), ran := ran m @ [t]\<rparr>) = Some (r, m')"
      using r Suc by (auto simp: Let_def)
    from extends_cached [OF require_extends(2) [OF this], of t] show ?thesis by simp
  qed (use r Suc in \<open>auto split: option.splits\<close>)
qed simp

lemma loader_ok_mods: "loader_ok (l\<lparr>mods := ms\<rparr>) = loader_ok l"
  by (rule loader_ok_cong) simp_all

lemma covers_mods: "covers (l\<lparr>mods := ms\<rparr>) cs ps = covers l cs ps"
  by (simp add: covers_def)

lemma present_mods: "code_present l cs m \<Longrightarrow> extends (mods l) ms \<Longrightarrow> code_present (l\<lparr>mods := ms\<rparr>) cs m"
  using extends_cached [of "mods l" ms m] by (simp add: code_present_def)

section \<open>The invariant\<close>

text \<open>The code of the pages: what is under way is covered, what the router holds is present.\<close>

definition chunks_ok :: "loader \<Rightarrow> nat \<times> route_record \<times> nat list \<Rightarrow> bool" where
  "chunks_ok l x = (case x of (k, r, ps) \<Rightarrow>
     (case record_code r of None \<Rightarrow> False | Some (cs, m) \<Rightarrow> covers l cs ps))"

definition record_ok :: "loader \<Rightarrow> route_record \<Rightarrow> bool" where
  "record_ok l r = (case record_code r of None \<Rightarrow> True | Some (cs, m) \<Rightarrow> code_present l cs m)"

definition code_ok :: "'q app_session \<Rightarrow> bool" where
  "code_ok a \<longleftrightarrow> loader_ok (code a) \<and> (\<forall>x \<in> set (page_loads a). chunks_ok (code a) x) \<and>
     (\<forall>r \<in> set (loaded (nav_state a)). record_ok (code a) r)"

lemma chunks_ok_run: "loader_ok l \<Longrightarrow> chunks_ok l x \<Longrightarrow> chunks_ok (fold (step n) evs l) x"
  by (auto simp: chunks_ok_def covers_run split: option.splits)

lemma record_ok_run: "record_ok l r \<Longrightarrow> record_ok (fold (step n) evs l) r"
  by (auto simp: record_ok_def present_run split: option.splits)

lemma chunks_ok_mods: "chunks_ok (l\<lparr>mods := ms\<rparr>) x = chunks_ok l x"
  by (simp add: chunks_ok_def covers_mods cong: option.case_cong)

lemma record_ok_mods: "record_ok l r \<Longrightarrow> extends (mods l) ms \<Longrightarrow> record_ok (l\<lparr>mods := ms\<rparr>) r"
  by (auto simp: record_ok_def present_mods split: option.splits)

lemma loader_ok_fold: "loader_ok l \<Longrightarrow> loader_ok (fold (step n) evs l)"
  by (induction evs arbitrary: l) (simp_all add: loader_ok_step)

lemma code_ok_run: "code_ok a \<Longrightarrow> code_ok (a\<lparr>code := fold (step n) evs (code a)\<rparr>)"
  by (simp add: code_ok_def loader_ok_fold chunks_ok_run record_ok_run)

lemma load_page_eq:
  "record_code r = Some (cs, m) \<Longrightarrow> load_page k r a =
    a\<lparr>code := fold (step 0) (map Ensure cs) (code a),
      page_loads := page_loads a @ [(k, r, fst (ensure_all cs (code a)))]\<rparr>"
  by (simp add: load_page_def split_beta Let_def flip: ensure_all_run)

lemma code_ok_load:
  assumes "code_ok a" shows "code_ok (load_page k r a)"
proof (cases "record_code r")
  case (Some c)
  obtain cs m where c: "c = (cs, m)" by (cases c)
  have "chunks_ok (fold (step 0) (map Ensure cs) (code a)) (k, r, fst (ensure_all cs (code a)))"
    using covers_ensure_all [of "code a" cs] assms Some c
    by (simp add: chunks_ok_def code_ok_def ensure_all_run [of _ _ 0])
  then show ?thesis
    using code_ok_run [OF assms, of 0 "map Ensure cs"] Some c by (simp add: load_page_eq code_ok_def)
qed (use assms in \<open>simp add: load_page_def\<close>)

lemma fold_keeps: "(\<And>x a. P a \<Longrightarrow> P (f x a)) \<Longrightarrow> P a \<Longrightarrow> P (fold f xs a)"
  by (induction xs arbitrary: a) auto

lemma load_from_keeps: "(\<And>i r a. P a \<Longrightarrow> P (load_page i r a)) \<Longrightarrow> P a \<Longrightarrow> P (load_from k a)"
  unfolding load_from_def Let_def
  by (rule fold_keeps [where P = P], rule fold_keeps [where P = P]) blast+

lemma nav_state_load [simp]: "nav_state (load_page k r a) = nav_state a"
  by (simp add: load_page_def Let_def split: option.split prod.split)

lemma nav_state_load_from [simp]: "nav_state (load_from k a) = nav_state a"
  by (rule load_from_keeps [where P = "\<lambda>b. nav_state b = nav_state a"]) simp_all

lemma code_ok_load_from: "code_ok a \<Longrightarrow> code_ok (load_from k a)"
  by (rule load_from_keeps [where P = code_ok]) (simp_all add: code_ok_load)

text \<open>Only the arrival of a page adds to what the router holds.\<close>

lemma loaded_step:
  "user_event e \<Longrightarrow> loaded (router_step env mp e s) = loaded s"
  by (cases e) (auto simp: user_event_def start_nav_def traverse_def typed_hash_def popstate_def Let_def)

lemma loaded_failed [simp]: "loaded (page_failed env k r s) = loaded s"
  by (simp add: page_failed_def Let_def)

lemma loaded_arrived: "x \<in> set (loaded (page_arrived env k r s)) \<Longrightarrow> x = r \<or> x \<in> set (loaded s)"
  by (auto simp: page_arrived_def Let_def split: if_splits)

lemma in_dropped: "x \<in> set (page_loads (drop_load i a)) \<Longrightarrow> x \<in> set (page_loads a)"
  by (auto simp: drop_load_def dest: in_set_takeD in_set_dropD)

lemma drop_load_simps [simp]: "code (drop_load i a) = code a" "nav_state (drop_load i a) = nav_state a"
  by (simp_all add: drop_load_def)

text \<open>The cases of a continuation.\<close>

lemma outcome_extends: "load_outcome n l r ps = Some (x, ms) \<Longrightarrow> extends (mods l) ms"
  by (auto simp: load_outcome_def require_extends(1) split: if_splits option.splits)

lemma outcome_present:
  assumes "load_outcome n l r ps = Some (True, ms)" "loader_ok l" "chunks_ok l (k, r, ps)"
  shows "record_ok (l\<lparr>mods := ms\<rparr>) r"
proof (cases "record_code r")
  case (Some c)
  obtain cs m where c: "c = (cs, m)" by (cases c)
  have "list_all (\<lambda>p. fulfilled (states l ! p)) ps" "cache ms m \<noteq> None"
    using assms(1) Some c require_cached by (auto simp: load_outcome_def split: if_splits option.splits)
  then show ?thesis
    using covers_done [OF assms(2)] assms(3) Some c by (simp add: record_ok_def chunks_ok_def code_present_def)
qed (simp add: record_ok_def)

lemma page_load_done_cases:
  obtains (same) "page_load_done env n i a = a"
  | (continued) k r ps x ms where "i < length (page_loads a)" "page_loads a ! i = (k, r, ps)"
      "load_outcome n (code a) r ps = Some (x, ms)"
      "page_load_done env n i a = (drop_load i a)\<lparr>code := (code a)\<lparr>mods := ms\<rparr>,
         nav_state := (if x then page_arrived env k r (nav_state a) else page_failed env k r (nav_state a))\<rparr>"
proof (cases "i < length (page_loads a)")
  case True
  obtain k r ps where l: "page_loads a ! i = (k, r, ps)" by (cases "page_loads a ! i")
  show ?thesis
  proof (cases "load_outcome n (code a) r ps")
    case None
    then show ?thesis using same l True by (simp add: page_load_done_def)
  next
    case (Some y)
    then show ?thesis using that(2) l True by (cases y) (simp add: page_load_done_def)
  qed
qed (simp add: same page_load_done_def)

lemma code_ok_continued:
  assumes "code_ok a" shows "code_ok (page_load_done env n i a)"
proof (cases rule: page_load_done_cases [of env n i a])
  case (continued k r ps x ms)
  let ?l = "(code a)\<lparr>mods := ms\<rparr>"
  note e = outcome_extends [OF continued(3)]
  have l: "(k, r, ps) \<in> set (page_loads a)" using continued(1,2) by (metis nth_mem)
  then have "x \<Longrightarrow> record_ok ?l r"
    using outcome_present [of n "code a" r ps ms k] continued(3) assms by (simp add: code_ok_def)
  moreover have "\<forall>y \<in> set (loaded (nav_state a)). record_ok ?l y"
    using assms e by (simp add: code_ok_def record_ok_mods)
  moreover have "\<forall>y \<in> set (page_loads (drop_load i a)). chunks_ok ?l y"
    using assms by (auto simp: code_ok_def chunks_ok_mods dest: in_dropped)
  ultimately show ?thesis
    using assms unfolding continued(4) by (auto simp: code_ok_def loader_ok_mods dest: loaded_arrived)
qed (simp add: assms)

lemma code_ok_open:
  assumes "loader_ok l" shows "code_ok (open_session env mp h l)"
proof -
  have "loaded (open_router env mp h) = []"
    by (simp add: open_router_def start_nav_def Let_def)
  then have "code_ok \<lparr>code = l, nav_state = open_router env mp h, page_loads = []\<rparr>"
    using assms by (simp add: code_ok_def)
  then show ?thesis unfolding open_session_def by (rule code_ok_load_from)
qed

lemma code_ok_session: "session env mp n a \<Longrightarrow> code_ok a"
proof (induction rule: session.induct)
  case (opened h evs fs)
  show ?case by (rule code_ok_open) (rule loader_ok_run)
next
  case (navigated a e)
  then have "code_ok (a\<lparr>nav_state := router_step env mp e (nav_state a)\<rparr>)"
    by (simp add: code_ok_def loaded_step)
  then show ?case unfolding navigate_def by (rule code_ok_load_from)
next
  case (browsed a ev)
  then show ?case using code_ok_run [of a n "[ev]"] by simp
qed (rule code_ok_continued)

text \<open>The router of a session makes a run of its own, so what holds of its runs holds here.\<close>

lemma session_router_run:
  "session env mp n a \<Longrightarrow> \<exists>h es. nav_state a = fold (router_step env mp) es (open_router env mp h)"
proof (induction rule: session.induct)
  case (opened h evs fs)
  have "nav_state (open_session env mp h (fold (step n) evs (boot fs))) = fold (router_step env mp) [] (open_router env mp h)"
    by (simp add: open_session_def)
  then show ?case by blast
next
  case (navigated a e)
  then obtain h es where "nav_state a = fold (router_step env mp) es (open_router env mp h)" by blast
  then have "nav_state (navigate env mp e a) = fold (router_step env mp) (es @ [e]) (open_router env mp h)"
    by (simp add: navigate_def)
  then show ?case by blast
next
  case (continued a i)
  then obtain h es where r: "nav_state a = fold (router_step env mp) es (open_router env mp h)" by blast
  show ?case
  proof (cases rule: page_load_done_cases [of env n i a])
    case same
    then show ?thesis using r by auto
  next
    case (continued k r ps x ms)
    then have "nav_state (page_load_done env n i a) =
        fold (router_step env mp) (es @ [if x then PageArrived k r else PageFailed k r]) (open_router env mp h)"
      using \<open>nav_state a = _\<close> by simp
    then show ?thesis by blast
  qed
qed simp

lemma router_ok_session: "session env mp n a \<Longrightarrow> router_ok (nav_state a)"
  using session_router_run [of env mp n a] router_ok_run [OF router_ok_open, of env mp _ env mp] by auto

section \<open>No wait without a load\<close>

text \<open>
  The loads under way are those that the navigations wait for, each once. A navigation waits only
  for pages with code, for each once.
\<close>

definition keys :: "'q app_session \<Rightarrow> (nat \<times> route_record) list" where
  "keys a = map (\<lambda>(k, r, ps). (k, r)) (page_loads a)"

definition waited :: "'q nav list \<Rightarrow> (nat \<times> route_record) set" where
  "waited vs = {(k, r). k < length vs \<and> r \<in> set (nav_loads (vs ! k))}"

definition wait_ok :: "'q nav \<Rightarrow> bool" where
  "wait_ok v \<longleftrightarrow> distinct (nav_loads v) \<and> (\<forall>r \<in> set (nav_loads v). record_code r \<noteq> None)"

definition tracked :: "'q app_session \<Rightarrow> bool" where
  "tracked a \<longleftrightarrow> distinct (keys a) \<and> set (keys a) = waited (navs (nav_state a)) \<and>
     (\<forall>v \<in> set (navs (nav_state a)). wait_ok v)"

lemma keys_load_page: "record_code r \<noteq> None \<Longrightarrow> keys (load_page k r a) = keys a @ [(k, r)]"
  by (auto simp: load_page_eq keys_def)

lemma keys_loads: "\<forall>r \<in> set rs. record_code r \<noteq> None \<Longrightarrow>
    keys (fold (load_page k) rs a) = keys a @ map (Pair k) rs"
  by (induction rs arbitrary: a) (auto simp: keys_load_page simp del: not_None_eq)

lemma keys_rounds: "\<forall>i \<in> set is. \<forall>r \<in> set (f i). record_code r \<noteq> None \<Longrightarrow>
    keys (fold (\<lambda>i. fold (load_page i) (f i)) is a) = keys a @ concat (map (\<lambda>i. map (Pair i) (f i)) is)"
  by (induction "is" arbitrary: a) (auto simp: keys_loads simp del: not_None_eq)

lemma distinct_pairs: "distinct is \<Longrightarrow> \<forall>i \<in> set is. distinct (f i) \<Longrightarrow>
    distinct (concat (map (\<lambda>i. map (Pair i) (f i)) is))"
  by (induction "is") (auto simp: distinct_map inj_on_def)

lemma keys_load_from:
  assumes "\<forall>v \<in> set (navs (nav_state a)). wait_ok v"
  shows "keys (load_from k a) =
    keys a @ concat (map (\<lambda>i. map (Pair i) (nav_loads (navs (nav_state a) ! i))) [k ..< length (navs (nav_state a))])"
  unfolding load_from_def Let_def
  by (rule keys_rounds) (use assms in \<open>auto simp: wait_ok_def simp del: not_None_eq\<close>)

text \<open>From the navigations that were there to those that are there now.\<close>

lemma tracked_load_from:
  assumes "distinct (keys a)" "set (keys a) = waited vs" "navs (nav_state a) = vs @ ws"
    and "\<forall>v \<in> set (vs @ ws). wait_ok v"
  shows "tracked (load_from (length vs) a)"
proof -
  let ?f = "\<lambda>i. nav_loads ((vs @ ws) ! i)"
  let ?new = "concat (map (\<lambda>i. map (Pair i) (?f i)) [length vs ..< length (vs @ ws)])"
  have k: "keys (load_from (length vs) a) = keys a @ ?new"
    using keys_load_from [of a "length vs"] assms(3,4) by simp
  have "distinct ?new" using assms(4) by (intro distinct_pairs) (auto simp: wait_ok_def nth_append)
  moreover have "set (keys a) \<inter> set ?new = {}" unfolding assms(2) by (auto simp: waited_def)
  moreover have "set ?new = {(k, r). length vs \<le> k \<and> k < length (vs @ ws) \<and> r \<in> set (?f k)}"
    by (simp only: set_concat set_map set_upt image_image) auto
  then have "set (keys a) \<union> set ?new = waited (vs @ ws)"
    unfolding assms(2) by (auto simp: waited_def nth_append split: if_splits)
  ultimately show ?thesis using assms(1,3,4) k by (simp add: tracked_def)
qed

lemma wait_ok_start:
  "\<exists>v. navs (start_nav env mp k t s) = navs s @ [v] \<and> wait_ok v"
proof -
  have "lazy_page r \<Longrightarrow> record_code r \<noteq> None" for r by (auto simp: lazy_page_def split: option.splits)
  then show ?thesis
    by (auto simp: start_nav_def Let_def wait_ok_def distinct_activated distinct_matched)
qed

lemma navs_step:
  assumes "user_event e"
  shows "\<exists>vs. navs (router_step env mp e s) = navs s @ vs \<and> (\<forall>v \<in> set vs. wait_ok v)"
proof -
  define grows where "grows = (\<lambda>t :: 'a router. \<exists>vs. navs t = navs s @ vs \<and> (\<forall>v \<in> set vs. wait_ok v))"
  have st: "grows (start_nav env mp k t u)" if "navs u = navs s" for k t u
    using wait_ok_start [of env mp k t u] that by (fastforce simp: grows_def)
  have pop: "grows (popstate env mp u)" if "navs u = navs s" for u
    using st that by (simp add: popstate_def grows_def)
  have "grows (router_step env mp e s)"
    using assms by (cases e) (simp_all add: user_event_def traverse_def typed_hash_def Let_def st pop, simp_all add: grows_def)
  then show ?thesis by (simp add: grows_def)
qed

lemma waited_update:
  assumes "k < length vs" "wait_ok (vs ! k)" "nav_loads v = remove1 r (nav_loads (vs ! k))"
  shows "waited (vs[k := v]) = waited vs - {(k, r)}" "wait_ok v"
proof -
  have v: "set (nav_loads v) = set (nav_loads (vs ! k)) - {r}"
    using assms(2,3) by (simp add: wait_ok_def set_remove1_eq)
  show "waited (vs[k := v]) = waited vs - {(k, r)}"
  proof (rule set_eqI)
    fix x :: "nat \<times> route_record"
    obtain j q where x: "x = (j, q)" by (cases x)
    show "x \<in> waited (vs[k := v]) \<longleftrightarrow> x \<in> waited vs - {(k, r)}"
    proof (cases "j = k")
      case True
      then show ?thesis using assms(1) by (simp add: x waited_def v)
    next
      case False
      then show ?thesis by (simp add: x waited_def)
    qed
  qed
  have "distinct (nav_loads v)" using assms(2,3) by (simp add: wait_ok_def)
  then show "wait_ok v" using assms(2) by (simp add: wait_ok_def v)
qed

lemma waited_ended:
  assumes "\<forall>v \<in> set (navs s). wait_ok v"
  shows "waited (navs (page_arrived env k r s)) = waited (navs s) - {(k, r)}"
    "waited (navs (page_failed env k r s)) = waited (navs s) - {(k, r)}"
    "\<forall>v \<in> set (navs (page_arrived env k r s)). wait_ok v"
    "\<forall>v \<in> set (navs (page_failed env k r s)). wait_ok v"
proof -
  have absent: "waited (navs s) - {(k, r)} = waited (navs s)"
    if "\<not> (k < length (navs s) \<and> r \<in> set (nav_loads (navs s ! k)))"
    using that by (auto simp: waited_def)
  let ?v = "navs s ! k"
  let ?a = "?v\<lparr>nav_loads := remove1 r (nav_loads ?v), nav_missing := nav_missing ?v - 1\<rparr>"
  let ?f = "?v\<lparr>nav_loads := remove1 r (nav_loads ?v), nav_failed := True\<rparr>"
  have navs: "navs (page_arrived env k r s) =
      (if k < length (navs s) \<and> r \<in> set (nav_loads ?v) then (navs s)[k := ?a] else navs s)"
    "navs (page_failed env k r s) =
      (if k < length (navs s) \<and> r \<in> set (nav_loads ?v) then (navs s)[k := ?f] else navs s)"
    by (simp_all add: page_arrived_def page_failed_def Let_def)
  have ok: "k < length (navs s) \<Longrightarrow> wait_ok ?v" using assms by simp
  show "waited (navs (page_arrived env k r s)) = waited (navs s) - {(k, r)}"
    "waited (navs (page_failed env k r s)) = waited (navs s) - {(k, r)}"
    using waited_update(1) [OF _ ok, of ?a r] waited_update(1) [OF _ ok, of ?f r] absent
    by (simp_all add: navs)
  show "\<forall>v \<in> set (navs (page_arrived env k r s)). wait_ok v"
    "\<forall>v \<in> set (navs (page_failed env k r s)). wait_ok v"
    using all_update [OF assms waited_update(2) [OF _ ok, of ?a r], of k]
      all_update [OF assms waited_update(2) [OF _ ok, of ?f r], of k] assms
    by (simp_all add: navs)
qed

lemma distinct_drop:
  "distinct xs \<Longrightarrow> i < length xs \<Longrightarrow> distinct (take i xs @ drop (Suc i) xs) \<and>
    set (take i xs @ drop (Suc i) xs) = set xs - {xs ! i}"
proof -
  assume d: "distinct xs" "i < length xs"
  then have e: "xs = take i xs @ xs ! i # drop (Suc i) xs" by (simp add: id_take_nth_drop)
  then have "distinct (take i xs @ xs ! i # drop (Suc i) xs)"
    "set xs = set (take i xs @ xs ! i # drop (Suc i) xs)" using d(1) by simp_all
  then show ?thesis by auto
qed

lemma keys_drop: "keys (drop_load i a) = take i (keys a) @ drop (Suc i) (keys a)"
  by (simp add: keys_def drop_load_def take_map drop_map)

lemma tracked_dropped:
  assumes "tracked a" "i < length (keys a)" "keys b = take i (keys a) @ drop (Suc i) (keys a)"
    and "waited (navs (nav_state b)) = waited (navs (nav_state a)) - {keys a ! i}"
    and "\<forall>v \<in> set (navs (nav_state b)). wait_ok v"
  shows "tracked b"
proof -
  have a: "distinct (keys a)" "set (keys a) = waited (navs (nav_state a))"
    using assms(1) unfolding tracked_def by blast+
  have b: "distinct (keys b)" "set (keys b) = set (keys a) - {keys a ! i}"
    unfolding assms(3) using distinct_drop [OF a(1) assms(2)] by blast+
  have "set (keys b) = waited (navs (nav_state b))" by (simp only: b(2) a(2) assms(4))
  with b(1) assms(5) show ?thesis unfolding tracked_def by blast
qed

lemma tracked_continued:
  assumes "tracked a" shows "tracked (page_load_done env n i a)"
proof (cases rule: page_load_done_cases [of env n i a])
  case (continued k r ps x ms)
  have ok: "\<forall>v \<in> set (navs (nav_state a)). wait_ok v" using assms unfolding tracked_def by blast
  have i: "i < length (keys a)" "keys a ! i = (k, r)" using continued(1,2) by (simp_all add: keys_def)
  have "keys (page_load_done env n i a) = take i (keys a) @ drop (Suc i) (keys a)"
    unfolding continued(4) by (simp add: keys_def) (simp flip: keys_def add: keys_drop)
  moreover have navs: "navs (nav_state (page_load_done env n i a)) =
      (if x then navs (page_arrived env k r (nav_state a)) else navs (page_failed env k r (nav_state a)))"
    unfolding continued(4) by simp
  moreover have "waited (navs (nav_state (page_load_done env n i a))) = waited (navs (nav_state a)) - {keys a ! i}"
    unfolding navs i(2) using waited_ended(1,2) [OF ok, of env k r] by presburger
  moreover have "\<forall>v \<in> set (navs (nav_state (page_load_done env n i a))). wait_ok v"
    unfolding navs using waited_ended(3,4) [OF ok, of env k r] by presburger
  ultimately show ?thesis by (intro tracked_dropped [OF assms i(1)])
qed (simp add: assms)

lemma tracked_session: "session env mp n a \<Longrightarrow> tracked a"
proof (induction rule: session.induct)
  case (opened h evs fs)
  let ?a = "\<lparr>code = fold (step n) evs (boot fs), nav_state = open_router env mp h, page_loads = []\<rparr>"
  have "\<forall>v \<in> set (navs (open_router env mp h)). wait_ok v"
  proof -
    obtain s k t where "open_router env mp h = start_nav env mp k t s" "navs s = []"
      by (fastforce simp: open_router_def Let_def)
    then show ?thesis using wait_ok_start [of env mp k t s] by auto
  qed
  then show ?case
    unfolding open_session_def
    using tracked_load_from [of ?a "[]" "navs (open_router env mp h)"]
    by (simp add: keys_def waited_def)
next
  case (navigated a e)
  obtain vs where vs: "navs (router_step env mp e (nav_state a)) = navs (nav_state a) @ vs" "\<forall>v \<in> set vs. wait_ok v"
    using navs_step [OF navigated(2)] by blast
  let ?b = "a\<lparr>nav_state := router_step env mp e (nav_state a)\<rparr>"
  have "keys ?b = keys a" by (simp add: keys_def)
  then show ?case
    unfolding navigate_def using navigated(3) vs
    by (intro tracked_load_from [of ?b _ vs]) (auto simp: tracked_def)
next
  case (browsed a ev)
  then show ?case by (simp add: tracked_def keys_def)
qed (rule tracked_continued)

text \<open>A load whose promises are settled can go on.\<close>

lemma pending_settles:
  assumes "loader_ok l" "p < length (states l)" "states l ! p = Pending"
  shows "\<exists>ev. states (step n ev l) ! p \<noteq> Pending"
proof -
  obtain k where k: "waits l k = Some p"
    using assms matched_owner unfolding loader_ok_def by blast
  show ?thesis
  proof (cases k)
    case (Inl c)
    then have "scripts l c = Loading p" using k by (simp add: waits_def split: script_state.splits)
    then have "states (step n (Jsonp [c] [] []) l) ! p = Fulfilled ()"
      using assms(2,3) by (simp add: jsonp_def Let_def settle_at)
    then show ?thesis by (metis pstate.distinct(1))
  next
    case (Inr c)
    then obtain b where "styles l c = StyleLoading p b"
      using k by (auto simp: waits_def split: style_state.splits)
    then have "states (step n (if b then Microtask c else LinkError c) l) ! p \<noteq> Pending"
      using assms(2,3) by (simp add: link_error_def style_microtask_def settle_at)
    then show ?thesis by blast
  qed
qed

lemma outcome_known:
  assumes "chunks_ok l (k, r, ps)" "\<forall>p \<in> set ps. states l ! p \<noteq> Pending"
    and "finite (dom (factories (mods l)))" "card (dom (factories (mods l))) < n"
  shows "load_outcome n l r ps \<noteq> None"
proof -
  obtain cs m where c: "record_code r = Some (cs, m)"
    using assms(1) by (auto simp: chunks_ok_def split: option.splits)
  have "uncached (mods l) \<le> card (dom (factories (mods l)))"
    unfolding uncached_def by (rule card_mono) (use assms(3) in auto)
  then have "require n m (mods l) \<noteq> None" using require_total(1) [OF assms(3), of n m] assms(4) by simp
  moreover have "rejected (states l ! p) \<or> fulfilled (states l ! p)" if "p \<in> set ps" for p
    using assms(2) that by (cases "states l ! p") auto
  ultimately show ?thesis
    using c by (auto simp: load_outcome_def list_all_iff list_ex_iff)
qed

end
