(* ===== verification/Session_Properties.thy ===== *)
theory Session_Properties
  imports Router_Properties Page_Loads
begin

text \<open>
  What the router and the loader guarantee together: a page on the screen has its code, whatever
  the network did on the way, and no navigation waits for a page that nobody loads.
\<close>

section \<open>An example\<close>

text \<open>
  The application is open at its search page, a text is scanned, and the chunk of the page for it
  arrives.
\<close>

definition asked_session :: "unit app_session" where
  "asked_session =
     navigate plain_env app_map (PushTo scan_page) (open_session plain_env app_map [] (boot (\<lambda>_. None)))"

definition scan_session :: "unit app_session" where
  "scan_session =
     page_load_done plain_env 5 0 (asked_session\<lparr>code :=
       step 5 (Jsonp [''chunk-2d0be08d''] [(''2f14'', [])] []) (code asked_session)\<rparr>)"

lemma example_sessions:
  "session plain_env app_map n asked_session" "session plain_env app_map 5 scan_session"
proof -
  have "session plain_env app_map n (open_session plain_env app_map [] (fold (step n) [] (boot (\<lambda>_. None))))" for n
    by (rule session.opened)
  then show asked: "session plain_env app_map n asked_session" for n
    unfolding asked_session_def by (intro session.navigated) (simp_all add: user_event_def)
  show "session plain_env app_map 5 scan_session"
    unfolding scan_session_def by (intro session.continued session.browsed asked)
qed

lemma scan_ensure:
  "ensure_all [''chunk-2d0be08d''] (boot fs) = ([0], (boot fs)\<lparr>states := [Pending],
     scripts := (scripts (boot fs))(''chunk-2d0be08d'' := Loading 0), tags := [(''chunk-2d0be08d'', True)]\<rparr>)"
  by (simp add: ensure_defs css_chunks_def boot_def)

lemma scan_code [simp]: "record_code scan_record = Some ([''chunk-2d0be08d''], ''2f14'')"
  by (simp add: scan_record_def)

lemma asked_facts:
  "nav_state asked_session = start_nav plain_env app_map PushNav scan_page home"
  "page_loads asked_session = [(1, scan_record, [0])]"
  "code asked_session = snd (ensure_all [''chunk-2d0be08d''] (boot (\<lambda>_. None)))"
proof -
  have open0: "open_session plain_env app_map [] (boot (\<lambda>_. None)) =
      \<lparr>code = boot (\<lambda>_. None), nav_state = home, page_loads = []\<rparr>"
    unfolding open_session_def home_def [symmetric] by (simp add: load_from_def Let_def home_state)
  have eq: "asked_session = load_page 1 scan_record
      \<lparr>code = boot (\<lambda>_. None), nav_state = start_nav plain_env app_map PushNav scan_page home, page_loads = []\<rparr>"
    using scan_nav by (simp add: asked_session_def navigate_def open0 load_from_def Let_def upt_conv_Cons)
  show "nav_state asked_session = start_nav plain_env app_map PushNav scan_page home"
    "page_loads asked_session = [(1, scan_record, [0])]"
    "code asked_session = snd (ensure_all [''chunk-2d0be08d''] (boot (\<lambda>_. None)))"
    unfolding eq by (simp_all add: load_page_def scan_ensure del: ensure_all.simps)
qed

lemma example_pages: "scan_record \<in> set (rt_matched (current_route (nav_state scan_session)))"
proof -
  note nav = scan_nav [folded asked_facts(1)]
  let ?l = "step 5 (Jsonp [''chunk-2d0be08d''] [(''2f14'', [])] []) (code asked_session)"
  have l: "states ?l = [Fulfilled ()]" "cache (mods ?l) ''2f14'' = None" "factories (mods ?l) ''2f14'' = Some []"
    unfolding asked_facts(3) scan_ensure by (simp_all add: jsonp_def Let_def boot_def settle_def)
  obtain ms where "require 5 ''2f14'' (mods ?l) = Some (None, ms)"
    using l(2,3) by (simp add: eval_nat_numeral Let_def)
  then have "load_outcome 5 ?l scan_record [0] = Some (True, ms)" using l(1) by (simp add: load_outcome_def)
  then have "nav_state scan_session = page_arrived plain_env 1 scan_record (nav_state asked_session)"
    by (simp add: scan_session_def page_load_done_def asked_facts(2) del: step.simps)
  then show ?thesis using nav by (simp add: page_arrived_def)
qed

section \<open>Properties\<close>

text \<open>C19
  A page on the screen has its code: in every session of the router and the loader, however loads
  of chunks arrive, fail, time out and are repeated, for each page that is shown, the frame
  included, all its chunks have arrived and its module has been required.
\<close>

theorem shown_pages_have_run:
  assumes "session env mp n a" "r \<in> set (rt_matched (current_route (nav_state a)))"
    and "record_code r = Some (cs, m)" "cs \<noteq> []"
  shows "list_all (\<lambda>c. scripts (code a) c = Loaded) cs \<and> cache (mods (code a)) m \<noteq> None"
proof -
  have "lazy_page r" using assms(3,4) by (simp add: lazy_page_def)
  then have "r \<in> set (loaded (nav_state a))"
    using router_ok_session [OF assms(1)] assms(2) by (simp add: router_ok_def code_loaded_def)
  then have "record_ok (code a) r" using code_ok_session [OF assms(1)] by (simp add: code_ok_def)
  then show ?thesis using assms(3) by (simp add: record_ok_def code_present_def list_all_iff)
qed

theorem shown_pages_have_run_witness:
  "scripts (code scan_session) ''chunk-2d0be08d'' = Loaded \<and> cache (mods (code scan_session)) ''2f14'' \<noteq> None"
  using shown_pages_have_run [OF example_sessions(2) example_pages scan_code] by simp

text \<open>C20
  No navigation waits in vain: for every page that a navigation still waits for there is a load
  under way; while one of its promises is pending the browser has an event that settles it, and
  when none is pending the continuation ends the wait for this page, with its arrival or its
  failure.
\<close>

theorem waits_go_on:
  assumes "session env mp n a" "k < length (navs (nav_state a))" "r \<in> set (nav_loads (navs (nav_state a) ! k))"
    and "finite (dom (factories (mods (code a))))" "card (dom (factories (mods (code a)))) < n"
  shows "\<exists>i ps. i < length (page_loads a) \<and> page_loads a ! i = (k, r, ps) \<and>
    (if list_ex (\<lambda>p. states (code a) ! p = Pending) ps
     then \<exists>p ev. p \<in> set ps \<and> states (code a) ! p = Pending \<and> states (step n ev (code a)) ! p \<noteq> Pending
     else r \<notin> set (nav_loads (navs (nav_state (page_load_done env n i a)) ! k)))"
proof -
  have tr: "tracked a" and ok: "code_ok a"
    using tracked_session [OF assms(1)] code_ok_session [OF assms(1)] by auto
  have "(k, r) \<in> set (keys a)" using tr assms(2,3) by (simp add: tracked_def waited_def)
  then obtain i ps where i: "i < length (page_loads a)" "page_loads a ! i = (k, r, ps)"
    by (force simp: keys_def in_set_conv_nth)
  then have l: "chunks_ok (code a) (k, r, ps)" using ok by (metis code_ok_def nth_mem)
  have l_ok: "loader_ok (code a)" using ok by (simp add: code_ok_def)
  have bound: "\<forall>p \<in> set ps. p < length (states (code a))"
    using l by (auto simp: chunks_ok_def covers_def split: option.splits)
  show ?thesis
  proof (cases "list_ex (\<lambda>p. states (code a) ! p = Pending) ps")
    case True
    then obtain p where "p \<in> set ps" "states (code a) ! p = Pending" by (auto simp: list_ex_iff)
    then show ?thesis using pending_settles [OF l_ok, of p n] bound i True by auto
  next
    case False
    then obtain x ms where "load_outcome n (code a) r ps = Some (x, ms)"
      using outcome_known [OF l _ assms(4,5)] by (auto simp: list_ex_iff)
    then have "nav_state (page_load_done env n i a) =
        (if x then page_arrived env k r (nav_state a) else page_failed env k r (nav_state a))"
      using i by (simp add: page_load_done_def)
    moreover have "(k, r) \<notin> waited (navs (page_arrived env k r (nav_state a)))"
      "(k, r) \<notin> waited (navs (page_failed env k r (nav_state a)))"
      using waited_ended(1,2) [of "nav_state a" env k r] tr by (simp_all add: tracked_def)
    moreover have "length (navs (page_arrived env k r (nav_state a))) = length (navs (nav_state a))"
      "length (navs (page_failed env k r (nav_state a))) = length (navs (nav_state a))"
      by (simp_all add: page_arrived_def page_failed_def Let_def)
    ultimately have "r \<notin> set (nav_loads (navs (nav_state (page_load_done env n i a)) ! k))"
      using assms(2) by (simp add: waited_def)
    then show ?thesis using i False by (intro exI [of _ i] exI [of _ ps]) simp
  qed
qed

theorem waits_go_on_witness:
  "\<exists>i ps. i < length (page_loads asked_session) \<and> page_loads asked_session ! i = (1, scan_record, ps) \<and>
    (if list_ex (\<lambda>p. states (code asked_session) ! p = Pending) ps
     then \<exists>p ev. p \<in> set ps \<and> states (code asked_session) ! p = Pending \<and>
       states (step 5 ev (code asked_session)) ! p \<noteq> Pending
     else scan_record \<notin> set (nav_loads (navs (nav_state (page_load_done plain_env 5 i asked_session)) ! 1)))"
proof -
  note nav = scan_nav [folded asked_facts(1)]
  have "factories (mods (code asked_session)) = (\<lambda>_. None)"
    unfolding asked_facts(3) scan_ensure by (simp add: boot_def)
  then show ?thesis using waits_go_on [OF example_sessions(1) [of 5], of 1 scan_record] nav by simp
qed

end
