(* ===== verification/Moment_Clock.thy ===== *)
theory Moment_Clock
  imports Js_Utils
begin

text \<open>
  The twelve-hour clock of the date library (moment 2.29.1, in
  \<open>chunk-vendors.28fb2c37.js\<close>), which the certificate pages use to print times. A locale object
  may define four members: \<open>meridiem\<close>, the word printed for an hour (token \<open>A\<close> or \<open>a\<close>),
  \<open>meridiemParse\<close>, the expression that finds such a word in an input, and \<open>meridiemHour\<close> or
  \<open>isPM\<close>, which turn the hour of the twelve-hour clock and the word back into an hour of the
  day. The core defines the number that \<open>h\<close> prints and the function that combines the two.

  \<open>day_words\<close> is the contract of a locale whose clock reads back; \<open>half_days\<close> is the contract of
  the locales that define \<open>isPM\<close> only, and gives the first one. The locales of the bundle
  are modelled in \<open>Moment_Day_Hours\<close> and \<open>Moment_Half_Days\<close>.
\<close>

section \<open>What the core does with a locale\<close>

text \<open>The members of a locale object that concern the clock. \<open>meridiemParse\<close> is an alternation of
  plain words in every modelled locale, \<open>isPM\<close> is inherited from the prototype when a
  locale does not define it, \<open>meridiemHour\<close> is \<open>undefined\<close> there.\<close>

record time_words =
  meridiem_word :: "nat \<Rightarrow> nat \<Rightarrow> bool \<Rightarrow> jsstr"
  meridiemParse :: "jsstr list"
  isPM_of :: "jsstr \<Rightarrow> bool"
  meridiemHour_of :: "(nat \<Rightarrow> jsstr \<Rightarrow> nat option) option"

text \<open>\<open>(A+"").toLowerCase().charAt(0)\<close> is \<open>"p"\<close>: the \<open>isPM\<close> of the prototype.\<close>

definition core_isPM :: "jsstr \<Rightarrow> bool" where
  "core_isPM w \<longleftrightarrow> take 1 w = lit ''p'' \<or> take 1 w = lit ''P''"

text \<open>The number printed by \<open>h\<close>.\<close>

definition hours12 :: "nat \<Rightarrow> nat" where
  "hours12 h = (if h mod 12 = 0 then 12 else h mod 12)"

text \<open>The match of an alternation: the leftmost position at which one of the words occurs, and
  the first word of the alternation that occurs there.\<close>

fun starts_word :: "jsstr \<Rightarrow> jsstr \<Rightarrow> bool" where
  "starts_word s [] = True"
| "starts_word [] (d # p) = False"
| "starts_word (c # s) (d # p) = (c = d \<and> starts_word s p)"

fun match_word :: "jsstr list \<Rightarrow> jsstr \<Rightarrow> jsstr option" where
  "match_word ws [] = find (starts_word []) ws"
| "match_word ws (c # s) =
     (case find (starts_word (c # s)) ws of Some w \<Rightarrow> Some w | None \<Rightarrow> match_word ws s)"

text \<open>What follows a word in an input: nothing, or an ASCII unit (a blank or the digits of the
  hour in the formats of the bundle).\<close>

fun plain_rest :: "jsstr \<Rightarrow> bool" where
  "plain_rest [] = True"
| "plain_rest (c # s) = (c < 0x80)"

text \<open>\<open>meridiemFixWrap\<close> (\<open>Kt\<close> in the bundle): the hour of the day, from the hour read by \<open>h\<close> and
  the word read by \<open>A\<close> if there was one. \<open>None\<close> is \<open>undefined\<close>.\<close>

definition meridiemFixWrap :: "time_words \<Rightarrow> nat \<Rightarrow> jsstr option \<Rightarrow> nat option" where
  "meridiemFixWrap L h word =
     (case word of
        None \<Rightarrow> Some h
      | Some w \<Rightarrow>
          (case meridiemHour_of L of
             Some f \<Rightarrow> f h w
           | None \<Rightarrow>
               (let pm = isPM_of L w;
                    h1 = (if pm \<and> h < 12 then h + 12 else h);
                    h2 = (if \<not> pm \<and> h1 = 12 then 0 else h1)
                in Some h2)))"

text \<open>Reading the word at the front of an input, for an hour that was read already.\<close>

definition read_clock :: "time_words \<Rightarrow> nat \<Rightarrow> jsstr \<Rightarrow> nat option" where
  "read_clock L h s = meridiemFixWrap L h (match_word (meridiemParse L) s)"

section \<open>Facts about the core\<close>

lemma starts_word_iff: "starts_word s p \<longleftrightarrow> take (length p) s = p"
  by (induction s p rule: starts_word.induct) auto

lemma plain_rest_no_word: "plain_rest s \<Longrightarrow> 0x80 \<le> d \<Longrightarrow> \<not> starts_word s (d # p)"
  by (cases s) auto

lemma hours12_morning: "h < 12 \<Longrightarrow> hours12 h = (if h = 0 then 12 else h)"
  by (simp add: hours12_def)

lemma hours12_evening:
  assumes "\<not> h < 12" "h < 24"
  shows "hours12 h = (if h = 12 then 12 else h - 12)"
proof -
  have "h mod 12 = h - 12" using assms by (simp add: mod_if)
  then show ?thesis using assms by (auto simp: hours12_def)
qed

lemma hours12_bounds: "1 \<le> hours12 h" "hours12 h \<le> 12"
  using mod_less_divisor [of 12 h] by (auto simp: hours12_def simp del: mod_less_divisor)

lemma match_word_in: "match_word ws s = Some w \<Longrightarrow> w \<in> set ws"
  by (induction ws s rule: match_word.induct)
    (auto simp: find_Some_iff split: option.splits)

lemmas clock_simps = read_clock_def meridiemFixWrap_def hours12_morning hours12_evening Let_def
  plain_rest_no_word

section \<open>The contracts of a locale\<close>

text \<open>A locale's words read back when every printed word, whatever plain text follows it,
  gives the hour it was printed for.\<close>

locale day_words =
  fixes L :: time_words
  assumes reads_morning:
      "h < 12 \<Longrightarrow> m < 60 \<Longrightarrow> plain_rest rest \<Longrightarrow>
         read_clock L (hours12 h) (meridiem_word L h m low @ rest) = Some h"
    and reads_evening:
      "\<not> h < 12 \<Longrightarrow> h < 24 \<Longrightarrow> m < 60 \<Longrightarrow> plain_rest rest \<Longrightarrow>
         read_clock L (hours12 h) (meridiem_word L h m low @ rest) = Some h"
begin

lemma clock_reads_back:
  "h < 24 \<Longrightarrow> m < 60 \<Longrightarrow> plain_rest rest \<Longrightarrow>
     read_clock L (hours12 h) (meridiem_word L h m low @ rest) = Some h"
  by (cases "h < 12") (simp_all add: reads_morning reads_evening)

lemma words_tell_hours_apart:
  assumes "h < 24" "m < 60" "k < 24" "n < 60" "hours12 h = hours12 k"
    and "meridiem_word L h m low = meridiem_word L k n low"
  shows "h = k"
  using clock_reads_back [OF assms(1,2), of "[]" low] clock_reads_back [OF assms(3,4), of "[]" low]
    assms(5,6) by simp

end

text \<open>A locale with \<open>isPM\<close> alone splits the day in two halves.\<close>

locale half_days =
  fixes L :: time_words
  assumes no_meridiemHour: "meridiemHour_of L = None"
    and morning_word: "h < 12 \<Longrightarrow> plain_rest rest \<Longrightarrow>
      \<exists>w. match_word (meridiemParse L) (meridiem_word L h m low @ rest) = Some w \<and> \<not> isPM_of L w"
    and evening_word: "\<not> h < 12 \<Longrightarrow> h < 24 \<Longrightarrow> plain_rest rest \<Longrightarrow>
      \<exists>w. match_word (meridiemParse L) (meridiem_word L h m low @ rest) = Some w \<and> isPM_of L w"

sublocale half_days \<subseteq> day_words L
proof
  fix h m :: nat and low rest
  assume plain: "plain_rest rest"
  show "read_clock L (hours12 h) (meridiem_word L h m low @ rest) = Some h" if "h < 12"
    using morning_word [OF that plain, of m low] no_meridiemHour that by (auto simp: clock_simps)
  show "read_clock L (hours12 h) (meridiem_word L h m low @ rest) = Some h"
    if "\<not> h < 12" "h < 24"
    using evening_word [OF that plain, of m low] no_meridiemHour that by (auto simp: clock_simps)
qed

text \<open>An hour of the day stays one in a locale without \<open>meridiemHour\<close>.\<close>

lemma fix_wrap_below_24:
  assumes "meridiemHour_of L = None" "h < 24"
  shows "\<exists>k < 24. meridiemFixWrap L h w = Some k"
  using assms by (auto simp: meridiemFixWrap_def Let_def split: option.split)

end
