(* ===== verification/Moment_Day_Hours.thy ===== *)
theory Moment_Day_Hours
  imports Moment_Clock
begin

text \<open>
  The locales of the bundle that define \<open>meridiemHour\<close>: their day has four or more periods, and
  the hour is read with the word. For a locale \<open>X\<close>, \<open>X_meridiem\<close> and \<open>X_meridiemHour\<close> are the
  functions of that name in the argument of \<open>defineLocale\<close>, \<open>X_time\<close> is the part of the locale
  object that concerns the clock, with the words of \<open>meridiemParse\<close> in their order, and
  \<open>X_wordN\<close> is the word printed from hour \<open>N\<close> on, as UTF-16 code units. The argument \<open>isLower\<close>
  is \<open>low\<close>. A word that \<open>meridiemHour\<close> does not know gives \<open>undefined\<close>, here \<open>None\<close>. Every
  locale is an instance of \<open>day_words\<close>.
\<close>

section \<open>ml\<close>

abbreviation ml_word0 :: jsstr where
  "ml_word0 \<equiv> [0x0D30, 0x0D3E, 0x0D24, 0x0D4D, 0x0D30, 0x0D3F]"

abbreviation ml_word4 :: jsstr where
  "ml_word4 \<equiv> [0x0D30, 0x0D3E, 0x0D35, 0x0D3F, 0x0D32, 0x0D46]"

abbreviation ml_word12 :: jsstr where
  "ml_word12 \<equiv> [0x0D09, 0x0D1A, 0x0D4D, 0x0D1A, 0x0020, 0x0D15, 0x0D34, 0x0D3F, 0x0D1E, 0x0D4D, 0x0D1E,
        0x0D4D]"

abbreviation ml_word17 :: jsstr where
  "ml_word17 \<equiv> [0x0D35, 0x0D48, 0x0D15, 0x0D41, 0x0D28, 0x0D4D, 0x0D28, 0x0D47, 0x0D30, 0x0D02]"

definition ml_meridiem :: "nat \<Rightarrow> nat \<Rightarrow> bool \<Rightarrow> jsstr" where
  "ml_meridiem h m low =
     (if h < 4 then ml_word0
      else if h < 12 then ml_word4
      else if h < 17 then ml_word12
      else if h < 20 then ml_word17
      else ml_word0)"

definition ml_meridiemHour :: "nat \<Rightarrow> jsstr \<Rightarrow> nat option" where
  "ml_meridiemHour h w =
     (let A = if h = 12 then 0 else h in
      if ml_word0 = w \<and> A \<ge> 4 \<or> ml_word12 = w \<or> ml_word17 = w then Some (A + 12)
      else Some A)"

definition ml_time :: time_words where
  "ml_time =
     \<lparr>meridiem_word = ml_meridiem,
      meridiemParse = [ml_word0, ml_word4, ml_word12, ml_word17, ml_word0],
      isPM_of = core_isPM,
      meridiemHour_of = Some ml_meridiemHour\<rparr>"

lemmas ml_defs = ml_time_def ml_meridiem_def ml_meridiemHour_def

interpretation ml_clock: day_words ml_time
  by unfold_locales (auto simp: ml_defs clock_simps)

section \<open>gom-latn\<close>

abbreviation gom_latn_word0 :: jsstr where
  "gom_latn_word0 \<equiv> [0x0072, 0x0061, 0x0074, 0x0069]"

abbreviation gom_latn_word4 :: jsstr where
  "gom_latn_word4 \<equiv> [0x0073, 0x006F, 0x006B, 0x0061, 0x006C, 0x006C, 0x0069, 0x006D]"

abbreviation gom_latn_word12 :: jsstr where
  "gom_latn_word12 \<equiv> [0x0064, 0x006F, 0x006E, 0x0070, 0x0061, 0x0072, 0x0061, 0x006D]"

abbreviation gom_latn_word16 :: jsstr where
  "gom_latn_word16 \<equiv> [0x0073, 0x0061, 0x006E, 0x006A, 0x0065]"

definition gom_latn_meridiem :: "nat \<Rightarrow> nat \<Rightarrow> bool \<Rightarrow> jsstr" where
  "gom_latn_meridiem h m low =
     (if h < 4 then gom_latn_word0
      else if h < 12 then gom_latn_word4
      else if h < 16 then gom_latn_word12
      else if h < 20 then gom_latn_word16
      else gom_latn_word0)"

definition gom_latn_meridiemHour :: "nat \<Rightarrow> jsstr \<Rightarrow> nat option" where
  "gom_latn_meridiemHour h w =
     (let A = if h = 12 then 0 else h in
      if gom_latn_word0 = w then (if A < 4 then Some A
        else Some (A + 12))
      else if gom_latn_word4 = w then Some A
      else if gom_latn_word12 = w then (if A > 12 then Some A
        else Some (A + 12))
      else if gom_latn_word16 = w then Some (A + 12)
      else None)"

definition gom_latn_time :: time_words where
  "gom_latn_time =
     \<lparr>meridiem_word = gom_latn_meridiem,
      meridiemParse = [gom_latn_word0, gom_latn_word4, gom_latn_word12, gom_latn_word16],
      isPM_of = core_isPM,
      meridiemHour_of = Some gom_latn_meridiemHour\<rparr>"

lemmas gom_latn_defs = gom_latn_time_def gom_latn_meridiem_def gom_latn_meridiemHour_def

interpretation gom_latn_clock: day_words gom_latn_time
  by unfold_locales (auto simp: gom_latn_defs clock_simps)

section \<open>mr\<close>

abbreviation mr_word0 :: jsstr where
  "mr_word0 \<equiv> [0x092A, 0x0939, 0x093E, 0x091F, 0x0947]"

abbreviation mr_word6 :: jsstr where
  "mr_word6 \<equiv> [0x0938, 0x0915, 0x093E, 0x0933, 0x0940]"

abbreviation mr_word12 :: jsstr where
  "mr_word12 \<equiv> [0x0926, 0x0941, 0x092A, 0x093E, 0x0930, 0x0940]"

abbreviation mr_word17 :: jsstr where
  "mr_word17 \<equiv> [0x0938, 0x093E, 0x092F, 0x0902, 0x0915, 0x093E, 0x0933, 0x0940]"

abbreviation mr_word20 :: jsstr where
  "mr_word20 \<equiv> [0x0930, 0x093E, 0x0924, 0x094D, 0x0930, 0x0940]"

definition mr_meridiem :: "nat \<Rightarrow> nat \<Rightarrow> bool \<Rightarrow> jsstr" where
  "mr_meridiem h m low =
     (if h \<ge> 0 \<and> h < 6 then mr_word0
      else if h < 12 then mr_word6
      else if h < 17 then mr_word12
      else if h < 20 then mr_word17
      else mr_word20)"

definition mr_meridiemHour :: "nat \<Rightarrow> jsstr \<Rightarrow> nat option" where
  "mr_meridiemHour h w =
     (let A = if h = 12 then 0 else h in
      if mr_word0 = w \<or> mr_word6 = w then Some A
      else if mr_word12 = w \<or> mr_word17 = w \<or> mr_word20 = w then (if A \<ge> 12 then Some A
        else Some (A + 12))
      else None)"

definition mr_time :: time_words where
  "mr_time =
     \<lparr>meridiem_word = mr_meridiem,
      meridiemParse = [mr_word0, mr_word6, mr_word12, mr_word17, mr_word20],
      isPM_of = core_isPM,
      meridiemHour_of = Some mr_meridiemHour\<rparr>"

lemmas mr_defs = mr_time_def mr_meridiem_def mr_meridiemHour_def

interpretation mr_clock: day_words mr_time
  by unfold_locales (auto simp: mr_defs clock_simps)

section \<open>ne\<close>

abbreviation ne_word0 :: jsstr where
  "ne_word0 \<equiv> [0x0930, 0x093E, 0x0924, 0x093F]"

abbreviation ne_word3 :: jsstr where
  "ne_word3 \<equiv> [0x092C, 0x093F, 0x0939, 0x093E, 0x0928]"

abbreviation ne_word12 :: jsstr where
  "ne_word12 \<equiv> [0x0926, 0x093F, 0x0909, 0x0901, 0x0938, 0x094B]"

abbreviation ne_word16 :: jsstr where
  "ne_word16 \<equiv> [0x0938, 0x093E, 0x0901, 0x091D]"

definition ne_meridiem :: "nat \<Rightarrow> nat \<Rightarrow> bool \<Rightarrow> jsstr" where
  "ne_meridiem h m low =
     (if h < 3 then ne_word0
      else if h < 12 then ne_word3
      else if h < 16 then ne_word12
      else if h < 20 then ne_word16
      else ne_word0)"

definition ne_meridiemHour :: "nat \<Rightarrow> jsstr \<Rightarrow> nat option" where
  "ne_meridiemHour h w =
     (let A = if h = 12 then 0 else h in
      if ne_word0 = w then (if A < 4 then Some A
        else Some (A + 12))
      else if ne_word3 = w then Some A
      else if ne_word12 = w then (if A \<ge> 10 then Some A
        else Some (A + 12))
      else if ne_word16 = w then Some (A + 12)
      else None)"

definition ne_time :: time_words where
  "ne_time =
     \<lparr>meridiem_word = ne_meridiem,
      meridiemParse = [ne_word0, ne_word3, ne_word12, ne_word16],
      isPM_of = core_isPM,
      meridiemHour_of = Some ne_meridiemHour\<rparr>"

lemmas ne_defs = ne_time_def ne_meridiem_def ne_meridiemHour_def

interpretation ne_clock: day_words ne_time
  by unfold_locales (auto simp: ne_defs clock_simps)

section \<open>zh-mo\<close>

abbreviation zh_mo_word0 :: jsstr where
  "zh_mo_word0 \<equiv> [0x51CC, 0x6668]"

abbreviation zh_mo_word6 :: jsstr where
  "zh_mo_word6 \<equiv> [0x65E9, 0x4E0A]"

abbreviation zh_mo_word9 :: jsstr where
  "zh_mo_word9 \<equiv> [0x4E0A, 0x5348]"

abbreviation zh_mo_word11 :: jsstr where
  "zh_mo_word11 \<equiv> [0x4E2D, 0x5348]"

abbreviation zh_mo_word12 :: jsstr where
  "zh_mo_word12 \<equiv> [0x4E0B, 0x5348]"

abbreviation zh_mo_word18 :: jsstr where
  "zh_mo_word18 \<equiv> [0x665A, 0x4E0A]"

definition zh_mo_meridiem :: "nat \<Rightarrow> nat \<Rightarrow> bool \<Rightarrow> jsstr" where
  "zh_mo_meridiem h m low =
     (let r = 100 * h + m in
      if r < 600 then zh_mo_word0
      else if r < 900 then zh_mo_word6
      else if r < 1130 then zh_mo_word9
      else if r < 1230 then zh_mo_word11
      else if r < 1800 then zh_mo_word12
      else zh_mo_word18)"

definition zh_mo_meridiemHour :: "nat \<Rightarrow> jsstr \<Rightarrow> nat option" where
  "zh_mo_meridiemHour h w =
     (let A = if h = 12 then 0 else h in
      if zh_mo_word0 = w \<or> zh_mo_word6 = w \<or> zh_mo_word9 = w then Some A
      else if zh_mo_word11 = w then (if A \<ge> 11 then Some A
        else Some (A + 12))
      else if zh_mo_word12 = w \<or> zh_mo_word18 = w then Some (A + 12)
      else None)"

definition zh_mo_time :: time_words where
  "zh_mo_time =
     \<lparr>meridiem_word = zh_mo_meridiem,
      meridiemParse = [zh_mo_word0, zh_mo_word6, zh_mo_word9, zh_mo_word11, zh_mo_word12,
                       zh_mo_word18],
      isPM_of = core_isPM,
      meridiemHour_of = Some zh_mo_meridiemHour\<rparr>"

lemmas zh_mo_defs = zh_mo_time_def zh_mo_meridiem_def zh_mo_meridiemHour_def

interpretation zh_mo_clock: day_words zh_mo_time
  by unfold_locales (auto simp: zh_mo_defs clock_simps)

section \<open>tg\<close>

abbreviation tg_word0 :: jsstr where
  "tg_word0 \<equiv> [0x0448, 0x0430, 0x0431]"

abbreviation tg_word4 :: jsstr where
  "tg_word4 \<equiv> [0x0441, 0x0443, 0x0431, 0x04B3]"

abbreviation tg_word11 :: jsstr where
  "tg_word11 \<equiv> [0x0440, 0x04EF, 0x0437]"

abbreviation tg_word16 :: jsstr where
  "tg_word16 \<equiv> [0x0431, 0x0435, 0x0433, 0x043E, 0x04B3]"

definition tg_meridiem :: "nat \<Rightarrow> nat \<Rightarrow> bool \<Rightarrow> jsstr" where
  "tg_meridiem h m low =
     (if h < 4 then tg_word0
      else if h < 11 then tg_word4
      else if h < 16 then tg_word11
      else if h < 19 then tg_word16
      else tg_word0)"

definition tg_meridiemHour :: "nat \<Rightarrow> jsstr \<Rightarrow> nat option" where
  "tg_meridiemHour h w =
     (let A = if h = 12 then 0 else h in
      if tg_word0 = w then (if A < 4 then Some A
        else Some (A + 12))
      else if tg_word4 = w then Some A
      else if tg_word11 = w then (if A \<ge> 11 then Some A
        else Some (A + 12))
      else if tg_word16 = w then Some (A + 12)
      else None)"

definition tg_time :: time_words where
  "tg_time =
     \<lparr>meridiem_word = tg_meridiem,
      meridiemParse = [tg_word0, tg_word4, tg_word11, tg_word16],
      isPM_of = core_isPM,
      meridiemHour_of = Some tg_meridiemHour\<rparr>"

lemmas tg_defs = tg_time_def tg_meridiem_def tg_meridiemHour_def

interpretation tg_clock: day_words tg_time
  by unfold_locales (auto simp: tg_defs clock_simps)

section \<open>ta\<close>

abbreviation ta_word0 :: jsstr where
  "ta_word0 \<equiv> [0x0020, 0x0BAF, 0x0BBE, 0x0BAE, 0x0BAE, 0x0BCD]"

abbreviation ta_word2 :: jsstr where
  "ta_word2 \<equiv> [0x0020, 0x0BB5, 0x0BC8, 0x0B95, 0x0BB1, 0x0BC8]"

abbreviation ta_word6 :: jsstr where
  "ta_word6 \<equiv> [0x0020, 0x0B95, 0x0BBE, 0x0BB2, 0x0BC8]"

abbreviation ta_word10 :: jsstr where
  "ta_word10 \<equiv> [0x0020, 0x0BA8, 0x0BA3, 0x0BCD, 0x0BAA, 0x0B95, 0x0BB2, 0x0BCD]"

abbreviation ta_word14 :: jsstr where
  "ta_word14 \<equiv> [0x0020, 0x0B8E, 0x0BB1, 0x0BCD, 0x0BAA, 0x0BBE, 0x0B9F, 0x0BC1]"

abbreviation ta_word18 :: jsstr where
  "ta_word18 \<equiv> [0x0020, 0x0BAE, 0x0BBE, 0x0BB2, 0x0BC8]"

abbreviation ta_read0 :: jsstr where
  "ta_read0 \<equiv> [0x0BAF, 0x0BBE, 0x0BAE, 0x0BAE, 0x0BCD]"

abbreviation ta_read1 :: jsstr where
  "ta_read1 \<equiv> [0x0BB5, 0x0BC8, 0x0B95, 0x0BB1, 0x0BC8]"

abbreviation ta_read2 :: jsstr where
  "ta_read2 \<equiv> [0x0B95, 0x0BBE, 0x0BB2, 0x0BC8]"

abbreviation ta_read3 :: jsstr where
  "ta_read3 \<equiv> [0x0BA8, 0x0BA3, 0x0BCD, 0x0BAA, 0x0B95, 0x0BB2, 0x0BCD]"

abbreviation ta_read4 :: jsstr where
  "ta_read4 \<equiv> [0x0B8E, 0x0BB1, 0x0BCD, 0x0BAA, 0x0BBE, 0x0B9F, 0x0BC1]"

abbreviation ta_read5 :: jsstr where
  "ta_read5 \<equiv> [0x0BAE, 0x0BBE, 0x0BB2, 0x0BC8]"

definition ta_meridiem :: "nat \<Rightarrow> nat \<Rightarrow> bool \<Rightarrow> jsstr" where
  "ta_meridiem h m low =
     (if h < 2 then ta_word0
      else if h < 6 then ta_word2
      else if h < 10 then ta_word6
      else if h < 14 then ta_word10
      else if h < 18 then ta_word14
      else if h < 22 then ta_word18
      else ta_word0)"

definition ta_meridiemHour :: "nat \<Rightarrow> jsstr \<Rightarrow> nat option" where
  "ta_meridiemHour h w =
     (let A = if h = 12 then 0 else h in
      if ta_read0 = w then (if A < 2 then Some A
        else Some (A + 12))
      else if ta_read1 = w \<or> ta_read2 = w \<or> ta_read3 = w \<and> A \<ge> 10 then Some A
      else Some (A + 12))"

definition ta_time :: time_words where
  "ta_time =
     \<lparr>meridiem_word = ta_meridiem,
      meridiemParse = [ta_read0, ta_read1, ta_read2, ta_read3, ta_read4, ta_read5],
      isPM_of = core_isPM,
      meridiemHour_of = Some ta_meridiemHour\<rparr>"

lemmas ta_defs = ta_time_def ta_meridiem_def ta_meridiemHour_def

interpretation ta_clock: day_words ta_time
  by unfold_locales (auto simp: ta_defs clock_simps)

section \<open>kn\<close>

abbreviation kn_word0 :: jsstr where
  "kn_word0 \<equiv> [0x0CB0, 0x0CBE, 0x0CA4, 0x0CCD, 0x0CB0, 0x0CBF]"

abbreviation kn_word4 :: jsstr where
  "kn_word4 \<equiv> [0x0CAC, 0x0CC6, 0x0CB3, 0x0CBF, 0x0C97, 0x0CCD, 0x0C97, 0x0CC6]"

abbreviation kn_word10 :: jsstr where
  "kn_word10 \<equiv> [0x0CAE, 0x0CA7, 0x0CCD, 0x0CAF, 0x0CBE, 0x0CB9, 0x0CCD, 0x0CA8]"

abbreviation kn_word17 :: jsstr where
  "kn_word17 \<equiv> [0x0CB8, 0x0C82, 0x0C9C, 0x0CC6]"

definition kn_meridiem :: "nat \<Rightarrow> nat \<Rightarrow> bool \<Rightarrow> jsstr" where
  "kn_meridiem h m low =
     (if h < 4 then kn_word0
      else if h < 10 then kn_word4
      else if h < 17 then kn_word10
      else if h < 20 then kn_word17
      else kn_word0)"

definition kn_meridiemHour :: "nat \<Rightarrow> jsstr \<Rightarrow> nat option" where
  "kn_meridiemHour h w =
     (let A = if h = 12 then 0 else h in
      if kn_word0 = w then (if A < 4 then Some A
        else Some (A + 12))
      else if kn_word4 = w then Some A
      else if kn_word10 = w then (if A \<ge> 10 then Some A
        else Some (A + 12))
      else if kn_word17 = w then Some (A + 12)
      else None)"

definition kn_time :: time_words where
  "kn_time =
     \<lparr>meridiem_word = kn_meridiem,
      meridiemParse = [kn_word0, kn_word4, kn_word10, kn_word17],
      isPM_of = core_isPM,
      meridiemHour_of = Some kn_meridiemHour\<rparr>"

lemmas kn_defs = kn_time_def kn_meridiem_def kn_meridiemHour_def

interpretation kn_clock: day_words kn_time
  by unfold_locales (auto simp: kn_defs clock_simps)

section \<open>zh-hk\<close>

abbreviation zh_hk_word0 :: jsstr where
  "zh_hk_word0 \<equiv> [0x51CC, 0x6668]"

abbreviation zh_hk_word6 :: jsstr where
  "zh_hk_word6 \<equiv> [0x65E9, 0x4E0A]"

abbreviation zh_hk_word9 :: jsstr where
  "zh_hk_word9 \<equiv> [0x4E0A, 0x5348]"

abbreviation zh_hk_word12 :: jsstr where
  "zh_hk_word12 \<equiv> [0x4E2D, 0x5348]"

abbreviation zh_hk_word12_later :: jsstr where
  "zh_hk_word12_later \<equiv> [0x4E0B, 0x5348]"

abbreviation zh_hk_word18 :: jsstr where
  "zh_hk_word18 \<equiv> [0x665A, 0x4E0A]"

definition zh_hk_meridiem :: "nat \<Rightarrow> nat \<Rightarrow> bool \<Rightarrow> jsstr" where
  "zh_hk_meridiem h m low =
     (let r = 100 * h + m in
      if r < 600 then zh_hk_word0
      else if r < 900 then zh_hk_word6
      else if r < 1200 then zh_hk_word9
      else if 1200 = r then zh_hk_word12
      else if r < 1800 then zh_hk_word12_later
      else zh_hk_word18)"

definition zh_hk_meridiemHour :: "nat \<Rightarrow> jsstr \<Rightarrow> nat option" where
  "zh_hk_meridiemHour h w =
     (let A = if h = 12 then 0 else h in
      if zh_hk_word0 = w \<or> zh_hk_word6 = w \<or> zh_hk_word9 = w then Some A
      else if zh_hk_word12 = w then (if A \<ge> 11 then Some A
        else Some (A + 12))
      else if zh_hk_word12_later = w \<or> zh_hk_word18 = w then Some (A + 12)
      else None)"

definition zh_hk_time :: time_words where
  "zh_hk_time =
     \<lparr>meridiem_word = zh_hk_meridiem,
      meridiemParse = [zh_hk_word0, zh_hk_word6, zh_hk_word9, zh_hk_word12, zh_hk_word12_later,
                       zh_hk_word18],
      isPM_of = core_isPM,
      meridiemHour_of = Some zh_hk_meridiemHour\<rparr>"

lemmas zh_hk_defs = zh_hk_time_def zh_hk_meridiem_def zh_hk_meridiemHour_def

interpretation zh_hk_clock: day_words zh_hk_time
  by unfold_locales (auto simp: zh_hk_defs clock_simps)

section \<open>id\<close>

abbreviation id_word0 :: jsstr where
  "id_word0 \<equiv> [0x0070, 0x0061, 0x0067, 0x0069]"

abbreviation id_word11 :: jsstr where
  "id_word11 \<equiv> [0x0073, 0x0069, 0x0061, 0x006E, 0x0067]"

abbreviation id_word15 :: jsstr where
  "id_word15 \<equiv> [0x0073, 0x006F, 0x0072, 0x0065]"

abbreviation id_word19 :: jsstr where
  "id_word19 \<equiv> [0x006D, 0x0061, 0x006C, 0x0061, 0x006D]"

definition id_meridiem :: "nat \<Rightarrow> nat \<Rightarrow> bool \<Rightarrow> jsstr" where
  "id_meridiem h m low =
     (if h < 11 then id_word0
      else if h < 15 then id_word11
      else if h < 19 then id_word15
      else id_word19)"

definition id_meridiemHour :: "nat \<Rightarrow> jsstr \<Rightarrow> nat option" where
  "id_meridiemHour h w =
     (let A = if h = 12 then 0 else h in
      if id_word0 = w then Some A
      else if id_word11 = w then (if A \<ge> 11 then Some A
        else Some (A + 12))
      else if id_word15 = w \<or> id_word19 = w then Some (A + 12)
      else None)"

definition id_time :: time_words where
  "id_time =
     \<lparr>meridiem_word = id_meridiem,
      meridiemParse = [id_word0, id_word11, id_word15, id_word19],
      isPM_of = core_isPM,
      meridiemHour_of = Some id_meridiemHour\<rparr>"

lemmas id_defs = id_time_def id_meridiem_def id_meridiemHour_def

interpretation id_clock: day_words id_time
  by unfold_locales (auto simp: id_defs clock_simps)

section \<open>ss\<close>

abbreviation ss_word0 :: jsstr where
  "ss_word0 \<equiv> [0x0065, 0x006B, 0x0075, 0x0073, 0x0065, 0x006E, 0x0069]"

abbreviation ss_word11 :: jsstr where
  "ss_word11 \<equiv> [0x0065, 0x006D, 0x0069, 0x006E, 0x0069]"

abbreviation ss_word15 :: jsstr where
  "ss_word15 \<equiv> [0x0065, 0x006E, 0x0074, 0x0073, 0x0061, 0x006D, 0x0062, 0x0061, 0x006D, 0x0061]"

abbreviation ss_word19 :: jsstr where
  "ss_word19 \<equiv> [0x0065, 0x0062, 0x0075, 0x0073, 0x0075, 0x006B, 0x0075]"

definition ss_meridiem :: "nat \<Rightarrow> nat \<Rightarrow> bool \<Rightarrow> jsstr" where
  "ss_meridiem h m low =
     (if h < 11 then ss_word0
      else if h < 15 then ss_word11
      else if h < 19 then ss_word15
      else ss_word19)"

definition ss_meridiemHour :: "nat \<Rightarrow> jsstr \<Rightarrow> nat option" where
  "ss_meridiemHour h w =
     (let A = if h = 12 then 0 else h in
      if ss_word0 = w then Some A
      else if ss_word11 = w then (if A \<ge> 11 then Some A
        else Some (A + 12))
      else if ss_word15 = w \<or> ss_word19 = w then (if 0 = A then Some 0
        else Some (A + 12))
      else None)"

definition ss_time :: time_words where
  "ss_time =
     \<lparr>meridiem_word = ss_meridiem,
      meridiemParse = [ss_word0, ss_word11, ss_word15, ss_word19],
      isPM_of = core_isPM,
      meridiemHour_of = Some ss_meridiemHour\<rparr>"

lemmas ss_defs = ss_time_def ss_meridiem_def ss_meridiemHour_def

interpretation ss_clock: day_words ss_time
  by unfold_locales (auto simp: ss_defs clock_simps)

section \<open>zh-cn\<close>

abbreviation zh_cn_word0 :: jsstr where
  "zh_cn_word0 \<equiv> [0x51CC, 0x6668]"

abbreviation zh_cn_word6 :: jsstr where
  "zh_cn_word6 \<equiv> [0x65E9, 0x4E0A]"

abbreviation zh_cn_word9 :: jsstr where
  "zh_cn_word9 \<equiv> [0x4E0A, 0x5348]"

abbreviation zh_cn_word11 :: jsstr where
  "zh_cn_word11 \<equiv> [0x4E2D, 0x5348]"

abbreviation zh_cn_word12 :: jsstr where
  "zh_cn_word12 \<equiv> [0x4E0B, 0x5348]"

abbreviation zh_cn_word18 :: jsstr where
  "zh_cn_word18 \<equiv> [0x665A, 0x4E0A]"

definition zh_cn_meridiem :: "nat \<Rightarrow> nat \<Rightarrow> bool \<Rightarrow> jsstr" where
  "zh_cn_meridiem h m low =
     (let r = 100 * h + m in
      if r < 600 then zh_cn_word0
      else if r < 900 then zh_cn_word6
      else if r < 1130 then zh_cn_word9
      else if r < 1230 then zh_cn_word11
      else if r < 1800 then zh_cn_word12
      else zh_cn_word18)"

definition zh_cn_meridiemHour :: "nat \<Rightarrow> jsstr \<Rightarrow> nat option" where
  "zh_cn_meridiemHour h w =
     (let A = if h = 12 then 0 else h in
      if zh_cn_word0 = w \<or> zh_cn_word6 = w \<or> zh_cn_word9 = w then Some A
      else if zh_cn_word12 = w \<or> zh_cn_word18 = w then Some (A + 12)
      else if A \<ge> 11 then Some A
      else Some (A + 12))"

definition zh_cn_time :: time_words where
  "zh_cn_time =
     \<lparr>meridiem_word = zh_cn_meridiem,
      meridiemParse = [zh_cn_word0, zh_cn_word6, zh_cn_word9, zh_cn_word11, zh_cn_word12,
                       zh_cn_word18],
      isPM_of = core_isPM,
      meridiemHour_of = Some zh_cn_meridiemHour\<rparr>"

lemmas zh_cn_defs = zh_cn_time_def zh_cn_meridiem_def zh_cn_meridiemHour_def

interpretation zh_cn_clock: day_words zh_cn_time
  by unfold_locales (auto simp: zh_cn_defs clock_simps)

section \<open>te\<close>

abbreviation te_word0 :: jsstr where
  "te_word0 \<equiv> [0x0C30, 0x0C3E, 0x0C24, 0x0C4D, 0x0C30, 0x0C3F]"

abbreviation te_word4 :: jsstr where
  "te_word4 \<equiv> [0x0C09, 0x0C26, 0x0C2F, 0x0C02]"

abbreviation te_word10 :: jsstr where
  "te_word10 \<equiv> [0x0C2E, 0x0C27, 0x0C4D, 0x0C2F, 0x0C3E, 0x0C39, 0x0C4D, 0x0C28, 0x0C02]"

abbreviation te_word17 :: jsstr where
  "te_word17 \<equiv> [0x0C38, 0x0C3E, 0x0C2F, 0x0C02, 0x0C24, 0x0C4D, 0x0C30, 0x0C02]"

definition te_meridiem :: "nat \<Rightarrow> nat \<Rightarrow> bool \<Rightarrow> jsstr" where
  "te_meridiem h m low =
     (if h < 4 then te_word0
      else if h < 10 then te_word4
      else if h < 17 then te_word10
      else if h < 20 then te_word17
      else te_word0)"

definition te_meridiemHour :: "nat \<Rightarrow> jsstr \<Rightarrow> nat option" where
  "te_meridiemHour h w =
     (let A = if h = 12 then 0 else h in
      if te_word0 = w then (if A < 4 then Some A
        else Some (A + 12))
      else if te_word4 = w then Some A
      else if te_word10 = w then (if A \<ge> 10 then Some A
        else Some (A + 12))
      else if te_word17 = w then Some (A + 12)
      else None)"

definition te_time :: time_words where
  "te_time =
     \<lparr>meridiem_word = te_meridiem,
      meridiemParse = [te_word0, te_word4, te_word10, te_word17],
      isPM_of = core_isPM,
      meridiemHour_of = Some te_meridiemHour\<rparr>"

lemmas te_defs = te_time_def te_meridiem_def te_meridiemHour_def

interpretation te_clock: day_words te_time
  by unfold_locales (auto simp: te_defs clock_simps)

section \<open>ug-cn\<close>

abbreviation ug_cn_word0 :: jsstr where
  "ug_cn_word0 \<equiv> [0x064A, 0x06D0, 0x0631, 0x0649, 0x0645, 0x0020, 0x0643, 0x06D0, 0x0686, 0x06D5]"

abbreviation ug_cn_word6 :: jsstr where
  "ug_cn_word6 \<equiv> [0x0633, 0x06D5, 0x06BE, 0x06D5, 0x0631]"

abbreviation ug_cn_word9 :: jsstr where
  "ug_cn_word9 \<equiv> [0x0686, 0x06C8, 0x0634, 0x062A, 0x0649, 0x0646, 0x0020, 0x0628, 0x06C7, 0x0631, 0x06C7,
        0x0646]"

abbreviation ug_cn_word11 :: jsstr where
  "ug_cn_word11 \<equiv> [0x0686, 0x06C8, 0x0634]"

abbreviation ug_cn_word12 :: jsstr where
  "ug_cn_word12 \<equiv> [0x0686, 0x06C8, 0x0634, 0x062A, 0x0649, 0x0646, 0x0020, 0x0643, 0x06D0, 0x064A, 0x0649,
        0x0646]"

abbreviation ug_cn_word18 :: jsstr where
  "ug_cn_word18 \<equiv> [0x0643, 0x06D5, 0x0686]"

definition ug_cn_meridiem :: "nat \<Rightarrow> nat \<Rightarrow> bool \<Rightarrow> jsstr" where
  "ug_cn_meridiem h m low =
     (let r = 100 * h + m in
      if r < 600 then ug_cn_word0
      else if r < 900 then ug_cn_word6
      else if r < 1130 then ug_cn_word9
      else if r < 1230 then ug_cn_word11
      else if r < 1800 then ug_cn_word12
      else ug_cn_word18)"

definition ug_cn_meridiemHour :: "nat \<Rightarrow> jsstr \<Rightarrow> nat option" where
  "ug_cn_meridiemHour h w =
     (let A = if h = 12 then 0 else h in
      if ug_cn_word0 = w \<or> ug_cn_word6 = w \<or> ug_cn_word9 = w then Some A
      else if ug_cn_word12 = w \<or> ug_cn_word18 = w then Some (A + 12)
      else if A \<ge> 11 then Some A
      else Some (A + 12))"

definition ug_cn_time :: time_words where
  "ug_cn_time =
     \<lparr>meridiem_word = ug_cn_meridiem,
      meridiemParse = [ug_cn_word0, ug_cn_word6, ug_cn_word9, ug_cn_word11, ug_cn_word12,
                       ug_cn_word18],
      isPM_of = core_isPM,
      meridiemHour_of = Some ug_cn_meridiemHour\<rparr>"

lemmas ug_cn_defs = ug_cn_time_def ug_cn_meridiem_def ug_cn_meridiemHour_def

interpretation ug_cn_clock: day_words ug_cn_time
  by unfold_locales (auto simp: ug_cn_defs clock_simps)

section \<open>ms-my\<close>

abbreviation ms_my_word0 :: jsstr where
  "ms_my_word0 \<equiv> [0x0070, 0x0061, 0x0067, 0x0069]"

abbreviation ms_my_word11 :: jsstr where
  "ms_my_word11 \<equiv> [0x0074, 0x0065, 0x006E, 0x0067, 0x0061, 0x0068, 0x0061, 0x0072, 0x0069]"

abbreviation ms_my_word15 :: jsstr where
  "ms_my_word15 \<equiv> [0x0070, 0x0065, 0x0074, 0x0061, 0x006E, 0x0067]"

abbreviation ms_my_word19 :: jsstr where
  "ms_my_word19 \<equiv> [0x006D, 0x0061, 0x006C, 0x0061, 0x006D]"

definition ms_my_meridiem :: "nat \<Rightarrow> nat \<Rightarrow> bool \<Rightarrow> jsstr" where
  "ms_my_meridiem h m low =
     (if h < 11 then ms_my_word0
      else if h < 15 then ms_my_word11
      else if h < 19 then ms_my_word15
      else ms_my_word19)"

definition ms_my_meridiemHour :: "nat \<Rightarrow> jsstr \<Rightarrow> nat option" where
  "ms_my_meridiemHour h w =
     (let A = if h = 12 then 0 else h in
      if ms_my_word0 = w then Some A
      else if ms_my_word11 = w then (if A \<ge> 11 then Some A
        else Some (A + 12))
      else if ms_my_word15 = w \<or> ms_my_word19 = w then Some (A + 12)
      else None)"

definition ms_my_time :: time_words where
  "ms_my_time =
     \<lparr>meridiem_word = ms_my_meridiem,
      meridiemParse = [ms_my_word0, ms_my_word11, ms_my_word15, ms_my_word19],
      isPM_of = core_isPM,
      meridiemHour_of = Some ms_my_meridiemHour\<rparr>"

lemmas ms_my_defs = ms_my_time_def ms_my_meridiem_def ms_my_meridiemHour_def

interpretation ms_my_clock: day_words ms_my_time
  by unfold_locales (auto simp: ms_my_defs clock_simps)

section \<open>bn\<close>

abbreviation bn_word0 :: jsstr where
  "bn_word0 \<equiv> [0x09B0, 0x09BE, 0x09A4]"

abbreviation bn_word4 :: jsstr where
  "bn_word4 \<equiv> [0x09B8, 0x0995, 0x09BE, 0x09B2]"

abbreviation bn_word10 :: jsstr where
  "bn_word10 \<equiv> [0x09A6, 0x09C1, 0x09AA, 0x09C1, 0x09B0]"

abbreviation bn_word17 :: jsstr where
  "bn_word17 \<equiv> [0x09AC, 0x09BF, 0x0995, 0x09BE, 0x09B2]"

definition bn_meridiem :: "nat \<Rightarrow> nat \<Rightarrow> bool \<Rightarrow> jsstr" where
  "bn_meridiem h m low =
     (if h < 4 then bn_word0
      else if h < 10 then bn_word4
      else if h < 17 then bn_word10
      else if h < 20 then bn_word17
      else bn_word0)"

definition bn_meridiemHour :: "nat \<Rightarrow> jsstr \<Rightarrow> nat option" where
  "bn_meridiemHour h w =
     (let A = if h = 12 then 0 else h in
      if bn_word0 = w \<and> A \<ge> 4 \<or> bn_word10 = w \<and> A < 5 \<or> bn_word17 = w then Some (A + 12)
      else Some A)"

definition bn_time :: time_words where
  "bn_time =
     \<lparr>meridiem_word = bn_meridiem,
      meridiemParse = [bn_word0, bn_word4, bn_word10, bn_word17, bn_word0],
      isPM_of = core_isPM,
      meridiemHour_of = Some bn_meridiemHour\<rparr>"

lemmas bn_defs = bn_time_def bn_meridiem_def bn_meridiemHour_def

interpretation bn_clock: day_words bn_time
  by unfold_locales (auto simp: bn_defs clock_simps)

section \<open>zh-tw\<close>

abbreviation zh_tw_word0 :: jsstr where
  "zh_tw_word0 \<equiv> [0x51CC, 0x6668]"

abbreviation zh_tw_word6 :: jsstr where
  "zh_tw_word6 \<equiv> [0x65E9, 0x4E0A]"

abbreviation zh_tw_word9 :: jsstr where
  "zh_tw_word9 \<equiv> [0x4E0A, 0x5348]"

abbreviation zh_tw_word11 :: jsstr where
  "zh_tw_word11 \<equiv> [0x4E2D, 0x5348]"

abbreviation zh_tw_word12 :: jsstr where
  "zh_tw_word12 \<equiv> [0x4E0B, 0x5348]"

abbreviation zh_tw_word18 :: jsstr where
  "zh_tw_word18 \<equiv> [0x665A, 0x4E0A]"

definition zh_tw_meridiem :: "nat \<Rightarrow> nat \<Rightarrow> bool \<Rightarrow> jsstr" where
  "zh_tw_meridiem h m low =
     (let r = 100 * h + m in
      if r < 600 then zh_tw_word0
      else if r < 900 then zh_tw_word6
      else if r < 1130 then zh_tw_word9
      else if r < 1230 then zh_tw_word11
      else if r < 1800 then zh_tw_word12
      else zh_tw_word18)"

definition zh_tw_meridiemHour :: "nat \<Rightarrow> jsstr \<Rightarrow> nat option" where
  "zh_tw_meridiemHour h w =
     (let A = if h = 12 then 0 else h in
      if zh_tw_word0 = w \<or> zh_tw_word6 = w \<or> zh_tw_word9 = w then Some A
      else if zh_tw_word11 = w then (if A \<ge> 11 then Some A
        else Some (A + 12))
      else if zh_tw_word12 = w \<or> zh_tw_word18 = w then Some (A + 12)
      else None)"

definition zh_tw_time :: time_words where
  "zh_tw_time =
     \<lparr>meridiem_word = zh_tw_meridiem,
      meridiemParse = [zh_tw_word0, zh_tw_word6, zh_tw_word9, zh_tw_word11, zh_tw_word12,
                       zh_tw_word18],
      isPM_of = core_isPM,
      meridiemHour_of = Some zh_tw_meridiemHour\<rparr>"

lemmas zh_tw_defs = zh_tw_time_def zh_tw_meridiem_def zh_tw_meridiemHour_def

interpretation zh_tw_clock: day_words zh_tw_time
  by unfold_locales (auto simp: zh_tw_defs clock_simps)

section \<open>bn-bd\<close>

abbreviation bn_bd_word0 :: jsstr where
  "bn_bd_word0 \<equiv> [0x09B0, 0x09BE, 0x09A4]"

abbreviation bn_bd_word4 :: jsstr where
  "bn_bd_word4 \<equiv> [0x09AD, 0x09CB, 0x09B0]"

abbreviation bn_bd_word6 :: jsstr where
  "bn_bd_word6 \<equiv> [0x09B8, 0x0995, 0x09BE, 0x09B2]"

abbreviation bn_bd_word12 :: jsstr where
  "bn_bd_word12 \<equiv> [0x09A6, 0x09C1, 0x09AA, 0x09C1, 0x09B0]"

abbreviation bn_bd_word15 :: jsstr where
  "bn_bd_word15 \<equiv> [0x09AC, 0x09BF, 0x0995, 0x09BE, 0x09B2]"

abbreviation bn_bd_word18 :: jsstr where
  "bn_bd_word18 \<equiv> [0x09B8, 0x09A8, 0x09CD, 0x09A7, 0x09CD, 0x09AF, 0x09BE]"

definition bn_bd_meridiem :: "nat \<Rightarrow> nat \<Rightarrow> bool \<Rightarrow> jsstr" where
  "bn_bd_meridiem h m low =
     (if h < 4 then bn_bd_word0
      else if h < 6 then bn_bd_word4
      else if h < 12 then bn_bd_word6
      else if h < 15 then bn_bd_word12
      else if h < 18 then bn_bd_word15
      else if h < 20 then bn_bd_word18
      else bn_bd_word0)"

definition bn_bd_meridiemHour :: "nat \<Rightarrow> jsstr \<Rightarrow> nat option" where
  "bn_bd_meridiemHour h w =
     (let A = if h = 12 then 0 else h in
      if bn_bd_word0 = w then (if A < 4 then Some A
        else Some (A + 12))
      else if bn_bd_word4 = w \<or> bn_bd_word6 = w then Some A
      else if bn_bd_word12 = w then (if A \<ge> 3 then Some A
        else Some (A + 12))
      else if bn_bd_word15 = w \<or> bn_bd_word18 = w then Some (A + 12)
      else None)"

definition bn_bd_time :: time_words where
  "bn_bd_time =
     \<lparr>meridiem_word = bn_bd_meridiem,
      meridiemParse = [bn_bd_word0, bn_bd_word4, bn_bd_word6, bn_bd_word12, bn_bd_word15,
                       bn_bd_word18, bn_bd_word0],
      isPM_of = core_isPM,
      meridiemHour_of = Some bn_bd_meridiemHour\<rparr>"

lemmas bn_bd_defs = bn_bd_time_def bn_bd_meridiem_def bn_bd_meridiemHour_def

interpretation bn_bd_clock: day_words bn_bd_time
  by unfold_locales (auto simp: bn_bd_defs clock_simps)

section \<open>gom-deva\<close>

abbreviation gom_deva_word0 :: jsstr where
  "gom_deva_word0 \<equiv> [0x0930, 0x093E, 0x0924, 0x0940]"

abbreviation gom_deva_word4 :: jsstr where
  "gom_deva_word4 \<equiv> [0x0938, 0x0915, 0x093E, 0x0933, 0x0940, 0x0902]"

abbreviation gom_deva_word12 :: jsstr where
  "gom_deva_word12 \<equiv> [0x0926, 0x0928, 0x092A, 0x093E, 0x0930, 0x093E, 0x0902]"

abbreviation gom_deva_word16 :: jsstr where
  "gom_deva_word16 \<equiv> [0x0938, 0x093E, 0x0902, 0x091C, 0x0947]"

definition gom_deva_meridiem :: "nat \<Rightarrow> nat \<Rightarrow> bool \<Rightarrow> jsstr" where
  "gom_deva_meridiem h m low =
     (if h < 4 then gom_deva_word0
      else if h < 12 then gom_deva_word4
      else if h < 16 then gom_deva_word12
      else if h < 20 then gom_deva_word16
      else gom_deva_word0)"

definition gom_deva_meridiemHour :: "nat \<Rightarrow> jsstr \<Rightarrow> nat option" where
  "gom_deva_meridiemHour h w =
     (let A = if h = 12 then 0 else h in
      if gom_deva_word0 = w then (if A < 4 then Some A
        else Some (A + 12))
      else if gom_deva_word4 = w then Some A
      else if gom_deva_word12 = w then (if A > 12 then Some A
        else Some (A + 12))
      else if gom_deva_word16 = w then Some (A + 12)
      else None)"

definition gom_deva_time :: time_words where
  "gom_deva_time =
     \<lparr>meridiem_word = gom_deva_meridiem,
      meridiemParse = [gom_deva_word0, gom_deva_word4, gom_deva_word12, gom_deva_word16],
      isPM_of = core_isPM,
      meridiemHour_of = Some gom_deva_meridiemHour\<rparr>"

lemmas gom_deva_defs = gom_deva_time_def gom_deva_meridiem_def gom_deva_meridiemHour_def

interpretation gom_deva_clock: day_words gom_deva_time
  by unfold_locales (auto simp: gom_deva_defs clock_simps)

section \<open>jv\<close>

abbreviation jv_word0 :: jsstr where
  "jv_word0 \<equiv> [0x0065, 0x006E, 0x006A, 0x0069, 0x006E, 0x0067]"

abbreviation jv_word11 :: jsstr where
  "jv_word11 \<equiv> [0x0073, 0x0069, 0x0079, 0x0061, 0x006E, 0x0067]"

abbreviation jv_word15 :: jsstr where
  "jv_word15 \<equiv> [0x0073, 0x006F, 0x006E, 0x0074, 0x0065, 0x006E]"

abbreviation jv_word19 :: jsstr where
  "jv_word19 \<equiv> [0x006E, 0x0064, 0x0061, 0x006C, 0x0075]"

definition jv_meridiem :: "nat \<Rightarrow> nat \<Rightarrow> bool \<Rightarrow> jsstr" where
  "jv_meridiem h m low =
     (if h < 11 then jv_word0
      else if h < 15 then jv_word11
      else if h < 19 then jv_word15
      else jv_word19)"

definition jv_meridiemHour :: "nat \<Rightarrow> jsstr \<Rightarrow> nat option" where
  "jv_meridiemHour h w =
     (let A = if h = 12 then 0 else h in
      if jv_word0 = w then Some A
      else if jv_word11 = w then (if A \<ge> 11 then Some A
        else Some (A + 12))
      else if jv_word15 = w \<or> jv_word19 = w then Some (A + 12)
      else None)"

definition jv_time :: time_words where
  "jv_time =
     \<lparr>meridiem_word = jv_meridiem,
      meridiemParse = [jv_word0, jv_word11, jv_word15, jv_word19],
      isPM_of = core_isPM,
      meridiemHour_of = Some jv_meridiemHour\<rparr>"

lemmas jv_defs = jv_time_def jv_meridiem_def jv_meridiemHour_def

interpretation jv_clock: day_words jv_time
  by unfold_locales (auto simp: jv_defs clock_simps)

section \<open>bo\<close>

abbreviation bo_word0 :: jsstr where
  "bo_word0 \<equiv> [0x0F58, 0x0F5A, 0x0F53, 0x0F0B, 0x0F58, 0x0F7C]"

abbreviation bo_word4 :: jsstr where
  "bo_word4 \<equiv> [0x0F5E, 0x0F7C, 0x0F42, 0x0F66, 0x0F0B, 0x0F40, 0x0F66]"

abbreviation bo_word10 :: jsstr where
  "bo_word10 \<equiv> [0x0F49, 0x0F72, 0x0F53, 0x0F0B, 0x0F42, 0x0F74, 0x0F44]"

abbreviation bo_word17 :: jsstr where
  "bo_word17 \<equiv> [0x0F51, 0x0F42, 0x0F7C, 0x0F44, 0x0F0B, 0x0F51, 0x0F42]"

definition bo_meridiem :: "nat \<Rightarrow> nat \<Rightarrow> bool \<Rightarrow> jsstr" where
  "bo_meridiem h m low =
     (if h < 4 then bo_word0
      else if h < 10 then bo_word4
      else if h < 17 then bo_word10
      else if h < 20 then bo_word17
      else bo_word0)"

definition bo_meridiemHour :: "nat \<Rightarrow> jsstr \<Rightarrow> nat option" where
  "bo_meridiemHour h w =
     (let A = if h = 12 then 0 else h in
      if bo_word0 = w \<and> A \<ge> 4 \<or> bo_word10 = w \<and> A < 5 \<or> bo_word17 = w then Some (A + 12)
      else Some A)"

definition bo_time :: time_words where
  "bo_time =
     \<lparr>meridiem_word = bo_meridiem,
      meridiemParse = [bo_word0, bo_word4, bo_word10, bo_word17, bo_word0],
      isPM_of = core_isPM,
      meridiemHour_of = Some bo_meridiemHour\<rparr>"

lemmas bo_defs = bo_time_def bo_meridiem_def bo_meridiemHour_def

interpretation bo_clock: day_words bo_time
  by unfold_locales (auto simp: bo_defs clock_simps)

section \<open>hi\<close>

abbreviation hi_word0 :: jsstr where
  "hi_word0 \<equiv> [0x0930, 0x093E, 0x0924]"

abbreviation hi_word4 :: jsstr where
  "hi_word4 \<equiv> [0x0938, 0x0941, 0x092C, 0x0939]"

abbreviation hi_word10 :: jsstr where
  "hi_word10 \<equiv> [0x0926, 0x094B, 0x092A, 0x0939, 0x0930]"

abbreviation hi_word17 :: jsstr where
  "hi_word17 \<equiv> [0x0936, 0x093E, 0x092E]"

definition hi_meridiem :: "nat \<Rightarrow> nat \<Rightarrow> bool \<Rightarrow> jsstr" where
  "hi_meridiem h m low =
     (if h < 4 then hi_word0
      else if h < 10 then hi_word4
      else if h < 17 then hi_word10
      else if h < 20 then hi_word17
      else hi_word0)"

definition hi_meridiemHour :: "nat \<Rightarrow> jsstr \<Rightarrow> nat option" where
  "hi_meridiemHour h w =
     (let A = if h = 12 then 0 else h in
      if hi_word0 = w then (if A < 4 then Some A
        else Some (A + 12))
      else if hi_word4 = w then Some A
      else if hi_word10 = w then (if A \<ge> 10 then Some A
        else Some (A + 12))
      else if hi_word17 = w then Some (A + 12)
      else None)"

definition hi_time :: time_words where
  "hi_time =
     \<lparr>meridiem_word = hi_meridiem,
      meridiemParse = [hi_word0, hi_word4, hi_word10, hi_word17],
      isPM_of = core_isPM,
      meridiemHour_of = Some hi_meridiemHour\<rparr>"

lemmas hi_defs = hi_time_def hi_meridiem_def hi_meridiemHour_def

interpretation hi_clock: day_words hi_time
  by unfold_locales (auto simp: hi_defs clock_simps)

section \<open>gu\<close>

abbreviation gu_word0 :: jsstr where
  "gu_word0 \<equiv> [0x0AB0, 0x0ABE, 0x0AA4]"

abbreviation gu_word4 :: jsstr where
  "gu_word4 \<equiv> [0x0AB8, 0x0AB5, 0x0ABE, 0x0AB0]"

abbreviation gu_word10 :: jsstr where
  "gu_word10 \<equiv> [0x0AAC, 0x0AAA, 0x0ACB, 0x0AB0]"

abbreviation gu_word17 :: jsstr where
  "gu_word17 \<equiv> [0x0AB8, 0x0ABE, 0x0A82, 0x0A9C]"

definition gu_meridiem :: "nat \<Rightarrow> nat \<Rightarrow> bool \<Rightarrow> jsstr" where
  "gu_meridiem h m low =
     (if h < 4 then gu_word0
      else if h < 10 then gu_word4
      else if h < 17 then gu_word10
      else if h < 20 then gu_word17
      else gu_word0)"

definition gu_meridiemHour :: "nat \<Rightarrow> jsstr \<Rightarrow> nat option" where
  "gu_meridiemHour h w =
     (let A = if h = 12 then 0 else h in
      if gu_word0 = w then (if A < 4 then Some A
        else Some (A + 12))
      else if gu_word4 = w then Some A
      else if gu_word10 = w then (if A \<ge> 10 then Some A
        else Some (A + 12))
      else if gu_word17 = w then Some (A + 12)
      else None)"

definition gu_time :: time_words where
  "gu_time =
     \<lparr>meridiem_word = gu_meridiem,
      meridiemParse = [gu_word0, gu_word10, gu_word4, gu_word17],
      isPM_of = core_isPM,
      meridiemHour_of = Some gu_meridiemHour\<rparr>"

lemmas gu_defs = gu_time_def gu_meridiem_def gu_meridiemHour_def

interpretation gu_clock: day_words gu_time
  by unfold_locales (auto simp: gu_defs clock_simps)

section \<open>ms\<close>

abbreviation ms_word0 :: jsstr where
  "ms_word0 \<equiv> [0x0070, 0x0061, 0x0067, 0x0069]"

abbreviation ms_word11 :: jsstr where
  "ms_word11 \<equiv> [0x0074, 0x0065, 0x006E, 0x0067, 0x0061, 0x0068, 0x0061, 0x0072, 0x0069]"

abbreviation ms_word15 :: jsstr where
  "ms_word15 \<equiv> [0x0070, 0x0065, 0x0074, 0x0061, 0x006E, 0x0067]"

abbreviation ms_word19 :: jsstr where
  "ms_word19 \<equiv> [0x006D, 0x0061, 0x006C, 0x0061, 0x006D]"

definition ms_meridiem :: "nat \<Rightarrow> nat \<Rightarrow> bool \<Rightarrow> jsstr" where
  "ms_meridiem h m low =
     (if h < 11 then ms_word0
      else if h < 15 then ms_word11
      else if h < 19 then ms_word15
      else ms_word19)"

definition ms_meridiemHour :: "nat \<Rightarrow> jsstr \<Rightarrow> nat option" where
  "ms_meridiemHour h w =
     (let A = if h = 12 then 0 else h in
      if ms_word0 = w then Some A
      else if ms_word11 = w then (if A \<ge> 11 then Some A
        else Some (A + 12))
      else if ms_word15 = w \<or> ms_word19 = w then Some (A + 12)
      else None)"

definition ms_time :: time_words where
  "ms_time =
     \<lparr>meridiem_word = ms_meridiem,
      meridiemParse = [ms_word0, ms_word11, ms_word15, ms_word19],
      isPM_of = core_isPM,
      meridiemHour_of = Some ms_meridiemHour\<rparr>"

lemmas ms_defs = ms_time_def ms_meridiem_def ms_meridiemHour_def

interpretation ms_clock: day_words ms_time
  by unfold_locales (auto simp: ms_defs clock_simps)

section \<open>pa-in\<close>

abbreviation pa_in_word0 :: jsstr where
  "pa_in_word0 \<equiv> [0x0A30, 0x0A3E, 0x0A24]"

abbreviation pa_in_word4 :: jsstr where
  "pa_in_word4 \<equiv> [0x0A38, 0x0A35, 0x0A47, 0x0A30]"

abbreviation pa_in_word10 :: jsstr where
  "pa_in_word10 \<equiv> [0x0A26, 0x0A41, 0x0A2A, 0x0A39, 0x0A3F, 0x0A30]"

abbreviation pa_in_word17 :: jsstr where
  "pa_in_word17 \<equiv> [0x0A38, 0x0A3C, 0x0A3E, 0x0A2E]"

definition pa_in_meridiem :: "nat \<Rightarrow> nat \<Rightarrow> bool \<Rightarrow> jsstr" where
  "pa_in_meridiem h m low =
     (if h < 4 then pa_in_word0
      else if h < 10 then pa_in_word4
      else if h < 17 then pa_in_word10
      else if h < 20 then pa_in_word17
      else pa_in_word0)"

definition pa_in_meridiemHour :: "nat \<Rightarrow> jsstr \<Rightarrow> nat option" where
  "pa_in_meridiemHour h w =
     (let A = if h = 12 then 0 else h in
      if pa_in_word0 = w then (if A < 4 then Some A
        else Some (A + 12))
      else if pa_in_word4 = w then Some A
      else if pa_in_word10 = w then (if A \<ge> 10 then Some A
        else Some (A + 12))
      else if pa_in_word17 = w then Some (A + 12)
      else None)"

definition pa_in_time :: time_words where
  "pa_in_time =
     \<lparr>meridiem_word = pa_in_meridiem,
      meridiemParse = [pa_in_word0, pa_in_word4, pa_in_word10, pa_in_word17],
      isPM_of = core_isPM,
      meridiemHour_of = Some pa_in_meridiemHour\<rparr>"

lemmas pa_in_defs = pa_in_time_def pa_in_meridiem_def pa_in_meridiemHour_def

interpretation pa_in_clock: day_words pa_in_time
  by unfold_locales (auto simp: pa_in_defs clock_simps)

end
