(* ===== verification/Moment_Half_Days.thy ===== *)
theory Moment_Half_Days
  imports Moment_Clock
begin

text \<open>
  Locales of the bundle that define \<open>isPM\<close> and no \<open>meridiemHour\<close>. For a locale \<open>X\<close>, \<open>X_meridiem\<close>
  and \<open>X_isPM\<close> are the functions of that name in the argument of \<open>defineLocale\<close>, \<open>X_time\<close> is the
  part of the locale object that concerns the clock, with the words of \<open>meridiemParse\<close> in
  their order, and \<open>X_wordN\<close> is the word printed from hour \<open>N\<close> on (\<open>_lower\<close> when \<open>isLower\<close> is
  set), as UTF-16 code units. Every locale is an instance of \<open>half_days\<close>.
\<close>

section \<open>ja\<close>

abbreviation ja_word0 :: jsstr where
  "ja_word0 \<equiv> [0x5348, 0x524D]"

abbreviation ja_word12 :: jsstr where
  "ja_word12 \<equiv> [0x5348, 0x5F8C]"

definition ja_meridiem :: "nat \<Rightarrow> nat \<Rightarrow> bool \<Rightarrow> jsstr" where
  "ja_meridiem h m low =
     (if h < 12 then ja_word0
      else ja_word12)"

definition ja_isPM :: "jsstr \<Rightarrow> bool" where
  "ja_isPM w \<longleftrightarrow> ja_word12 = w"

definition ja_time :: time_words where
  "ja_time =
     \<lparr>meridiem_word = ja_meridiem,
      meridiemParse = [ja_word0, ja_word12],
      isPM_of = ja_isPM,
      meridiemHour_of = None\<rparr>"

lemmas ja_defs = ja_time_def ja_meridiem_def ja_isPM_def

interpretation ja_clock: half_days ja_time
  by unfold_locales (auto simp: ja_defs)

section \<open>tr\<close>

abbreviation tr_word0 :: jsstr where
  "tr_word0 \<equiv> [0x00D6, 0x00D6]"

abbreviation tr_word0_lower :: jsstr where
  "tr_word0_lower \<equiv> [0x00F6, 0x00F6]"

abbreviation tr_word12 :: jsstr where
  "tr_word12 \<equiv> [0x00D6, 0x0053]"

abbreviation tr_word12_lower :: jsstr where
  "tr_word12_lower \<equiv> [0x00F6, 0x0073]"

definition tr_meridiem :: "nat \<Rightarrow> nat \<Rightarrow> bool \<Rightarrow> jsstr" where
  "tr_meridiem h m low =
     (if h < 12 then (if low then tr_word0_lower
        else tr_word0)
      else if low then tr_word12_lower
      else tr_word12)"

definition tr_isPM :: "jsstr \<Rightarrow> bool" where
  "tr_isPM w \<longleftrightarrow> tr_word12_lower = w \<or> tr_word12 = w"

definition tr_time :: time_words where
  "tr_time =
     \<lparr>meridiem_word = tr_meridiem,
      meridiemParse = [tr_word0_lower, tr_word0, tr_word12_lower, tr_word12],
      isPM_of = tr_isPM,
      meridiemHour_of = None\<rparr>"

lemmas tr_defs = tr_time_def tr_meridiem_def tr_isPM_def

interpretation tr_clock: half_days tr_time
  by unfold_locales (auto simp: tr_defs)

section \<open>th\<close>

abbreviation th_word0 :: jsstr where
  "th_word0 \<equiv> [0x0E01, 0x0E48, 0x0E2D, 0x0E19, 0x0E40, 0x0E17, 0x0E35, 0x0E48, 0x0E22, 0x0E07]"

abbreviation th_word12 :: jsstr where
  "th_word12 \<equiv> [0x0E2B, 0x0E25, 0x0E31, 0x0E07, 0x0E40, 0x0E17, 0x0E35, 0x0E48, 0x0E22, 0x0E07]"

definition th_meridiem :: "nat \<Rightarrow> nat \<Rightarrow> bool \<Rightarrow> jsstr" where
  "th_meridiem h m low =
     (if h < 12 then th_word0
      else th_word12)"

definition th_isPM :: "jsstr \<Rightarrow> bool" where
  "th_isPM w \<longleftrightarrow> th_word12 = w"

definition th_time :: time_words where
  "th_time =
     \<lparr>meridiem_word = th_meridiem,
      meridiemParse = [th_word0, th_word12],
      isPM_of = th_isPM,
      meridiemHour_of = None\<rparr>"

lemmas th_defs = th_time_def th_meridiem_def th_isPM_def

interpretation th_clock: half_days th_time
  by unfold_locales (auto simp: th_defs)

section \<open>ar-ly\<close>

abbreviation ar_ly_word0 :: jsstr where
  "ar_ly_word0 \<equiv> [0x0635]"

abbreviation ar_ly_word12 :: jsstr where
  "ar_ly_word12 \<equiv> [0x0645]"

definition ar_ly_meridiem :: "nat \<Rightarrow> nat \<Rightarrow> bool \<Rightarrow> jsstr" where
  "ar_ly_meridiem h m low =
     (if h < 12 then ar_ly_word0
      else ar_ly_word12)"

definition ar_ly_isPM :: "jsstr \<Rightarrow> bool" where
  "ar_ly_isPM w \<longleftrightarrow> ar_ly_word12 = w"

definition ar_ly_time :: time_words where
  "ar_ly_time =
     \<lparr>meridiem_word = ar_ly_meridiem,
      meridiemParse = [ar_ly_word0, ar_ly_word12],
      isPM_of = ar_ly_isPM,
      meridiemHour_of = None\<rparr>"

lemmas ar_ly_defs = ar_ly_time_def ar_ly_meridiem_def ar_ly_isPM_def

interpretation ar_ly_clock: half_days ar_ly_time
  by unfold_locales (auto simp: ar_ly_defs)

section \<open>be\<close>

abbreviation be_word0 :: jsstr where
  "be_word0 \<equiv> [0x043D, 0x043E, 0x0447, 0x044B]"

abbreviation be_word4 :: jsstr where
  "be_word4 \<equiv> [0x0440, 0x0430, 0x043D, 0x0456, 0x0446, 0x044B]"

abbreviation be_word12 :: jsstr where
  "be_word12 \<equiv> [0x0434, 0x043D, 0x044F]"

abbreviation be_word17 :: jsstr where
  "be_word17 \<equiv> [0x0432, 0x0435, 0x0447, 0x0430, 0x0440, 0x0430]"

definition be_meridiem :: "nat \<Rightarrow> nat \<Rightarrow> bool \<Rightarrow> jsstr" where
  "be_meridiem h m low =
     (if h < 4 then be_word0
      else if h < 12 then be_word4
      else if h < 17 then be_word12
      else be_word17)"

definition be_isPM :: "jsstr \<Rightarrow> bool" where
  "be_isPM w \<longleftrightarrow> w = be_word12 \<or> w = be_word17"

definition be_time :: time_words where
  "be_time =
     \<lparr>meridiem_word = be_meridiem,
      meridiemParse = [be_word0, be_word4, be_word12, be_word17],
      isPM_of = be_isPM,
      meridiemHour_of = None\<rparr>"

lemmas be_defs = be_time_def be_meridiem_def be_isPM_def

interpretation be_clock: half_days be_time
  by unfold_locales (auto simp: be_defs)

section \<open>ko\<close>

abbreviation ko_word0 :: jsstr where
  "ko_word0 \<equiv> [0xC624, 0xC804]"

abbreviation ko_word12 :: jsstr where
  "ko_word12 \<equiv> [0xC624, 0xD6C4]"

definition ko_meridiem :: "nat \<Rightarrow> nat \<Rightarrow> bool \<Rightarrow> jsstr" where
  "ko_meridiem h m low =
     (if h < 12 then ko_word0
      else ko_word12)"

definition ko_isPM :: "jsstr \<Rightarrow> bool" where
  "ko_isPM w \<longleftrightarrow> ko_word12 = w"

definition ko_time :: time_words where
  "ko_time =
     \<lparr>meridiem_word = ko_meridiem,
      meridiemParse = [ko_word0, ko_word12],
      isPM_of = ko_isPM,
      meridiemHour_of = None\<rparr>"

lemmas ko_defs = ko_time_def ko_meridiem_def ko_isPM_def

interpretation ko_clock: half_days ko_time
  by unfold_locales (auto simp: ko_defs)

section \<open>ku\<close>

abbreviation ku_word0 :: jsstr where
  "ku_word0 \<equiv> [0x0628, 0x0647, 0x200C, 0x06CC, 0x0627, 0x0646, 0x06CC]"

abbreviation ku_word12 :: jsstr where
  "ku_word12 \<equiv> [0x0626, 0x06CE, 0x0648, 0x0627, 0x0631, 0x0647, 0x200C]"

definition ku_meridiem :: "nat \<Rightarrow> nat \<Rightarrow> bool \<Rightarrow> jsstr" where
  "ku_meridiem h m low =
     (if h < 12 then ku_word0
      else ku_word12)"

definition ku_isPM :: "jsstr \<Rightarrow> bool" where
  "ku_isPM w \<longleftrightarrow> match_word [ku_word12] w \<noteq> None"

definition ku_time :: time_words where
  "ku_time =
     \<lparr>meridiem_word = ku_meridiem,
      meridiemParse = [ku_word12, ku_word0],
      isPM_of = ku_isPM,
      meridiemHour_of = None\<rparr>"

lemmas ku_defs = ku_time_def ku_meridiem_def ku_isPM_def

interpretation ku_clock: half_days ku_time
  by unfold_locales (auto simp: ku_defs)

section \<open>az\<close>

abbreviation az_word0 :: jsstr where
  "az_word0 \<equiv> [0x0067, 0x0065, 0x0063, 0x0259]"

abbreviation az_word4 :: jsstr where
  "az_word4 \<equiv> [0x0073, 0x0259, 0x0068, 0x0259, 0x0072]"

abbreviation az_word12 :: jsstr where
  "az_word12 \<equiv> [0x0067, 0x00FC, 0x006E, 0x0064, 0x00FC, 0x007A]"

abbreviation az_word17 :: jsstr where
  "az_word17 \<equiv> [0x0061, 0x0078, 0x015F, 0x0061, 0x006D]"

definition az_meridiem :: "nat \<Rightarrow> nat \<Rightarrow> bool \<Rightarrow> jsstr" where
  "az_meridiem h m low =
     (if h < 4 then az_word0
      else if h < 12 then az_word4
      else if h < 17 then az_word12
      else az_word17)"

definition az_isPM :: "jsstr \<Rightarrow> bool" where
  "az_isPM w \<longleftrightarrow> w = az_word12 \<or> w = az_word17"

definition az_time :: time_words where
  "az_time =
     \<lparr>meridiem_word = az_meridiem,
      meridiemParse = [az_word0, az_word4, az_word12, az_word17],
      isPM_of = az_isPM,
      meridiemHour_of = None\<rparr>"

lemmas az_defs = az_time_def az_meridiem_def az_isPM_def

interpretation az_clock: half_days az_time
  by unfold_locales (auto simp: az_defs)

section \<open>ur\<close>

abbreviation ur_word0 :: jsstr where
  "ur_word0 \<equiv> [0x0635, 0x0628, 0x062D]"

abbreviation ur_word12 :: jsstr where
  "ur_word12 \<equiv> [0x0634, 0x0627, 0x0645]"

definition ur_meridiem :: "nat \<Rightarrow> nat \<Rightarrow> bool \<Rightarrow> jsstr" where
  "ur_meridiem h m low =
     (if h < 12 then ur_word0
      else ur_word12)"

definition ur_isPM :: "jsstr \<Rightarrow> bool" where
  "ur_isPM w \<longleftrightarrow> ur_word12 = w"

definition ur_time :: time_words where
  "ur_time =
     \<lparr>meridiem_word = ur_meridiem,
      meridiemParse = [ur_word0, ur_word12],
      isPM_of = ur_isPM,
      meridiemHour_of = None\<rparr>"

lemmas ur_defs = ur_time_def ur_meridiem_def ur_isPM_def

interpretation ur_clock: half_days ur_time
  by unfold_locales (auto simp: ur_defs)

section \<open>dv\<close>

abbreviation dv_word0 :: jsstr where
  "dv_word0 \<equiv> [0x0789, 0x0786]"

abbreviation dv_word12 :: jsstr where
  "dv_word12 \<equiv> [0x0789, 0x078A]"

definition dv_meridiem :: "nat \<Rightarrow> nat \<Rightarrow> bool \<Rightarrow> jsstr" where
  "dv_meridiem h m low =
     (if h < 12 then dv_word0
      else dv_word12)"

definition dv_isPM :: "jsstr \<Rightarrow> bool" where
  "dv_isPM w \<longleftrightarrow> dv_word12 = w"

definition dv_time :: time_words where
  "dv_time =
     \<lparr>meridiem_word = dv_meridiem,
      meridiemParse = [dv_word0, dv_word12],
      isPM_of = dv_isPM,
      meridiemHour_of = None\<rparr>"

lemmas dv_defs = dv_time_def dv_meridiem_def dv_isPM_def

interpretation dv_clock: half_days dv_time
  by unfold_locales (auto simp: dv_defs)

section \<open>sd\<close>

abbreviation sd_word0 :: jsstr where
  "sd_word0 \<equiv> [0x0635, 0x0628, 0x062D]"

abbreviation sd_word12 :: jsstr where
  "sd_word12 \<equiv> [0x0634, 0x0627, 0x0645]"

definition sd_meridiem :: "nat \<Rightarrow> nat \<Rightarrow> bool \<Rightarrow> jsstr" where
  "sd_meridiem h m low =
     (if h < 12 then sd_word0
      else sd_word12)"

definition sd_isPM :: "jsstr \<Rightarrow> bool" where
  "sd_isPM w \<longleftrightarrow> sd_word12 = w"

definition sd_time :: time_words where
  "sd_time =
     \<lparr>meridiem_word = sd_meridiem,
      meridiemParse = [sd_word0, sd_word12],
      isPM_of = sd_isPM,
      meridiemHour_of = None\<rparr>"

lemmas sd_defs = sd_time_def sd_meridiem_def sd_isPM_def

interpretation sd_clock: half_days sd_time
  by unfold_locales (auto simp: sd_defs)

section \<open>ar-sa\<close>

abbreviation ar_sa_word0 :: jsstr where
  "ar_sa_word0 \<equiv> [0x0635]"

abbreviation ar_sa_word12 :: jsstr where
  "ar_sa_word12 \<equiv> [0x0645]"

definition ar_sa_meridiem :: "nat \<Rightarrow> nat \<Rightarrow> bool \<Rightarrow> jsstr" where
  "ar_sa_meridiem h m low =
     (if h < 12 then ar_sa_word0
      else ar_sa_word12)"

definition ar_sa_isPM :: "jsstr \<Rightarrow> bool" where
  "ar_sa_isPM w \<longleftrightarrow> ar_sa_word12 = w"

definition ar_sa_time :: time_words where
  "ar_sa_time =
     \<lparr>meridiem_word = ar_sa_meridiem,
      meridiemParse = [ar_sa_word0, ar_sa_word12],
      isPM_of = ar_sa_isPM,
      meridiemHour_of = None\<rparr>"

lemmas ar_sa_defs = ar_sa_time_def ar_sa_meridiem_def ar_sa_isPM_def

interpretation ar_sa_clock: half_days ar_sa_time
  by unfold_locales (auto simp: ar_sa_defs)

section \<open>fa\<close>

abbreviation fa_word0 :: jsstr where
  "fa_word0 \<equiv> [0x0642, 0x0628, 0x0644, 0x0020, 0x0627, 0x0632, 0x0020, 0x0638, 0x0647, 0x0631]"

abbreviation fa_word12 :: jsstr where
  "fa_word12 \<equiv> [0x0628, 0x0639, 0x062F, 0x0020, 0x0627, 0x0632, 0x0020, 0x0638, 0x0647, 0x0631]"

definition fa_meridiem :: "nat \<Rightarrow> nat \<Rightarrow> bool \<Rightarrow> jsstr" where
  "fa_meridiem h m low =
     (if h < 12 then fa_word0
      else fa_word12)"

definition fa_isPM :: "jsstr \<Rightarrow> bool" where
  "fa_isPM w \<longleftrightarrow> match_word [fa_word12] w \<noteq> None"

definition fa_time :: time_words where
  "fa_time =
     \<lparr>meridiem_word = fa_meridiem,
      meridiemParse = [fa_word0, fa_word12],
      isPM_of = fa_isPM,
      meridiemHour_of = None\<rparr>"

lemmas fa_defs = fa_time_def fa_meridiem_def fa_isPM_def

interpretation fa_clock: half_days fa_time
  by unfold_locales (auto simp: fa_defs)

section \<open>ar\<close>

abbreviation ar_word0 :: jsstr where
  "ar_word0 \<equiv> [0x0635]"

abbreviation ar_word12 :: jsstr where
  "ar_word12 \<equiv> [0x0645]"

definition ar_meridiem :: "nat \<Rightarrow> nat \<Rightarrow> bool \<Rightarrow> jsstr" where
  "ar_meridiem h m low =
     (if h < 12 then ar_word0
      else ar_word12)"

definition ar_isPM :: "jsstr \<Rightarrow> bool" where
  "ar_isPM w \<longleftrightarrow> ar_word12 = w"

definition ar_time :: time_words where
  "ar_time =
     \<lparr>meridiem_word = ar_meridiem,
      meridiemParse = [ar_word0, ar_word12],
      isPM_of = ar_isPM,
      meridiemHour_of = None\<rparr>"

lemmas ar_defs = ar_time_def ar_meridiem_def ar_isPM_def

interpretation ar_clock: half_days ar_time
  by unfold_locales (auto simp: ar_defs)

section \<open>ar-dz\<close>

abbreviation ar_dz_word0 :: jsstr where
  "ar_dz_word0 \<equiv> [0x0635]"

abbreviation ar_dz_word12 :: jsstr where
  "ar_dz_word12 \<equiv> [0x0645]"

definition ar_dz_meridiem :: "nat \<Rightarrow> nat \<Rightarrow> bool \<Rightarrow> jsstr" where
  "ar_dz_meridiem h m low =
     (if h < 12 then ar_dz_word0
      else ar_dz_word12)"

definition ar_dz_isPM :: "jsstr \<Rightarrow> bool" where
  "ar_dz_isPM w \<longleftrightarrow> ar_dz_word12 = w"

definition ar_dz_time :: time_words where
  "ar_dz_time =
     \<lparr>meridiem_word = ar_dz_meridiem,
      meridiemParse = [ar_dz_word0, ar_dz_word12],
      isPM_of = ar_dz_isPM,
      meridiemHour_of = None\<rparr>"

lemmas ar_dz_defs = ar_dz_time_def ar_dz_meridiem_def ar_dz_isPM_def

interpretation ar_dz_clock: half_days ar_dz_time
  by unfold_locales (auto simp: ar_dz_defs)

section \<open>uk\<close>

abbreviation uk_word0 :: jsstr where
  "uk_word0 \<equiv> [0x043D, 0x043E, 0x0447, 0x0456]"

abbreviation uk_word4 :: jsstr where
  "uk_word4 \<equiv> [0x0440, 0x0430, 0x043D, 0x043A, 0x0443]"

abbreviation uk_word12 :: jsstr where
  "uk_word12 \<equiv> [0x0434, 0x043D, 0x044F]"

abbreviation uk_word17 :: jsstr where
  "uk_word17 \<equiv> [0x0432, 0x0435, 0x0447, 0x043E, 0x0440, 0x0430]"

definition uk_meridiem :: "nat \<Rightarrow> nat \<Rightarrow> bool \<Rightarrow> jsstr" where
  "uk_meridiem h m low =
     (if h < 4 then uk_word0
      else if h < 12 then uk_word4
      else if h < 17 then uk_word12
      else uk_word17)"

definition uk_isPM :: "jsstr \<Rightarrow> bool" where
  "uk_isPM w \<longleftrightarrow> w = uk_word12 \<or> w = uk_word17"

definition uk_time :: time_words where
  "uk_time =
     \<lparr>meridiem_word = uk_meridiem,
      meridiemParse = [uk_word0, uk_word4, uk_word12, uk_word17],
      isPM_of = uk_isPM,
      meridiemHour_of = None\<rparr>"

lemmas uk_defs = uk_time_def uk_meridiem_def uk_isPM_def

interpretation uk_clock: half_days uk_time
  by unfold_locales (auto simp: uk_defs)

section \<open>lo\<close>

abbreviation lo_word0 :: jsstr where
  "lo_word0 \<equiv> [0x0E95, 0x0EAD, 0x0E99, 0x0EC0, 0x0E8A, 0x0EBB, 0x0EC9, 0x0EB2]"

abbreviation lo_word12 :: jsstr where
  "lo_word12 \<equiv> [0x0E95, 0x0EAD, 0x0E99, 0x0EC1, 0x0EA5, 0x0E87]"

definition lo_meridiem :: "nat \<Rightarrow> nat \<Rightarrow> bool \<Rightarrow> jsstr" where
  "lo_meridiem h m low =
     (if h < 12 then lo_word0
      else lo_word12)"

definition lo_isPM :: "jsstr \<Rightarrow> bool" where
  "lo_isPM w \<longleftrightarrow> lo_word12 = w"

definition lo_time :: time_words where
  "lo_time =
     \<lparr>meridiem_word = lo_meridiem,
      meridiemParse = [lo_word0, lo_word12],
      isPM_of = lo_isPM,
      meridiemHour_of = None\<rparr>"

lemmas lo_defs = lo_time_def lo_meridiem_def lo_isPM_def

interpretation lo_clock: half_days lo_time
  by unfold_locales (auto simp: lo_defs)

section \<open>he\<close>

abbreviation he_word0 :: jsstr where
  "he_word0 \<equiv> [0x05DC, 0x05E4, 0x05E0, 0x05D5, 0x05EA, 0x0020, 0x05D1, 0x05D5, 0x05E7, 0x05E8]"

abbreviation he_word5 :: jsstr where
  "he_word5 \<equiv> [0x05D1, 0x05D1, 0x05D5, 0x05E7, 0x05E8]"

abbreviation he_word10 :: jsstr where
  "he_word10 \<equiv> [0x05DC, 0x05E4, 0x05E0, 0x05D9, 0x0020, 0x05D4, 0x05E6, 0x05D4, 0x05E8, 0x05D9, 0x05D9,
        0x05DD]"

abbreviation he_word10_lower :: jsstr where
  "he_word10_lower \<equiv> [0x05DC, 0x05E4, 0x05E0, 0x05D4, 0x0022, 0x05E6]"

abbreviation he_word12 :: jsstr where
  "he_word12 \<equiv> [0x05D0, 0x05D7, 0x05E8, 0x05D9, 0x0020, 0x05D4, 0x05E6, 0x05D4, 0x05E8, 0x05D9, 0x05D9,
        0x05DD]"

abbreviation he_word12_lower :: jsstr where
  "he_word12_lower \<equiv> [0x05D0, 0x05D7, 0x05D4, 0x0022, 0x05E6]"

abbreviation he_word18 :: jsstr where
  "he_word18 \<equiv> [0x05D1, 0x05E2, 0x05E8, 0x05D1]"

definition he_meridiem :: "nat \<Rightarrow> nat \<Rightarrow> bool \<Rightarrow> jsstr" where
  "he_meridiem h m low =
     (if h < 5 then he_word0
      else if h < 10 then he_word5
      else if h < 12 then (if low then he_word10_lower
        else he_word10)
      else if h < 18 then (if low then he_word12_lower
        else he_word12)
      else he_word18)"

definition he_isPM :: "jsstr \<Rightarrow> bool" where
  "he_isPM w \<longleftrightarrow> w = he_word12_lower \<or> w = he_word12 \<or> w = he_word18"

definition he_time :: time_words where
  "he_time =
     \<lparr>meridiem_word = he_meridiem,
      meridiemParse = [he_word12_lower, he_word10_lower, he_word12, he_word10, he_word0,
                       he_word5, he_word18],
      isPM_of = he_isPM,
      meridiemHour_of = None\<rparr>"

lemmas he_defs = he_time_def he_meridiem_def he_isPM_def

interpretation he_clock: half_days he_time
  by unfold_locales (auto simp: he_defs)

section \<open>sq\<close>

abbreviation sq_word0 :: jsstr where
  "sq_word0 \<equiv> [0x0050, 0x0044]"

abbreviation sq_word12 :: jsstr where
  "sq_word12 \<equiv> [0x004D, 0x0044]"

definition sq_meridiem :: "nat \<Rightarrow> nat \<Rightarrow> bool \<Rightarrow> jsstr" where
  "sq_meridiem h m low =
     (if h < 12 then sq_word0
      else sq_word12)"

definition sq_isPM :: "jsstr \<Rightarrow> bool" where
  "sq_isPM w \<longleftrightarrow> take 1 w = [0x004D]"

definition sq_time :: time_words where
  "sq_time =
     \<lparr>meridiem_word = sq_meridiem,
      meridiemParse = [sq_word0, sq_word12],
      isPM_of = sq_isPM,
      meridiemHour_of = None\<rparr>"

lemmas sq_defs = sq_time_def sq_meridiem_def sq_isPM_def

interpretation sq_clock: half_days sq_time
  by unfold_locales (auto simp: sq_defs)

section \<open>hy-am\<close>

abbreviation hy_am_word0 :: jsstr where
  "hy_am_word0 \<equiv> [0x0563, 0x056B, 0x0577, 0x0565, 0x0580, 0x057E, 0x0561]"

abbreviation hy_am_word4 :: jsstr where
  "hy_am_word4 \<equiv> [0x0561, 0x057C, 0x0561, 0x057E, 0x0578, 0x057F, 0x057E, 0x0561]"

abbreviation hy_am_word12 :: jsstr where
  "hy_am_word12 \<equiv> [0x0581, 0x0565, 0x0580, 0x0565, 0x056F, 0x057E, 0x0561]"

abbreviation hy_am_word17 :: jsstr where
  "hy_am_word17 \<equiv> [0x0565, 0x0580, 0x0565, 0x056F, 0x0578, 0x0575, 0x0561, 0x0576]"

definition hy_am_meridiem :: "nat \<Rightarrow> nat \<Rightarrow> bool \<Rightarrow> jsstr" where
  "hy_am_meridiem h m low =
     (if h < 4 then hy_am_word0
      else if h < 12 then hy_am_word4
      else if h < 17 then hy_am_word12
      else hy_am_word17)"

definition hy_am_isPM :: "jsstr \<Rightarrow> bool" where
  "hy_am_isPM w \<longleftrightarrow> w = hy_am_word12 \<or> w = hy_am_word17"

definition hy_am_time :: time_words where
  "hy_am_time =
     \<lparr>meridiem_word = hy_am_meridiem,
      meridiemParse = [hy_am_word0, hy_am_word4, hy_am_word12, hy_am_word17],
      isPM_of = hy_am_isPM,
      meridiemHour_of = None\<rparr>"

lemmas hy_am_defs = hy_am_time_def hy_am_meridiem_def hy_am_isPM_def

interpretation hy_am_clock: half_days hy_am_time
  by unfold_locales (auto simp: hy_am_defs)

section \<open>km\<close>

abbreviation km_word0 :: jsstr where
  "km_word0 \<equiv> [0x1796, 0x17D2, 0x179A, 0x17B9, 0x1780]"

abbreviation km_word12 :: jsstr where
  "km_word12 \<equiv> [0x179B, 0x17D2, 0x1784, 0x17B6, 0x1785]"

definition km_meridiem :: "nat \<Rightarrow> nat \<Rightarrow> bool \<Rightarrow> jsstr" where
  "km_meridiem h m low =
     (if h < 12 then km_word0
      else km_word12)"

definition km_isPM :: "jsstr \<Rightarrow> bool" where
  "km_isPM w \<longleftrightarrow> km_word12 = w"

definition km_time :: time_words where
  "km_time =
     \<lparr>meridiem_word = km_meridiem,
      meridiemParse = [km_word0, km_word12],
      isPM_of = km_isPM,
      meridiemHour_of = None\<rparr>"

lemmas km_defs = km_time_def km_meridiem_def km_isPM_def

interpretation km_clock: half_days km_time
  by unfold_locales (auto simp: km_defs)

end
