(* ===== verification/Moment_Text.thy ===== *)
theory Moment_Text
  imports Js_Utils
begin

text \<open>
  The two hooks a locale of the date library may put around texts: \<open>postformat\<close> is applied to
  every printed date, \<open>preparse\<close> to every input before it is read. The prototype's own are
  the identity. In the locales of the bundle they replace single characters: the
  decimal digits by native ones and back, the comma by the Arabic comma and back.

  \<open>unit_text\<close> is the contract of a locale whose hooks work character by character along two
  tables; \<open>locale_text\<close> extends it with the laws that make the tables inverse to each other.
\<close>

section \<open>Replacement along a table\<close>

record text_hooks =
  preparse :: "jsstr \<Rightarrow> jsstr"
  postformat :: "jsstr \<Rightarrow> jsstr"

text \<open>\<open>li\<close>, the hooks of the prototype.\<close>

definition core_text :: "jsstr \<Rightarrow> jsstr" where
  "core_text s = s"

text \<open>\<open>s.replace(/[...]/g, f)\<close> for a class of single characters.\<close>

definition replace_class :: "jschar list \<Rightarrow> (jschar \<Rightarrow> jsstr) \<Rightarrow> jsstr \<Rightarrow> jsstr" where
  "replace_class cls f s = concat (map (\<lambda>c. if c \<in> set cls then f c else [c]) s)"

text \<open>\<open>\d\<close>\<close>

abbreviation decimal_class :: "jschar list" where
  "decimal_class \<equiv>
     [0x0030, 0x0031, 0x0032, 0x0033, 0x0034, 0x0035, 0x0036, 0x0037, 0x0038, 0x0039]"

text \<open>\<open>function (c) { return table[c] }\<close>: a key that is missing prints as \<open>undefined\<close>.\<close>

definition table_text :: "(jschar \<times> jschar) list \<Rightarrow> jschar \<Rightarrow> jsstr" where
  "table_text tbl c = (case map_of tbl c of Some d \<Rightarrow> [d] | None \<Rightarrow> lit ''undefined'')"

text \<open>The effect on one character, once no key is missing.\<close>

definition swap_unit :: "(jschar \<times> jschar) list \<Rightarrow> jschar \<Rightarrow> jschar" where
  "swap_unit tbl c = (case map_of tbl c of Some d \<Rightarrow> d | None \<Rightarrow> c)"

lemma swap_unit_Nil [simp]: "swap_unit [] = (\<lambda>c. c)"
  by (simp add: swap_unit_def fun_eq_iff)

lemma replace_class_table:
  assumes "\<forall>c\<in>set cls. map_of tbl c \<noteq> None" "\<forall>x\<in>set tbl. fst x \<in> set cls"
  shows "replace_class cls (table_text tbl) s = map (swap_unit tbl) s"
proof -
  have "(if c \<in> set cls then table_text tbl c else [c]) = [swap_unit tbl c]" for c
  proof (cases "c \<in> set cls")
    case True
    then show ?thesis using assms(1) by (auto simp: table_text_def swap_unit_def)
  next
    case False
    then have "map_of tbl c = None"
      using assms(2) by (force simp: map_of_eq_None_iff)
    then show ?thesis using False by (simp add: swap_unit_def)
  qed
  then show ?thesis by (induction s) (simp_all add: replace_class_def)
qed

lemma replace_class_single: "replace_class [c] (\<lambda>_. [d]) s = map (swap_unit [(c, d)]) s"
  by (induction s) (auto simp: replace_class_def swap_unit_def)

lemma swap_unit_append:
  assumes "\<forall>x\<in>set p. map_of p' (snd x) = None"
  shows "swap_unit p' (swap_unit p c) = swap_unit (p @ p') c"
proof (cases "map_of p c")
  case None
  then show ?thesis by (simp add: swap_unit_def map_add_def split: option.split)
next
  case (Some d)
  then have "map_of p' d = None" using assms map_of_SomeD by force
  then show ?thesis using Some by (simp add: swap_unit_def)
qed

lemma swap_unit_numeral:
  "swap_unit ((a, b) # tbl) (numeral k) =
     (if numeral k = a then b else swap_unit tbl (numeral k))"
  "swap_unit [] (numeral k) = numeral k"
  by (simp_all add: swap_unit_def)

lemmas text_simps = replace_class_table replace_class_single swap_unit_append swap_unit_numeral Let_def
  core_text_def

section \<open>The contracts of the hooks\<close>

locale unit_text =
  fixes T :: text_hooks and q p :: "(jschar \<times> jschar) list"
  assumes preparse_units: "preparse T s = map (swap_unit q) s"
    and postformat_units: "postformat T s = map (swap_unit p) s"
begin

lemma preparse_length: "length (preparse T s) = length s"
  by (simp add: preparse_units)

lemma postformat_length: "length (postformat T s) = length s"
  by (simp add: postformat_units)

lemma postformat_append: "postformat T (s @ t) = postformat T s @ postformat T t"
  by (simp add: postformat_units)

lemma preparse_append: "preparse T (s @ t) = preparse T s @ preparse T t"
  by (simp add: preparse_units)

end

locale locale_text = unit_text +
  assumes inverse_p: "\<forall>x\<in>set p. swap_unit q (snd x) = fst x"
    and inverse_q: "\<forall>x\<in>set q. swap_unit p (snd x) = fst x"
begin

lemma swap_back: "c \<notin> fst ` set q \<Longrightarrow> swap_unit q (swap_unit p c) = c"
  using inverse_p by (cases "map_of p c") (force simp: swap_unit_def map_of_eq_None_iff [symmetric]
    dest: map_of_SomeD split: option.splits)+

lemma swap_forth: "c \<notin> fst ` set p \<Longrightarrow> swap_unit p (swap_unit q c) = c"
  using inverse_q by (cases "map_of q c") (force simp: swap_unit_def map_of_eq_None_iff [symmetric]
    dest: map_of_SomeD split: option.splits)+

lemma print_read: "set s \<inter> fst ` set q = {} \<Longrightarrow> preparse T (postformat T s) = s"
  by (induction s) (auto simp: preparse_units postformat_units swap_back)

lemma read_print: "set s \<inter> fst ` set p = {} \<Longrightarrow> postformat T (preparse T s) = s"
  by (induction s) (auto simp: preparse_units postformat_units swap_forth)

end

end
