(* ===== verification/Moment_Texts.thy ===== *)
theory Moment_Texts
  imports Moment_Text
begin

text \<open>
  The locales of the bundle that define \<open>preparse\<close> or \<open>postformat\<close>. For a locale \<open>X\<close>,
  \<open>X_symbolMap\<close> and \<open>X_numberMap\<close> are the two tables in front of \<open>defineLocale\<close> (minified to
  \<open>e\<close> and \<open>t\<close>), in the order of their entries, \<open>X_class\<close> is the class of native digits of the
  regular expression, \<open>X_preparse\<close> and \<open>X_postformat\<close> are the functions of that name and
  \<open>X_text\<close> is the part of the locale object that holds them. Characters are UTF-16 code units.
  Every locale but \<open>ar-dz\<close>, which has no \<open>preparse\<close>, is an instance of \<open>locale_text\<close>.
\<close>

section \<open>ar-ly\<close>

definition ar_ly_symbolMap :: "(jschar \<times> jschar) list" where
  "ar_ly_symbolMap =
     [(0x0031, 0x0031), (0x0032, 0x0032), (0x0033, 0x0033), (0x0034, 0x0034), (0x0035, 0x0035),
      (0x0036, 0x0036), (0x0037, 0x0037), (0x0038, 0x0038), (0x0039, 0x0039), (0x0030, 0x0030)]"

definition ar_ly_preparse :: "jsstr \<Rightarrow> jsstr" where
  "ar_ly_preparse s = replace_class [0x060C] (\<lambda>_. [0x002C]) s"

definition ar_ly_postformat :: "jsstr \<Rightarrow> jsstr" where
  "ar_ly_postformat s =
     (let t = replace_class decimal_class (table_text ar_ly_symbolMap) s
      in replace_class [0x002C] (\<lambda>_. [0x060C]) t)"

definition ar_ly_text :: text_hooks where
  "ar_ly_text = \<lparr>preparse = ar_ly_preparse, postformat = ar_ly_postformat\<rparr>"

lemmas ar_ly_text_defs = ar_ly_text_def ar_ly_symbolMap_def ar_ly_preparse_def
  ar_ly_postformat_def

interpretation ar_ly_text: locale_text ar_ly_text
    "[(0x060C, 0x002C)]" "ar_ly_symbolMap @ [(0x002C, 0x060C)]"
  by unfold_locales (simp_all add: ar_ly_text_defs text_simps)

section \<open>ku\<close>

definition ku_symbolMap :: "(jschar \<times> jschar) list" where
  "ku_symbolMap =
     [(0x0031, 0x0661), (0x0032, 0x0662), (0x0033, 0x0663), (0x0034, 0x0664), (0x0035, 0x0665),
      (0x0036, 0x0666), (0x0037, 0x0667), (0x0038, 0x0668), (0x0039, 0x0669), (0x0030, 0x0660)]"

definition ku_numberMap :: "(jschar \<times> jschar) list" where
  "ku_numberMap =
     [(0x0661, 0x0031), (0x0662, 0x0032), (0x0663, 0x0033), (0x0664, 0x0034), (0x0665, 0x0035),
      (0x0666, 0x0036), (0x0667, 0x0037), (0x0668, 0x0038), (0x0669, 0x0039), (0x0660, 0x0030)]"

abbreviation ku_class :: "jschar list" where
  "ku_class \<equiv>
     [0x0661, 0x0662, 0x0663, 0x0664, 0x0665, 0x0666, 0x0667, 0x0668, 0x0669, 0x0660]"

definition ku_preparse :: "jsstr \<Rightarrow> jsstr" where
  "ku_preparse s =
     (let t = replace_class ku_class (table_text ku_numberMap) s
      in replace_class [0x060C] (\<lambda>_. [0x002C]) t)"

definition ku_postformat :: "jsstr \<Rightarrow> jsstr" where
  "ku_postformat s =
     (let t = replace_class decimal_class (table_text ku_symbolMap) s
      in replace_class [0x002C] (\<lambda>_. [0x060C]) t)"

definition ku_text :: text_hooks where
  "ku_text = \<lparr>preparse = ku_preparse, postformat = ku_postformat\<rparr>"

lemmas ku_text_defs = ku_text_def ku_symbolMap_def ku_numberMap_def
  ku_preparse_def ku_postformat_def

interpretation ku_text: locale_text ku_text
    "ku_numberMap @ [(0x060C, 0x002C)]" "ku_symbolMap @ [(0x002C, 0x060C)]"
  by unfold_locales (simp_all add: ku_text_defs text_simps)

section \<open>mr\<close>

definition mr_symbolMap :: "(jschar \<times> jschar) list" where
  "mr_symbolMap =
     [(0x0031, 0x0967), (0x0032, 0x0968), (0x0033, 0x0969), (0x0034, 0x096A), (0x0035, 0x096B),
      (0x0036, 0x096C), (0x0037, 0x096D), (0x0038, 0x096E), (0x0039, 0x096F), (0x0030, 0x0966)]"

definition mr_numberMap :: "(jschar \<times> jschar) list" where
  "mr_numberMap =
     [(0x0967, 0x0031), (0x0968, 0x0032), (0x0969, 0x0033), (0x096A, 0x0034), (0x096B, 0x0035),
      (0x096C, 0x0036), (0x096D, 0x0037), (0x096E, 0x0038), (0x096F, 0x0039), (0x0966, 0x0030)]"

abbreviation mr_class :: "jschar list" where
  "mr_class \<equiv>
     [0x0967, 0x0968, 0x0969, 0x096A, 0x096B, 0x096C, 0x096D, 0x096E, 0x096F, 0x0966]"

definition mr_preparse :: "jsstr \<Rightarrow> jsstr" where
  "mr_preparse s = replace_class mr_class (table_text mr_numberMap) s"

definition mr_postformat :: "jsstr \<Rightarrow> jsstr" where
  "mr_postformat s = replace_class decimal_class (table_text mr_symbolMap) s"

definition mr_text :: text_hooks where
  "mr_text = \<lparr>preparse = mr_preparse, postformat = mr_postformat\<rparr>"

lemmas mr_text_defs = mr_text_def mr_symbolMap_def mr_numberMap_def
  mr_preparse_def mr_postformat_def

interpretation mr_text: locale_text mr_text
    "mr_numberMap" "mr_symbolMap"
  by unfold_locales (simp_all add: mr_text_defs text_simps)

section \<open>ne\<close>

definition ne_symbolMap :: "(jschar \<times> jschar) list" where
  "ne_symbolMap =
     [(0x0031, 0x0967), (0x0032, 0x0968), (0x0033, 0x0969), (0x0034, 0x096A), (0x0035, 0x096B),
      (0x0036, 0x096C), (0x0037, 0x096D), (0x0038, 0x096E), (0x0039, 0x096F), (0x0030, 0x0966)]"

definition ne_numberMap :: "(jschar \<times> jschar) list" where
  "ne_numberMap =
     [(0x0967, 0x0031), (0x0968, 0x0032), (0x0969, 0x0033), (0x096A, 0x0034), (0x096B, 0x0035),
      (0x096C, 0x0036), (0x096D, 0x0037), (0x096E, 0x0038), (0x096F, 0x0039), (0x0966, 0x0030)]"

abbreviation ne_class :: "jschar list" where
  "ne_class \<equiv>
     [0x0967, 0x0968, 0x0969, 0x096A, 0x096B, 0x096C, 0x096D, 0x096E, 0x096F, 0x0966]"

definition ne_preparse :: "jsstr \<Rightarrow> jsstr" where
  "ne_preparse s = replace_class ne_class (table_text ne_numberMap) s"

definition ne_postformat :: "jsstr \<Rightarrow> jsstr" where
  "ne_postformat s = replace_class decimal_class (table_text ne_symbolMap) s"

definition ne_text :: text_hooks where
  "ne_text = \<lparr>preparse = ne_preparse, postformat = ne_postformat\<rparr>"

lemmas ne_text_defs = ne_text_def ne_symbolMap_def ne_numberMap_def
  ne_preparse_def ne_postformat_def

interpretation ne_text: locale_text ne_text
    "ne_numberMap" "ne_symbolMap"
  by unfold_locales (simp_all add: ne_text_defs text_simps)

section \<open>ta\<close>

definition ta_symbolMap :: "(jschar \<times> jschar) list" where
  "ta_symbolMap =
     [(0x0031, 0x0BE7), (0x0032, 0x0BE8), (0x0033, 0x0BE9), (0x0034, 0x0BEA), (0x0035, 0x0BEB),
      (0x0036, 0x0BEC), (0x0037, 0x0BED), (0x0038, 0x0BEE), (0x0039, 0x0BEF), (0x0030, 0x0BE6)]"

definition ta_numberMap :: "(jschar \<times> jschar) list" where
  "ta_numberMap =
     [(0x0BE7, 0x0031), (0x0BE8, 0x0032), (0x0BE9, 0x0033), (0x0BEA, 0x0034), (0x0BEB, 0x0035),
      (0x0BEC, 0x0036), (0x0BED, 0x0037), (0x0BEE, 0x0038), (0x0BEF, 0x0039), (0x0BE6, 0x0030)]"

abbreviation ta_class :: "jschar list" where
  "ta_class \<equiv>
     [0x0BE7, 0x0BE8, 0x0BE9, 0x0BEA, 0x0BEB, 0x0BEC, 0x0BED, 0x0BEE, 0x0BEF, 0x0BE6]"

definition ta_preparse :: "jsstr \<Rightarrow> jsstr" where
  "ta_preparse s = replace_class ta_class (table_text ta_numberMap) s"

definition ta_postformat :: "jsstr \<Rightarrow> jsstr" where
  "ta_postformat s = replace_class decimal_class (table_text ta_symbolMap) s"

definition ta_text :: text_hooks where
  "ta_text = \<lparr>preparse = ta_preparse, postformat = ta_postformat\<rparr>"

lemmas ta_text_defs = ta_text_def ta_symbolMap_def ta_numberMap_def
  ta_preparse_def ta_postformat_def

interpretation ta_text: locale_text ta_text
    "ta_numberMap" "ta_symbolMap"
  by unfold_locales (simp_all add: ta_text_defs text_simps)

section \<open>kn\<close>

definition kn_symbolMap :: "(jschar \<times> jschar) list" where
  "kn_symbolMap =
     [(0x0031, 0x0CE7), (0x0032, 0x0CE8), (0x0033, 0x0CE9), (0x0034, 0x0CEA), (0x0035, 0x0CEB),
      (0x0036, 0x0CEC), (0x0037, 0x0CED), (0x0038, 0x0CEE), (0x0039, 0x0CEF), (0x0030, 0x0CE6)]"

definition kn_numberMap :: "(jschar \<times> jschar) list" where
  "kn_numberMap =
     [(0x0CE7, 0x0031), (0x0CE8, 0x0032), (0x0CE9, 0x0033), (0x0CEA, 0x0034), (0x0CEB, 0x0035),
      (0x0CEC, 0x0036), (0x0CED, 0x0037), (0x0CEE, 0x0038), (0x0CEF, 0x0039), (0x0CE6, 0x0030)]"

abbreviation kn_class :: "jschar list" where
  "kn_class \<equiv>
     [0x0CE7, 0x0CE8, 0x0CE9, 0x0CEA, 0x0CEB, 0x0CEC, 0x0CED, 0x0CEE, 0x0CEF, 0x0CE6]"

definition kn_preparse :: "jsstr \<Rightarrow> jsstr" where
  "kn_preparse s = replace_class kn_class (table_text kn_numberMap) s"

definition kn_postformat :: "jsstr \<Rightarrow> jsstr" where
  "kn_postformat s = replace_class decimal_class (table_text kn_symbolMap) s"

definition kn_text :: text_hooks where
  "kn_text = \<lparr>preparse = kn_preparse, postformat = kn_postformat\<rparr>"

lemmas kn_text_defs = kn_text_def kn_symbolMap_def kn_numberMap_def
  kn_preparse_def kn_postformat_def

interpretation kn_text: locale_text kn_text
    "kn_numberMap" "kn_symbolMap"
  by unfold_locales (simp_all add: kn_text_defs text_simps)

section \<open>ur\<close>

definition ur_preparse :: "jsstr \<Rightarrow> jsstr" where
  "ur_preparse s = replace_class [0x060C] (\<lambda>_. [0x002C]) s"

definition ur_postformat :: "jsstr \<Rightarrow> jsstr" where
  "ur_postformat s = replace_class [0x002C] (\<lambda>_. [0x060C]) s"

definition ur_text :: text_hooks where
  "ur_text = \<lparr>preparse = ur_preparse, postformat = ur_postformat\<rparr>"

lemmas ur_text_defs = ur_text_def ur_preparse_def ur_postformat_def

interpretation ur_text: locale_text ur_text
    "[(0x060C, 0x002C)]" "[(0x002C, 0x060C)]"
  by unfold_locales (simp_all add: ur_text_defs text_simps)

section \<open>dv\<close>

definition dv_preparse :: "jsstr \<Rightarrow> jsstr" where
  "dv_preparse s = replace_class [0x060C] (\<lambda>_. [0x002C]) s"

definition dv_postformat :: "jsstr \<Rightarrow> jsstr" where
  "dv_postformat s = replace_class [0x002C] (\<lambda>_. [0x060C]) s"

definition dv_text :: text_hooks where
  "dv_text = \<lparr>preparse = dv_preparse, postformat = dv_postformat\<rparr>"

lemmas dv_text_defs = dv_text_def dv_preparse_def dv_postformat_def

interpretation dv_text: locale_text dv_text
    "[(0x060C, 0x002C)]" "[(0x002C, 0x060C)]"
  by unfold_locales (simp_all add: dv_text_defs text_simps)

section \<open>ug-cn\<close>

definition ug_cn_preparse :: "jsstr \<Rightarrow> jsstr" where
  "ug_cn_preparse s = replace_class [0x060C] (\<lambda>_. [0x002C]) s"

definition ug_cn_postformat :: "jsstr \<Rightarrow> jsstr" where
  "ug_cn_postformat s = replace_class [0x002C] (\<lambda>_. [0x060C]) s"

definition ug_cn_text :: text_hooks where
  "ug_cn_text = \<lparr>preparse = ug_cn_preparse, postformat = ug_cn_postformat\<rparr>"

lemmas ug_cn_text_defs = ug_cn_text_def ug_cn_preparse_def ug_cn_postformat_def

interpretation ug_cn_text: locale_text ug_cn_text
    "[(0x060C, 0x002C)]" "[(0x002C, 0x060C)]"
  by unfold_locales (simp_all add: ug_cn_text_defs text_simps)

section \<open>sd\<close>

definition sd_preparse :: "jsstr \<Rightarrow> jsstr" where
  "sd_preparse s = replace_class [0x060C] (\<lambda>_. [0x002C]) s"

definition sd_postformat :: "jsstr \<Rightarrow> jsstr" where
  "sd_postformat s = replace_class [0x002C] (\<lambda>_. [0x060C]) s"

definition sd_text :: text_hooks where
  "sd_text = \<lparr>preparse = sd_preparse, postformat = sd_postformat\<rparr>"

lemmas sd_text_defs = sd_text_def sd_preparse_def sd_postformat_def

interpretation sd_text: locale_text sd_text
    "[(0x060C, 0x002C)]" "[(0x002C, 0x060C)]"
  by unfold_locales (simp_all add: sd_text_defs text_simps)

section \<open>ar-sa\<close>

definition ar_sa_symbolMap :: "(jschar \<times> jschar) list" where
  "ar_sa_symbolMap =
     [(0x0031, 0x0661), (0x0032, 0x0662), (0x0033, 0x0663), (0x0034, 0x0664), (0x0035, 0x0665),
      (0x0036, 0x0666), (0x0037, 0x0667), (0x0038, 0x0668), (0x0039, 0x0669), (0x0030, 0x0660)]"

definition ar_sa_numberMap :: "(jschar \<times> jschar) list" where
  "ar_sa_numberMap =
     [(0x0661, 0x0031), (0x0662, 0x0032), (0x0663, 0x0033), (0x0664, 0x0034), (0x0665, 0x0035),
      (0x0666, 0x0036), (0x0667, 0x0037), (0x0668, 0x0038), (0x0669, 0x0039), (0x0660, 0x0030)]"

abbreviation ar_sa_class :: "jschar list" where
  "ar_sa_class \<equiv>
     [0x0661, 0x0662, 0x0663, 0x0664, 0x0665, 0x0666, 0x0667, 0x0668, 0x0669, 0x0660]"

definition ar_sa_preparse :: "jsstr \<Rightarrow> jsstr" where
  "ar_sa_preparse s =
     (let t = replace_class ar_sa_class (table_text ar_sa_numberMap) s
      in replace_class [0x060C] (\<lambda>_. [0x002C]) t)"

definition ar_sa_postformat :: "jsstr \<Rightarrow> jsstr" where
  "ar_sa_postformat s =
     (let t = replace_class decimal_class (table_text ar_sa_symbolMap) s
      in replace_class [0x002C] (\<lambda>_. [0x060C]) t)"

definition ar_sa_text :: text_hooks where
  "ar_sa_text = \<lparr>preparse = ar_sa_preparse, postformat = ar_sa_postformat\<rparr>"

lemmas ar_sa_text_defs = ar_sa_text_def ar_sa_symbolMap_def ar_sa_numberMap_def
  ar_sa_preparse_def ar_sa_postformat_def

interpretation ar_sa_text: locale_text ar_sa_text
    "ar_sa_numberMap @ [(0x060C, 0x002C)]" "ar_sa_symbolMap @ [(0x002C, 0x060C)]"
  by unfold_locales (simp_all add: ar_sa_text_defs text_simps)

section \<open>my\<close>

definition my_symbolMap :: "(jschar \<times> jschar) list" where
  "my_symbolMap =
     [(0x0031, 0x1041), (0x0032, 0x1042), (0x0033, 0x1043), (0x0034, 0x1044), (0x0035, 0x1045),
      (0x0036, 0x1046), (0x0037, 0x1047), (0x0038, 0x1048), (0x0039, 0x1049), (0x0030, 0x1040)]"

definition my_numberMap :: "(jschar \<times> jschar) list" where
  "my_numberMap =
     [(0x1041, 0x0031), (0x1042, 0x0032), (0x1043, 0x0033), (0x1044, 0x0034), (0x1045, 0x0035),
      (0x1046, 0x0036), (0x1047, 0x0037), (0x1048, 0x0038), (0x1049, 0x0039), (0x1040, 0x0030)]"

abbreviation my_class :: "jschar list" where
  "my_class \<equiv>
     [0x1041, 0x1042, 0x1043, 0x1044, 0x1045, 0x1046, 0x1047, 0x1048, 0x1049, 0x1040]"

definition my_preparse :: "jsstr \<Rightarrow> jsstr" where
  "my_preparse s = replace_class my_class (table_text my_numberMap) s"

definition my_postformat :: "jsstr \<Rightarrow> jsstr" where
  "my_postformat s = replace_class decimal_class (table_text my_symbolMap) s"

definition my_text :: text_hooks where
  "my_text = \<lparr>preparse = my_preparse, postformat = my_postformat\<rparr>"

lemmas my_text_defs = my_text_def my_symbolMap_def my_numberMap_def
  my_preparse_def my_postformat_def

interpretation my_text: locale_text my_text
    "my_numberMap" "my_symbolMap"
  by unfold_locales (simp_all add: my_text_defs text_simps)

section \<open>fa\<close>

definition fa_symbolMap :: "(jschar \<times> jschar) list" where
  "fa_symbolMap =
     [(0x0031, 0x06F1), (0x0032, 0x06F2), (0x0033, 0x06F3), (0x0034, 0x06F4), (0x0035, 0x06F5),
      (0x0036, 0x06F6), (0x0037, 0x06F7), (0x0038, 0x06F8), (0x0039, 0x06F9), (0x0030, 0x06F0)]"

definition fa_numberMap :: "(jschar \<times> jschar) list" where
  "fa_numberMap =
     [(0x06F1, 0x0031), (0x06F2, 0x0032), (0x06F3, 0x0033), (0x06F4, 0x0034), (0x06F5, 0x0035),
      (0x06F6, 0x0036), (0x06F7, 0x0037), (0x06F8, 0x0038), (0x06F9, 0x0039), (0x06F0, 0x0030)]"

abbreviation fa_class :: "jschar list" where
  "fa_class \<equiv>
     [0x06F0, 0x06F1, 0x06F2, 0x06F3, 0x06F4, 0x06F5, 0x06F6, 0x06F7, 0x06F8, 0x06F9]"

definition fa_preparse :: "jsstr \<Rightarrow> jsstr" where
  "fa_preparse s =
     (let t = replace_class fa_class (table_text fa_numberMap) s
      in replace_class [0x060C] (\<lambda>_. [0x002C]) t)"

definition fa_postformat :: "jsstr \<Rightarrow> jsstr" where
  "fa_postformat s =
     (let t = replace_class decimal_class (table_text fa_symbolMap) s
      in replace_class [0x002C] (\<lambda>_. [0x060C]) t)"

definition fa_text :: text_hooks where
  "fa_text = \<lparr>preparse = fa_preparse, postformat = fa_postformat\<rparr>"

lemmas fa_text_defs = fa_text_def fa_symbolMap_def fa_numberMap_def
  fa_preparse_def fa_postformat_def

interpretation fa_text: locale_text fa_text
    "fa_numberMap @ [(0x060C, 0x002C)]" "fa_symbolMap @ [(0x002C, 0x060C)]"
  by unfold_locales (simp_all add: fa_text_defs text_simps)

section \<open>ar\<close>

definition ar_symbolMap :: "(jschar \<times> jschar) list" where
  "ar_symbolMap =
     [(0x0031, 0x0661), (0x0032, 0x0662), (0x0033, 0x0663), (0x0034, 0x0664), (0x0035, 0x0665),
      (0x0036, 0x0666), (0x0037, 0x0667), (0x0038, 0x0668), (0x0039, 0x0669), (0x0030, 0x0660)]"

definition ar_numberMap :: "(jschar \<times> jschar) list" where
  "ar_numberMap =
     [(0x0661, 0x0031), (0x0662, 0x0032), (0x0663, 0x0033), (0x0664, 0x0034), (0x0665, 0x0035),
      (0x0666, 0x0036), (0x0667, 0x0037), (0x0668, 0x0038), (0x0669, 0x0039), (0x0660, 0x0030)]"

abbreviation ar_class :: "jschar list" where
  "ar_class \<equiv>
     [0x0661, 0x0662, 0x0663, 0x0664, 0x0665, 0x0666, 0x0667, 0x0668, 0x0669, 0x0660]"

definition ar_preparse :: "jsstr \<Rightarrow> jsstr" where
  "ar_preparse s =
     (let t = replace_class ar_class (table_text ar_numberMap) s
      in replace_class [0x060C] (\<lambda>_. [0x002C]) t)"

definition ar_postformat :: "jsstr \<Rightarrow> jsstr" where
  "ar_postformat s =
     (let t = replace_class decimal_class (table_text ar_symbolMap) s
      in replace_class [0x002C] (\<lambda>_. [0x060C]) t)"

definition ar_text :: text_hooks where
  "ar_text = \<lparr>preparse = ar_preparse, postformat = ar_postformat\<rparr>"

lemmas ar_text_defs = ar_text_def ar_symbolMap_def ar_numberMap_def
  ar_preparse_def ar_postformat_def

interpretation ar_text: locale_text ar_text
    "ar_numberMap @ [(0x060C, 0x002C)]" "ar_symbolMap @ [(0x002C, 0x060C)]"
  by unfold_locales (simp_all add: ar_text_defs text_simps)

section \<open>bn\<close>

definition bn_symbolMap :: "(jschar \<times> jschar) list" where
  "bn_symbolMap =
     [(0x0031, 0x09E7), (0x0032, 0x09E8), (0x0033, 0x09E9), (0x0034, 0x09EA), (0x0035, 0x09EB),
      (0x0036, 0x09EC), (0x0037, 0x09ED), (0x0038, 0x09EE), (0x0039, 0x09EF), (0x0030, 0x09E6)]"

definition bn_numberMap :: "(jschar \<times> jschar) list" where
  "bn_numberMap =
     [(0x09E7, 0x0031), (0x09E8, 0x0032), (0x09E9, 0x0033), (0x09EA, 0x0034), (0x09EB, 0x0035),
      (0x09EC, 0x0036), (0x09ED, 0x0037), (0x09EE, 0x0038), (0x09EF, 0x0039), (0x09E6, 0x0030)]"

abbreviation bn_class :: "jschar list" where
  "bn_class \<equiv>
     [0x09E7, 0x09E8, 0x09E9, 0x09EA, 0x09EB, 0x09EC, 0x09ED, 0x09EE, 0x09EF, 0x09E6]"

definition bn_preparse :: "jsstr \<Rightarrow> jsstr" where
  "bn_preparse s = replace_class bn_class (table_text bn_numberMap) s"

definition bn_postformat :: "jsstr \<Rightarrow> jsstr" where
  "bn_postformat s = replace_class decimal_class (table_text bn_symbolMap) s"

definition bn_text :: text_hooks where
  "bn_text = \<lparr>preparse = bn_preparse, postformat = bn_postformat\<rparr>"

lemmas bn_text_defs = bn_text_def bn_symbolMap_def bn_numberMap_def
  bn_preparse_def bn_postformat_def

interpretation bn_text: locale_text bn_text
    "bn_numberMap" "bn_symbolMap"
  by unfold_locales (simp_all add: bn_text_defs text_simps)

section \<open>bn-bd\<close>

definition bn_bd_symbolMap :: "(jschar \<times> jschar) list" where
  "bn_bd_symbolMap =
     [(0x0031, 0x09E7), (0x0032, 0x09E8), (0x0033, 0x09E9), (0x0034, 0x09EA), (0x0035, 0x09EB),
      (0x0036, 0x09EC), (0x0037, 0x09ED), (0x0038, 0x09EE), (0x0039, 0x09EF), (0x0030, 0x09E6)]"

definition bn_bd_numberMap :: "(jschar \<times> jschar) list" where
  "bn_bd_numberMap =
     [(0x09E7, 0x0031), (0x09E8, 0x0032), (0x09E9, 0x0033), (0x09EA, 0x0034), (0x09EB, 0x0035),
      (0x09EC, 0x0036), (0x09ED, 0x0037), (0x09EE, 0x0038), (0x09EF, 0x0039), (0x09E6, 0x0030)]"

abbreviation bn_bd_class :: "jschar list" where
  "bn_bd_class \<equiv>
     [0x09E7, 0x09E8, 0x09E9, 0x09EA, 0x09EB, 0x09EC, 0x09ED, 0x09EE, 0x09EF, 0x09E6]"

definition bn_bd_preparse :: "jsstr \<Rightarrow> jsstr" where
  "bn_bd_preparse s = replace_class bn_bd_class (table_text bn_bd_numberMap) s"

definition bn_bd_postformat :: "jsstr \<Rightarrow> jsstr" where
  "bn_bd_postformat s = replace_class decimal_class (table_text bn_bd_symbolMap) s"

definition bn_bd_text :: text_hooks where
  "bn_bd_text = \<lparr>preparse = bn_bd_preparse, postformat = bn_bd_postformat\<rparr>"

lemmas bn_bd_text_defs = bn_bd_text_def bn_bd_symbolMap_def bn_bd_numberMap_def
  bn_bd_preparse_def bn_bd_postformat_def

interpretation bn_bd_text: locale_text bn_bd_text
    "bn_bd_numberMap" "bn_bd_symbolMap"
  by unfold_locales (simp_all add: bn_bd_text_defs text_simps)

section \<open>ar-dz\<close>

definition ar_dz_postformat :: "jsstr \<Rightarrow> jsstr" where
  "ar_dz_postformat s = replace_class [0x002C] (\<lambda>_. [0x060C]) s"

definition ar_dz_text :: text_hooks where
  "ar_dz_text = \<lparr>preparse = core_text, postformat = ar_dz_postformat\<rparr>"

lemmas ar_dz_text_defs = ar_dz_text_def ar_dz_postformat_def

interpretation ar_dz_text: unit_text ar_dz_text
    "[]" "[(0x002C, 0x060C)]"
  by unfold_locales (simp_all add: ar_dz_text_defs text_simps)

section \<open>bo\<close>

definition bo_symbolMap :: "(jschar \<times> jschar) list" where
  "bo_symbolMap =
     [(0x0031, 0x0F21), (0x0032, 0x0F22), (0x0033, 0x0F23), (0x0034, 0x0F24), (0x0035, 0x0F25),
      (0x0036, 0x0F26), (0x0037, 0x0F27), (0x0038, 0x0F28), (0x0039, 0x0F29), (0x0030, 0x0F20)]"

definition bo_numberMap :: "(jschar \<times> jschar) list" where
  "bo_numberMap =
     [(0x0F21, 0x0031), (0x0F22, 0x0032), (0x0F23, 0x0033), (0x0F24, 0x0034), (0x0F25, 0x0035),
      (0x0F26, 0x0036), (0x0F27, 0x0037), (0x0F28, 0x0038), (0x0F29, 0x0039), (0x0F20, 0x0030)]"

abbreviation bo_class :: "jschar list" where
  "bo_class \<equiv>
     [0x0F21, 0x0F22, 0x0F23, 0x0F24, 0x0F25, 0x0F26, 0x0F27, 0x0F28, 0x0F29, 0x0F20]"

definition bo_preparse :: "jsstr \<Rightarrow> jsstr" where
  "bo_preparse s = replace_class bo_class (table_text bo_numberMap) s"

definition bo_postformat :: "jsstr \<Rightarrow> jsstr" where
  "bo_postformat s = replace_class decimal_class (table_text bo_symbolMap) s"

definition bo_text :: text_hooks where
  "bo_text = \<lparr>preparse = bo_preparse, postformat = bo_postformat\<rparr>"

lemmas bo_text_defs = bo_text_def bo_symbolMap_def bo_numberMap_def
  bo_preparse_def bo_postformat_def

interpretation bo_text: locale_text bo_text
    "bo_numberMap" "bo_symbolMap"
  by unfold_locales (simp_all add: bo_text_defs text_simps)

section \<open>hi\<close>

definition hi_symbolMap :: "(jschar \<times> jschar) list" where
  "hi_symbolMap =
     [(0x0031, 0x0967), (0x0032, 0x0968), (0x0033, 0x0969), (0x0034, 0x096A), (0x0035, 0x096B),
      (0x0036, 0x096C), (0x0037, 0x096D), (0x0038, 0x096E), (0x0039, 0x096F), (0x0030, 0x0966)]"

definition hi_numberMap :: "(jschar \<times> jschar) list" where
  "hi_numberMap =
     [(0x0967, 0x0031), (0x0968, 0x0032), (0x0969, 0x0033), (0x096A, 0x0034), (0x096B, 0x0035),
      (0x096C, 0x0036), (0x096D, 0x0037), (0x096E, 0x0038), (0x096F, 0x0039), (0x0966, 0x0030)]"

abbreviation hi_class :: "jschar list" where
  "hi_class \<equiv>
     [0x0967, 0x0968, 0x0969, 0x096A, 0x096B, 0x096C, 0x096D, 0x096E, 0x096F, 0x0966]"

definition hi_preparse :: "jsstr \<Rightarrow> jsstr" where
  "hi_preparse s = replace_class hi_class (table_text hi_numberMap) s"

definition hi_postformat :: "jsstr \<Rightarrow> jsstr" where
  "hi_postformat s = replace_class decimal_class (table_text hi_symbolMap) s"

definition hi_text :: text_hooks where
  "hi_text = \<lparr>preparse = hi_preparse, postformat = hi_postformat\<rparr>"

lemmas hi_text_defs = hi_text_def hi_symbolMap_def hi_numberMap_def
  hi_preparse_def hi_postformat_def

interpretation hi_text: locale_text hi_text
    "hi_numberMap" "hi_symbolMap"
  by unfold_locales (simp_all add: hi_text_defs text_simps)

section \<open>gu\<close>

definition gu_symbolMap :: "(jschar \<times> jschar) list" where
  "gu_symbolMap =
     [(0x0031, 0x0AE7), (0x0032, 0x0AE8), (0x0033, 0x0AE9), (0x0034, 0x0AEA), (0x0035, 0x0AEB),
      (0x0036, 0x0AEC), (0x0037, 0x0AED), (0x0038, 0x0AEE), (0x0039, 0x0AEF), (0x0030, 0x0AE6)]"

definition gu_numberMap :: "(jschar \<times> jschar) list" where
  "gu_numberMap =
     [(0x0AE7, 0x0031), (0x0AE8, 0x0032), (0x0AE9, 0x0033), (0x0AEA, 0x0034), (0x0AEB, 0x0035),
      (0x0AEC, 0x0036), (0x0AED, 0x0037), (0x0AEE, 0x0038), (0x0AEF, 0x0039), (0x0AE6, 0x0030)]"

abbreviation gu_class :: "jschar list" where
  "gu_class \<equiv>
     [0x0AE7, 0x0AE8, 0x0AE9, 0x0AEA, 0x0AEB, 0x0AEC, 0x0AED, 0x0AEE, 0x0AEF, 0x0AE6]"

definition gu_preparse :: "jsstr \<Rightarrow> jsstr" where
  "gu_preparse s = replace_class gu_class (table_text gu_numberMap) s"

definition gu_postformat :: "jsstr \<Rightarrow> jsstr" where
  "gu_postformat s = replace_class decimal_class (table_text gu_symbolMap) s"

definition gu_text :: text_hooks where
  "gu_text = \<lparr>preparse = gu_preparse, postformat = gu_postformat\<rparr>"

lemmas gu_text_defs = gu_text_def gu_symbolMap_def gu_numberMap_def
  gu_preparse_def gu_postformat_def

interpretation gu_text: locale_text gu_text
    "gu_numberMap" "gu_symbolMap"
  by unfold_locales (simp_all add: gu_text_defs text_simps)

section \<open>km\<close>

definition km_symbolMap :: "(jschar \<times> jschar) list" where
  "km_symbolMap =
     [(0x0031, 0x17E1), (0x0032, 0x17E2), (0x0033, 0x17E3), (0x0034, 0x17E4), (0x0035, 0x17E5),
      (0x0036, 0x17E6), (0x0037, 0x17E7), (0x0038, 0x17E8), (0x0039, 0x17E9), (0x0030, 0x17E0)]"

definition km_numberMap :: "(jschar \<times> jschar) list" where
  "km_numberMap =
     [(0x17E1, 0x0031), (0x17E2, 0x0032), (0x17E3, 0x0033), (0x17E4, 0x0034), (0x17E5, 0x0035),
      (0x17E6, 0x0036), (0x17E7, 0x0037), (0x17E8, 0x0038), (0x17E9, 0x0039), (0x17E0, 0x0030)]"

abbreviation km_class :: "jschar list" where
  "km_class \<equiv>
     [0x17E1, 0x17E2, 0x17E3, 0x17E4, 0x17E5, 0x17E6, 0x17E7, 0x17E8, 0x17E9, 0x17E0]"

definition km_preparse :: "jsstr \<Rightarrow> jsstr" where
  "km_preparse s = replace_class km_class (table_text km_numberMap) s"

definition km_postformat :: "jsstr \<Rightarrow> jsstr" where
  "km_postformat s = replace_class decimal_class (table_text km_symbolMap) s"

definition km_text :: text_hooks where
  "km_text = \<lparr>preparse = km_preparse, postformat = km_postformat\<rparr>"

lemmas km_text_defs = km_text_def km_symbolMap_def km_numberMap_def
  km_preparse_def km_postformat_def

interpretation km_text: locale_text km_text
    "km_numberMap" "km_symbolMap"
  by unfold_locales (simp_all add: km_text_defs text_simps)

section \<open>pa-in\<close>

definition pa_in_symbolMap :: "(jschar \<times> jschar) list" where
  "pa_in_symbolMap =
     [(0x0031, 0x0A67), (0x0032, 0x0A68), (0x0033, 0x0A69), (0x0034, 0x0A6A), (0x0035, 0x0A6B),
      (0x0036, 0x0A6C), (0x0037, 0x0A6D), (0x0038, 0x0A6E), (0x0039, 0x0A6F), (0x0030, 0x0A66)]"

definition pa_in_numberMap :: "(jschar \<times> jschar) list" where
  "pa_in_numberMap =
     [(0x0A67, 0x0031), (0x0A68, 0x0032), (0x0A69, 0x0033), (0x0A6A, 0x0034), (0x0A6B, 0x0035),
      (0x0A6C, 0x0036), (0x0A6D, 0x0037), (0x0A6E, 0x0038), (0x0A6F, 0x0039), (0x0A66, 0x0030)]"

abbreviation pa_in_class :: "jschar list" where
  "pa_in_class \<equiv>
     [0x0A67, 0x0A68, 0x0A69, 0x0A6A, 0x0A6B, 0x0A6C, 0x0A6D, 0x0A6E, 0x0A6F, 0x0A66]"

definition pa_in_preparse :: "jsstr \<Rightarrow> jsstr" where
  "pa_in_preparse s = replace_class pa_in_class (table_text pa_in_numberMap) s"

definition pa_in_postformat :: "jsstr \<Rightarrow> jsstr" where
  "pa_in_postformat s = replace_class decimal_class (table_text pa_in_symbolMap) s"

definition pa_in_text :: text_hooks where
  "pa_in_text = \<lparr>preparse = pa_in_preparse, postformat = pa_in_postformat\<rparr>"

lemmas pa_in_text_defs = pa_in_text_def pa_in_symbolMap_def pa_in_numberMap_def
  pa_in_preparse_def pa_in_postformat_def

interpretation pa_in_text: locale_text pa_in_text
    "pa_in_numberMap" "pa_in_symbolMap"
  by unfold_locales (simp_all add: pa_in_text_defs text_simps)

end
