(* ===== verification/Moment_Ordinal.thy ===== *)
theory Moment_Ordinal
  imports Moment_Clock
begin

text \<open>
  The ordinals of the date library: \<open>Do\<close> prints the day of the month as the locale's ordinal and
  reads it with the locale's \<open>dayOfMonthOrdinalParse\<close>; the other ordinal tokens print the number
  of the month, quarter, day of the year, day of the week or week. A locale gives its
  ordinals as a function of the number and the token, or as a format that contains \<open>%d\<close>.

  \<open>day_ordinals\<close> is the contract of a locale whose days read back; \<open>suffix_days\<close> is the
  contract of the locales that print a prefix, the number and a suffix, and gives the first.
\<close>

section \<open>Printing\<close>

text \<open>An alternative of \<open>dayOfMonthOrdinalParse\<close>: a prefix, whether one or two digits
  follow it, and the alternatives after that.\<close>

type_synonym day_pattern = "jsstr \<times> bool \<times> jsstr list"

record ordinal_words =
  ordinal_of :: "nat \<Rightarrow> string \<Rightarrow> jsstr"
  dayOfMonthOrdinalParse :: "day_pattern list"

text \<open>\<open>$\<close>, the ordinal of the prototype: the format with \<open>%d\<close> replaced once.\<close>

fun replace_number :: "jsstr \<Rightarrow> jsstr \<Rightarrow> jsstr" where
  "replace_number r [] = []"
| "replace_number r [c] = [c]"
| "replace_number r (c # d # s) =
     (if c = 0x25 \<and> d = 0x64 then r @ s else c # replace_number r (d # s))"

definition core_ordinal :: "jsstr \<Rightarrow> nat \<Rightarrow> jsstr" where
  "core_ordinal fmt n = replace_number (dec_nat n) fmt"

text \<open>\<open>a || b\<close> for look-ups in a table of suffixes, none of which is empty.\<close>

fun or_else :: "'a option \<Rightarrow> 'a option \<Rightarrow> 'a option" where
  "or_else None b = b"
| "or_else (Some x) b = Some x"

text \<open>\<open>n + s\<close>: a missing suffix is \<open>undefined\<close>, and its sum with a number is \<open>NaN\<close>.\<close>

definition plus_suffix :: "nat \<Rightarrow> jsstr option \<Rightarrow> jsstr" where
  "plus_suffix n s = (case s of Some t \<Rightarrow> dec_nat n @ t | None \<Rightarrow> lit ''NaN'')"

section \<open>Reading\<close>

definition is_dec :: "jschar \<Rightarrow> bool" where
  "is_dec c \<longleftrightarrow> 0x30 \<le> c \<and> c \<le> 0x39"

text \<open>What \<open>\d{1,2}\<close> can take, longest first.\<close>

fun digit_prefixes :: "jsstr \<Rightarrow> jsstr list" where
  "digit_prefixes [] = []"
| "digit_prefixes [c] = (if is_dec c then [[c]] else [])"
| "digit_prefixes (c # d # s) =
     (if is_dec c then (if is_dec d then [[c, d], [c]] else [[c]]) else [])"

fun first_some :: "('a \<Rightarrow> 'b option) \<Rightarrow> 'a list \<Rightarrow> 'b option" where
  "first_some f [] = None"
| "first_some f (x # xs) = or_else (f x) (first_some f xs)"

text \<open>One alternative at the front of a text, with backtracking from two digits to one.\<close>

definition match_pattern :: "jsstr \<Rightarrow> day_pattern \<Rightarrow> jsstr option" where
  "match_pattern s a =
     (case a of (p, dig, sufs) \<Rightarrow>
        if starts_word s p then
          (let r = drop (length p) s
           in first_some
                (\<lambda>d. map_option (\<lambda>u. p @ d @ u) (find (starts_word (drop (length d) r)) sufs))
                (if dig then digit_prefixes r else [[]]))
        else None)"

fun match_day :: "day_pattern list \<Rightarrow> jsstr \<Rightarrow> jsstr option" where
  "match_day ps [] = first_some (match_pattern []) ps"
| "match_day ps (c # s) = or_else (first_some (match_pattern (c # s)) ps) (match_day ps s)"

text \<open>The number of a match: \<open>toInt(w.match(/\d\d?/)[0])\<close>.\<close>

fun first_number :: "jsstr \<Rightarrow> nat option" where
  "first_number [] = None"
| "first_number [c] = (if is_dec c then Some (unat c - 48) else None)"
| "first_number (c # d # s) =
     (if is_dec c then
        (if is_dec d then Some (10 * (unat c - 48) + (unat d - 48)) else Some (unat c - 48))
      else first_number (d # s))"

text \<open>Reading the token \<open>Do\<close>: the strict expression is the locale's, the other one also takes
  the bare number.\<close>

definition read_day :: "bool \<Rightarrow> ordinal_words \<Rightarrow> jsstr \<Rightarrow> nat option" where
  "read_day strict L s =
     Option.bind
       (match_day (dayOfMonthOrdinalParse L @ (if strict then [] else [([], True, [[]])])) s)
       first_number"

fun no_digit :: "jsstr \<Rightarrow> bool" where
  "no_digit [] = True"
| "no_digit (c # s) = (\<not> is_dec c)"

section \<open>Facts about the core\<close>

lemma no_digit_append [simp]: "no_digit (s @ t) = (if s = [] then no_digit t else no_digit s)"
  by (cases s) auto

lemma dec_nat_one: "d < 10 \<Longrightarrow> dec_nat d = [of_nat (48 + d)]"
  by (subst dec_nat.simps) simp

lemma dec_nat_two:
  assumes "10 \<le> d" "d < 100"
  shows "dec_nat d = [of_nat (48 + d div 10), of_nat (48 + d mod 10)]"
  using assms by (subst dec_nat.simps) (simp add: dec_nat_one)

lemma unat_dec [simp]: "n < 10 \<Longrightarrow> unat (of_nat (48 + n) :: jschar) = 48 + n"
  by (simp add: unat_of_nat del: of_nat_add)

lemma is_dec_of_nat: "n < 10 \<Longrightarrow> is_dec (of_nat (48 + n))"
  by (simp add: is_dec_def word_le_nat_alt del: of_nat_add)

lemma digit_prefixes_one: "is_dec c \<Longrightarrow> no_digit s \<Longrightarrow> digit_prefixes (c # s) = [[c]]"
  by (cases s) auto

lemma first_number_skip:
  "list_all (\<lambda>c. \<not> is_dec c) p \<Longrightarrow> s \<noteq> [] \<Longrightarrow> first_number (p @ s) = first_number s"
proof (induction p)
  case (Cons c p)
  then show ?case by (cases "p @ s") auto
qed simp

lemma first_number_one: "is_dec c \<Longrightarrow> no_digit s \<Longrightarrow> first_number (c # s) = Some (unat c - 48)"
  by (cases s) auto

lemma starts_word_append: "starts_word (s @ t) s"
  by (simp add: starts_word_iff)

lemma starts_word_no_digit: "starts_word s u \<Longrightarrow> no_digit s \<Longrightarrow> no_digit u"
  by (cases s; cases u) auto

lemma find_starts:
  assumes "u \<in> set us" "starts_word s u" "no_digit s"
  shows "\<exists>v. find (starts_word s) us = Some v \<and> no_digit v"
proof -
  obtain v where v: "find (starts_word s) us = Some v"
    using assms(1,2) by (cases "find (starts_word s) us") (auto simp: find_None_iff)
  then have "starts_word s v" by (auto simp: find_Some_iff)
  then show ?thesis using v assms(3) starts_word_no_digit by blast
qed

text \<open>A prefix without digits, a number of at most two digits and a known suffix are read.\<close>

lemma match_number:
  assumes "1 \<le> d" "d < 100" and plain: "list_all (\<lambda>c. \<not> is_dec c) p"
    and s: "s \<in> set sufs" "no_digit (s @ rest)"
  shows "\<exists>w. match_pattern (p @ dec_nat d @ s @ rest) (p, True, sufs) = Some w
    \<and> first_number w = Some d"
proof -
  obtain v where v: "find (starts_word (s @ rest)) sufs = Some v" "no_digit v"
    using find_starts [OF s(1) starts_word_append s(2)] by blast
  have front: "match_pattern (p @ dec_nat d @ s @ rest) (p, True, sufs) =
      first_some (\<lambda>e. map_option (\<lambda>u. p @ e @ u)
        (find (starts_word (drop (length e) (dec_nat d @ s @ rest))) sufs))
        (digit_prefixes (dec_nat d @ s @ rest))"
    by (simp add: match_pattern_def starts_word_append Let_def)
  show ?thesis
  proof (cases "d < 10")
    case True
    then have "digit_prefixes (dec_nat d @ s @ rest) = [dec_nat d]"
      using s(2) by (simp add: dec_nat_one digit_prefixes_one is_dec_of_nat del: of_nat_add)
    moreover have "first_number (p @ dec_nat d @ v) = Some d"
      using True v(2) plain
      by (simp add: first_number_skip dec_nat_one first_number_one is_dec_of_nat del: of_nat_add)
    moreover have "length (dec_nat d) = 1" using True by (simp add: dec_nat_one)
    ultimately show ?thesis using v(1) by (simp add: front)
  next
    case False
    then have two: "dec_nat d = [of_nat (48 + d div 10), of_nat (48 + d mod 10)]"
      using assms(2) dec_nat_two by simp
    have "d div 10 < 10" using assms(2) by simp
    then have "first_number (p @ dec_nat d @ v) = Some d"
      using plain by (simp add: first_number_skip two is_dec_of_nat del: of_nat_add)
    moreover have "digit_prefixes (dec_nat d @ s @ rest) =
        [dec_nat d, [of_nat (48 + d div 10)]]"
      using \<open>d div 10 < 10\<close> by (simp add: two is_dec_of_nat del: of_nat_add)
    moreover have "length (dec_nat d) = 2" by (simp add: two)
    ultimately show ?thesis using v(1) by (simp add: front)
  qed
qed

lemma match_day_first:
  "match_pattern s a = Some w \<Longrightarrow> match_day (a # ps) s = Some w"
  by (cases s) simp_all

section \<open>The contracts of a locale\<close>

locale day_ordinals =
  fixes L :: ordinal_words
  assumes day_read: "1 \<le> d \<Longrightarrow> d \<le> 31 \<Longrightarrow> no_digit rest \<Longrightarrow>
    read_day strict L (ordinal_of L d ''D'' @ rest) = Some d"
begin

lemma days_distinct:
  assumes "1 \<le> d" "d \<le> 31" "1 \<le> e" "e \<le> 31" "ordinal_of L d ''D'' = ordinal_of L e ''D''"
  shows "d = e"
  using day_read [OF assms(1,2), of "[]" True] day_read [OF assms(3,4), of "[]" True] assms(5)
  by simp

end

text \<open>The first alternative of such a locale is its prefix, the number, and its suffixes.\<close>

abbreviation day_prefix :: "ordinal_words \<Rightarrow> jsstr" where
  "day_prefix L \<equiv> fst (hd (dayOfMonthOrdinalParse L))"

abbreviation day_suffixes :: "ordinal_words \<Rightarrow> jsstr list" where
  "day_suffixes L \<equiv> snd (snd (hd (dayOfMonthOrdinalParse L)))"

locale suffix_days =
  fixes L :: ordinal_words
  assumes pattern: "dayOfMonthOrdinalParse L \<noteq> []" "fst (snd (hd (dayOfMonthOrdinalParse L)))"
    and plain_prefix: "list_all (\<lambda>c. \<not> is_dec c) (day_prefix L)"
    and prints: "1 \<le> d \<Longrightarrow> d \<le> 31 \<Longrightarrow> list_ex (\<lambda>s. no_digit s \<and>
      ordinal_of L d ''D'' = day_prefix L @ dec_nat d @ s) (day_suffixes L)"

sublocale suffix_days \<subseteq> day_ordinals L
proof
  fix d :: nat and rest strict
  assume d: "1 \<le> d" "d \<le> 31" and rest: "no_digit rest"
  obtain p sufs ps where P: "dayOfMonthOrdinalParse L = (p, True, sufs) # ps"
    using pattern by (cases "dayOfMonthOrdinalParse L") auto
  from prints [OF d] obtain s where s: "s \<in> set sufs" "no_digit (s @ rest)"
      "ordinal_of L d ''D'' = p @ dec_nat d @ s"
    using rest by (fastforce simp: list_ex_iff P)
  obtain w where "match_pattern (p @ dec_nat d @ s @ rest) (p, True, sufs) = Some w"
      "first_number w = Some d"
    using match_number [OF d(1) _ _ s(1,2), of p] d(2) plain_prefix by (auto simp: P)
  then show "read_day strict L (ordinal_of L d ''D'' @ rest) = Some d"
    using s(3) by (auto simp: read_day_def P match_day_first)
qed

lemmas day_simps = Let_def core_ordinal_def plus_suffix_def lit_def is_dec_def

lemma each_day:
  assumes "1 \<le> d" "d \<le> (31 :: nat)"
    and "P 1" "P 2" "P 3" "P 4" "P 5" "P 6" "P 7" "P 8" "P 9" "P 10" "P 11" "P 12" "P 13" "P 14"
      "P 15" "P 16" "P 17" "P 18" "P 19" "P 20" "P 21" "P 22" "P 23" "P 24" "P 25" "P 26" "P 27"
      "P 28" "P 29" "P 30" "P 31"
  shows "P d"
proof -
  have "d = 1 \<or> d = 2 \<or> d = 3 \<or> d = 4 \<or> d = 5 \<or> d = 6 \<or> d = 7 \<or> d = 8
      \<or> d = 9 \<or> d = 10 \<or> d = 11 \<or> d = 12 \<or> d = 13 \<or> d = 14 \<or> d = 15
      \<or> d = 16 \<or> d = 17 \<or> d = 18 \<or> d = 19 \<or> d = 20 \<or> d = 21 \<or> d = 22
      \<or> d = 23 \<or> d = 24 \<or> d = 25 \<or> d = 26 \<or> d = 27 \<or> d = 28 \<or> d = 29
      \<or> d = 30 \<or> d = 31"
    using assms(1,2) by arith
  then show ?thesis using assms(3-) by (elim disjE) (hypsubst, assumption)+
qed

end
