(* ===== verification/Moment_Ordinal_Formats.thy ===== *)
theory Moment_Ordinal_Formats
  imports Moment_Ordinal
begin

text \<open>
  The locales of the bundle whose ordinal is a format, most of them a number and a dot. For a
  locale \<open>X\<close>, \<open>X_ordinal\<close> is the member \<open>ordinal\<close> of the
  argument of \<open>defineLocale\<close> and \<open>X_days\<close> the part of the locale
  object that concerns ordinals, with the alternatives of \<open>dayOfMonthOrdinalParse\<close>
  in their order (the prototype's \<open>\d{1,2}\<close> when the locale has none). Texts are
  UTF-16 code units, \<open>lit\<close> of the text when it is ASCII. Every locale is an
  instance of \<open>suffix_days\<close>.

\<close>

section \<open>cv\<close>

definition cv_ordinal :: "nat \<Rightarrow> string \<Rightarrow> jsstr" where
  "cv_ordinal A tok = core_ordinal [0x0025, 0x0064, 0x002D, 0x043C, 0x04D7, 0x0448] A"

definition cv_days :: ordinal_words where
  "cv_days =
     \<lparr>ordinal_of = cv_ordinal,
      dayOfMonthOrdinalParse = [([], True, [[0x002D, 0x043C, 0x04D7, 0x0448]])]\<rparr>"

interpretation cv_days: suffix_days cv_days
  by unfold_locales (simp_all add: cv_days_def cv_ordinal_def day_simps)

section \<open>is\<close>

definition is_ordinal :: "nat \<Rightarrow> string \<Rightarrow> jsstr" where
  "is_ordinal A tok = core_ordinal (lit ''%d.'') A"

definition is_days :: ordinal_words where
  "is_days =
     \<lparr>ordinal_of = is_ordinal,
      dayOfMonthOrdinalParse = [([], True, [lit ''.''])]\<rparr>"

interpretation is_days: suffix_days is_days
  by unfold_locales (simp_all add: is_days_def is_ordinal_def day_simps)

section \<open>fo\<close>

definition fo_ordinal :: "nat \<Rightarrow> string \<Rightarrow> jsstr" where
  "fo_ordinal A tok = core_ordinal (lit ''%d.'') A"

definition fo_days :: ordinal_words where
  "fo_days =
     \<lparr>ordinal_of = fo_ordinal,
      dayOfMonthOrdinalParse = [([], True, [lit ''.''])]\<rparr>"

interpretation fo_days: suffix_days fo_days
  by unfold_locales (simp_all add: fo_days_def fo_ordinal_def day_simps)

section \<open>es-do\<close>

definition es_do_ordinal :: "nat \<Rightarrow> string \<Rightarrow> jsstr" where
  "es_do_ordinal A tok = core_ordinal [0x0025, 0x0064, 0x00BA] A"

definition es_do_days :: ordinal_words where
  "es_do_days =
     \<lparr>ordinal_of = es_do_ordinal,
      dayOfMonthOrdinalParse = [([], True, [[0x00BA]])]\<rparr>"

interpretation es_do_days: suffix_days es_do_days
  by unfold_locales (simp_all add: es_do_days_def es_do_ordinal_def day_simps)

section \<open>da\<close>

definition da_ordinal :: "nat \<Rightarrow> string \<Rightarrow> jsstr" where
  "da_ordinal A tok = core_ordinal (lit ''%d.'') A"

definition da_days :: ordinal_words where
  "da_days =
     \<lparr>ordinal_of = da_ordinal,
      dayOfMonthOrdinalParse = [([], True, [lit ''.''])]\<rparr>"

interpretation da_days: suffix_days da_days
  by unfold_locales (simp_all add: da_days_def da_ordinal_def day_simps)

section \<open>eu\<close>

definition eu_ordinal :: "nat \<Rightarrow> string \<Rightarrow> jsstr" where
  "eu_ordinal A tok = core_ordinal (lit ''%d.'') A"

definition eu_days :: ordinal_words where
  "eu_days =
     \<lparr>ordinal_of = eu_ordinal,
      dayOfMonthOrdinalParse = [([], True, [lit ''.''])]\<rparr>"

interpretation eu_days: suffix_days eu_days
  by unfold_locales (simp_all add: eu_days_def eu_ordinal_def day_simps)

section \<open>sr-cyrl\<close>

definition sr_cyrl_ordinal :: "nat \<Rightarrow> string \<Rightarrow> jsstr" where
  "sr_cyrl_ordinal A tok = core_ordinal (lit ''%d.'') A"

definition sr_cyrl_days :: ordinal_words where
  "sr_cyrl_days =
     \<lparr>ordinal_of = sr_cyrl_ordinal,
      dayOfMonthOrdinalParse = [([], True, [lit ''.''])]\<rparr>"

interpretation sr_cyrl_days: suffix_days sr_cyrl_days
  by unfold_locales (simp_all add: sr_cyrl_days_def sr_cyrl_ordinal_def day_simps)

section \<open>mt\<close>

definition mt_ordinal :: "nat \<Rightarrow> string \<Rightarrow> jsstr" where
  "mt_ordinal A tok = core_ordinal [0x0025, 0x0064, 0x00BA] A"

definition mt_days :: ordinal_words where
  "mt_days =
     \<lparr>ordinal_of = mt_ordinal,
      dayOfMonthOrdinalParse = [([], True, [[0x00BA]])]\<rparr>"

interpretation mt_days: suffix_days mt_days
  by unfold_locales (simp_all add: mt_days_def mt_ordinal_def day_simps)

section \<open>bs\<close>

definition bs_ordinal :: "nat \<Rightarrow> string \<Rightarrow> jsstr" where
  "bs_ordinal A tok = core_ordinal (lit ''%d.'') A"

definition bs_days :: ordinal_words where
  "bs_days =
     \<lparr>ordinal_of = bs_ordinal,
      dayOfMonthOrdinalParse = [([], True, [lit ''.''])]\<rparr>"

interpretation bs_days: suffix_days bs_days
  by unfold_locales (simp_all add: bs_days_def bs_ordinal_def day_simps)

section \<open>me\<close>

definition me_ordinal :: "nat \<Rightarrow> string \<Rightarrow> jsstr" where
  "me_ordinal A tok = core_ordinal (lit ''%d.'') A"

definition me_days :: ordinal_words where
  "me_days =
     \<lparr>ordinal_of = me_ordinal,
      dayOfMonthOrdinalParse = [([], True, [lit ''.''])]\<rparr>"

interpretation me_days: suffix_days me_days
  by unfold_locales (simp_all add: me_days_def me_ordinal_def day_simps)

section \<open>cs\<close>

definition cs_ordinal :: "nat \<Rightarrow> string \<Rightarrow> jsstr" where
  "cs_ordinal A tok = core_ordinal (lit ''%d.'') A"

definition cs_days :: ordinal_words where
  "cs_days =
     \<lparr>ordinal_of = cs_ordinal,
      dayOfMonthOrdinalParse = [([], True, [lit ''.''])]\<rparr>"

interpretation cs_days: suffix_days cs_days
  by unfold_locales (simp_all add: cs_days_def cs_ordinal_def day_simps)

section \<open>lb\<close>

definition lb_ordinal :: "nat \<Rightarrow> string \<Rightarrow> jsstr" where
  "lb_ordinal A tok = core_ordinal (lit ''%d.'') A"

definition lb_days :: ordinal_words where
  "lb_days =
     \<lparr>ordinal_of = lb_ordinal,
      dayOfMonthOrdinalParse = [([], True, [lit ''.''])]\<rparr>"

interpretation lb_days: suffix_days lb_days
  by unfold_locales (simp_all add: lb_days_def lb_ordinal_def day_simps)

section \<open>hr\<close>

definition hr_ordinal :: "nat \<Rightarrow> string \<Rightarrow> jsstr" where
  "hr_ordinal A tok = core_ordinal (lit ''%d.'') A"

definition hr_days :: ordinal_words where
  "hr_days =
     \<lparr>ordinal_of = hr_ordinal,
      dayOfMonthOrdinalParse = [([], True, [lit ''.''])]\<rparr>"

interpretation hr_days: suffix_days hr_days
  by unfold_locales (simp_all add: hr_days_def hr_ordinal_def day_simps)

section \<open>ss\<close>

definition ss_ordinal :: "nat \<Rightarrow> string \<Rightarrow> jsstr" where
  "ss_ordinal A tok = core_ordinal (lit ''%d'') A"

definition ss_days :: ordinal_words where
  "ss_days =
     \<lparr>ordinal_of = ss_ordinal,
      dayOfMonthOrdinalParse = [([], True, [[]])]\<rparr>"

interpretation ss_days: suffix_days ss_days
  by unfold_locales (simp_all add: ss_days_def ss_ordinal_def day_simps)

section \<open>es-us\<close>

definition es_us_ordinal :: "nat \<Rightarrow> string \<Rightarrow> jsstr" where
  "es_us_ordinal A tok = core_ordinal [0x0025, 0x0064, 0x00BA] A"

definition es_us_days :: ordinal_words where
  "es_us_days =
     \<lparr>ordinal_of = es_us_ordinal,
      dayOfMonthOrdinalParse = [([], True, [[0x00BA]])]\<rparr>"

interpretation es_us_days: suffix_days es_us_days
  by unfold_locales (simp_all add: es_us_days_def es_us_ordinal_def day_simps)

section \<open>hu\<close>

definition hu_ordinal :: "nat \<Rightarrow> string \<Rightarrow> jsstr" where
  "hu_ordinal A tok = core_ordinal (lit ''%d.'') A"

definition hu_days :: ordinal_words where
  "hu_days =
     \<lparr>ordinal_of = hu_ordinal,
      dayOfMonthOrdinalParse = [([], True, [lit ''.''])]\<rparr>"

interpretation hu_days: suffix_days hu_days
  by unfold_locales (simp_all add: hu_days_def hu_ordinal_def day_simps)

section \<open>te\<close>

definition te_ordinal :: "nat \<Rightarrow> string \<Rightarrow> jsstr" where
  "te_ordinal A tok = core_ordinal [0x0025, 0x0064, 0x0C35] A"

definition te_days :: ordinal_words where
  "te_days =
     \<lparr>ordinal_of = te_ordinal,
      dayOfMonthOrdinalParse = [([], True, [[0x0C35]])]\<rparr>"

interpretation te_days: suffix_days te_days
  by unfold_locales (simp_all add: te_days_def te_ordinal_def day_simps)

section \<open>eo\<close>

definition eo_ordinal :: "nat \<Rightarrow> string \<Rightarrow> jsstr" where
  "eo_ordinal A tok = core_ordinal (lit ''%da'') A"

definition eo_days :: ordinal_words where
  "eo_days =
     \<lparr>ordinal_of = eo_ordinal,
      dayOfMonthOrdinalParse = [([], True, [lit ''a''])]\<rparr>"

interpretation eo_days: suffix_days eo_days
  by unfold_locales (simp_all add: eo_days_def eo_ordinal_def day_simps)

section \<open>mi\<close>

definition mi_ordinal :: "nat \<Rightarrow> string \<Rightarrow> jsstr" where
  "mi_ordinal A tok = core_ordinal [0x0025, 0x0064, 0x00BA] A"

definition mi_days :: ordinal_words where
  "mi_days =
     \<lparr>ordinal_of = mi_ordinal,
      dayOfMonthOrdinalParse = [([], True, [[0x00BA]])]\<rparr>"

interpretation mi_days: suffix_days mi_days
  by unfold_locales (simp_all add: mi_days_def mi_ordinal_def day_simps)

section \<open>nb\<close>

definition nb_ordinal :: "nat \<Rightarrow> string \<Rightarrow> jsstr" where
  "nb_ordinal A tok = core_ordinal (lit ''%d.'') A"

definition nb_days :: ordinal_words where
  "nb_days =
     \<lparr>ordinal_of = nb_ordinal,
      dayOfMonthOrdinalParse = [([], True, [lit ''.''])]\<rparr>"

interpretation nb_days: suffix_days nb_days
  by unfold_locales (simp_all add: nb_days_def nb_ordinal_def day_simps)

section \<open>it\<close>

definition it_ordinal :: "nat \<Rightarrow> string \<Rightarrow> jsstr" where
  "it_ordinal A tok = core_ordinal [0x0025, 0x0064, 0x00BA] A"

definition it_days :: ordinal_words where
  "it_days =
     \<lparr>ordinal_of = it_ordinal,
      dayOfMonthOrdinalParse = [([], True, [[0x00BA]])]\<rparr>"

interpretation it_days: suffix_days it_days
  by unfold_locales (simp_all add: it_days_def it_ordinal_def day_simps)

section \<open>it-ch\<close>

definition it_ch_ordinal :: "nat \<Rightarrow> string \<Rightarrow> jsstr" where
  "it_ch_ordinal A tok = core_ordinal [0x0025, 0x0064, 0x00BA] A"

definition it_ch_days :: ordinal_words where
  "it_ch_days =
     \<lparr>ordinal_of = it_ch_ordinal,
      dayOfMonthOrdinalParse = [([], True, [[0x00BA]])]\<rparr>"

interpretation it_ch_days: suffix_days it_ch_days
  by unfold_locales (simp_all add: it_ch_days_def it_ch_ordinal_def day_simps)

section \<open>sk\<close>

definition sk_ordinal :: "nat \<Rightarrow> string \<Rightarrow> jsstr" where
  "sk_ordinal A tok = core_ordinal (lit ''%d.'') A"

definition sk_days :: ordinal_words where
  "sk_days =
     \<lparr>ordinal_of = sk_ordinal,
      dayOfMonthOrdinalParse = [([], True, [lit ''.''])]\<rparr>"

interpretation sk_days: suffix_days sk_days
  by unfold_locales (simp_all add: sk_days_def sk_ordinal_def day_simps)

section \<open>sl\<close>

definition sl_ordinal :: "nat \<Rightarrow> string \<Rightarrow> jsstr" where
  "sl_ordinal A tok = core_ordinal (lit ''%d.'') A"

definition sl_days :: ordinal_words where
  "sl_days =
     \<lparr>ordinal_of = sl_ordinal,
      dayOfMonthOrdinalParse = [([], True, [lit ''.''])]\<rparr>"

interpretation sl_days: suffix_days sl_days
  by unfold_locales (simp_all add: sl_days_def sl_ordinal_def day_simps)

section \<open>fi\<close>

definition fi_ordinal :: "nat \<Rightarrow> string \<Rightarrow> jsstr" where
  "fi_ordinal A tok = core_ordinal (lit ''%d.'') A"

definition fi_days :: ordinal_words where
  "fi_days =
     \<lparr>ordinal_of = fi_ordinal,
      dayOfMonthOrdinalParse = [([], True, [lit ''.''])]\<rparr>"

interpretation fi_days: suffix_days fi_days
  by unfold_locales (simp_all add: fi_days_def fi_ordinal_def day_simps)

section \<open>gl\<close>

definition gl_ordinal :: "nat \<Rightarrow> string \<Rightarrow> jsstr" where
  "gl_ordinal A tok = core_ordinal [0x0025, 0x0064, 0x00BA] A"

definition gl_days :: ordinal_words where
  "gl_days =
     \<lparr>ordinal_of = gl_ordinal,
      dayOfMonthOrdinalParse = [([], True, [[0x00BA]])]\<rparr>"

interpretation gl_days: suffix_days gl_days
  by unfold_locales (simp_all add: gl_days_def gl_ordinal_def day_simps)

section \<open>es\<close>

definition es_ordinal :: "nat \<Rightarrow> string \<Rightarrow> jsstr" where
  "es_ordinal A tok = core_ordinal [0x0025, 0x0064, 0x00BA] A"

definition es_days :: ordinal_words where
  "es_days =
     \<lparr>ordinal_of = es_ordinal,
      dayOfMonthOrdinalParse = [([], True, [[0x00BA]])]\<rparr>"

interpretation es_days: suffix_days es_days
  by unfold_locales (simp_all add: es_days_def es_ordinal_def day_simps)

section \<open>el\<close>

definition el_ordinal :: "nat \<Rightarrow> string \<Rightarrow> jsstr" where
  "el_ordinal A tok = core_ordinal [0x0025, 0x0064, 0x03B7] A"

definition el_days :: ordinal_words where
  "el_days =
     \<lparr>ordinal_of = el_ordinal,
      dayOfMonthOrdinalParse = [([], True, [[0x03B7]])]\<rparr>"

interpretation el_days: suffix_days el_days
  by unfold_locales (simp_all add: el_days_def el_ordinal_def day_simps)

section \<open>pl\<close>

definition pl_ordinal :: "nat \<Rightarrow> string \<Rightarrow> jsstr" where
  "pl_ordinal A tok = core_ordinal (lit ''%d.'') A"

definition pl_days :: ordinal_words where
  "pl_days =
     \<lparr>ordinal_of = pl_ordinal,
      dayOfMonthOrdinalParse = [([], True, [lit ''.''])]\<rparr>"

interpretation pl_days: suffix_days pl_days
  by unfold_locales (simp_all add: pl_days_def pl_ordinal_def day_simps)

section \<open>fa\<close>

definition fa_ordinal :: "nat \<Rightarrow> string \<Rightarrow> jsstr" where
  "fa_ordinal A tok = core_ordinal [0x0025, 0x0064, 0x0645] A"

definition fa_days :: ordinal_words where
  "fa_days =
     \<lparr>ordinal_of = fa_ordinal,
      dayOfMonthOrdinalParse = [([], True, [[0x0645]])]\<rparr>"

interpretation fa_days: suffix_days fa_days
  by unfold_locales (simp_all add: fa_days_def fa_ordinal_def day_simps)

section \<open>de-at\<close>

definition de_at_ordinal :: "nat \<Rightarrow> string \<Rightarrow> jsstr" where
  "de_at_ordinal A tok = core_ordinal (lit ''%d.'') A"

definition de_at_days :: ordinal_words where
  "de_at_days =
     \<lparr>ordinal_of = de_at_ordinal,
      dayOfMonthOrdinalParse = [([], True, [lit ''.''])]\<rparr>"

interpretation de_at_days: suffix_days de_at_days
  by unfold_locales (simp_all add: de_at_days_def de_at_ordinal_def day_simps)

section \<open>de\<close>

definition de_ordinal :: "nat \<Rightarrow> string \<Rightarrow> jsstr" where
  "de_ordinal A tok = core_ordinal (lit ''%d.'') A"

definition de_days :: ordinal_words where
  "de_days =
     \<lparr>ordinal_of = de_ordinal,
      dayOfMonthOrdinalParse = [([], True, [lit ''.''])]\<rparr>"

interpretation de_days: suffix_days de_days
  by unfold_locales (simp_all add: de_days_def de_ordinal_def day_simps)

section \<open>es-mx\<close>

definition es_mx_ordinal :: "nat \<Rightarrow> string \<Rightarrow> jsstr" where
  "es_mx_ordinal A tok = core_ordinal [0x0025, 0x0064, 0x00BA] A"

definition es_mx_days :: ordinal_words where
  "es_mx_days =
     \<lparr>ordinal_of = es_mx_ordinal,
      dayOfMonthOrdinalParse = [([], True, [[0x00BA]])]\<rparr>"

interpretation es_mx_days: suffix_days es_mx_days
  by unfold_locales (simp_all add: es_mx_days_def es_mx_ordinal_def day_simps)

section \<open>nn\<close>

definition nn_ordinal :: "nat \<Rightarrow> string \<Rightarrow> jsstr" where
  "nn_ordinal A tok = core_ordinal (lit ''%d.'') A"

definition nn_days :: ordinal_words where
  "nn_days =
     \<lparr>ordinal_of = nn_ordinal,
      dayOfMonthOrdinalParse = [([], True, [lit ''.''])]\<rparr>"

interpretation nn_days: suffix_days nn_days
  by unfold_locales (simp_all add: nn_days_def nn_ordinal_def day_simps)

section \<open>lv\<close>

definition lv_ordinal :: "nat \<Rightarrow> string \<Rightarrow> jsstr" where
  "lv_ordinal A tok = core_ordinal (lit ''%d.'') A"

definition lv_days :: ordinal_words where
  "lv_days =
     \<lparr>ordinal_of = lv_ordinal,
      dayOfMonthOrdinalParse = [([], True, [lit ''.''])]\<rparr>"

interpretation lv_days: suffix_days lv_days
  by unfold_locales (simp_all add: lv_days_def lv_ordinal_def day_simps)

section \<open>de-ch\<close>

definition de_ch_ordinal :: "nat \<Rightarrow> string \<Rightarrow> jsstr" where
  "de_ch_ordinal A tok = core_ordinal (lit ''%d.'') A"

definition de_ch_days :: ordinal_words where
  "de_ch_days =
     \<lparr>ordinal_of = de_ch_ordinal,
      dayOfMonthOrdinalParse = [([], True, [lit ''.''])]\<rparr>"

interpretation de_ch_days: suffix_days de_ch_days
  by unfold_locales (simp_all add: de_ch_days_def de_ch_ordinal_def day_simps)

section \<open>sq\<close>

definition sq_ordinal :: "nat \<Rightarrow> string \<Rightarrow> jsstr" where
  "sq_ordinal A tok = core_ordinal (lit ''%d.'') A"

definition sq_days :: ordinal_words where
  "sq_days =
     \<lparr>ordinal_of = sq_ordinal,
      dayOfMonthOrdinalParse = [([], True, [lit ''.''])]\<rparr>"

interpretation sq_days: suffix_days sq_days
  by unfold_locales (simp_all add: sq_days_def sq_ordinal_def day_simps)

section \<open>sr\<close>

definition sr_ordinal :: "nat \<Rightarrow> string \<Rightarrow> jsstr" where
  "sr_ordinal A tok = core_ordinal (lit ''%d.'') A"

definition sr_days :: ordinal_words where
  "sr_days =
     \<lparr>ordinal_of = sr_ordinal,
      dayOfMonthOrdinalParse = [([], True, [lit ''.''])]\<rparr>"

interpretation sr_days: suffix_days sr_days
  by unfold_locales (simp_all add: sr_days_def sr_ordinal_def day_simps)

section \<open>tzl\<close>

definition tzl_ordinal :: "nat \<Rightarrow> string \<Rightarrow> jsstr" where
  "tzl_ordinal A tok = core_ordinal (lit ''%d.'') A"

definition tzl_days :: ordinal_words where
  "tzl_days =
     \<lparr>ordinal_of = tzl_ordinal,
      dayOfMonthOrdinalParse = [([], True, [lit ''.''])]\<rparr>"

interpretation tzl_days: suffix_days tzl_days
  by unfold_locales (simp_all add: tzl_days_def tzl_ordinal_def day_simps)

section \<open>tlh\<close>

definition tlh_ordinal :: "nat \<Rightarrow> string \<Rightarrow> jsstr" where
  "tlh_ordinal A tok = core_ordinal (lit ''%d.'') A"

definition tlh_days :: ordinal_words where
  "tlh_days =
     \<lparr>ordinal_of = tlh_ordinal,
      dayOfMonthOrdinalParse = [([], True, [lit ''.''])]\<rparr>"

interpretation tlh_days: suffix_days tlh_days
  by unfold_locales (simp_all add: tlh_days_def tlh_ordinal_def day_simps)

section \<open>pt-br\<close>

definition pt_br_ordinal :: "nat \<Rightarrow> string \<Rightarrow> jsstr" where
  "pt_br_ordinal A tok = core_ordinal [0x0025, 0x0064, 0x00BA] A"

definition pt_br_days :: ordinal_words where
  "pt_br_days =
     \<lparr>ordinal_of = pt_br_ordinal,
      dayOfMonthOrdinalParse = [([], True, [[0x00BA]])]\<rparr>"

interpretation pt_br_days: suffix_days pt_br_days
  by unfold_locales (simp_all add: pt_br_days_def pt_br_ordinal_def day_simps)

section \<open>km\<close>

definition km_ordinal :: "nat \<Rightarrow> string \<Rightarrow> jsstr" where
  "km_ordinal A tok = core_ordinal [0x1791, 0x17B8, 0x0025, 0x0064] A"

definition km_days :: ordinal_words where
  "km_days =
     \<lparr>ordinal_of = km_ordinal,
      dayOfMonthOrdinalParse = [([0x1791, 0x17B8], True, [[]])]\<rparr>"

interpretation km_days: suffix_days km_days
  by unfold_locales (simp_all add: km_days_def km_ordinal_def day_simps)

section \<open>et\<close>

definition et_ordinal :: "nat \<Rightarrow> string \<Rightarrow> jsstr" where
  "et_ordinal A tok = core_ordinal (lit ''%d.'') A"

definition et_days :: ordinal_words where
  "et_days =
     \<lparr>ordinal_of = et_ordinal,
      dayOfMonthOrdinalParse = [([], True, [lit ''.''])]\<rparr>"

interpretation et_days: suffix_days et_days
  by unfold_locales (simp_all add: et_days_def et_ordinal_def day_simps)

section \<open>pt\<close>

definition pt_ordinal :: "nat \<Rightarrow> string \<Rightarrow> jsstr" where
  "pt_ordinal A tok = core_ordinal [0x0025, 0x0064, 0x00BA] A"

definition pt_days :: ordinal_words where
  "pt_days =
     \<lparr>ordinal_of = pt_ordinal,
      dayOfMonthOrdinalParse = [([], True, [[0x00BA]])]\<rparr>"

interpretation pt_days: suffix_days pt_days
  by unfold_locales (simp_all add: pt_days_def pt_ordinal_def day_simps)

section \<open>se\<close>

definition se_ordinal :: "nat \<Rightarrow> string \<Rightarrow> jsstr" where
  "se_ordinal A tok = core_ordinal (lit ''%d.'') A"

definition se_days :: ordinal_words where
  "se_days =
     \<lparr>ordinal_of = se_ordinal,
      dayOfMonthOrdinalParse = [([], True, [lit ''.''])]\<rparr>"

interpretation se_days: suffix_days se_days
  by unfold_locales (simp_all add: se_days_def se_ordinal_def day_simps)

end
