(* ===== verification/Moment_Ordinal_Functions.thy ===== *)
theory Moment_Ordinal_Functions
  imports Moment_Ordinal
begin

text \<open>
  The locales of the bundle whose ordinal is a function. For a locale \<open>X\<close>,
  \<open>X_ordinal\<close> is the member \<open>ordinal\<close> of the argument of
  \<open>defineLocale\<close> and \<open>X_days\<close> the part of the locale object that
  concerns ordinals, with the alternatives of \<open>dayOfMonthOrdinalParse\<close> in their
  order (the prototype's \<open>\d{1,2}\<close> when the locale has none).
  \<open>X_suffixes\<close> is the table in front of \<open>defineLocale\<close>. Texts are
  UTF-16 code units, \<open>lit\<close> of the text when it is ASCII. Every locale is an
  instance of \<open>suffix_days\<close> except Georgian, which has four patterns and is an
  instance of \<open>day_ordinals\<close> directly.

\<close>

section \<open>en, defined by the core\<close>

definition en_ordinal :: "nat \<Rightarrow> string \<Rightarrow> jsstr" where
  "en_ordinal A tok =
     (let e = A mod 10 in
      let t = (if 1 = A mod 100 div 10 then lit ''th''
          else if 1 = e then lit ''st''
          else if 2 = e then lit ''nd''
          else if 3 = e then lit ''rd''
          else lit ''th'') in
      dec_nat A @ t)"

definition en_days :: ordinal_words where
  "en_days =
     \<lparr>ordinal_of = en_ordinal,
      dayOfMonthOrdinalParse = [([], True, [lit ''st'', lit ''nd'', lit ''rd'',
          lit ''th''])]\<rparr>"

interpretation en_days: suffix_days en_days
  by unfold_locales (simp_all add: en_days_def en_ordinal_def day_simps)

section \<open>ja\<close>

definition ja_ordinal :: "nat \<Rightarrow> string \<Rightarrow> jsstr" where
  "ja_ordinal A tok =
     (if tok = ''y'' then (if 1 = A then [0x5143, 0x5E74]
        else dec_nat A @ [0x5E74])
      else if tok = ''d'' \<or> tok = ''D'' \<or> tok = ''DDD'' then dec_nat A @ [0x65E5]
      else dec_nat A)"

definition ja_days :: ordinal_words where
  "ja_days =
     \<lparr>ordinal_of = ja_ordinal,
      dayOfMonthOrdinalParse = [([], True, [[0x65E5]])]\<rparr>"

interpretation ja_days: suffix_days ja_days
  by unfold_locales (simp_all add: ja_days_def ja_ordinal_def day_simps)

section \<open>gom-latn\<close>

definition gom_latn_ordinal :: "nat \<Rightarrow> string \<Rightarrow> jsstr" where
  "gom_latn_ordinal A tok =
     (if tok = ''D'' then dec_nat A @ lit ''er''
      else dec_nat A)"

definition gom_latn_days :: ordinal_words where
  "gom_latn_days =
     \<lparr>ordinal_of = gom_latn_ordinal,
      dayOfMonthOrdinalParse = [([], True, [lit ''er''])]\<rparr>"

interpretation gom_latn_days: suffix_days gom_latn_days
  by unfold_locales (simp_all add: gom_latn_days_def gom_latn_ordinal_def day_simps)

section \<open>fr-ch\<close>

definition fr_ch_ordinal :: "nat \<Rightarrow> string \<Rightarrow> jsstr" where
  "fr_ch_ordinal A tok =
     (if tok = ''w'' \<or> tok = ''W'' then dec_nat A @ (if 1 = A then lit ''re'' else lit ''e'')
      else dec_nat A @ (if 1 = A then lit ''er'' else lit ''e''))"

definition fr_ch_days :: ordinal_words where
  "fr_ch_days =
     \<lparr>ordinal_of = fr_ch_ordinal,
      dayOfMonthOrdinalParse = [([], True, [lit ''er'', lit ''e''])]\<rparr>"

interpretation fr_ch_days: suffix_days fr_ch_days
  by unfold_locales (simp_all add: fr_ch_days_def fr_ch_ordinal_def day_simps)

section \<open>en-au\<close>

definition en_au_ordinal :: "nat \<Rightarrow> string \<Rightarrow> jsstr" where
  "en_au_ordinal A tok =
     (let e = A mod 10 in
      let t = (if 1 = A mod 100 div 10 then lit ''th''
          else if 1 = e then lit ''st''
          else if 2 = e then lit ''nd''
          else if 3 = e then lit ''rd''
          else lit ''th'') in
      dec_nat A @ t)"

definition en_au_days :: ordinal_words where
  "en_au_days =
     \<lparr>ordinal_of = en_au_ordinal,
      dayOfMonthOrdinalParse = [([], True, [lit ''st'', lit ''nd'', lit ''rd'',
          lit ''th''])]\<rparr>"

interpretation en_au_days: suffix_days en_au_days
  by unfold_locales (simp_all add: en_au_days_def en_au_ordinal_def day_simps)

section \<open>tr\<close>

definition tr_suffixes :: "(nat \<times> jsstr) list" where
  "tr_suffixes =
     [(1, [0x0027, 0x0069, 0x006E, 0x0063, 0x0069]),
      (5, [0x0027, 0x0069, 0x006E, 0x0063, 0x0069]),
      (8, [0x0027, 0x0069, 0x006E, 0x0063, 0x0069]),
      (70, [0x0027, 0x0069, 0x006E, 0x0063, 0x0069]),
      (80, [0x0027, 0x0069, 0x006E, 0x0063, 0x0069]), (2, [0x0027, 0x006E, 0x0063, 0x0069]),
      (7, [0x0027, 0x006E, 0x0063, 0x0069]), (20, [0x0027, 0x006E, 0x0063, 0x0069]),
      (50, [0x0027, 0x006E, 0x0063, 0x0069]), (3, [0x0027, 0x00FC, 0x006E, 0x0063, 0x00FC]),
      (4, [0x0027, 0x00FC, 0x006E, 0x0063, 0x00FC]),
      (100, [0x0027, 0x00FC, 0x006E, 0x0063, 0x00FC]), (6, [0x0027, 0x006E, 0x0063, 0x0131]),
      (9, [0x0027, 0x0075, 0x006E, 0x0063, 0x0075]),
      (10, [0x0027, 0x0075, 0x006E, 0x0063, 0x0075]),
      (30, [0x0027, 0x0075, 0x006E, 0x0063, 0x0075]),
      (60, [0x0027, 0x0131, 0x006E, 0x0063, 0x0131]),
      (90, [0x0027, 0x0131, 0x006E, 0x0063, 0x0131])]"

definition tr_ordinal :: "nat \<Rightarrow> string \<Rightarrow> jsstr" where
  "tr_ordinal A tok =
     (if tok = ''d'' \<or> tok = ''D'' \<or> tok = ''Do'' \<or> tok = ''DD'' then dec_nat A
      else if 0 = A then dec_nat A @ [0x0027, 0x0131, 0x006E, 0x0063, 0x0131]
      else let r = A mod 10 in
      let n = A mod 100 - r in
      let i = (if A \<ge> 100 then Some 100 else None) in
      plus_suffix A (or_else (map_of tr_suffixes r) (or_else (map_of tr_suffixes n)
          (Option.bind i (map_of tr_suffixes)))))"

definition tr_days :: ordinal_words where
  "tr_days =
     \<lparr>ordinal_of = tr_ordinal,
      dayOfMonthOrdinalParse = [([], True, [[]])]\<rparr>"

interpretation tr_days: suffix_days tr_days
  by unfold_locales (simp_all add: tr_days_def tr_ordinal_def tr_suffixes_def day_simps)

section \<open>tl-ph\<close>

definition tl_ph_ordinal :: "nat \<Rightarrow> string \<Rightarrow> jsstr" where
  "tl_ph_ordinal A tok = dec_nat A"

definition tl_ph_days :: ordinal_words where
  "tl_ph_days =
     \<lparr>ordinal_of = tl_ph_ordinal,
      dayOfMonthOrdinalParse = [([], True, [[]])]\<rparr>"

interpretation tl_ph_days: suffix_days tl_ph_days
  by unfold_locales (simp_all add: tl_ph_days_def tl_ph_ordinal_def day_simps)

section \<open>oc-lnc\<close>

definition oc_lnc_ordinal :: "nat \<Rightarrow> string \<Rightarrow> jsstr" where
  "oc_lnc_ordinal A tok =
     (let t = (if A = 1 then lit ''r'' else if A = 2 then lit ''n'' else if A = 3 then lit ''r''
               else if A = 4 then lit ''t'' else [0x00E8]);
          t1 = (if tok \<noteq> ''w'' \<and> tok \<noteq> ''W'' then t else lit ''a'')
      in dec_nat A @ t1)"

definition oc_lnc_days :: ordinal_words where
  "oc_lnc_days =
     \<lparr>ordinal_of = oc_lnc_ordinal,
      dayOfMonthOrdinalParse = [([], True, [lit ''r'', lit ''n'', lit ''t'', [0x00E8],
          lit ''a''])]\<rparr>"

interpretation oc_lnc_days: suffix_days oc_lnc_days
  by unfold_locales (simp_all add: oc_lnc_days_def oc_lnc_ordinal_def day_simps)

section \<open>be\<close>

definition be_ordinal :: "nat \<Rightarrow> string \<Rightarrow> jsstr" where
  "be_ordinal A tok =
     (if tok = ''M'' \<or> tok = ''d'' \<or> tok = ''DDD'' \<or> tok = ''w''
         \<or> tok = ''W'' then (if A mod 10 \<noteq> 2 \<and> A mod 10 \<noteq> 3
             \<or> A mod 100 = 12 \<or> A mod 100 = 13 then dec_nat A @ [0x002D, 0x044B]
        else dec_nat A @ [0x002D, 0x0456])
      else if tok = ''D'' then dec_nat A @ [0x002D, 0x0433, 0x0430]
      else dec_nat A)"

definition be_days :: ordinal_words where
  "be_days =
     \<lparr>ordinal_of = be_ordinal,
      dayOfMonthOrdinalParse = [([], True, [[0x002D, 0x0456], [0x002D, 0x044B], [0x002D, 0x0433,
          0x0430]])]\<rparr>"

interpretation be_days: suffix_days be_days
  by unfold_locales (simp_all add: be_days_def be_ordinal_def day_simps)

section \<open>ka\<close>

definition ka_ordinal :: "nat \<Rightarrow> string \<Rightarrow> jsstr" where
  "ka_ordinal A tok =
     (if 0 = A then dec_nat A
      else if 1 = A then dec_nat A @ [0x002D, 0x10DA, 0x10D8]
      else if A < 20 \<or> A \<le> 100 \<and> A mod 20 = 0 \<or> A mod 100 = 0 then [0x10DB,
          0x10D4, 0x002D] @ dec_nat A
      else dec_nat A @ [0x002D, 0x10D4])"

definition ka_days :: ordinal_words where
  "ka_days =
     \<lparr>ordinal_of = ka_ordinal,
      dayOfMonthOrdinalParse = [(lit ''0'', False, [[]]),
                                ([0x0031, 0x002D, 0x10DA, 0x10D8], False, [[]]),
                                ([0x10DB, 0x10D4, 0x002D], True, [[]]),
                                ([], True, [[0x002D, 0x10D4]])]\<rparr>"

interpretation ka_days: day_ordinals ka_days
proof
  fix d :: nat and rest strict
  assume d: "1 \<le> d" "d \<le> 31" and rest: "no_digit rest"
  from d show "read_day strict ka_days (ordinal_of ka_days d ''D'' @ rest) = Some d"
    by (rule each_day) (simp_all add: ka_days_def ka_ordinal_def day_simps rest read_day_def
        match_pattern_def
      dec_nat_one dec_nat_two digit_prefixes_one)
qed

section \<open>ko\<close>

definition ko_ordinal :: "nat \<Rightarrow> string \<Rightarrow> jsstr" where
  "ko_ordinal A tok =
     (if tok = ''d'' \<or> tok = ''D'' \<or> tok = ''DDD'' then dec_nat A @ [0xC77C]
      else if tok = ''M'' then dec_nat A @ [0xC6D4]
      else if tok = ''w'' \<or> tok = ''W'' then dec_nat A @ [0xC8FC]
      else dec_nat A)"

definition ko_days :: ordinal_words where
  "ko_days =
     \<lparr>ordinal_of = ko_ordinal,
      dayOfMonthOrdinalParse = [([], True, [[0xC77C], [0xC6D4], [0xC8FC]])]\<rparr>"

interpretation ko_days: suffix_days ko_days
  by unfold_locales (simp_all add: ko_days_def ko_ordinal_def day_simps)

section \<open>lt\<close>

definition lt_ordinal :: "nat \<Rightarrow> string \<Rightarrow> jsstr" where
  "lt_ordinal A tok = dec_nat A @ lit ''-oji''"

definition lt_days :: ordinal_words where
  "lt_days =
     \<lparr>ordinal_of = lt_ordinal,
      dayOfMonthOrdinalParse = [([], True, [lit ''-oji''])]\<rparr>"

interpretation lt_days: suffix_days lt_days
  by unfold_locales (simp_all add: lt_days_def lt_ordinal_def day_simps)

section \<open>vi\<close>

definition vi_ordinal :: "nat \<Rightarrow> string \<Rightarrow> jsstr" where
  "vi_ordinal A tok = dec_nat A"

definition vi_days :: ordinal_words where
  "vi_days =
     \<lparr>ordinal_of = vi_ordinal,
      dayOfMonthOrdinalParse = [([], True, [[]])]\<rparr>"

interpretation vi_days: suffix_days vi_days
  by unfold_locales (simp_all add: vi_days_def vi_ordinal_def day_simps)

section \<open>af\<close>

definition af_ordinal :: "nat \<Rightarrow> string \<Rightarrow> jsstr" where
  "af_ordinal A tok = dec_nat A @ (if 1 = A \<or> 8 = A \<or> A \<ge> 20
      then lit ''ste'' else lit ''de'')"

definition af_days :: ordinal_words where
  "af_days =
     \<lparr>ordinal_of = af_ordinal,
      dayOfMonthOrdinalParse = [([], True, [lit ''ste'', lit ''de''])]\<rparr>"

interpretation af_days: suffix_days af_days
  by unfold_locales (simp_all add: af_days_def af_ordinal_def day_simps)

section \<open>en-ca\<close>

definition en_ca_ordinal :: "nat \<Rightarrow> string \<Rightarrow> jsstr" where
  "en_ca_ordinal A tok =
     (let e = A mod 10 in
      let t = (if 1 = A mod 100 div 10 then lit ''th''
          else if 1 = e then lit ''st''
          else if 2 = e then lit ''nd''
          else if 3 = e then lit ''rd''
          else lit ''th'') in
      dec_nat A @ t)"

definition en_ca_days :: ordinal_words where
  "en_ca_days =
     \<lparr>ordinal_of = en_ca_ordinal,
      dayOfMonthOrdinalParse = [([], True, [lit ''st'', lit ''nd'', lit ''rd'',
          lit ''th''])]\<rparr>"

interpretation en_ca_days: suffix_days en_ca_days
  by unfold_locales (simp_all add: en_ca_days_def en_ca_ordinal_def day_simps)

section \<open>en-gb\<close>

definition en_gb_ordinal :: "nat \<Rightarrow> string \<Rightarrow> jsstr" where
  "en_gb_ordinal A tok =
     (let e = A mod 10 in
      let t = (if 1 = A mod 100 div 10 then lit ''th''
          else if 1 = e then lit ''st''
          else if 2 = e then lit ''nd''
          else if 3 = e then lit ''rd''
          else lit ''th'') in
      dec_nat A @ t)"

definition en_gb_days :: ordinal_words where
  "en_gb_days =
     \<lparr>ordinal_of = en_gb_ordinal,
      dayOfMonthOrdinalParse = [([], True, [lit ''st'', lit ''nd'', lit ''rd'',
          lit ''th''])]\<rparr>"

interpretation en_gb_days: suffix_days en_gb_days
  by unfold_locales (simp_all add: en_gb_days_def en_gb_ordinal_def day_simps)

section \<open>zh-mo\<close>

definition zh_mo_ordinal :: "nat \<Rightarrow> string \<Rightarrow> jsstr" where
  "zh_mo_ordinal A tok =
     (if tok = ''d'' \<or> tok = ''D'' \<or> tok = ''DDD'' then dec_nat A @ [0x65E5]
      else if tok = ''M'' then dec_nat A @ [0x6708]
      else if tok = ''w'' \<or> tok = ''W'' then dec_nat A @ [0x9031]
      else dec_nat A)"

definition zh_mo_days :: ordinal_words where
  "zh_mo_days =
     \<lparr>ordinal_of = zh_mo_ordinal,
      dayOfMonthOrdinalParse = [([], True, [[0x65E5], [0x6708], [0x9031]])]\<rparr>"

interpretation zh_mo_days: suffix_days zh_mo_days
  by unfold_locales (simp_all add: zh_mo_days_def zh_mo_ordinal_def day_simps)

section \<open>tg\<close>

definition tg_suffixes :: "(nat \<times> jsstr) list" where
  "tg_suffixes =
     [(0, [0x002D, 0x0443, 0x043C]), (1, [0x002D, 0x0443, 0x043C]),
      (2, [0x002D, 0x044E, 0x043C]), (3, [0x002D, 0x044E, 0x043C]),
      (4, [0x002D, 0x0443, 0x043C]), (5, [0x002D, 0x0443, 0x043C]),
      (6, [0x002D, 0x0443, 0x043C]), (7, [0x002D, 0x0443, 0x043C]),
      (8, [0x002D, 0x0443, 0x043C]), (9, [0x002D, 0x0443, 0x043C]),
      (10, [0x002D, 0x0443, 0x043C]), (12, [0x002D, 0x0443, 0x043C]),
      (13, [0x002D, 0x0443, 0x043C]), (20, [0x002D, 0x0443, 0x043C]),
      (30, [0x002D, 0x044E, 0x043C]), (40, [0x002D, 0x0443, 0x043C]),
      (50, [0x002D, 0x0443, 0x043C]), (60, [0x002D, 0x0443, 0x043C]),
      (70, [0x002D, 0x0443, 0x043C]), (80, [0x002D, 0x0443, 0x043C]),
      (90, [0x002D, 0x0443, 0x043C]), (100, [0x002D, 0x0443, 0x043C])]"

definition tg_ordinal :: "nat \<Rightarrow> string \<Rightarrow> jsstr" where
  "tg_ordinal A tok =
     (let t = A mod 10 in
      let r = (if A \<ge> 100 then Some 100 else None) in
      plus_suffix A (or_else (map_of tg_suffixes A) (or_else (map_of tg_suffixes t)
          (Option.bind r (map_of tg_suffixes)))))"

definition tg_days :: ordinal_words where
  "tg_days =
     \<lparr>ordinal_of = tg_ordinal,
      dayOfMonthOrdinalParse = [([], True, [[0x002D, 0x0443, 0x043C], [0x002D, 0x044E,
          0x043C]])]\<rparr>"

interpretation tg_days: suffix_days tg_days
proof
  fix d :: nat
  assume "1 \<le> d" "d \<le> 31"
  then show "list_ex (\<lambda>s. no_digit s \<and> ordinal_of tg_days d ''D'' =
      day_prefix tg_days @ dec_nat d @ s) (day_suffixes tg_days)"
    by (rule each_day) (simp_all add: tg_days_def tg_ordinal_def tg_suffixes_def day_simps)
qed (simp_all add: tg_days_def day_simps)

section \<open>ta\<close>

definition ta_ordinal :: "nat \<Rightarrow> string \<Rightarrow> jsstr" where
  "ta_ordinal A tok = dec_nat A @ [0x0BB5, 0x0BA4, 0x0BC1]"

definition ta_days :: ordinal_words where
  "ta_days =
     \<lparr>ordinal_of = ta_ordinal,
      dayOfMonthOrdinalParse = [([], True, [[0x0BB5, 0x0BA4, 0x0BC1]])]\<rparr>"

interpretation ta_days: suffix_days ta_days
  by unfold_locales (simp_all add: ta_days_def ta_ordinal_def day_simps)

section \<open>kn\<close>

definition kn_ordinal :: "nat \<Rightarrow> string \<Rightarrow> jsstr" where
  "kn_ordinal A tok = dec_nat A @ [0x0CA8, 0x0CC6, 0x0CD5]"

definition kn_days :: ordinal_words where
  "kn_days =
     \<lparr>ordinal_of = kn_ordinal,
      dayOfMonthOrdinalParse = [([], True, [[0x0CA8, 0x0CC6, 0x0CD5]])]\<rparr>"

interpretation kn_days: suffix_days kn_days
  by unfold_locales (simp_all add: kn_days_def kn_ordinal_def day_simps)

section \<open>az\<close>

definition az_suffixes :: "(nat \<times> jsstr) list" where
  "az_suffixes =
     [(1, lit ''-inci''), (5, lit ''-inci''), (8, lit ''-inci''), (70, lit ''-inci''),
      (80, lit ''-inci''), (2, lit ''-nci''), (7, lit ''-nci''), (20, lit ''-nci''),
      (50, lit ''-nci''), (3, [0x002D, 0x00FC, 0x006E, 0x0063, 0x00FC]),
      (4, [0x002D, 0x00FC, 0x006E, 0x0063, 0x00FC]),
      (100, [0x002D, 0x00FC, 0x006E, 0x0063, 0x00FC]), (6, [0x002D, 0x006E, 0x0063, 0x0131]),
      (9, lit ''-uncu''), (10, lit ''-uncu''), (30, lit ''-uncu''),
      (60, [0x002D, 0x0131, 0x006E, 0x0063, 0x0131]),
      (90, [0x002D, 0x0131, 0x006E, 0x0063, 0x0131])]"

definition az_ordinal :: "nat \<Rightarrow> string \<Rightarrow> jsstr" where
  "az_ordinal A tok =
     (if 0 = A then dec_nat A @ [0x002D, 0x0131, 0x006E, 0x0063, 0x0131]
      else let t = A mod 10 in
      let r = A mod 100 - t in
      let n = (if A \<ge> 100 then Some 100 else None) in
      plus_suffix A (or_else (map_of az_suffixes t) (or_else (map_of az_suffixes r)
          (Option.bind n (map_of az_suffixes)))))"

definition az_days :: ordinal_words where
  "az_days =
     \<lparr>ordinal_of = az_ordinal,
      dayOfMonthOrdinalParse = [([], True, [[0x002D, 0x0131, 0x006E, 0x0063, 0x0131],
          lit ''-inci'', lit ''-nci'', [0x002D, 0x00FC, 0x006E, 0x0063, 0x00FC], [0x002D, 0x006E,
              0x0063, 0x0131], lit ''-uncu''])]\<rparr>"

interpretation az_days: suffix_days az_days
proof
  fix d :: nat
  assume "1 \<le> d" "d \<le> 31"
  then show "list_ex (\<lambda>s. no_digit s \<and> ordinal_of az_days d ''D'' =
      day_prefix az_days @ dec_nat d @ s) (day_suffixes az_days)"
    by (rule each_day) (simp_all add: az_days_def az_ordinal_def az_suffixes_def day_simps)
qed (simp_all add: az_days_def day_simps)

section \<open>zh-hk\<close>

definition zh_hk_ordinal :: "nat \<Rightarrow> string \<Rightarrow> jsstr" where
  "zh_hk_ordinal A tok =
     (if tok = ''d'' \<or> tok = ''D'' \<or> tok = ''DDD'' then dec_nat A @ [0x65E5]
      else if tok = ''M'' then dec_nat A @ [0x6708]
      else if tok = ''w'' \<or> tok = ''W'' then dec_nat A @ [0x9031]
      else dec_nat A)"

definition zh_hk_days :: ordinal_words where
  "zh_hk_days =
     \<lparr>ordinal_of = zh_hk_ordinal,
      dayOfMonthOrdinalParse = [([], True, [[0x65E5], [0x6708], [0x9031]])]\<rparr>"

interpretation zh_hk_days: suffix_days zh_hk_days
  by unfold_locales (simp_all add: zh_hk_days_def zh_hk_ordinal_def day_simps)

section \<open>ga\<close>

definition ga_ordinal :: "nat \<Rightarrow> string \<Rightarrow> jsstr" where
  "ga_ordinal A tok =
     (let e = (if 1 = A then lit ''d''
          else if A mod 10 = 2 then lit ''na''
          else lit ''mh'') in
      dec_nat A @ e)"

definition ga_days :: ordinal_words where
  "ga_days =
     \<lparr>ordinal_of = ga_ordinal,
      dayOfMonthOrdinalParse = [([], True, [lit ''d'', lit ''na'', lit ''mh''])]\<rparr>"

interpretation ga_days: suffix_days ga_days
  by unfold_locales (simp_all add: ga_days_def ga_ordinal_def day_simps)

section \<open>tet\<close>

definition tet_ordinal :: "nat \<Rightarrow> string \<Rightarrow> jsstr" where
  "tet_ordinal A tok =
     (let e = A mod 10 in
      let t = (if 1 = A mod 100 div 10 then lit ''th''
          else if 1 = e then lit ''st''
          else if 2 = e then lit ''nd''
          else if 3 = e then lit ''rd''
          else lit ''th'') in
      dec_nat A @ t)"

definition tet_days :: ordinal_words where
  "tet_days =
     \<lparr>ordinal_of = tet_ordinal,
      dayOfMonthOrdinalParse = [([], True, [lit ''st'', lit ''nd'', lit ''rd'',
          lit ''th''])]\<rparr>"

interpretation tet_days: suffix_days tet_days
  by unfold_locales (simp_all add: tet_days_def tet_ordinal_def day_simps)

section \<open>tk\<close>

definition tk_suffixes :: "(nat \<times> jsstr) list" where
  "tk_suffixes =
     [(1, [0x0027, 0x0069, 0x006E, 0x006A, 0x0069]),
      (5, [0x0027, 0x0069, 0x006E, 0x006A, 0x0069]),
      (8, [0x0027, 0x0069, 0x006E, 0x006A, 0x0069]),
      (70, [0x0027, 0x0069, 0x006E, 0x006A, 0x0069]),
      (80, [0x0027, 0x0069, 0x006E, 0x006A, 0x0069]), (2, [0x0027, 0x006E, 0x006A, 0x0069]),
      (7, [0x0027, 0x006E, 0x006A, 0x0069]), (20, [0x0027, 0x006E, 0x006A, 0x0069]),
      (50, [0x0027, 0x006E, 0x006A, 0x0069]), (3, [0x0027, 0x00FC, 0x006E, 0x006A, 0x0069]),
      (4, [0x0027, 0x00FC, 0x006E, 0x006A, 0x0069]),
      (100, [0x0027, 0x00FC, 0x006E, 0x006A, 0x0069]), (6, [0x0027, 0x006E, 0x006A, 0x0079]),
      (9, [0x0027, 0x0075, 0x006E, 0x006A, 0x0079]),
      (10, [0x0027, 0x0075, 0x006E, 0x006A, 0x0079]),
      (30, [0x0027, 0x0075, 0x006E, 0x006A, 0x0079]),
      (60, [0x0027, 0x0079, 0x006E, 0x006A, 0x0079]),
      (90, [0x0027, 0x0079, 0x006E, 0x006A, 0x0079])]"

definition tk_ordinal :: "nat \<Rightarrow> string \<Rightarrow> jsstr" where
  "tk_ordinal A tok =
     (if tok = ''d'' \<or> tok = ''D'' \<or> tok = ''Do'' \<or> tok = ''DD'' then dec_nat A
      else if 0 = A then dec_nat A @ [0x0027, 0x0075, 0x006E, 0x006A, 0x0079]
      else let r = A mod 10 in
      let n = A mod 100 - r in
      let i = (if A \<ge> 100 then Some 100 else None) in
      plus_suffix A (or_else (map_of tk_suffixes r) (or_else (map_of tk_suffixes n)
          (Option.bind i (map_of tk_suffixes)))))"

definition tk_days :: ordinal_words where
  "tk_days =
     \<lparr>ordinal_of = tk_ordinal,
      dayOfMonthOrdinalParse = [([], True, [[]])]\<rparr>"

interpretation tk_days: suffix_days tk_days
  by unfold_locales (simp_all add: tk_days_def tk_ordinal_def tk_suffixes_def day_simps)

section \<open>zh-cn\<close>

definition zh_cn_ordinal :: "nat \<Rightarrow> string \<Rightarrow> jsstr" where
  "zh_cn_ordinal A tok =
     (if tok = ''d'' \<or> tok = ''D'' \<or> tok = ''DDD'' then dec_nat A @ [0x65E5]
      else if tok = ''M'' then dec_nat A @ [0x6708]
      else if tok = ''w'' \<or> tok = ''W'' then dec_nat A @ [0x5468]
      else dec_nat A)"

definition zh_cn_days :: ordinal_words where
  "zh_cn_days =
     \<lparr>ordinal_of = zh_cn_ordinal,
      dayOfMonthOrdinalParse = [([], True, [[0x65E5], [0x6708], [0x5468]])]\<rparr>"

interpretation zh_cn_days: suffix_days zh_cn_days
  by unfold_locales (simp_all add: zh_cn_days_def zh_cn_ordinal_def day_simps)

section \<open>sv\<close>

definition sv_ordinal :: "nat \<Rightarrow> string \<Rightarrow> jsstr" where
  "sv_ordinal A tok =
     (let e = A mod 10 in
      let t = (if 1 = A mod 100 div 10 then lit '':e''
          else if 1 = e \<or> 2 = e then lit '':a''
          else lit '':e'') in
      dec_nat A @ t)"

definition sv_days :: ordinal_words where
  "sv_days =
     \<lparr>ordinal_of = sv_ordinal,
      dayOfMonthOrdinalParse = [([], True, [lit '':e'', lit '':a''])]\<rparr>"

interpretation sv_days: suffix_days sv_days
  by unfold_locales (simp_all add: sv_days_def sv_ordinal_def day_simps)

section \<open>ug-cn\<close>

definition ug_cn_ordinal :: "nat \<Rightarrow> string \<Rightarrow> jsstr" where
  "ug_cn_ordinal A tok =
     (if tok = ''d'' \<or> tok = ''D'' \<or> tok = ''DDD'' then dec_nat A @ [0x002D, 0x0643,
         0x06C8, 0x0646, 0x0649]
      else if tok = ''w'' \<or> tok = ''W'' then dec_nat A @ [0x002D, 0x06BE, 0x06D5, 0x067E,
          0x062A, 0x06D5]
      else dec_nat A)"

definition ug_cn_days :: ordinal_words where
  "ug_cn_days =
     \<lparr>ordinal_of = ug_cn_ordinal,
      dayOfMonthOrdinalParse = [([], True, [[0x002D, 0x0643, 0x06C8, 0x0646, 0x0649], [0x002D,
          0x0626, 0x0627, 0x064A], [0x002D, 0x06BE, 0x06D5, 0x067E, 0x062A, 0x06D5]])]\<rparr>"

interpretation ug_cn_days: suffix_days ug_cn_days
  by unfold_locales (simp_all add: ug_cn_days_def ug_cn_ordinal_def day_simps)

section \<open>br\<close>

definition br_ordinal :: "nat \<Rightarrow> string \<Rightarrow> jsstr" where
  "br_ordinal A tok =
     (let e = (if 1 = A then [0x0061, 0x00F1]
          else lit ''vet'') in
      dec_nat A @ e)"

definition br_days :: ordinal_words where
  "br_days =
     \<lparr>ordinal_of = br_ordinal,
      dayOfMonthOrdinalParse = [([], True, [[0x0061, 0x00F1], lit ''vet''])]\<rparr>"

interpretation br_days: suffix_days br_days
  by unfold_locales (simp_all add: br_days_def br_ordinal_def day_simps)

section \<open>mk\<close>

definition mk_ordinal :: "nat \<Rightarrow> string \<Rightarrow> jsstr" where
  "mk_ordinal A tok =
     (let e = A mod 10 in
      let t = A mod 100 in
      if 0 = A then dec_nat A @ [0x002D, 0x0435, 0x0432]
      else if 0 = t then dec_nat A @ [0x002D, 0x0435, 0x043D]
      else if t > 10 \<and> t < 20 then dec_nat A @ [0x002D, 0x0442, 0x0438]
      else if 1 = e then dec_nat A @ [0x002D, 0x0432, 0x0438]
      else if 2 = e then dec_nat A @ [0x002D, 0x0440, 0x0438]
      else if 7 = e \<or> 8 = e then dec_nat A @ [0x002D, 0x043C, 0x0438]
      else dec_nat A @ [0x002D, 0x0442, 0x0438])"

definition mk_days :: ordinal_words where
  "mk_days =
     \<lparr>ordinal_of = mk_ordinal,
      dayOfMonthOrdinalParse = [([], True, [[0x002D, 0x0435, 0x0432], [0x002D, 0x0435, 0x043D],
          [0x002D, 0x0442, 0x0438], [0x002D, 0x0432, 0x0438], [0x002D, 0x0440, 0x0438], [0x002D,
              0x043C, 0x0438]])]\<rparr>"

interpretation mk_days: suffix_days mk_days
  by unfold_locales (simp_all add: mk_days_def mk_ordinal_def day_simps)

section \<open>kk\<close>

definition kk_suffixes :: "(nat \<times> jsstr) list" where
  "kk_suffixes =
     [(0, [0x002D, 0x0448, 0x0456]), (1, [0x002D, 0x0448, 0x0456]),
      (2, [0x002D, 0x0448, 0x0456]), (3, [0x002D, 0x0448, 0x0456]),
      (4, [0x002D, 0x0448, 0x0456]), (5, [0x002D, 0x0448, 0x0456]),
      (6, [0x002D, 0x0448, 0x044B]), (7, [0x002D, 0x0448, 0x0456]),
      (8, [0x002D, 0x0448, 0x0456]), (9, [0x002D, 0x0448, 0x044B]),
      (10, [0x002D, 0x0448, 0x044B]), (20, [0x002D, 0x0448, 0x044B]),
      (30, [0x002D, 0x0448, 0x044B]), (40, [0x002D, 0x0448, 0x044B]),
      (50, [0x002D, 0x0448, 0x0456]), (60, [0x002D, 0x0448, 0x044B]),
      (70, [0x002D, 0x0448, 0x0456]), (80, [0x002D, 0x0448, 0x0456]),
      (90, [0x002D, 0x0448, 0x044B]), (100, [0x002D, 0x0448, 0x0456])]"

definition kk_ordinal :: "nat \<Rightarrow> string \<Rightarrow> jsstr" where
  "kk_ordinal A tok =
     (let t = A mod 10 in
      let r = (if A \<ge> 100 then Some 100 else None) in
      plus_suffix A (or_else (map_of kk_suffixes A) (or_else (map_of kk_suffixes t)
          (Option.bind r (map_of kk_suffixes)))))"

definition kk_days :: ordinal_words where
  "kk_days =
     \<lparr>ordinal_of = kk_ordinal,
      dayOfMonthOrdinalParse = [([], True, [[0x002D, 0x0448, 0x0456], [0x002D, 0x0448,
          0x044B]])]\<rparr>"

interpretation kk_days: suffix_days kk_days
proof
  fix d :: nat
  assume "1 \<le> d" "d \<le> 31"
  then show "list_ex (\<lambda>s. no_digit s \<and> ordinal_of kk_days d ''D'' =
      day_prefix kk_days @ dec_nat d @ s) (day_suffixes kk_days)"
    by (rule each_day) (simp_all add: kk_days_def kk_ordinal_def kk_suffixes_def day_simps)
qed (simp_all add: kk_days_def day_simps)

section \<open>en-nz\<close>

definition en_nz_ordinal :: "nat \<Rightarrow> string \<Rightarrow> jsstr" where
  "en_nz_ordinal A tok =
     (let e = A mod 10 in
      let t = (if 1 = A mod 100 div 10 then lit ''th''
          else if 1 = e then lit ''st''
          else if 2 = e then lit ''nd''
          else if 3 = e then lit ''rd''
          else lit ''th'') in
      dec_nat A @ t)"

definition en_nz_days :: ordinal_words where
  "en_nz_days =
     \<lparr>ordinal_of = en_nz_ordinal,
      dayOfMonthOrdinalParse = [([], True, [lit ''st'', lit ''nd'', lit ''rd'',
          lit ''th''])]\<rparr>"

interpretation en_nz_days: suffix_days en_nz_days
  by unfold_locales (simp_all add: en_nz_days_def en_nz_ordinal_def day_simps)

section \<open>fy\<close>

definition fy_ordinal :: "nat \<Rightarrow> string \<Rightarrow> jsstr" where
  "fy_ordinal A tok = dec_nat A @ (if 1 = A \<or> 8 = A \<or> A \<ge> 20
      then lit ''ste'' else lit ''de'')"

definition fy_days :: ordinal_words where
  "fy_days =
     \<lparr>ordinal_of = fy_ordinal,
      dayOfMonthOrdinalParse = [([], True, [lit ''ste'', lit ''de''])]\<rparr>"

interpretation fy_days: suffix_days fy_days
  by unfold_locales (simp_all add: fy_days_def fy_ordinal_def day_simps)

section \<open>en-il\<close>

definition en_il_ordinal :: "nat \<Rightarrow> string \<Rightarrow> jsstr" where
  "en_il_ordinal A tok =
     (let e = A mod 10 in
      let t = (if 1 = A mod 100 div 10 then lit ''th''
          else if 1 = e then lit ''st''
          else if 2 = e then lit ''nd''
          else if 3 = e then lit ''rd''
          else lit ''th'') in
      dec_nat A @ t)"

definition en_il_days :: ordinal_words where
  "en_il_days =
     \<lparr>ordinal_of = en_il_ordinal,
      dayOfMonthOrdinalParse = [([], True, [lit ''st'', lit ''nd'', lit ''rd'',
          lit ''th''])]\<rparr>"

interpretation en_il_days: suffix_days en_il_days
  by unfold_locales (simp_all add: en_il_days_def en_il_ordinal_def day_simps)

section \<open>bg\<close>

definition bg_ordinal :: "nat \<Rightarrow> string \<Rightarrow> jsstr" where
  "bg_ordinal A tok =
     (let e = A mod 10 in
      let t = A mod 100 in
      if 0 = A then dec_nat A @ [0x002D, 0x0435, 0x0432]
      else if 0 = t then dec_nat A @ [0x002D, 0x0435, 0x043D]
      else if t > 10 \<and> t < 20 then dec_nat A @ [0x002D, 0x0442, 0x0438]
      else if 1 = e then dec_nat A @ [0x002D, 0x0432, 0x0438]
      else if 2 = e then dec_nat A @ [0x002D, 0x0440, 0x0438]
      else if 7 = e \<or> 8 = e then dec_nat A @ [0x002D, 0x043C, 0x0438]
      else dec_nat A @ [0x002D, 0x0442, 0x0438])"

definition bg_days :: ordinal_words where
  "bg_days =
     \<lparr>ordinal_of = bg_ordinal,
      dayOfMonthOrdinalParse = [([], True, [[0x002D, 0x0435, 0x0432], [0x002D, 0x0435, 0x043D],
          [0x002D, 0x0442, 0x0438], [0x002D, 0x0432, 0x0438], [0x002D, 0x0440, 0x0438], [0x002D,
              0x043C, 0x0438]])]\<rparr>"

interpretation bg_days: suffix_days bg_days
  by unfold_locales (simp_all add: bg_days_def bg_ordinal_def day_simps)

section \<open>zh-tw\<close>

definition zh_tw_ordinal :: "nat \<Rightarrow> string \<Rightarrow> jsstr" where
  "zh_tw_ordinal A tok =
     (if tok = ''d'' \<or> tok = ''D'' \<or> tok = ''DDD'' then dec_nat A @ [0x65E5]
      else if tok = ''M'' then dec_nat A @ [0x6708]
      else if tok = ''w'' \<or> tok = ''W'' then dec_nat A @ [0x9031]
      else dec_nat A)"

definition zh_tw_days :: ordinal_words where
  "zh_tw_days =
     \<lparr>ordinal_of = zh_tw_ordinal,
      dayOfMonthOrdinalParse = [([], True, [[0x65E5], [0x6708], [0x9031]])]\<rparr>"

interpretation zh_tw_days: suffix_days zh_tw_days
  by unfold_locales (simp_all add: zh_tw_days_def zh_tw_ordinal_def day_simps)

section \<open>ru\<close>

definition ru_ordinal :: "nat \<Rightarrow> string \<Rightarrow> jsstr" where
  "ru_ordinal A tok =
     (if tok = ''M'' \<or> tok = ''d'' \<or> tok = ''DDD'' then dec_nat A @ [0x002D, 0x0439]
      else if tok = ''D'' then dec_nat A @ [0x002D, 0x0433, 0x043E]
      else if tok = ''w'' \<or> tok = ''W'' then dec_nat A @ [0x002D, 0x044F]
      else dec_nat A)"

definition ru_days :: ordinal_words where
  "ru_days =
     \<lparr>ordinal_of = ru_ordinal,
      dayOfMonthOrdinalParse = [([], True, [[0x002D, 0x0439], [0x002D, 0x0433, 0x043E], [0x002D,
          0x044F]])]\<rparr>"

interpretation ru_days: suffix_days ru_days
  by unfold_locales (simp_all add: ru_days_def ru_ordinal_def day_simps)

section \<open>mn\<close>

definition mn_ordinal :: "nat \<Rightarrow> string \<Rightarrow> jsstr" where
  "mn_ordinal A tok =
     (if tok = ''d'' \<or> tok = ''D'' \<or> tok = ''DDD'' then dec_nat A @ [0x0020, 0x04E9,
         0x0434, 0x04E9, 0x0440]
      else dec_nat A)"

definition mn_days :: ordinal_words where
  "mn_days =
     \<lparr>ordinal_of = mn_ordinal,
      dayOfMonthOrdinalParse = [([], True, [[0x0020, 0x04E9, 0x0434, 0x04E9, 0x0440]])]\<rparr>"

interpretation mn_days: suffix_days mn_days
  by unfold_locales (simp_all add: mn_days_def mn_ordinal_def day_simps)

section \<open>ky\<close>

definition ky_suffixes :: "(nat \<times> jsstr) list" where
  "ky_suffixes =
     [(0, [0x002D, 0x0447, 0x04AF]), (1, [0x002D, 0x0447, 0x0438]),
      (2, [0x002D, 0x0447, 0x0438]), (3, [0x002D, 0x0447, 0x04AF]),
      (4, [0x002D, 0x0447, 0x04AF]), (5, [0x002D, 0x0447, 0x0438]),
      (6, [0x002D, 0x0447, 0x044B]), (7, [0x002D, 0x0447, 0x0438]),
      (8, [0x002D, 0x0447, 0x0438]), (9, [0x002D, 0x0447, 0x0443]),
      (10, [0x002D, 0x0447, 0x0443]), (20, [0x002D, 0x0447, 0x044B]),
      (30, [0x002D, 0x0447, 0x0443]), (40, [0x002D, 0x0447, 0x044B]),
      (50, [0x002D, 0x0447, 0x04AF]), (60, [0x002D, 0x0447, 0x044B]),
      (70, [0x002D, 0x0447, 0x0438]), (80, [0x002D, 0x0447, 0x0438]),
      (90, [0x002D, 0x0447, 0x0443]), (100, [0x002D, 0x0447, 0x04AF])]"

definition ky_ordinal :: "nat \<Rightarrow> string \<Rightarrow> jsstr" where
  "ky_ordinal A tok =
     (let t = A mod 10 in
      let r = (if A \<ge> 100 then Some 100 else None) in
      plus_suffix A (or_else (map_of ky_suffixes A) (or_else (map_of ky_suffixes t)
          (Option.bind r (map_of ky_suffixes)))))"

definition ky_days :: ordinal_words where
  "ky_days =
     \<lparr>ordinal_of = ky_ordinal,
      dayOfMonthOrdinalParse = [([], True, [[0x002D, 0x0447, 0x0438], [0x002D, 0x0447, 0x044B],
          [0x002D, 0x0447, 0x04AF], [0x002D, 0x0447, 0x0443]])]\<rparr>"

interpretation ky_days: suffix_days ky_days
proof
  fix d :: nat
  assume "1 \<le> d" "d \<le> 31"
  then show "list_ex (\<lambda>s. no_digit s \<and> ordinal_of ky_days d ''D'' =
      day_prefix ky_days @ dec_nat d @ s) (day_suffixes ky_days)"
    by (rule each_day) (simp_all add: ky_days_def ky_ordinal_def ky_suffixes_def day_simps)
qed (simp_all add: ky_days_def day_simps)

section \<open>cy\<close>

definition cy_ordinal :: "nat \<Rightarrow> string \<Rightarrow> jsstr" where
  "cy_ordinal A tok =
     (let r = [[], lit ''af'', lit ''il'', lit ''ydd'', lit ''ydd'', lit ''ed'', lit ''ed'',
               lit ''ed'', lit ''fed'', lit ''fed'', lit ''fed'', lit ''eg'', lit ''fed'',
               lit ''eg'', lit ''eg'', lit ''fed'', lit ''eg'', lit ''eg'', lit ''fed'',
               lit ''eg'', lit ''fed''];
          t = (if A > 20 then
                 (if A = 40 \<or> A = 50 \<or> A = 60 \<or> A = 80 \<or> A = 100
                     then lit ''fed'' else lit ''ain'')
               else if A > 0 then r ! A else [])
      in dec_nat A @ t)"

definition cy_days :: ordinal_words where
  "cy_days =
     \<lparr>ordinal_of = cy_ordinal,
      dayOfMonthOrdinalParse = [([], True, [lit ''fed'', lit ''ain'', lit ''af'', lit ''il'',
          lit ''ydd'', lit ''ed'', lit ''eg''])]\<rparr>"

interpretation cy_days: suffix_days cy_days
proof
  fix d :: nat
  assume "1 \<le> d" "d \<le> 31"
  then show "list_ex (\<lambda>s. no_digit s \<and> ordinal_of cy_days d ''D'' =
      day_prefix cy_days @ dec_nat d @ s) (day_suffixes cy_days)"
    by (rule each_day) (simp_all add: cy_days_def cy_ordinal_def day_simps)
qed (simp_all add: cy_days_def day_simps)

section \<open>fr\<close>

definition fr_ordinal :: "nat \<Rightarrow> string \<Rightarrow> jsstr" where
  "fr_ordinal A tok =
     (if tok = ''D'' then dec_nat A @ (if 1 = A then lit ''er'' else [])
      else if tok = ''w'' \<or> tok = ''W'' then dec_nat A @ (if 1 = A
          then lit ''re'' else lit ''e'')
      else dec_nat A @ (if 1 = A then lit ''er'' else lit ''e''))"

definition fr_days :: ordinal_words where
  "fr_days =
     \<lparr>ordinal_of = fr_ordinal,
      dayOfMonthOrdinalParse = [([], True, [lit ''er'', []])]\<rparr>"

interpretation fr_days: suffix_days fr_days
  by unfold_locales (simp_all add: fr_days_def fr_ordinal_def day_simps)

section \<open>gom-deva\<close>

definition gom_deva_ordinal :: "nat \<Rightarrow> string \<Rightarrow> jsstr" where
  "gom_deva_ordinal A tok =
     (if tok = ''D'' then dec_nat A @ [0x0935, 0x0947, 0x0930]
      else dec_nat A)"

definition gom_deva_days :: ordinal_words where
  "gom_deva_days =
     \<lparr>ordinal_of = gom_deva_ordinal,
      dayOfMonthOrdinalParse = [([], True, [[0x0935, 0x0947, 0x0930]])]\<rparr>"

interpretation gom_deva_days: suffix_days gom_deva_days
  by unfold_locales (simp_all add: gom_deva_days_def gom_deva_ordinal_def day_simps)

section \<open>uk\<close>

definition uk_ordinal :: "nat \<Rightarrow> string \<Rightarrow> jsstr" where
  "uk_ordinal A tok =
     (if tok = ''M'' \<or> tok = ''d'' \<or> tok = ''DDD'' \<or> tok = ''w''
         \<or> tok = ''W'' then dec_nat A @ [0x002D, 0x0439]
      else if tok = ''D'' then dec_nat A @ [0x002D, 0x0433, 0x043E]
      else dec_nat A)"

definition uk_days :: ordinal_words where
  "uk_days =
     \<lparr>ordinal_of = uk_ordinal,
      dayOfMonthOrdinalParse = [([], True, [[0x002D, 0x0439], [0x002D, 0x0433, 0x043E]])]\<rparr>"

interpretation uk_days: suffix_days uk_days
  by unfold_locales (simp_all add: uk_days_def uk_ordinal_def day_simps)

section \<open>lo\<close>

definition lo_ordinal :: "nat \<Rightarrow> string \<Rightarrow> jsstr" where
  "lo_ordinal A tok = [0x0E97, 0x0EB5, 0x0EC8] @ dec_nat A"

definition lo_days :: ordinal_words where
  "lo_days =
     \<lparr>ordinal_of = lo_ordinal,
      dayOfMonthOrdinalParse = [([0x0E97, 0x0EB5, 0x0EC8], True, [[]])]\<rparr>"

interpretation lo_days: suffix_days lo_days
  by unfold_locales (simp_all add: lo_days_def lo_ordinal_def day_simps)

section \<open>en-sg\<close>

definition en_sg_ordinal :: "nat \<Rightarrow> string \<Rightarrow> jsstr" where
  "en_sg_ordinal A tok =
     (let e = A mod 10 in
      let t = (if 1 = A mod 100 div 10 then lit ''th''
          else if 1 = e then lit ''st''
          else if 2 = e then lit ''nd''
          else if 3 = e then lit ''rd''
          else lit ''th'') in
      dec_nat A @ t)"

definition en_sg_days :: ordinal_words where
  "en_sg_days =
     \<lparr>ordinal_of = en_sg_ordinal,
      dayOfMonthOrdinalParse = [([], True, [lit ''st'', lit ''nd'', lit ''rd'',
          lit ''th''])]\<rparr>"

interpretation en_sg_days: suffix_days en_sg_days
  by unfold_locales (simp_all add: en_sg_days_def en_sg_ordinal_def day_simps)

section \<open>fil\<close>

definition fil_ordinal :: "nat \<Rightarrow> string \<Rightarrow> jsstr" where
  "fil_ordinal A tok = dec_nat A"

definition fil_days :: ordinal_words where
  "fil_days =
     \<lparr>ordinal_of = fil_ordinal,
      dayOfMonthOrdinalParse = [([], True, [[]])]\<rparr>"

interpretation fil_days: suffix_days fil_days
  by unfold_locales (simp_all add: fil_days_def fil_ordinal_def day_simps)

section \<open>hy-am\<close>

definition hy_am_ordinal :: "nat \<Rightarrow> string \<Rightarrow> jsstr" where
  "hy_am_ordinal A tok =
     (if tok = ''DDD'' \<or> tok = ''w'' \<or> tok = ''W'' \<or> tok = ''DDDo''
         then (if 1 = A then dec_nat A @ [0x002D, 0x056B, 0x0576]
        else dec_nat A @ [0x002D, 0x0580, 0x0564])
      else dec_nat A)"

definition hy_am_days :: ordinal_words where
  "hy_am_days =
     \<lparr>ordinal_of = hy_am_ordinal,
      dayOfMonthOrdinalParse = [([], True, [[]]),
                                ([], True, [[0x002D, 0x056B, 0x0576], [0x002D, 0x0580,
                                    0x0564]])]\<rparr>"

interpretation hy_am_days: suffix_days hy_am_days
  by unfold_locales (simp_all add: hy_am_days_def hy_am_ordinal_def day_simps)

section \<open>ca\<close>

definition ca_ordinal :: "nat \<Rightarrow> string \<Rightarrow> jsstr" where
  "ca_ordinal A tok =
     (let t = (if A = 1 then lit ''r'' else if A = 2 then lit ''n'' else if A = 3 then lit ''r''
               else if A = 4 then lit ''t'' else [0x00E8]);
          t1 = (if tok \<noteq> ''w'' \<and> tok \<noteq> ''W'' then t else lit ''a'')
      in dec_nat A @ t1)"

definition ca_days :: ordinal_words where
  "ca_days =
     \<lparr>ordinal_of = ca_ordinal,
      dayOfMonthOrdinalParse = [([], True, [lit ''r'', lit ''n'', lit ''t'', [0x00E8],
          lit ''a''])]\<rparr>"

interpretation ca_days: suffix_days ca_days
  by unfold_locales (simp_all add: ca_days_def ca_ordinal_def day_simps)

section \<open>fr-ca\<close>

definition fr_ca_ordinal :: "nat \<Rightarrow> string \<Rightarrow> jsstr" where
  "fr_ca_ordinal A tok =
     (if tok = ''w'' \<or> tok = ''W'' then dec_nat A @ (if 1 = A then lit ''re'' else lit ''e'')
      else dec_nat A @ (if 1 = A then lit ''er'' else lit ''e''))"

definition fr_ca_days :: ordinal_words where
  "fr_ca_days =
     \<lparr>ordinal_of = fr_ca_ordinal,
      dayOfMonthOrdinalParse = [([], True, [lit ''er'', lit ''e''])]\<rparr>"

interpretation fr_ca_days: suffix_days fr_ca_days
  by unfold_locales (simp_all add: fr_ca_days_def fr_ca_ordinal_def day_simps)

section \<open>nl-be\<close>

definition nl_be_ordinal :: "nat \<Rightarrow> string \<Rightarrow> jsstr" where
  "nl_be_ordinal A tok = dec_nat A @ (if 1 = A \<or> 8 = A \<or> A \<ge> 20
      then lit ''ste'' else lit ''de'')"

definition nl_be_days :: ordinal_words where
  "nl_be_days =
     \<lparr>ordinal_of = nl_be_ordinal,
      dayOfMonthOrdinalParse = [([], True, [lit ''ste'', lit ''de''])]\<rparr>"

interpretation nl_be_days: suffix_days nl_be_days
  by unfold_locales (simp_all add: nl_be_days_def nl_be_ordinal_def day_simps)

section \<open>en-ie\<close>

definition en_ie_ordinal :: "nat \<Rightarrow> string \<Rightarrow> jsstr" where
  "en_ie_ordinal A tok =
     (let e = A mod 10 in
      let t = (if 1 = A mod 100 div 10 then lit ''th''
          else if 1 = e then lit ''st''
          else if 2 = e then lit ''nd''
          else if 3 = e then lit ''rd''
          else lit ''th'') in
      dec_nat A @ t)"

definition en_ie_days :: ordinal_words where
  "en_ie_days =
     \<lparr>ordinal_of = en_ie_ordinal,
      dayOfMonthOrdinalParse = [([], True, [lit ''st'', lit ''nd'', lit ''rd'',
          lit ''th''])]\<rparr>"

interpretation en_ie_days: suffix_days en_ie_days
  by unfold_locales (simp_all add: en_ie_days_def en_ie_ordinal_def day_simps)

section \<open>en-in\<close>

definition en_in_ordinal :: "nat \<Rightarrow> string \<Rightarrow> jsstr" where
  "en_in_ordinal A tok =
     (let e = A mod 10 in
      let t = (if 1 = A mod 100 div 10 then lit ''th''
          else if 1 = e then lit ''st''
          else if 2 = e then lit ''nd''
          else if 3 = e then lit ''rd''
          else lit ''th'') in
      dec_nat A @ t)"

definition en_in_days :: ordinal_words where
  "en_in_days =
     \<lparr>ordinal_of = en_in_ordinal,
      dayOfMonthOrdinalParse = [([], True, [lit ''st'', lit ''nd'', lit ''rd'',
          lit ''th''])]\<rparr>"

interpretation en_in_days: suffix_days en_in_days
  by unfold_locales (simp_all add: en_in_days_def en_in_ordinal_def day_simps)

section \<open>si\<close>

definition si_ordinal :: "nat \<Rightarrow> string \<Rightarrow> jsstr" where
  "si_ordinal A tok = dec_nat A @ [0x0020, 0x0DC0, 0x0DD0, 0x0DB1, 0x0DD2]"

definition si_days :: ordinal_words where
  "si_days =
     \<lparr>ordinal_of = si_ordinal,
      dayOfMonthOrdinalParse = [([], True, [[0x0020, 0x0DC0, 0x0DD0, 0x0DB1, 0x0DD2]])]\<rparr>"

interpretation si_days: suffix_days si_days
  by unfold_locales (simp_all add: si_days_def si_ordinal_def day_simps)

section \<open>gd\<close>

definition gd_ordinal :: "nat \<Rightarrow> string \<Rightarrow> jsstr" where
  "gd_ordinal A tok =
     (let e = (if 1 = A then lit ''d''
          else if A mod 10 = 2 then lit ''na''
          else lit ''mh'') in
      dec_nat A @ e)"

definition gd_days :: ordinal_words where
  "gd_days =
     \<lparr>ordinal_of = gd_ordinal,
      dayOfMonthOrdinalParse = [([], True, [lit ''d'', lit ''na'', lit ''mh''])]\<rparr>"

interpretation gd_days: suffix_days gd_days
  by unfold_locales (simp_all add: gd_days_def gd_ordinal_def day_simps)

section \<open>nl\<close>

definition nl_ordinal :: "nat \<Rightarrow> string \<Rightarrow> jsstr" where
  "nl_ordinal A tok = dec_nat A @ (if 1 = A \<or> 8 = A \<or> A \<ge> 20
      then lit ''ste'' else lit ''de'')"

definition nl_days :: ordinal_words where
  "nl_days =
     \<lparr>ordinal_of = nl_ordinal,
      dayOfMonthOrdinalParse = [([], True, [lit ''ste'', lit ''de''])]\<rparr>"

interpretation nl_days: suffix_days nl_days
  by unfold_locales (simp_all add: nl_days_def nl_ordinal_def day_simps)

section \<open>x-pseudo\<close>

definition x_pseudo_ordinal :: "nat \<Rightarrow> string \<Rightarrow> jsstr" where
  "x_pseudo_ordinal A tok =
     (let e = A mod 10 in
      let t = (if 1 = A mod 100 div 10 then lit ''th''
          else if 1 = e then lit ''st''
          else if 2 = e then lit ''nd''
          else if 3 = e then lit ''rd''
          else lit ''th'') in
      dec_nat A @ t)"

definition x_pseudo_days :: ordinal_words where
  "x_pseudo_days =
     \<lparr>ordinal_of = x_pseudo_ordinal,
      dayOfMonthOrdinalParse = [([], True, [lit ''th'', lit ''st'', lit ''nd'',
          lit ''rd''])]\<rparr>"

interpretation x_pseudo_days: suffix_days x_pseudo_days
  by unfold_locales (simp_all add: x_pseudo_days_def x_pseudo_ordinal_def day_simps)

end
