(* ===== verification/Moment_Properties.thy ===== *)
theory Moment_Properties
  imports Moment_Day_Hours Moment_Half_Days Moment_Texts Moment_Ordinal_Formats
    Moment_Ordinal_Functions
begin

text \<open>
  What the locales of the date library promise: the clock of every modelled locale reads back
  the hour it printed, the native digits and commas of every locale are turned back into the
  text they were made from, and the two places where the locales differ from one another: an
  hour out of range, and the commas of the Algerian locale. The ordinal of a day is read back in
  every locale, and three Turkic locales have no ordinal of forty.
\<close>

section \<open>The locales of the bundle\<close>

definition day_hours_locales :: "(string \<times> time_words) list" where
  "day_hours_locales =
     [(''ml'', ml_time), (''gom-latn'', gom_latn_time), (''mr'', mr_time), (''ne'', ne_time),
      (''zh-mo'', zh_mo_time), (''tg'', tg_time), (''ta'', ta_time), (''kn'', kn_time),
      (''zh-hk'', zh_hk_time), (''id'', id_time), (''ss'', ss_time), (''zh-cn'', zh_cn_time),
      (''te'', te_time), (''ug-cn'', ug_cn_time), (''ms-my'', ms_my_time), (''bn'', bn_time),
      (''zh-tw'', zh_tw_time), (''bn-bd'', bn_bd_time), (''gom-deva'', gom_deva_time),
      (''jv'', jv_time), (''bo'', bo_time), (''hi'', hi_time), (''gu'', gu_time),
      (''ms'', ms_time), (''pa-in'', pa_in_time)]"

definition half_days_locales :: "(string \<times> time_words) list" where
  "half_days_locales =
     [(''ja'', ja_time), (''tr'', tr_time), (''th'', th_time), (''ar-ly'', ar_ly_time),
      (''be'', be_time), (''ko'', ko_time), (''ku'', ku_time), (''az'', az_time),
      (''ur'', ur_time), (''dv'', dv_time), (''sd'', sd_time), (''ar-sa'', ar_sa_time),
      (''fa'', fa_time), (''ar'', ar_time), (''ar-dz'', ar_dz_time), (''uk'', uk_time),
      (''lo'', lo_time), (''he'', he_time), (''sq'', sq_time), (''hy-am'', hy_am_time),
      (''km'', km_time)]"

definition text_locales :: "(string \<times> text_hooks \<times> (jschar \<times> jschar) list) list" where
  "text_locales =
     [(''ar-ly'', ar_ly_text, [(0x060C, 0x002C)]),
      (''ku'', ku_text, ku_numberMap @ [(0x060C, 0x002C)]),
      (''mr'', mr_text, mr_numberMap),
      (''ne'', ne_text, ne_numberMap),
      (''ta'', ta_text, ta_numberMap),
      (''kn'', kn_text, kn_numberMap),
      (''ur'', ur_text, [(0x060C, 0x002C)]),
      (''dv'', dv_text, [(0x060C, 0x002C)]),
      (''ug-cn'', ug_cn_text, [(0x060C, 0x002C)]),
      (''sd'', sd_text, [(0x060C, 0x002C)]),
      (''ar-sa'', ar_sa_text, ar_sa_numberMap @ [(0x060C, 0x002C)]),
      (''my'', my_text, my_numberMap),
      (''fa'', fa_text, fa_numberMap @ [(0x060C, 0x002C)]),
      (''ar'', ar_text, ar_numberMap @ [(0x060C, 0x002C)]),
      (''bn'', bn_text, bn_numberMap),
      (''bn-bd'', bn_bd_text, bn_bd_numberMap),
      (''bo'', bo_text, bo_numberMap),
      (''hi'', hi_text, hi_numberMap),
      (''gu'', gu_text, gu_numberMap),
      (''km'', km_text, km_numberMap),
      (''pa-in'', pa_in_text, pa_in_numberMap)]"

definition ordinal_locales :: "(string \<times> ordinal_words) list" where
  "ordinal_locales =
     [(''en'', en_days), (''cv'', cv_days), (''is'', is_days), (''fo'', fo_days),
      (''ja'', ja_days), (''es-do'', es_do_days), (''gom-latn'', gom_latn_days),
      (''fr-ch'', fr_ch_days), (''en-au'', en_au_days), (''tr'', tr_days), (''da'', da_days),
      (''tl-ph'', tl_ph_days), (''eu'', eu_days), (''sr-cyrl'', sr_cyrl_days),
      (''oc-lnc'', oc_lnc_days), (''mt'', mt_days), (''be'', be_days), (''ka'', ka_days),
      (''ko'', ko_days), (''bs'', bs_days), (''lt'', lt_days), (''vi'', vi_days),
      (''me'', me_days), (''af'', af_days), (''en-ca'', en_ca_days), (''en-gb'', en_gb_days),
      (''zh-mo'', zh_mo_days), (''tg'', tg_days), (''cs'', cs_days), (''ta'', ta_days),
      (''kn'', kn_days), (''lb'', lb_days), (''az'', az_days), (''zh-hk'', zh_hk_days),
      (''hr'', hr_days), (''ga'', ga_days), (''ss'', ss_days), (''es-us'', es_us_days),
      (''tet'', tet_days), (''tk'', tk_days), (''hu'', hu_days), (''zh-cn'', zh_cn_days),
      (''te'', te_days), (''sv'', sv_days), (''ug-cn'', ug_cn_days), (''eo'', eo_days),
      (''br'', br_days), (''mi'', mi_days), (''mk'', mk_days), (''nb'', nb_days),
      (''kk'', kk_days), (''it'', it_days), (''it-ch'', it_ch_days), (''en-nz'', en_nz_days),
      (''fy'', fy_days), (''en-il'', en_il_days), (''sk'', sk_days), (''sl'', sl_days),
      (''fi'', fi_days), (''bg'', bg_days), (''gl'', gl_days), (''es'', es_days),
      (''el'', el_days), (''pl'', pl_days), (''fa'', fa_days), (''zh-tw'', zh_tw_days),
      (''ru'', ru_days), (''mn'', mn_days), (''ky'', ky_days), (''cy'', cy_days),
      (''fr'', fr_days), (''gom-deva'', gom_deva_days), (''uk'', uk_days), (''lo'', lo_days),
      (''de-at'', de_at_days), (''de'', de_days), (''es-mx'', es_mx_days),
      (''en-sg'', en_sg_days), (''nn'', nn_days), (''lv'', lv_days), (''de-ch'', de_ch_days),
      (''sq'', sq_days), (''sr'', sr_days), (''tzl'', tzl_days), (''tlh'', tlh_days),
      (''pt-br'', pt_br_days), (''fil'', fil_days), (''hy-am'', hy_am_days), (''ca'', ca_days),
      (''fr-ca'', fr_ca_days), (''nl-be'', nl_be_days), (''en-ie'', en_ie_days),
      (''km'', km_days), (''et'', et_days), (''en-in'', en_in_days), (''si'', si_days),
      (''pt'', pt_days), (''gd'', gd_days), (''nl'', nl_days), (''x-pseudo'', x_pseudo_days),
      (''se'', se_days)]"

text \<open>Membership in a table, one entry at a time.\<close>

lemma in_table:
  "x \<in> set (y # ys) \<longleftrightarrow> x = y \<or> x \<in> set ys"
  "x \<in> set [] \<longleftrightarrow> False"
  by simp_all

lemmas days_contract =
  en_days.day_ordinals_axioms cv_days.day_ordinals_axioms is_days.day_ordinals_axioms
  fo_days.day_ordinals_axioms ja_days.day_ordinals_axioms es_do_days.day_ordinals_axioms
  gom_latn_days.day_ordinals_axioms fr_ch_days.day_ordinals_axioms
  en_au_days.day_ordinals_axioms tr_days.day_ordinals_axioms da_days.day_ordinals_axioms
  tl_ph_days.day_ordinals_axioms eu_days.day_ordinals_axioms
  sr_cyrl_days.day_ordinals_axioms oc_lnc_days.day_ordinals_axioms
  mt_days.day_ordinals_axioms be_days.day_ordinals_axioms ka_days.day_ordinals_axioms
  ko_days.day_ordinals_axioms bs_days.day_ordinals_axioms lt_days.day_ordinals_axioms
  vi_days.day_ordinals_axioms me_days.day_ordinals_axioms af_days.day_ordinals_axioms
  en_ca_days.day_ordinals_axioms en_gb_days.day_ordinals_axioms
  zh_mo_days.day_ordinals_axioms tg_days.day_ordinals_axioms cs_days.day_ordinals_axioms
  ta_days.day_ordinals_axioms kn_days.day_ordinals_axioms lb_days.day_ordinals_axioms
  az_days.day_ordinals_axioms zh_hk_days.day_ordinals_axioms hr_days.day_ordinals_axioms
  ga_days.day_ordinals_axioms ss_days.day_ordinals_axioms es_us_days.day_ordinals_axioms
  tet_days.day_ordinals_axioms tk_days.day_ordinals_axioms hu_days.day_ordinals_axioms
  zh_cn_days.day_ordinals_axioms te_days.day_ordinals_axioms sv_days.day_ordinals_axioms
  ug_cn_days.day_ordinals_axioms eo_days.day_ordinals_axioms br_days.day_ordinals_axioms
  mi_days.day_ordinals_axioms mk_days.day_ordinals_axioms nb_days.day_ordinals_axioms
  kk_days.day_ordinals_axioms it_days.day_ordinals_axioms it_ch_days.day_ordinals_axioms
  en_nz_days.day_ordinals_axioms fy_days.day_ordinals_axioms en_il_days.day_ordinals_axioms
  sk_days.day_ordinals_axioms sl_days.day_ordinals_axioms fi_days.day_ordinals_axioms
  bg_days.day_ordinals_axioms gl_days.day_ordinals_axioms es_days.day_ordinals_axioms
  el_days.day_ordinals_axioms pl_days.day_ordinals_axioms fa_days.day_ordinals_axioms
  zh_tw_days.day_ordinals_axioms ru_days.day_ordinals_axioms mn_days.day_ordinals_axioms
  ky_days.day_ordinals_axioms cy_days.day_ordinals_axioms fr_days.day_ordinals_axioms
  gom_deva_days.day_ordinals_axioms uk_days.day_ordinals_axioms lo_days.day_ordinals_axioms
  de_at_days.day_ordinals_axioms de_days.day_ordinals_axioms es_mx_days.day_ordinals_axioms
  en_sg_days.day_ordinals_axioms nn_days.day_ordinals_axioms lv_days.day_ordinals_axioms
  de_ch_days.day_ordinals_axioms sq_days.day_ordinals_axioms sr_days.day_ordinals_axioms
  tzl_days.day_ordinals_axioms tlh_days.day_ordinals_axioms pt_br_days.day_ordinals_axioms
  fil_days.day_ordinals_axioms hy_am_days.day_ordinals_axioms ca_days.day_ordinals_axioms
  fr_ca_days.day_ordinals_axioms nl_be_days.day_ordinals_axioms
  en_ie_days.day_ordinals_axioms km_days.day_ordinals_axioms et_days.day_ordinals_axioms
  en_in_days.day_ordinals_axioms si_days.day_ordinals_axioms pt_days.day_ordinals_axioms
  gd_days.day_ordinals_axioms nl_days.day_ordinals_axioms x_pseudo_days.day_ordinals_axioms
  se_days.day_ordinals_axioms

lemmas day_hours_back = 
  ml_clock.clock_reads_back gom_latn_clock.clock_reads_back mr_clock.clock_reads_back
  ne_clock.clock_reads_back zh_mo_clock.clock_reads_back tg_clock.clock_reads_back
  ta_clock.clock_reads_back kn_clock.clock_reads_back zh_hk_clock.clock_reads_back
  id_clock.clock_reads_back ss_clock.clock_reads_back zh_cn_clock.clock_reads_back
  te_clock.clock_reads_back ug_cn_clock.clock_reads_back ms_my_clock.clock_reads_back
  bn_clock.clock_reads_back zh_tw_clock.clock_reads_back bn_bd_clock.clock_reads_back
  gom_deva_clock.clock_reads_back jv_clock.clock_reads_back bo_clock.clock_reads_back
  hi_clock.clock_reads_back gu_clock.clock_reads_back ms_clock.clock_reads_back
  pa_in_clock.clock_reads_back

lemmas half_days_back =
  ja_clock.clock_reads_back tr_clock.clock_reads_back th_clock.clock_reads_back
  ar_ly_clock.clock_reads_back be_clock.clock_reads_back ko_clock.clock_reads_back
  ku_clock.clock_reads_back az_clock.clock_reads_back ur_clock.clock_reads_back
  dv_clock.clock_reads_back sd_clock.clock_reads_back ar_sa_clock.clock_reads_back
  fa_clock.clock_reads_back ar_clock.clock_reads_back ar_dz_clock.clock_reads_back
  uk_clock.clock_reads_back lo_clock.clock_reads_back he_clock.clock_reads_back
  sq_clock.clock_reads_back hy_am_clock.clock_reads_back km_clock.clock_reads_back

lemmas half_days_no_hour =
  ja_clock.no_meridiemHour tr_clock.no_meridiemHour th_clock.no_meridiemHour
  ar_ly_clock.no_meridiemHour be_clock.no_meridiemHour ko_clock.no_meridiemHour
  ku_clock.no_meridiemHour az_clock.no_meridiemHour ur_clock.no_meridiemHour
  dv_clock.no_meridiemHour sd_clock.no_meridiemHour ar_sa_clock.no_meridiemHour
  fa_clock.no_meridiemHour ar_clock.no_meridiemHour ar_dz_clock.no_meridiemHour
  uk_clock.no_meridiemHour lo_clock.no_meridiemHour he_clock.no_meridiemHour
  sq_clock.no_meridiemHour hy_am_clock.no_meridiemHour km_clock.no_meridiemHour

lemmas texts_back =
  ar_ly_text.print_read ku_text.print_read mr_text.print_read ne_text.print_read
  ta_text.print_read kn_text.print_read ur_text.print_read dv_text.print_read
  ug_cn_text.print_read sd_text.print_read ar_sa_text.print_read my_text.print_read
  fa_text.print_read ar_text.print_read bn_text.print_read bn_bd_text.print_read
  bo_text.print_read hi_text.print_read gu_text.print_read km_text.print_read
  pa_in_text.print_read

lemmas texts_length =
  ar_ly_text.postformat_length ku_text.postformat_length mr_text.postformat_length
  ne_text.postformat_length ta_text.postformat_length kn_text.postformat_length
  ur_text.postformat_length dv_text.postformat_length ug_cn_text.postformat_length
  sd_text.postformat_length ar_sa_text.postformat_length my_text.postformat_length
  fa_text.postformat_length ar_text.postformat_length bn_text.postformat_length
  bn_bd_text.postformat_length bo_text.postformat_length hi_text.postformat_length
  gu_text.postformat_length km_text.postformat_length pa_in_text.postformat_length

lemma day_hours_table:
  assumes "(name, L) \<in> set day_hours_locales" "h < 24" "m < 60" "plain_rest rest"
  shows "read_clock L (hours12 h) (meridiem_word L h m low @ rest) = Some h"
  using assms(1) unfolding day_hours_locales_def in_table prod.inject
  by (elim disjE FalseE) (simp_all only: day_hours_back [OF assms(2-4)] simp_thms)

lemma half_days_table:
  assumes "(name, L) \<in> set half_days_locales" "h < 24" "m < 60" "plain_rest rest"
  shows "read_clock L (hours12 h) (meridiem_word L h m low @ rest) = Some h"
  using assms(1) unfolding half_days_locales_def in_table prod.inject
  by (elim disjE FalseE) (simp_all only: half_days_back [OF assms(2-4)] simp_thms)

lemma half_days_lack_hour:
  "(name, L) \<in> set half_days_locales \<Longrightarrow> meridiemHour_of L = None"
  unfolding half_days_locales_def in_table prod.inject
  by (elim disjE FalseE) (simp_all only: half_days_no_hour simp_thms)

lemma text_table:
  assumes "(name, T, q) \<in> set text_locales" "set s \<inter> fst ` set q = {}"
  shows "preparse T (postformat T s) = s"
  using assms unfolding text_locales_def in_table prod.inject
  by (elim disjE FalseE) (simp_all only: texts_back simp_thms)

lemma text_table_length:
  "(name, T, q) \<in> set text_locales \<Longrightarrow> length (postformat T s) = length s"
  unfolding text_locales_def in_table prod.inject
  by (elim disjE FalseE) (simp_all only: texts_length simp_thms)

lemma ordinal_table: "list_all (\<lambda>(name, L). day_ordinals L) ordinal_locales"
  unfolding ordinal_locales_def by (simp only: list.pred_inject prod.case days_contract simp_thms)

lemma ordinal_contract: "(name, L) \<in> set ordinal_locales \<Longrightarrow> day_ordinals L"
  using ordinal_table by (auto simp: list_all_iff)

section \<open>Tables with a gap\<close>

lemma dec_nat_front: "is_dec (hd (dec_nat n)) \<and> dec_nat n \<noteq> []"
proof (induction n rule: dec_nat.induct)
  case (1 n)
  show ?case
    using 1 by (subst (1 2) dec_nat.simps) (auto simp: is_dec_of_nat simp del: of_nat_add)
qed

lemma plus_suffix_NaN: "plus_suffix n s = lit ''NaN'' \<longleftrightarrow> s = None"
proof (cases s)
  case (Some t)
  have "hd (dec_nat n @ t) \<noteq> 78"
    using dec_nat_front [of n] by (auto simp: is_dec_def)
  then show ?thesis using Some by (auto simp: plus_suffix_def lit_def)
qed (simp add: plus_suffix_def)

text \<open>The tables of the three locales have suffixes for the units and the decades but forty.\<close>

definition lacks_forty :: "(nat \<times> jsstr) list \<Rightarrow> bool" where
  "lacks_forty T \<longleftrightarrow>
     set (map fst T) = {1, 2, 3, 4, 5, 6, 7, 8, 9, 10, 20, 30, 50, 60, 70, 80, 90, 100}"

lemma decades_suffix:
  assumes "lacks_forty T" and "A \<noteq> 0"
  shows "plus_suffix A (or_else (map_of T (A mod 10)) (or_else (map_of T (A mod 100 - A mod 10))
      (Option.bind (if A \<ge> 100 then Some 100 else None) (map_of T)))) = lit ''NaN'' \<longleftrightarrow> A = 40"
proof -
  have none: "map_of T k = None \<longleftrightarrow>
      k \<notin> {1, 2, 3, 4, 5, 6, 7, 8, 9, 10, 20, 30, 50, 60, 70, 80, 90, 100}" for k
    using assms(1) by (simp add: map_of_eq_None_iff lacks_forty_def)
  have or: "or_else a b = None \<longleftrightarrow> a = None \<and> b = None" for a b :: "jsstr option"
    by (cases a) simp_all
  have last: "Option.bind (if A \<ge> 100 then Some 100 else None) (map_of T) = None \<longleftrightarrow> A < 100"
    using none [of 100] by auto
  have units: "map_of T (A mod 10) = None \<longleftrightarrow> A mod 10 = 0"
    unfolding none by (simp, presburger)
  have "A mod 10 = 0 \<Longrightarrow> A < 100 \<Longrightarrow> (map_of T (A mod 100 - A mod 10) = None \<longleftrightarrow> A = 40)"
    using assms(2) unfolding none by (simp, presburger)
  then show ?thesis by (auto simp: plus_suffix_NaN or last units)
qed

lemma turkic_tables: "lacks_forty tr_suffixes" "lacks_forty az_suffixes" "lacks_forty tk_suffixes"
  by (simp_all add: lacks_forty_def tr_suffixes_def az_suffixes_def tk_suffixes_def) auto

section \<open>Properties\<close>

text \<open>
  The twelve-hour clock loses nothing: in each of the forty-six locales, reading the
  number printed by \<open>h\<close> together with the word printed by \<open>A\<close>, whatever plain text follows, gives
  the hour of the day that was printed, for every hour, every minute and both cases of
  the word.\<close>

theorem clock_of_every_locale:
  assumes "(name, L) \<in> set (day_hours_locales @ half_days_locales)"
    and "h < 24" "m < 60" "plain_rest rest"
  shows "read_clock L (hours12 h) (meridiem_word L h m low @ rest) = Some h"
  using assms day_hours_table half_days_table by (metis set_append Un_iff)

theorem clock_of_every_locale_witness:
  "read_clock zh_cn_time (hours12 12) (meridiem_word zh_cn_time 12 30 False @ lit '' 12:30'')
     = Some 12"
  by (rule clock_of_every_locale [of "''zh-cn''"])
    (simp_all add: day_hours_locales_def lit_def)

text \<open>
  The native digits and commas of a locale are read back: for each of the twenty-one
  locales with both hooks, \<open>preparse\<close> undoes \<open>postformat\<close> on every text without native characters of
  its own, and \<open>postformat\<close> keeps the length of a text.\<close>

theorem native_text_read_back:
  assumes "(name, T, q) \<in> set text_locales" "set s \<inter> fst ` set q = {}"
  shows "preparse T (postformat T s) = s \<and> length (postformat T s) = length s"
  using text_table [OF assms] text_table_length [OF assms(1)] by blast

theorem native_text_read_back_witness:
  "preparse hi_text (postformat hi_text (lit ''12:30'')) = lit ''12:30''
     \<and> length (postformat hi_text (lit ''12:30'')) = length (lit ''12:30'')"
  by (rule native_text_read_back [of "''hi''" _ hi_numberMap])
    (simp_all add: text_locales_def lit_def hi_numberMap_def)

text \<open>
  Ordinal days are read back: in each of the modelled locales, the text that the token \<open>Do\<close>
  prints for a day of a month is read as this day by the locale's own expression and by the one
  that also takes bare numbers, whatever follows it but a digit.\<close>

theorem ordinal_days_read_back:
  assumes "(name, L) \<in> set ordinal_locales" "1 \<le> d" "d \<le> 31" "no_digit rest"
  shows "read_day strict L (ordinal_of L d ''D'' @ rest) = Some d"
  by (rule day_ordinals.day_read [OF ordinal_contract]) (use assms in auto)

theorem ordinal_days_read_back_witness:
  "read_day True fr_days (ordinal_of fr_days 1 ''D'' @ lit '' mai'') = Some 1"
  by (rule ordinal_days_read_back [of "''fr''"]) (simp_all add: ordinal_locales_def lit_def is_dec_def)

text \<open>
  Three locales cannot name forty: the Turkish, the Azerbaijani and the Turkmen ordinal is
  the text \<open>NaN\<close> for the number 40 and for no other, so for the fortieth week of every year; the
  Turkish and the Turkmen days are printed without a suffix and are not concerned.\<close>

theorem ordinal_of_forty:
  "(tr_ordinal A tok = lit ''NaN'' \<longleftrightarrow> A = 40 \<and> tok \<notin> {''d'', ''D'', ''Do'', ''DD''}) \<and>
   (tk_ordinal A tok = lit ''NaN'' \<longleftrightarrow> A = 40 \<and> tok \<notin> {''d'', ''D'', ''Do'', ''DD''}) \<and>
   (az_ordinal A tok = lit ''NaN'' \<longleftrightarrow> A = 40)"
proof -
  have some: "dec_nat A @ t \<noteq> lit ''NaN''" for t
    using plus_suffix_NaN [of A "Some t"] by (simp add: plus_suffix_def)
  have dec: "dec_nat A \<noteq> lit ''NaN''" using some [of "[]"] by simp
  show ?thesis
    using turkic_tables [THEN decades_suffix, of A] some dec
    by (auto simp: tr_ordinal_def az_ordinal_def tk_ordinal_def Let_def)
qed

text \<open>
  The Algerian locale prints Arabic commas and never reads them: a text survives its two
  hooks exactly when it contains no comma.\<close>

theorem algerian_commas_stay:
  "preparse ar_dz_text (postformat ar_dz_text s) = s \<longleftrightarrow> (0x002C :: jschar) \<notin> set s"
proof -
  have "preparse ar_dz_text (postformat ar_dz_text s) = map (swap_unit [(0x002C, 0x060C)]) s"
    using ar_dz_text.postformat_units by (simp add: ar_dz_text.preparse_units)
  moreover have "map (swap_unit [(0x002C, 0x060C)]) s = s \<longleftrightarrow> (0x002C :: jschar) \<notin> set s"
    by (induction s) (auto simp: swap_unit_def)
  ultimately show ?thesis by simp
qed

text \<open>
  A locale without \<open>meridiemHour\<close> keeps every hour of the day within the day, whatever
  word was read; a locale with one does not, and gives the hour 25 for the input \<open>13\<close> in the
  evening, or no number at all for a word it does not know.\<close>

theorem half_days_stay_in_the_day:
  assumes "(name, L) \<in> set half_days_locales" "h < 24"
  shows "(\<exists>k. k < 24 \<and> read_clock L h s = Some k)
    \<and> read_clock hi_time 13 hi_word17 = Some 25
    \<and> meridiemFixWrap hi_time 3 (Some (lit ''pm'')) = None"
proof (intro conjI)
  show "\<exists>k. k < 24 \<and> read_clock L h s = Some k"
    using fix_wrap_below_24 [OF half_days_lack_hour [OF assms(1)] assms(2)]
    by (auto simp: read_clock_def)
  show "read_clock hi_time 13 hi_word17 = Some 25"
    by (simp add: hi_defs read_clock_def meridiemFixWrap_def Let_def)
  show "meridiemFixWrap hi_time 3 (Some (lit ''pm'')) = None"
    by (simp add: hi_defs meridiemFixWrap_def lit_def)
qed

theorem half_days_stay_in_the_day_witness:
  "(\<exists>k. k < 24 \<and> read_clock tr_time 13 (lit ''x'') = Some k)
    \<and> read_clock hi_time 13 hi_word17 = Some 25
    \<and> meridiemFixWrap hi_time 3 (Some (lit ''pm'')) = None"
  by (rule half_days_stay_in_the_day [of "''tr''"]) (simp_all add: half_days_locales_def)

end
