(* ===== verification/Spec2Isabelle.thy ===== *)
theory Spec2Isabelle
  imports
    Cert_Properties
    Lang_Properties
    Webpack_Properties
    Loader_Properties
    Native_Properties
    Chain_Properties
    Client_Properties
    Encoder_Properties
    Hex_Properties
    Keccak_Properties
    Page_Properties
    Cert_Page_Properties
    Flow_Properties
    Signing_Properties
    Table_Properties
    I18n_Properties
    Router_Properties
    Session_Properties
    Moment_Properties
begin

text \<open>
  This development verifies the JavaScript of Cashbox. The wallet itself is written in Dart and
  Rust; its JavaScript is the web application that the wallet shows in a frame and that issues
  certificates for diamonds on a chain. The repository holds it as the output of webpack in
  \<open>src/app/assets/dist/js/\<close>, one line of code in most files; names of local variables are
  lost there, names of methods, fields, messages and routes are not, and the
  definitions use them. A module is named by the key under which the bundle registers it.

  The parts and how they interact. The loader at the head of \<open>app.c2d43b15.js\<close> fetches chunks
  and runs modules. The language module loads a table of messages, which the pages show. The
  store and the router connect the pages: a page reads the store, commits mutations, and
  navigates. The pages of the certificates, the salesmen and the administrators collect input;
  a chain client assembles the text of a transaction; the native bridge hands it to the wallet
  for a signature and the answer comes back through a function registered on \<open>window\<close>; a
  confirmation page submits the signed text and follows the events of its block. The lists ask
  the contract and decode its records. Dates are printed by the vendored date library.

  The theories.

  \<^item> \<open>Cashbox_Prelude\<close>: strings as lists of 16-bit code units with the operations the code
    calls; the effects of a handler (a toast, a navigation, a timer, a call of the native side) as
    values.
  \<^item> \<open>Promises\<close>: promises as positions of a list of states, and the contract \<open>promise_machine\<close> of
    a machine whose steps settle a promise at most once.
  \<^item> \<open>Js_Utils\<close> (modules \<open>ac6d\<close>, \<open>bb62\<close>, \<open>f9e9\<close>): byte encoder, uuid, address check, settings.
  \<^item> \<open>Json_Text\<close>: \<open>JSON.parse\<close> and the order of \<open>Object.keys\<close>, as the language defines them. The
    parser takes fuel, three times the length of the text and more; more fuel changes nothing
    and the parser never needs it, because every step consumes input.
  \<^item> \<open>Cert_Model\<close> (modules \<open>5487\<close>, \<open>6848\<close>, \<open>36d1\<close>, \<open>ef88\<close>, \<open>2c2f\<close>): the data and \<open>getId\<close>, \<open>toCert\<close>,
    \<open>toGia\<close>, \<open>assembleJsonInfo\<close>. \<open>Cert_Properties\<close>: what is written can be parsed back, and where
    it cannot.
  \<^item> \<open>Lang\<close> (modules \<open>2c4c\<close>, \<open>ad58\<close>) with \<open>Lang_Properties\<close>: languages and the loads of their tables,
    which end in any order. \<open>Lang_Tables\<close> (the chunks of the tables) with \<open>Table_Properties\<close>: which
    messages each table has, and properties of the byte encoder and the uuid.
    \<open>Lang_Messages\<close> has the texts of the tables and the object of messages.
    \<open>Encoder_Properties\<close> compares the encoder with UTF-8, which \<open>Utf8\<close> defines over code points, with
    the replacement character for a surrogate alone.
  \<^item> \<open>I18n_Path\<close> and \<open>I18n\<close> (module \<open>a925\<close> of \<open>chunk-vendors.28fb2c37.js\<close>, the library
    \<open>vue-i18n\<close> behind \<open>$t\<close>): the automaton that parses the path of a key, linked messages, the chain
    of locales. The platform (properties of values that are no tables, calls of inherited
    methods, case conversion) is a parameter. The resolution of links takes fuel, the calls that the
    stack has room for, and fails with \<open>StackOverflow\<close> without it; one call more than the messages
    have linked keys is enough, which is proved. \<open>I18n_Facts\<close>, \<open>I18n_Tables\<close>, \<open>I18n_Properties\<close>: paths are read
    back, links end, and what the pages show in each language for each of their keys.
  \<^item> \<open>Hex_Codec\<close> (the utilities of polkadot in \<open>chunk-vendors.28fb2c37.js\<close>: modules \<open>7aa0\<close>, \<open>7ae8\<close>,
    \<open>8302\<close>, \<open>4519\<close>, \<open>7f28\<close>, \<open>d880\<close>, \<open>26af\<close>, \<open>605b\<close>, \<open>075f\<close>, \<open>43a8\<close>), with the encoder and the decoder of
    the platform as the standard has them. \<open>Hex_Facts\<close> and \<open>Hex_Properties\<close>: texts come back.
  \<^item> \<open>Keccak_Js\<close> (module \<open>1c55\<close>, the library \<open>js-sha3\<close>, and \<open>keccakAsHex\<close> of \<open>4962\<close> and \<open>b244\<close>): the hash of
    certificates, on halves of lanes, with the buffer of the hasher word by word. \<open>Keccak_Spec\<close> is
    the reference, after the standard; \<open>Keccak_Permutation\<close> compares the unrolled rounds with it,
    \<open>Keccak_Sponge\<close> shows what a hasher keeps of its input and what \<open>finalize\<close> absorbs,
    \<open>Keccak_Text\<close> and \<open>Keccak_Hex\<close> are about texts and digests; \<open>Keccak_Properties\<close>: the hash of a
    certificate is Keccak-256, and where \<open>js-sha3\<close> departs from it. The outer loop of \<open>update\<close> takes the
    number of elements as fuel, since each round consumes one; the loop of the output takes the
    number of its words.
  \<^item> \<open>Webpack_Runtime\<close> (the head of the entry bundle) with \<open>Webpack_Properties\<close>: the loader as a
    machine over browser events, an instance of \<open>promise_machine\<close>, and the module function. The
    depth of nested calls of \<open>require\<close> is bounded by fuel; the number of registered modules is
    enough, which is proved. \<open>Refinement\<close> is the contract of a machine that implements a simpler
    one; \<open>Loader_Properties\<close> is its instance: the life of a chunk, absent, requested or present,
    with its script elements.
  \<^item> \<open>Native_Bridge\<close> (module \<open>481f\<close>) with \<open>Native_Properties\<close>: calls, answers, and the promise each
    answer reaches; the bridge is an instance of \<open>promise_machine\<close>.
  \<^item> \<open>Chain_Api\<close> and \<open>Chain_Queries\<close> (class \<open>E\<close> of module \<open>5487\<close>) with \<open>Chain_Properties\<close>: the cached
    connection and contract, the assemblies, the counts, the queries. The polkadot libraries and
    the state of the chain are the parameters \<open>chain_lib\<close> and \<open>chain\<close>. The operations describe calls
    whose contract is cached or has an address that the library accepts; \<open>try_contract\<close> adds what a
    refused address does. \<open>Client_Properties\<close> takes the operations of the class as the steps of a
    machine over its caches, refused addresses included.
  \<^item> \<open>App_Shell\<close> (module \<open>cd49\<close>): store, mutations, routes, search page.
  \<^item> \<open>Router_Match\<close> and \<open>Router_History\<close> (module \<open>8c4f\<close> of \<open>chunk-vendors.28fb2c37.js\<close>, the library
    \<open>vue-router\<close>): from the table of routes to records, from the text or the name of a target to a
    route, and the navigations with the history in the hash of the window. The state holds every
    navigation that has started and the pages it waits for; the events are navigations of the pages,
    moves in the history, hashes that the user types, and pages that arrive or fail in any order.
    What the address bar makes of a fragment and how queries are read are the parameter
    \<open>router_env\<close>; \<open>env_ok\<close> says what is needed of it. \<open>real_record\<close> takes fuel, the number of the paths; the
    only alias of the table leads to a record of its own, so one step is enough, and \<open>route_names\<close> and
    \<open>find_listed\<close> show that no look-up in the table runs out. \<open>Router_Facts\<close> has the
    invariants, \<open>Router_Table\<close> the facts of the table, \<open>Router_Properties\<close> what follows; there the
    effects of the page handlers become events of the router.
  \<^item> \<open>Page_Loads\<close>: where the router and the loader meet. A session is a run of both machines, with the
    loads of pages between them: \<open>Promise.all\<close> over the chunks of a page, then its module. The relation
    \<open>session\<close> has the sessions that can be reached; the depth of \<open>require\<close> is bounded as in the loader.
    \<open>Session_Properties\<close>: what the two guarantee together.
  \<^item> \<open>Chain_Submit\<close> (the four confirmation pages, chunks \<open>60aefd06\<close>, \<open>2d856f3d\<close>, \<open>c3eba2e4\<close>, \<open>488d230c\<close>):
    a submission is a list of statuses, event lists, failed look-ups of events and rejections;
    \<open>submitting_page\<close> is the contract that the four pages share, and each is an instance of it.
  \<^item> \<open>Admin_Pages\<close>, \<open>Business_Pages\<close>, \<open>Cert_Pages\<close>, \<open>Account_Pages\<close>: the other pages; a handler is a
    function from the page's fields and the store to effects and new fields. An asynchronous
    handler is split at its calls: the continuation takes the answer as an argument.
    \<open>Page_Properties\<close> and \<open>Cert_Page_Properties\<close>: what the pages guarantee. \<open>Flow_Properties\<close>: what
    they guarantee together, from the input page over the signature and the contract to the list.
    \<open>Signing_Session\<close>: sessions in which certificates come into the store from any page, texts of
    four kinds are signed over the bridge, and four pages send; objects that pages share with the
    store are covered by letting a page's certificate have any attachment that the store's has had.
    \<open>Signing_Properties\<close>: what is sent in such sessions.
  \<^item> The date library in \<open>chunk-vendors.28fb2c37.js\<close>, one line for each locale: \<open>Moment_Clock\<close>,
    \<open>Moment_Day_Hours\<close>, \<open>Moment_Half_Days\<close> (the words of the twelve-hour clock of forty-six locales),
    \<open>Moment_Text\<close>, \<open>Moment_Texts\<close> (the native digits and commas of twenty-two), \<open>Moment_Ordinal\<close>,
    \<open>Moment_Ordinal_Formats\<close>, \<open>Moment_Ordinal_Functions\<close> (the ordinals of a hundred and one, as a
    format or as a function), with \<open>Moment_Properties\<close>. \<open>day_words\<close>, \<open>half_days\<close>, \<open>unit_text\<close>,
    \<open>locale_text\<close>, \<open>day_ordinals\<close> and \<open>suffix_days\<close> are the contracts, and every locale is an
    instance.

  What the properties show. A certificate that is signed comes back from the chain as it was
  typed, under conditions that are stated and whose failure is shown to lose or forge data. Every
  answer of the native side reaches its own call. No load of a chunk is forgotten, modules run
  once, the application starts once. A submission navigates once per execution and tells the
  user how it ended, but for three silent ends. Every navigation has a page. The languages stand in their slots except after
  the choice of Chinese; every label has a text in English and in Chinese but one, and most have
  none in Japanese and Korean. The clock, the digits and the ordinal days of every locale can be read back. The loader
  refines the life of its chunks, the hash of a certificate is Keccak-256 of its text, whatever
  chunks its bytes come in, the encoder is UTF-8 for strings without surrogates, the client
  connects once, and only answered requests are sent. Whatever the order in which pages arrive, the last
  navigation wins, a page is shown only when its chunks have arrived and its module has run, no
  navigation waits for a page that nobody loads, the hash is that of the page, and the history stays within its bounds; a
  path without a route shows nothing. Several
  properties state behaviour that its authors cannot have wanted; their names and texts
  say so (\<open>card_loses_number\<close>, \<open>empty_text_signed\<close>, \<open>labels_without_text\<close> and others).

  What is not modelled. The Dart and Rust code. The render functions and styles of the pages.
  The vendored libraries, except for the router, the look-up of messages and the parts of the date
  library, of the hash and of the text codecs above: they are parameters (\<open>chain_lib\<close>, \<open>chain\<close>, the compiled hash,
  the random numbers and the clock) or effects; the pages take the hash and the translation
  function as arguments, which \<open>typed_to_listed\<close> and \<open>card_loses_number\<close> instantiate. The other variants of the hash library. Timers other than those of the loader are effects with their delay, without a clock.
  Of the router: the syntax of queries, parameters in paths, redirections, guards of pages, scroll
  positions, promises of navigations, and histories other than the one in the hash; the table has none of these.
  Messages with parameters, which no page uses. Plural forms, relative times and the date arithmetic of the date
  library, and the ordinals of Yoruba, whose expression uses a class of white space.
\<close>

end
